(* ===== verification/Prelude.thy ===== *)
theory Prelude
  imports Main "HOL-Library.AList" "HOL-Library.Multiset" "HOL-Library.List_Lexorder" "HOL-Library.Char_ord"
    "HOL-Library.Product_Lexorder"
begin

text \<open>
  Shared vocabulary of the development: Python exceptions and the result type they give, the
  text operations the package uses on \<open>str\<close>, dictionaries in insertion order, and the generic
  list lemmas (strictly increasing sequences, checked traversals, sorting by a key) every
  component relies on.

  A \<open>str\<close> is a list of \<open>char\<close>, that is of Latin-1 code points.  \<open>strip\<close>, \<open>isalnum\<close>,
  \<open>isdigit\<close> and \<open>casefold\<close> follow the Unicode tables on that range, with one exception: the
  micro sign folds to a Greek letter outside the range and is left alone.
\<close>

section \<open>Exceptions and results\<close>

text \<open>
  The exception classes raised in the package, with their place in Python's class hierarchy,
  which decides what an \<open>except\<close> clause catches.  A raised exception keeps its class and the
  fixed part of its message; interpolated values are left out.
\<close>

datatype exn_class =
    ValueError | TypeError | KeyError | IndexError | LookupError | AttributeError
  | ArithmeticError | OverflowError | InvalidOperation | RuntimeError | OSError
  | FileNotFoundError | TimeoutError | JSONDecodeError
  | TabularDataError | SchemaMappingError | MarketNotFoundError
  | CcxtError | CcxtDependencyError | CcxtCapabilityError | CcxtDataError
  | FxMacroDataError | FxMacroDataHTTPError | FxMacroDataDataError
  | ProviderRegistryError | ProviderNotFoundError
  | EngineStreamError | EngineBacktestError | ReleaseContractError
  | BacktestServerError | BacktestServiceError
  | DockerPrerequisiteError | DockerExecutionError
  | SqlAlchemyDependencyError | GateRejected
  | ArgumentTypeError | CalledProcessError | HTTPError | AssertionError

fun exn_parent :: "exn_class \<Rightarrow> exn_class option" where
  "exn_parent KeyError = Some LookupError"
| "exn_parent IndexError = Some LookupError"
| "exn_parent MarketNotFoundError = Some LookupError"
| "exn_parent OverflowError = Some ArithmeticError"
| "exn_parent InvalidOperation = Some ArithmeticError"
| "exn_parent FileNotFoundError = Some OSError"
| "exn_parent TimeoutError = Some OSError"
| "exn_parent JSONDecodeError = Some ValueError"
| "exn_parent ReleaseContractError = Some ValueError"
| "exn_parent GateRejected = Some ValueError"
| "exn_parent HTTPError = Some OSError"
| "exn_parent TabularDataError = Some RuntimeError"
| "exn_parent SchemaMappingError = Some TabularDataError"
| "exn_parent CcxtError = Some RuntimeError"
| "exn_parent CcxtDependencyError = Some CcxtError"
| "exn_parent CcxtCapabilityError = Some CcxtError"
| "exn_parent CcxtDataError = Some CcxtError"
| "exn_parent FxMacroDataError = Some RuntimeError"
| "exn_parent FxMacroDataHTTPError = Some FxMacroDataError"
| "exn_parent FxMacroDataDataError = Some FxMacroDataError"
| "exn_parent ProviderRegistryError = Some RuntimeError"
| "exn_parent ProviderNotFoundError = Some ProviderRegistryError"
| "exn_parent EngineStreamError = Some RuntimeError"
| "exn_parent EngineBacktestError = Some RuntimeError"
| "exn_parent BacktestServerError = Some RuntimeError"
| "exn_parent BacktestServiceError = Some RuntimeError"
| "exn_parent DockerPrerequisiteError = Some RuntimeError"
| "exn_parent DockerExecutionError = Some RuntimeError"
| "exn_parent SqlAlchemyDependencyError = Some RuntimeError"
| "exn_parent _ = None"

text \<open>\<open>is_a c d\<close>: an exception of class \<open>c\<close> is caught by \<open>except d\<close>; the hierarchy is three deep.\<close>

definition is_a :: "exn_class \<Rightarrow> exn_class \<Rightarrow> bool" where
  "is_a c d =
     (c = d \<or> exn_parent c = Some d \<or>
      (case exn_parent c of None \<Rightarrow> False
       | Some p \<Rightarrow> exn_parent p = Some d \<or>
          (case exn_parent p of None \<Rightarrow> False | Some q \<Rightarrow> exn_parent q = Some d)))"

datatype exn = Exn (exn_class: exn_class) (exn_text: string)

type_synonym 'a result = "exn + 'a"

abbreviation raise :: "exn_class \<Rightarrow> string \<Rightarrow> 'a result" where
  "raise c m \<equiv> Inl (Exn c m)"

definition caught :: "exn \<Rightarrow> exn_class list \<Rightarrow> bool" where
  "caught e cs = (\<exists>c \<in> set cs. is_a (exn_class e) c)"

text \<open>Sequencing, a guard that raises, and \<open>try: ... except cs: handler\<close>.\<close>

definition rbind :: "'e + 'a \<Rightarrow> ('a \<Rightarrow> 'e + 'b) \<Rightarrow> 'e + 'b" where
  "rbind m f = (case m of Inl e \<Rightarrow> Inl e | Inr x \<Rightarrow> f x)"

definition require :: "bool \<Rightarrow> exn_class \<Rightarrow> string \<Rightarrow> unit result" where
  "require b c m = (if b then Inr () else raise c m)"

definition rcatch :: "'a result \<Rightarrow> exn_class list \<Rightarrow> (exn \<Rightarrow> 'a result) \<Rightarrow> 'a result" where
  "rcatch m cs h = (case m of Inl e \<Rightarrow> (if caught e cs then h e else Inl e) | Inr x \<Rightarrow> Inr x)"

text \<open>A run of guards, as in \<open>__post_init__\<close>: the first condition that holds raises.\<close>

fun first_raise :: "(bool \<times> exn_class \<times> string) list \<Rightarrow> unit result" where
  "first_raise [] = Inr ()"
| "first_raise ((bad, c, m) # gs) = (if bad then raise c m else first_raise gs)"

text \<open>A comprehension whose element may raise, and a loop over a list with a state.\<close>

fun rmap :: "('a \<Rightarrow> 'e + 'b) \<Rightarrow> 'a list \<Rightarrow> 'e + 'b list" where
  "rmap f [] = Inr []"
| "rmap f (x # xs) = rbind (f x) (\<lambda>y. rbind (rmap f xs) (\<lambda>ys. Inr (y # ys)))"

fun rfold :: "('s \<Rightarrow> 'a \<Rightarrow> 'e + 's) \<Rightarrow> 's \<Rightarrow> 'a list \<Rightarrow> 'e + 's" where
  "rfold f s [] = Inr s"
| "rfold f s (x # xs) = rbind (f s x) (\<lambda>s'. rfold f s' xs)"

named_theorems result_simps \<open>what a computation that returned, or raised, did before\<close>

lemma rbind_Inl [simp]: "rbind (Inl e) f = Inl e"
  by (simp add: rbind_def)

lemma rbind_Inr [simp]: "rbind (Inr x) f = f x"
  by (simp add: rbind_def)

lemma rbind_returns [result_simps]:
  "(rbind m f = Inr y) = (\<exists>x. m = Inr x \<and> f x = Inr y)"
  by (cases m) auto

lemma rbind_raises [result_simps]:
  "(rbind m f = Inl e) = (m = Inl e \<or> (\<exists>x. m = Inr x \<and> f x = Inl e))"
  by (cases m) auto

lemma rbind_assoc: "rbind (rbind m f) g = rbind m (\<lambda>x. rbind (f x) g)"
  by (cases m) auto

lemma require_returns [simp]: "(require b c m = Inr u) = b"
  by (simp add: require_def)

lemma require_raises [simp]: "(require b c m = Inl e) = (\<not> b \<and> e = Exn c m)"
  by (auto simp: require_def)

lemma require_True [simp]: "require True c m = Inr ()"
  by (simp add: require_def)

lemma require_False [simp]: "require False c m = raise c m"
  by (simp add: require_def)

lemma rcatch_Inr [simp]: "rcatch (Inr x) cs h = Inr x"
  by (simp add: rcatch_def)

lemma rcatch_returns [result_simps]:
  "(rcatch m cs h = Inr y) = (m = Inr y \<or> (\<exists>e. m = Inl e \<and> caught e cs \<and> h e = Inr y))"
  by (auto simp: rcatch_def split: sum.splits)

lemma first_raise_returns [simp]: "(first_raise gs = Inr u) = (\<forall>g \<in> set gs. \<not> fst g)"
  by (induction gs rule: first_raise.induct) auto

lemma first_raise_raises: "first_raise gs = Inl e \<Longrightarrow> \<exists>g \<in> set gs. fst g \<and> e = Exn (fst (snd g)) (snd (snd g))"
  by (induction gs rule: first_raise.induct) (auto split: if_splits)

lemma rmap_returns: "(rmap f xs = Inr ys) = list_all2 (\<lambda>x y. f x = Inr y) xs ys"
proof (induction xs arbitrary: ys)
  case Nil
  then show ?case by auto
next
  case (Cons x xs)
  then show ?case by (cases ys) (auto simp: result_simps)
qed

lemma rmap_map: "(\<And>x. x \<in> set xs \<Longrightarrow> f x = Inr (g x)) \<Longrightarrow> rmap f xs = Inr (map g xs)"
  by (induction xs) auto

lemma rmap_length: "rmap f xs = Inr ys \<Longrightarrow> length ys = length xs"
  by (simp add: rmap_returns list_all2_lengthD)

lemma rmap_set: "rmap f xs = Inr ys \<Longrightarrow> y \<in> set ys \<Longrightarrow> \<exists>x \<in> set xs. f x = Inr y"
  by (induction xs arbitrary: ys) (auto simp: result_simps)

lemma rmap_raises: "rmap f xs = Inl e \<Longrightarrow> \<exists>x \<in> set xs. f x = Inl e"
  by (induction xs) (auto simp: result_simps)

lemma rmap_returns_iff: "(\<exists>ys. rmap f xs = Inr ys) \<longleftrightarrow> (\<forall>x \<in> set xs. \<exists>y. f x = Inr y)"
  by (induction xs) (auto simp: result_simps)

lemma rmap_total: "\<forall>x \<in> set xs. \<exists>y. f x = Inr y \<Longrightarrow> \<exists>ys. rmap f xs = Inr ys"
  by (simp add: rmap_returns_iff)

lemma rfold_append: "rfold f s (xs @ ys) = rbind (rfold f s xs) (\<lambda>s'. rfold f s' ys)"
  by (induction xs arbitrary: s) (auto simp: rbind_assoc)

text \<open>An invariant every turn of a checked loop keeps holds where the loop returns.\<close>

lemma rfold_invariant:
  assumes "rfold f s xs = Inr t" and "I s"
    and "\<And>s x s'. x \<in> set xs \<Longrightarrow> I s \<Longrightarrow> f s x = Inr s' \<Longrightarrow> I s'"
  shows "I t"
  using assms
proof (induction xs arbitrary: s)
  case Nil
  then show ?case by simp
next
  case (Cons x xs)
  from Cons.prems(1) obtain s' where s': "f s x = Inr s'" "rfold f s' xs = Inr t"
    by (auto simp: result_simps)
  have "I s'" using Cons.prems(2) s'(1) by (rule Cons.prems(3) [rotated]) simp
  then show ?case
    using s'(2) Cons.prems(3) by (intro Cons.IH) auto
qed

section \<open>Results with a state\<close>

text \<open>
  A computation that may raise and acts on a state (an exchange client, an HTTP transport, a native
  library): the state after it is there in both cases.
\<close>

definition sbind :: "('x \<Rightarrow> ('e + 'a) \<times> 'x) \<Rightarrow> ('a \<Rightarrow> 'x \<Rightarrow> ('e + 'b) \<times> 'x) \<Rightarrow> 'x \<Rightarrow> ('e + 'b) \<times> 'x" where
  "sbind m f x = (case m x of (Inl e, x') \<Rightarrow> (Inl e, x') | (Inr a, x') \<Rightarrow> f a x')"

definition slift :: "('e + 'a) \<Rightarrow> 'x \<Rightarrow> ('e + 'a) \<times> 'x" where
  "slift r x = (r, x)"

lemma slift_simps [simp]: "fst (slift r x) = r" "snd (slift r x) = x"
  by (simp_all add: slift_def)

lemma sbind_slift [simp]: "sbind (slift (Inr a)) f x = f a x" "sbind (slift (Inl e)) f x = (Inl e, x)"
  by (simp_all add: sbind_def slift_def)

lemma sbind_returns [result_simps]:
  "(sbind m f x = (Inr b, y)) = (\<exists>a x'. m x = (Inr a, x') \<and> f a x' = (Inr b, y))"
  by (auto simp: sbind_def split: prod.splits sum.splits)

lemma sbind_fst_returns [result_simps]:
  "(fst (sbind m f x) = Inr b) = (\<exists>a x'. m x = (Inr a, x') \<and> fst (f a x') = Inr b)"
  by (auto simp: sbind_def split: prod.splits sum.splits)

lemma slift_returns [result_simps]: "(slift r x = (Inr a, y)) = (r = Inr a \<and> y = x)"
  by (auto simp: slift_def)

section \<open>Text\<close>

definition code :: "char \<Rightarrow> nat" where
  "code c = of_char c"

definition py_space :: "char \<Rightarrow> bool" where
  "py_space c = (code c \<in> {9, 10, 11, 12, 13, 28, 29, 30, 31, 32, 133, 160})"

definition ascii_digit :: "char \<Rightarrow> bool" where
  "ascii_digit c = (48 \<le> code c \<and> code c \<le> 57)"

definition py_alnum :: "char \<Rightarrow> bool" where
  "py_alnum c =
     (let n = code c in
      (48 \<le> n \<and> n \<le> 57) \<or> (65 \<le> n \<and> n \<le> 90) \<or> (97 \<le> n \<and> n \<le> 122) \<or>
      n \<in> {170, 178, 179, 181, 185, 186, 188, 189, 190} \<or>
      (192 \<le> n \<and> n \<le> 214) \<or> (216 \<le> n \<and> n \<le> 246) \<or> (248 \<le> n \<and> n \<le> 255))"

definition fold_char :: "char \<Rightarrow> string" where
  "fold_char c =
     (let n = code c in
      if (65 \<le> n \<and> n \<le> 90) \<or> (192 \<le> n \<and> n \<le> 222 \<and> n \<noteq> 215) then [char_of (n + 32)]
      else if n = 223 then ''ss''
      else [c])"

definition casefold :: "string \<Rightarrow> string" where
  "casefold s = concat (map fold_char s)"

definition ascii_lower :: "char \<Rightarrow> char" where
  "ascii_lower c = (if 65 \<le> code c \<and> code c \<le> 90 then char_of (code c + 32) else c)"

definition ascii_upper :: "char \<Rightarrow> char" where
  "ascii_upper c = (if 97 \<le> code c \<and> code c \<le> 122 then char_of (code c - 32) else c)"

definition py_strip :: "string \<Rightarrow> string" where
  "py_strip s = rev (dropWhile py_space (rev (dropWhile py_space s)))"

text \<open>\<open>not value.strip()\<close>, the test the record constructors use for blank text.\<close>

definition blank :: "string \<Rightarrow> bool" where
  "blank s = (py_strip s = [])"

lemma blank_iff: "blank s = (\<forall>c \<in> set s. py_space c)"
proof
  assume "blank s"
  then have "dropWhile py_space s = [] \<or> (\<forall>c \<in> set (dropWhile py_space s). py_space c)"
    by (auto simp: blank_def py_strip_def dropWhile_eq_Nil_conv)
  then show "\<forall>c \<in> set s. py_space c"
    by (metis dropWhile_eq_Nil_conv hd_dropWhile list.set_sel(1))
next
  assume "\<forall>c \<in> set s. py_space c"
  then have "dropWhile py_space s = []" by (induction s) auto
  then show "blank s" unfolding blank_def py_strip_def by (simp only: rev.simps dropWhile.simps)
qed

lemma blank_Nil [simp]: "blank []"
  by (simp add: blank_iff)

lemma not_blank_nonempty: "\<not> blank s \<Longrightarrow> s \<noteq> []"
  by auto

lemma py_strip_not_blank: "\<not> blank s \<Longrightarrow> \<not> blank (py_strip s)"
proof -
  assume "\<not> blank s"
  then obtain c where c: "c \<in> set s" "\<not> py_space c" by (auto simp: blank_iff)
  have keep: "c \<in> set (dropWhile py_space t)" if "c \<in> set t" for t
    using that c(2) by (induction t) auto
  have "c \<in> set (py_strip s)"
    unfolding py_strip_def set_rev by (intro keep) (simp add: keep c(1))
  with c(2) show ?thesis by (auto simp: blank_iff)
qed

section \<open>Strictly increasing sequences\<close>

text \<open>\<open>any(left.k >= right.k for left, right in pairwise(xs))\<close>, negated.\<close>

fun strictly_increasing :: "('a \<Rightarrow> int) \<Rightarrow> 'a list \<Rightarrow> bool" where
  "strictly_increasing k (x # y # zs) = (k x < k y \<and> strictly_increasing k (y # zs))"
| "strictly_increasing k _ = True"

lemma strictly_increasing_iff: "strictly_increasing k xs = sorted_wrt (<) (map k xs)"
proof (induction k xs rule: strictly_increasing.induct)
  case (1 k x y zs)
  then show ?case by (auto simp: less_trans)
qed auto

lemma sorted_distinct_strict:
  "sorted (xs :: 'a::linorder list) \<Longrightarrow> distinct xs \<Longrightarrow> sorted_wrt (<) xs"
  by (simp add: strict_sorted_iff)

lemma strict_append:
  "sorted_wrt (<) (xs @ ys) =
     (sorted_wrt (<) xs \<and> sorted_wrt (<) ys \<and> (\<forall>x \<in> set xs. \<forall>y \<in> set ys. (x::'a::linorder) < y))"
  by (auto simp: sorted_wrt_append)

lemma strict_map_filter:
  "sorted_wrt (<) (map k xs) \<Longrightarrow> sorted_wrt (<) (map (k :: 'a \<Rightarrow> 'b::linorder) (filter P xs))"
  by (induction xs) auto

lemma strict_take: "sorted_wrt (<) xs \<Longrightarrow> sorted_wrt (<) (take n xs)"
  by (metis append_take_drop_id sorted_wrt_append)

lemma strict_drop: "sorted_wrt (<) xs \<Longrightarrow> sorted_wrt (<) (drop n xs)"
  by (metis append_take_drop_id sorted_wrt_append)

section \<open>Dictionaries\<close>

text \<open>
  A dictionary is an association list with distinct keys in insertion order; assignment is
  \<open>AList.update\<close>, which overwrites in place or appends, as Python does.
\<close>

type_synonym ('k, 'v) dict = "('k \<times> 'v) list"

abbreviation dkeys :: "('k, 'v) dict \<Rightarrow> 'k list" where
  "dkeys d \<equiv> map fst d"

definition wf_dict :: "('k, 'v) dict \<Rightarrow> bool" where
  "wf_dict d = distinct (dkeys d)"

lemma wf_dict_Nil [simp, intro]: "wf_dict []"
  by (simp add: wf_dict_def)

lemma wf_dict_update [simp, intro]: "wf_dict d \<Longrightarrow> wf_dict (AList.update k v d)"
  by (simp add: wf_dict_def distinct_update)

lemma set_dkeys_update [simp]: "set (dkeys (AList.update k v d)) = insert k (set (dkeys d))"
  by (simp add: dom_update)

lemma dict_add: "k \<notin> set (dkeys d) \<Longrightarrow> AList.update k v d = d @ [(k, v)]"
  by (induction d) auto

lemma mem_update:
  "wf_dict d \<Longrightarrow> ((k', v') \<in> set (AList.update k v d)) = (if k' = k then v' = v else (k', v') \<in> set d)"
  by (metis map_of_eq_Some_iff update_conv' wf_dict_def wf_dict_update fun_upd_apply option.inject)

text \<open>\<open>sorted(d.values(), key=...)\<close> where the key of a value is the key it is stored under.\<close>

lemma sorted_values_strict:
  assumes "wf_dict d" and "\<And>k v. (k, v) \<in> set d \<Longrightarrow> key v = k"
  shows "sorted_wrt (<) (map key (sort_key key (map snd d)))"
    and "set (sort_key key (map snd d)) = snd ` set d"
proof -
  have "map key (map snd d) = dkeys d"
    unfolding map_map using assms(2) by (intro map_cong) auto
  then have "distinct (map key (map snd d))"
    using assms(1) by (simp only: wf_dict_def)
  moreover have "mset (map key (sort_key key (map snd d))) = mset (map key (map snd d))"
    by (simp only: mset_map mset_sort)
  ultimately have "distinct (map key (sort_key key (map snd d)))"
    by (metis mset_eq_imp_distinct_iff)
  then show "sorted_wrt (<) (map key (sort_key key (map snd d)))"
    by (simp add: strict_sorted_iff)
  show "set (sort_key key (map snd d)) = snd ` set d" by simp
qed

section \<open>Two strictly increasing lists with the same elements are equal\<close>

lemma strict_key_unique:
  assumes "sorted_wrt (<) (map k xs)" and "sorted_wrt (<) (map (k :: 'a \<Rightarrow> 'b::linorder) ys)"
    and "set xs = set ys"
  shows "xs = ys"
proof -
  have d: "distinct xs" "distinct ys"
    using assms(1,2) by (auto simp: strict_sorted_iff distinct_map)
  have inj: "inj_on k (set xs)" "inj_on k (set ys)"
    using assms(1,2) by (auto simp: strict_sorted_iff distinct_map)
  have "map k xs = map k ys"
    using assms by (metis sorted_list_of_set.idem_if_sorted_distinct strict_sorted_iff set_map)
  then show ?thesis
    using inj assms(3) by (metis inj_on_map_eq_map Un_absorb)
qed

end
