(* ===== verification/PyFloat.thy ===== *)
theory PyFloat
  imports Complex_Main Prelude
begin

text \<open>
  Python numbers.  A \<open>float\<close> is a finite rational, an infinity or a NaN: the arithmetic the
  package does on floats is comparison, conversion from and to \<open>int\<close>, text and \<open>Decimal\<close>, and
  one multiplication or division, and each is the exact rational operation followed by one
  rounding to the nearest binary64 value, ties to even (\<open>rnd64\<close>).  The two zeros of IEEE 754
  are one value here; they compare equal and no branch of the package tells them apart.

  A finite \<open>Decimal\<close> is the rational it denotes; a product is rounded to the 28 significant
  digits of the default context (\<open>dec_mult\<close>).
\<close>

section \<open>Rounding to a fixed number of digits\<close>

fun nlog :: "nat \<Rightarrow> nat \<Rightarrow> nat" where
  "nlog b n = (if b < 2 \<or> n < b then 0 else Suc (nlog b (n div b)))"

declare nlog.simps [simp del]

text \<open>The exponent \<open>k\<close> with \<open>b ^ k \<le> x < b ^ (k + 1)\<close>, for positive \<open>x\<close>.\<close>

definition floor_exp :: "nat \<Rightarrow> rat \<Rightarrow> int" where
  "floor_exp b x =
     (if 1 \<le> x then int (nlog b (nat \<lfloor>x\<rfloor>))
      else - int (let n = nat \<lceil>1 / x\<rceil> in if n \<le> 1 then 0 else Suc (nlog b (n - 1))))"

definition scale :: "nat \<Rightarrow> int \<Rightarrow> rat" where
  "scale b k = (if 0 \<le> k then of_nat b ^ nat k else 1 / of_nat b ^ nat (- k))"

definition half_even :: "rat \<Rightarrow> int" where
  "half_even x =
     (let f = \<lfloor>x\<rfloor>; d = x - of_int f
      in if d < 1 / 2 then f else if 1 / 2 < d then f + 1 else if even f then f else f + 1)"

definition round_at :: "nat \<Rightarrow> int \<Rightarrow> rat \<Rightarrow> rat" where
  "round_at b e x = of_int (half_even (x / scale b e)) * scale b e"

lemma half_even_of_int [simp]: "half_even (of_int n) = n"
  by (simp add: half_even_def)

lemma scale_pos [simp]: "0 < b \<Longrightarrow> 0 < scale b k"
  by (simp add: scale_def)

lemma round_at_multiple: "0 < b \<Longrightarrow> round_at b e (of_int n * scale b e) = of_int n * scale b e"
  using scale_pos [of b e] by (simp add: round_at_def)

lemma round_at_int:
  assumes "0 < b" and "e \<le> 0" shows "round_at b e (of_int n) = of_int n"
proof -
  have eq: "of_int n = of_int (n * int b ^ nat (- e)) * scale b e"
    using assms by (simp add: scale_def)
  show ?thesis
    using round_at_multiple [OF assms(1), of e "n * int b ^ nat (- e)"] by (simp only: eq [symmetric])
qed

lemma nlog_bound: "0 < n \<Longrightarrow> n < b ^ k \<Longrightarrow> nlog b n < k"
proof (induction b n arbitrary: k rule: nlog.induct)
  case (1 b n)
  show ?case
  proof (cases "b < 2 \<or> n < b")
    case True
    with "1.prems" show ?thesis by (cases k) (auto simp: nlog.simps)
  next
    case False
    then obtain k' where k: "k = Suc k'"
      using "1.prems" by (cases k) auto
    have "0 < n div b" using False by (simp add: div_greater_zero_iff)
    moreover have "n div b < b ^ k'"
      using "1.prems"(2) k False by (simp add: less_mult_imp_div_less mult.commute)
    ultimately have "nlog b (n div b) < k'"
      using "1.IH" False by auto
    with False k show ?thesis by (simp add: nlog.simps [of b n])
  qed
qed

section \<open>Binary64\<close>

datatype pyfloat = Fin rat | PInf | NInf | NaN

text \<open>
  Rounding to 53 significant bits, with the exponent bounded below (subnormals); a magnitude
  that rounds to \<open>2 ^ 1024\<close> or more overflows to an infinity.
\<close>

definition rnd64 :: "rat \<Rightarrow> pyfloat" where
  "rnd64 x =
     (if x = 0 then Fin 0
      else let e = max (floor_exp 2 \<bar>x\<bar> - 52) (- 1074); y = round_at 2 e \<bar>x\<bar>
           in if 2 ^ 1024 \<le> y then (if 0 < x then PInf else NInf)
              else Fin (if 0 < x then y else - y))"

fun isfinite :: "pyfloat \<Rightarrow> bool" where
  "isfinite (Fin x) = True"
| "isfinite _ = False"

fun fval :: "pyfloat \<Rightarrow> rat" where
  "fval (Fin x) = x"
| "fval _ = 0"

text \<open>The comparisons of \<open>float\<close>: false as soon as one side is a NaN.\<close>

fun flt :: "pyfloat \<Rightarrow> pyfloat \<Rightarrow> bool" where
  "flt NaN _ = False"
| "flt _ NaN = False"
| "flt (Fin x) (Fin y) = (x < y)"
| "flt NInf y = (y \<noteq> NInf)"
| "flt x PInf = (x \<noteq> PInf)"
| "flt _ NInf = False"
| "flt PInf _ = False"

definition fle :: "pyfloat \<Rightarrow> pyfloat \<Rightarrow> bool" where
  "fle x y = (x \<noteq> NaN \<and> y \<noteq> NaN \<and> \<not> flt y x)"

text \<open>\<open>max\<close> and \<open>min\<close> of the builtins keep the first argument unless a later one is strictly better.\<close>

definition fmax :: "pyfloat \<Rightarrow> pyfloat \<Rightarrow> pyfloat" where
  "fmax x y = (if flt x y then y else x)"

definition fmin :: "pyfloat \<Rightarrow> pyfloat \<Rightarrow> pyfloat" where
  "fmin x y = (if flt y x then y else x)"

lemma flt_Fin [simp]: "flt (Fin x) (Fin y) = (x < y)" by simp

lemma fle_Fin [simp]: "fle (Fin x) (Fin y) = (x \<le> y)"
  by (auto simp: fle_def)

lemma isfinite_iff: "isfinite f = (\<exists>x. f = Fin x)"
  by (cases f) auto

lemma isfiniteE: assumes "isfinite f" obtains x where "f = Fin x"
  using assms by (auto simp: isfinite_iff)

text \<open>Conversion of an integer: exact up to \<open>2 ^ 53\<close>, rounded above, an error out of range.\<close>

definition float_of_int :: "int \<Rightarrow> pyfloat result" where
  "float_of_int n =
     (case rnd64 (of_int n) of Fin x \<Rightarrow> Inr (Fin x)
      | _ \<Rightarrow> raise OverflowError ''int too large to convert to float'')"

fun fmul :: "pyfloat \<Rightarrow> pyfloat \<Rightarrow> pyfloat" where
  "fmul (Fin x) (Fin y) = rnd64 (x * y)"
| "fmul NaN _ = NaN"
| "fmul _ NaN = NaN"
| "fmul x (Fin y) = (if y = 0 then NaN else if (x = PInf) = (0 < y) then PInf else NInf)"
| "fmul (Fin y) x = (if y = 0 then NaN else if (x = PInf) = (0 < y) then PInf else NInf)"
| "fmul x y = (if x = y then PInf else NInf)"

text \<open>\<open>int(f)\<close> of a finite float truncates towards zero.\<close>

definition trunc :: "rat \<Rightarrow> int" where
  "trunc x = (if 0 \<le> x then \<lfloor>x\<rfloor> else \<lceil>x\<rceil>)"

definition is_integer :: "rat \<Rightarrow> bool" where
  "is_integer x = (of_int \<lfloor>x\<rfloor> = x)"

lemma is_integer_of_int [simp]: "is_integer (of_int n)"
  by (simp add: is_integer_def)

lemma is_integer_iff: "is_integer x = (\<exists>n. x = of_int n)"
  by (metis is_integer_def is_integer_of_int)

lemma trunc_of_int [simp]: "trunc (of_int n) = n"
  by (simp add: trunc_def)

lemma trunc_is_integer: "is_integer x \<Longrightarrow> of_int (trunc x) = x"
  by (auto simp: is_integer_iff)

lemma floor_exp_int:
  assumes "0 < n" and "n < int b ^ k" shows "floor_exp b (of_int n) < int k"
proof -
  have "nat n < b ^ k"
    using assms by (metis nat_less_iff of_nat_power less_imp_le)
  then have "nlog b (nat n) < k" using assms(1) by (intro nlog_bound) auto
  then show ?thesis using assms(1) by (simp add: floor_exp_def)
qed

text \<open>Every integer below \<open>2 ^ 53\<close> in magnitude is a float.\<close>

lemma rnd64_int:
  assumes "\<bar>n\<bar> < 2 ^ 53" shows "rnd64 (of_int n) = Fin (of_int n)"
proof (cases "n = 0")
  case True
  then show ?thesis by (simp add: rnd64_def)
next
  case False
  let ?m = "\<bar>n\<bar>" and ?e = "max (floor_exp 2 (of_int \<bar>n\<bar>) - 52) (- 1074) :: int"
  have "floor_exp 2 (of_int ?m) < int 53" using assms False by (intro floor_exp_int) auto
  then have e: "?e \<le> 0" by simp
  have r: "round_at 2 ?e (of_int ?m) = of_int ?m" using e by (intro round_at_int) auto
  have "(of_int ?m :: rat) < of_int (2 ^ 53)" using assms by (simp only: of_int_less_iff)
  also have "(of_int (2 ^ 53) :: rat) < 2 ^ 1024" by (simp add: power_strict_increasing)
  finally have lt: "\<not> 2 ^ 1024 \<le> (of_int ?m :: rat)" by simp
  have abs: "\<bar>of_int n :: rat\<bar> = of_int ?m" by simp
  show ?thesis
    using False r lt unfolding rnd64_def abs Let_def by (auto simp: abs_if)
qed

lemma float_of_int_exact: "\<bar>n\<bar> < 2 ^ 53 \<Longrightarrow> float_of_int n = Inr (Fin (of_int n))"
  by (simp add: float_of_int_def rnd64_int)

lemma float_of_int_finite: "float_of_int n = Inr f \<Longrightarrow> isfinite f"
  by (cases "rnd64 (of_int n)") (auto simp: float_of_int_def)

section \<open>Decimals\<close>

datatype pydec = DFin rat | DInf bool | DNaN

definition dec_round :: "rat \<Rightarrow> rat" where
  "dec_round x =
     (if x = 0 then 0
      else let y = round_at 10 (floor_exp 10 \<bar>x\<bar> - 27) \<bar>x\<bar> in if 0 < x then y else - y)"

definition dec_mult :: "rat \<Rightarrow> rat \<Rightarrow> rat" where
  "dec_mult x y = dec_round (x * y)"

lemma dec_round_int:
  assumes "\<bar>n\<bar> < 10 ^ 28" shows "dec_round (of_int n) = of_int n"
proof (cases "n = 0")
  case False
  have "floor_exp 10 (of_int \<bar>n\<bar>) < int 28" using assms False by (intro floor_exp_int) auto
  then have "round_at 10 (floor_exp 10 (of_int \<bar>n\<bar>) - 27) (of_int \<bar>n\<bar>) = of_int \<bar>n\<bar>"
    by (intro round_at_int) auto
  then show ?thesis
    using False by (auto simp: dec_round_def Let_def abs_if of_int_abs [symmetric] simp del: of_int_abs)
qed (simp add: dec_round_def)

lemma nlog_lower: "2 \<le> b \<Longrightarrow> b ^ k \<le> n \<Longrightarrow> k \<le> nlog b n"
proof (induction k arbitrary: n)
  case (Suc k)
  have "b * b ^ k \<le> n" using Suc.prems by simp
  moreover have "b * 1 \<le> b * b ^ k" using Suc.prems by (intro mult_le_mono2) simp
  ultimately have "b \<le> n" by linarith
  have "b ^ k \<le> n div b" using Suc.prems by (simp add: less_eq_div_iff_mult_less_eq mult.commute)
  then have "k \<le> nlog b (n div b)" using Suc.IH Suc.prems by simp
  then show ?case using \<open>b \<le> n\<close> Suc.prems(1) by (simp add: nlog.simps [of b n])
qed simp

text \<open>A number below a power has a smaller exponent.\<close>

lemma floor_exp_less:
  assumes "0 < x" and "x < scale b e" and "2 \<le> b"
  shows "floor_exp b x < e"
proof (cases "1 \<le> x")
  case True
  have e: "0 < e"
  proof (rule ccontr)
    assume "\<not> 0 < e"
    then have "scale b e \<le> 1" using assms(3) by (auto simp: scale_def)
    with True assms(2) show False by simp
  qed
  have "x < of_nat (b ^ nat e)" using assms(2) e by (simp add: scale_def)
  then have "\<lfloor>x\<rfloor> < int (b ^ nat e)" by (simp add: floor_less_iff)
  then have "nat \<lfloor>x\<rfloor> < b ^ nat e" using True by (simp add: nat_less_iff)
  moreover have "0 < nat \<lfloor>x\<rfloor>" using True by simp
  ultimately have "nlog b (nat \<lfloor>x\<rfloor>) < nat e" by (rule nlog_bound [rotated])
  then show ?thesis using True by (simp add: floor_exp_def)
next
  case False
  let ?n = "nat \<lceil>1 / x\<rceil>"
  have inv: "1 < 1 / x" using False assms(1) by simp
  have n: "\<not> ?n \<le> 1" using inv by linarith
  show ?thesis
  proof (cases "0 \<le> e")
    case True
    then show ?thesis using False n by (simp add: floor_exp_def Let_def)
  next
    case e: False
    have "x < 1 / of_nat (b ^ nat (- e))" using assms(2) e by (simp add: scale_def)
    then have "of_nat (b ^ nat (- e)) < 1 / x"
      using assms(1,3) by (simp add: field_simps)
    then have "int (b ^ nat (- e)) < \<lceil>1 / x\<rceil>" by (simp add: less_ceiling_iff)
    then have "b ^ nat (- e) \<le> ?n - 1" by linarith
    then have "nat (- e) \<le> nlog b (?n - 1)" by (rule nlog_lower [OF assms(3)])
    then show ?thesis using False n e by (simp add: floor_exp_def Let_def)
  qed
qed

lemma scale_diff: "0 < b \<Longrightarrow> f \<le> e \<Longrightarrow> scale b e = of_nat (b ^ nat (e - f)) * scale b f"
proof -
  assume b: "0 < b" and "f \<le> e"
  then obtain k where k: "e = f + int k" by (metis zle_iff_zadd)
  have pw: "scale b i = power_int (of_nat b) i" for i
    using b by (simp add: scale_def power_int_def inverse_eq_divide power_divide)
  have "(of_nat b :: rat) \<noteq> 0" using b by simp
  then have "power_int (of_nat b :: rat) (f + int k) = power_int (of_nat b) f * of_nat b ^ k"
    by (subst power_int_add) simp_all
  then show ?thesis unfolding pw k by (simp add: mult.commute)
qed

text \<open>A decimal of at most 28 digits is exact.\<close>

lemma dec_round_exact:
  assumes "\<bar>n\<bar> < 10 ^ 28" shows "dec_round (of_int n * scale 10 f) = of_int n * scale 10 f"
proof (cases "n = 0")
  case False
  let ?x = "of_int \<bar>n\<bar> * scale 10 f"
  have sp: "0 < scale 10 f" by simp
  have x0: "0 < ?x" using False sp by simp
  have "scale 10 (28 + f) = of_nat (10 ^ 28) * scale 10 f"
    using scale_diff [of 10 f "28 + f"] by simp
  moreover have "of_int \<bar>n\<bar> < (of_nat (10 ^ 28) :: rat)"
    using assms by (metis of_int_less_iff of_int_of_nat_eq of_nat_power of_nat_numeral)
  ultimately have "?x < scale 10 (28 + f)" using sp by (simp add: mult_strict_right_mono)
  then have "floor_exp 10 ?x < 28 + f" using x0 by (intro floor_exp_less) auto
  then have le: "floor_exp 10 ?x - 27 \<le> f" by simp
  have "?x = of_int (\<bar>n\<bar> * 10 ^ nat (f - (floor_exp 10 ?x - 27))) * scale 10 (floor_exp 10 ?x - 27)"
    using scale_diff [OF _ le, of 10] by simp
  then have r: "round_at 10 (floor_exp 10 ?x - 27) ?x = ?x"
    by (metis round_at_multiple zero_less_numeral)
  have ab: "\<bar>of_int n * scale 10 f\<bar> = ?x"
    by (simp only: abs_mult abs_of_pos [OF sp] of_int_abs)
  have "scale 10 f \<noteq> 0" using sp by (metis less_irrefl)
  then have "of_int n * scale 10 f \<noteq> 0" using False by simp
  moreover have "(0 < of_int n * scale 10 f) = (0 < n)"
    using zero_less_mult_pos2 [OF _ sp] mult_pos_pos [OF _ sp] by (metis of_int_0_less_iff)
  ultimately show ?thesis
    unfolding dec_round_def ab Let_def r using False sp by (auto simp: abs_if)
qed (simp add: dec_round_def)

lemma floor_exp_ge:
  assumes "0 < x" and "scale b e \<le> x" and "2 \<le> b"
  shows "e \<le> floor_exp b x"
proof (cases "1 \<le> x")
  case True
  show ?thesis
  proof (cases "0 \<le> e")
    case e: True
    have "of_nat (b ^ nat e) \<le> x" using assms(2) e by (simp add: scale_def)
    then have "int (b ^ nat e) \<le> \<lfloor>x\<rfloor>" by (simp add: le_floor_iff)
    then have "b ^ nat e \<le> nat \<lfloor>x\<rfloor>" by linarith
    then have "nat e \<le> nlog b (nat \<lfloor>x\<rfloor>)" by (rule nlog_lower [OF assms(3)])
    then show ?thesis using True by (simp add: floor_exp_def)
  qed (use True in \<open>simp add: floor_exp_def\<close>)
next
  case False
  let ?n = "nat \<lceil>1 / x\<rceil>"
  have e: "\<not> 0 \<le> e"
  proof
    assume "0 \<le> e"
    then have "1 \<le> scale b e" using assms(3) by (simp add: scale_def)
    with assms(2) False show False by simp
  qed
  have "1 < 1 / x" using False assms(1) by simp
  then have n: "\<not> ?n \<le> 1" by linarith
  have "1 / x \<le> of_nat (b ^ nat (- e))"
    using assms e by (simp add: scale_def field_simps)
  then have "\<lceil>1 / x\<rceil> \<le> int (b ^ nat (- e))" by (simp add: ceiling_le_iff)
  then have "?n - 1 < b ^ nat (- e)" using n by linarith
  moreover have "0 < ?n - 1" using n by linarith
  ultimately have "nlog b (?n - 1) < nat (- e)" by (rule nlog_bound [rotated])
  then show ?thesis using False n e by (simp add: floor_exp_def Let_def)
qed

lemma half_even_near: "of_int m - 1 / 2 < x \<Longrightarrow> x < of_int m + 1 / 2 \<Longrightarrow> half_even x = m"
proof -
  assume lo: "of_int m - 1 / 2 < x" and hi: "x < of_int m + 1 / 2"
  show ?thesis
  proof (cases "of_int m \<le> x")
    case True
    then have "\<lfloor>x\<rfloor> = m" using hi by (intro floor_unique) simp_all
    then show ?thesis using hi by (simp add: half_even_def)
  next
    case False
    then have "\<lfloor>x\<rfloor> = m - 1" using lo by (intro floor_unique) simp_all
    then show ?thesis using lo by (simp add: half_even_def)
  qed
qed

text \<open>Evaluation of the two roundings on concrete values.\<close>

lemma floor_exp_eq:
  "scale b e \<le> x \<Longrightarrow> x < scale b (e + 1) \<Longrightarrow> 2 \<le> b \<Longrightarrow> floor_exp b x = e"
proof -
  assume a: "scale b e \<le> x" "x < scale b (e + 1)" "2 \<le> b"
  have "0 < scale b e" using a(3) by simp
  then have "0 < x" using a(1) by linarith
  then show ?thesis using floor_exp_ge [of x b e] floor_exp_less [of x b "e + 1"] a by linarith
qed

lemma rnd64_eq:
  assumes "scale 2 (e + 52) \<le> x" and "x < scale 2 (e + 53)" and "- 1074 \<le> e"
    and "of_int m - 1 / 2 < x / scale 2 e" and "x / scale 2 e < of_int m + 1 / 2"
    and "of_int m * scale 2 e < 2 ^ 1024"
  shows "rnd64 x = Fin (of_int m * scale 2 e)"
proof -
  have "0 < scale 2 (e + 52)" by simp
  then have x: "0 < x" using assms(1) by linarith
  have "floor_exp 2 x = e + 52" using assms(1,2) by (intro floor_exp_eq) (simp_all add: add.assoc)
  then have "max (floor_exp 2 x - 52) (- 1074) = e" using assms(3) by simp
  then show ?thesis
    using x half_even_near [OF assms(4,5)] assms(6) by (simp add: rnd64_def abs_of_pos round_at_def Let_def)
qed

lemma dec_round_eq:
  assumes "scale 10 (e + 27) \<le> x" and "x < scale 10 (e + 28)" 
    and "of_int m - 1 / 2 < x / scale 10 e" and "x / scale 10 e < of_int m + 1 / 2"
  shows "dec_round x = of_int m * scale 10 e"
proof -
  have "0 < scale 10 (e + 27)" by simp
  then have x: "0 < x" using assms(1) by linarith
  have "floor_exp 10 x = e + 27" using assms(1,2) by (intro floor_exp_eq) (simp_all add: add.assoc)
  then show ?thesis using x half_even_near [OF assms(3,4)] by (simp add: dec_round_def abs_of_pos round_at_def Let_def)
qed

end
