(* ===== verification/PyText.thy ===== *)
theory PyText
  imports PyFloat
begin

text \<open>
  Text: the regular expressions the package compiles with \<open>re\<close>, decided by derivatives and
  proved equal to their languages; the printing of integers and floats (\<open>str\<close>, \<open>repr\<close>); and
  the number grammars of \<open>int()\<close>, \<open>float()\<close> and \<open>Decimal()\<close>.
\<close>

section \<open>Regular expressions\<close>

text \<open>A character class is a list of inclusive ranges of code points.\<close>

datatype rx = RNone | REmpty | RClass "(nat \<times> nat) list" | RCat rx rx | ROr rx rx | RMany rx

fun in_ranges :: "(nat \<times> nat) list \<Rightarrow> char \<Rightarrow> bool" where
  "in_ranges [] c = False"
| "in_ranges ((lo, hi) # rs) c = ((lo \<le> code c \<and> code c \<le> hi) \<or> in_ranges rs c)"

inductive_set many :: "string set \<Rightarrow> string set" for L where
  many_nil: "[] \<in> many L"
| many_step: "u \<in> L \<Longrightarrow> v \<in> many L \<Longrightarrow> u @ v \<in> many L"

fun rx_lang :: "rx \<Rightarrow> string set" where
  "rx_lang RNone = {}"
| "rx_lang REmpty = {[]}"
| "rx_lang (RClass rs) = {[c] |c. in_ranges rs c}"
| "rx_lang (RCat r q) = {u @ v |u v. u \<in> rx_lang r \<and> v \<in> rx_lang q}"
| "rx_lang (ROr r q) = rx_lang r \<union> rx_lang q"
| "rx_lang (RMany r) = many (rx_lang r)"

fun accepts_empty :: "rx \<Rightarrow> bool" where
  "accepts_empty RNone = False"
| "accepts_empty REmpty = True"
| "accepts_empty (RClass rs) = False"
| "accepts_empty (RCat r q) = (accepts_empty r \<and> accepts_empty q)"
| "accepts_empty (ROr r q) = (accepts_empty r \<or> accepts_empty q)"
| "accepts_empty (RMany r) = True"

text \<open>Constructors that drop the expressions which match nothing.\<close>

definition cat :: "rx \<Rightarrow> rx \<Rightarrow> rx" where
  "cat r q = (if r = RNone \<or> q = RNone then RNone else if r = REmpty then q else RCat r q)"

definition alt :: "rx \<Rightarrow> rx \<Rightarrow> rx" where
  "alt r q = (if r = RNone then q else if q = RNone \<or> q = r then r else ROr r q)"

fun rx_after :: "rx \<Rightarrow> char \<Rightarrow> rx" where
  "rx_after RNone c = RNone"
| "rx_after REmpty c = RNone"
| "rx_after (RClass rs) c = (if in_ranges rs c then REmpty else RNone)"
| "rx_after (ROr r q) c = alt (rx_after r c) (rx_after q c)"
| "rx_after (RMany r) c = cat (rx_after r c) (RMany r)"
| "rx_after (RCat r q) c =
     alt (cat (rx_after r c) q) (if accepts_empty r then rx_after q c else RNone)"

text \<open>\<open>pattern.fullmatch(s) is not None\<close>\<close>

fun fullmatch :: "rx \<Rightarrow> string \<Rightarrow> bool" where
  "fullmatch r [] = accepts_empty r"
| "fullmatch r (c # s) = fullmatch (rx_after r c) s"

lemma accepts_empty_iff: "accepts_empty r = ([] \<in> rx_lang r)"
  by (induction r) (auto intro: many_nil)

lemma lang_cat [simp]: "rx_lang (cat r q) = {u @ v |u v. u \<in> rx_lang r \<and> v \<in> rx_lang q}"
  by (auto simp: cat_def)

lemma lang_alt [simp]: "rx_lang (alt r q) = rx_lang r \<union> rx_lang q"
  by (auto simp: alt_def)

lemma many_Cons: "(c # s \<in> many L) = (\<exists>u v. s = u @ v \<and> c # u \<in> L \<and> v \<in> many L)"
proof
  assume "c # s \<in> many L"
  then show "\<exists>u v. s = u @ v \<and> c # u \<in> L \<and> v \<in> many L"
  proof (induction "c # s" arbitrary: s rule: many.induct)
    case (many_step u v)
    then show ?case by (cases u) auto
  qed
next
  assume "\<exists>u v. s = u @ v \<and> c # u \<in> L \<and> v \<in> many L"
  then show "c # s \<in> many L" by (metis append_Cons many.many_step)
qed

lemma rx_after_lang: "(s \<in> rx_lang (rx_after r c)) = (c # s \<in> rx_lang r)"
proof (induction r arbitrary: s)
  case (RCat r q)
  have split: "c # s = u @ v \<longleftrightarrow> (u = [] \<and> v = c # s) \<or> (\<exists>u'. u = c # u' \<and> s = u' @ v)" for u v
    by (auto simp: Cons_eq_append_conv)
  show ?case
    by (auto simp: RCat split accepts_empty_iff; blast)
qed (auto simp: many_Cons)

theorem fullmatch_iff: "fullmatch r s = (s \<in> rx_lang r)"
  by (induction s arbitrary: r) (simp_all add: accepts_empty_iff rx_after_lang)

text \<open>Derived forms: an option, one or more, a literal, a bounded repetition.\<close>

definition rx_opt :: "rx \<Rightarrow> rx" where "rx_opt r = ROr REmpty r"

definition rx_plus :: "rx \<Rightarrow> rx" where "rx_plus r = RCat r (RMany r)"

fun rx_str :: "string \<Rightarrow> rx" where
  "rx_str [] = REmpty"
| "rx_str (c # s) = RCat (RClass [(code c, code c)]) (rx_str s)"

fun rx_seq :: "rx list \<Rightarrow> rx" where
  "rx_seq [] = REmpty"
| "rx_seq [r] = r"
| "rx_seq (r # rs) = RCat r (rx_seq rs)"

fun rx_choice :: "rx list \<Rightarrow> rx" where
  "rx_choice [] = RNone"
| "rx_choice [r] = r"
| "rx_choice (r # rs) = ROr r (rx_choice rs)"

fun rx_times :: "nat \<Rightarrow> rx \<Rightarrow> rx" where
  "rx_times 0 r = REmpty"
| "rx_times (Suc n) r = RCat r (rx_times n r)"

fun rx_upto :: "nat \<Rightarrow> rx \<Rightarrow> rx" where
  "rx_upto 0 r = REmpty"
| "rx_upto (Suc n) r = rx_opt (RCat r (rx_upto n r))"

abbreviation rx_digit :: rx where "rx_digit \<equiv> RClass [(48, 57)]"
abbreviation rx_digit1 :: rx where "rx_digit1 \<equiv> RClass [(49, 57)]"
abbreviation rx_hex :: rx where "rx_hex \<equiv> RClass [(48, 57), (97, 102)]"

text \<open>\<open>(0|[1-9][0-9]*)\<close>, the numeric identifier of a semantic version.\<close>

definition rx_numeric :: rx where
  "rx_numeric = ROr (RClass [(48, 48)]) (RCat rx_digit1 (RMany rx_digit))"

lemma lang_many_class: "(s \<in> many {[c] |c. P c}) = (\<forall>c \<in> set s. P c)"
proof (induction s)
  case (Cons a s)
  then show ?case by (auto simp: many_Cons)
qed (auto intro: many_nil)

lemma lang_class_cat:
  "(s \<in> rx_lang (RCat (RClass rs) q)) =
     (case s of [] \<Rightarrow> False | c # t \<Rightarrow> in_ranges rs c \<and> t \<in> rx_lang q)"
proof (cases s)
  case (Cons c t)
  have "(\<exists>u v. c # t = u @ v \<and> (\<exists>d. u = [d] \<and> in_ranges rs d) \<and> v \<in> rx_lang q) =
      (in_ranges rs c \<and> t \<in> rx_lang q)"
    by (metis append_Cons append_Nil list.inject)
  then show ?thesis using Cons by simp
qed simp

lemma lang_times_class:
  "(s \<in> rx_lang (rx_times n (RClass rs))) = (length s = n \<and> (\<forall>c \<in> set s. in_ranges rs c))"
proof (induction n arbitrary: s)
  case (Suc n)
  then show ?case by (cases s) (auto simp: lang_class_cat simp del: rx_lang.simps(4))
qed auto

lemma lang_upto_class:
  "(s \<in> rx_lang (rx_upto n (RClass rs))) = (length s \<le> n \<and> (\<forall>c \<in> set s. in_ranges rs c))"
proof (induction n arbitrary: s)
  case (Suc n)
  then show ?case
    by (cases s) (auto simp: rx_opt_def lang_class_cat simp del: rx_lang.simps(4))
qed auto

lemma code_inj [simp]: "(code c = code d) = (c = d)"
  by (simp add: code_def)

lemma code_zero: "(code c = 48) = (c = CHR ''0'')"
  using code_inj [of c "CHR ''0''"] by (simp add: code_def)

lemma lang_numeric:
  "(s \<in> rx_lang rx_numeric) =
     (s \<noteq> [] \<and> (\<forall>c \<in> set s. ascii_digit c) \<and> (hd s = CHR ''0'' \<longrightarrow> tl s = []))"
proof (cases s)
  case (Cons c t)
  have "(c # t \<in> rx_lang (RCat rx_digit1 (RMany rx_digit))) =
      (49 \<le> code c \<and> code c \<le> 57 \<and> (\<forall>c \<in> set t. ascii_digit c))"
    by (simp only: lang_class_cat list.case) (auto simp: lang_many_class ascii_digit_def)
  then show ?thesis
    using code_zero [of c] Cons
    by (auto simp: rx_numeric_def ascii_digit_def simp del: rx_lang.simps(4))
qed (simp add: rx_numeric_def)

section \<open>Printing integers\<close>

fun nat_text :: "nat \<Rightarrow> string" where
  "nat_text n = (if n < 10 then [char_of (48 + n)] else nat_text (n div 10) @ [char_of (48 + n mod 10)])"

declare nat_text.simps [simp del]

definition int_text :: "int \<Rightarrow> string" where
  "int_text n = (if n < 0 then CHR ''-'' # nat_text (nat (- n)) else nat_text (nat n))"

definition digits_val :: "string \<Rightarrow> nat" where
  "digits_val s = foldl (\<lambda>a c. a * 10 + (code c - 48)) 0 s"

lemma digits_val_snoc [simp]: "digits_val (s @ [c]) = digits_val s * 10 + (code c - 48)"
  by (simp add: digits_val_def)

lemma code_char_of [simp]: "n < 256 \<Longrightarrow> code (char_of n) = n"
  by (simp add: code_def)

lemma digits_val_nat_text [simp]: "digits_val (nat_text n) = n"
proof (induction n rule: nat_text.induct)
  case (1 n)
  show ?case
  proof (cases "n < 10")
    case True
    then show ?thesis by (simp add: nat_text.simps [of n] digits_val_def)
  next
    case False
    then show ?thesis using 1 by (simp add: nat_text.simps [of n])
  qed
qed

lemma nat_text_digits: "c \<in> set (nat_text n) \<Longrightarrow> ascii_digit c"
proof (induction n rule: nat_text.induct)
  case (1 n)
  then show ?case
    by (cases "n < 10") (auto simp: nat_text.simps [of n] ascii_digit_def)
qed

lemma nat_text_nonempty [simp]: "nat_text n \<noteq> []"
  by (simp add: nat_text.simps [of n])

lemma nat_text_inj [simp]: "(nat_text m = nat_text n) = (m = n)"
  by (metis digits_val_nat_text)

lemma nat_text_hd0: "0 < n \<Longrightarrow> code (hd (nat_text n)) \<noteq> 48"
proof (induction n rule: nat_text.induct)
  case (1 n)
  then show ?case
    by (cases "n < 10") (auto simp: nat_text.simps [of n] hd_append)
qed

section \<open>Reading numbers\<close>

text \<open>
  The grammar shared by \<open>Decimal()\<close> and \<open>float()\<close>: an optional sign, digits with an optional
  point, an optional exponent.
\<close>

fun split_sign :: "string \<Rightarrow> bool \<times> string" where
  "split_sign [] = (False, [])"
| "split_sign (c # s) =
     (if c = CHR ''-'' then (True, s) else if c = CHR ''+'' then (False, s) else (False, c # s))"

definition signed :: "bool \<Rightarrow> 'a \<Rightarrow> 'a::uminus" where
  "signed neg x = (if neg then - x else x)"

definition parse_exponent :: "string \<Rightarrow> int option" where
  "parse_exponent s =
     (case s of [] \<Rightarrow> Some 0
      | c # t \<Rightarrow>
          (let (neg, ds) = split_sign t
           in if ascii_lower c = CHR ''e'' \<and> ds \<noteq> [] \<and> list_all ascii_digit ds
              then Some (signed neg (int (digits_val ds))) else None))"

definition parse_decimal_body :: "string \<Rightarrow> rat option" where
  "parse_decimal_body s =
     (let ip = takeWhile ascii_digit s; r1 = dropWhile ascii_digit s;
          (fp, r2) = (case r1 of c # t \<Rightarrow>
                        (if c = CHR ''.'' then (takeWhile ascii_digit t, dropWhile ascii_digit t)
                         else ([], r1))
                      | [] \<Rightarrow> ([], []))
      in if ip = [] \<and> fp = [] then None
         else map_option (\<lambda>e. of_nat (digits_val (ip @ fp)) * scale 10 (e - int (length fp)))
                (parse_exponent r2))"

text \<open>\<open>Decimal(text)\<close>: surrounding space and every underscore are dropped.\<close>

definition py_decimal :: "string \<Rightarrow> pydec option" where
  "py_decimal s =
     (let (neg, t) = split_sign (filter (\<lambda>c. c \<noteq> CHR ''_'') (py_strip s));
          u = map ascii_lower t
      in if u = ''inf'' \<or> u = ''infinity'' then Some (DInf neg)
         else if (take 3 u = ''nan'' \<and> list_all ascii_digit (drop 3 u)) \<or>
                 (take 4 u = ''snan'' \<and> list_all ascii_digit (drop 4 u)) then Some DNaN
         else map_option (\<lambda>x. DFin (signed neg x)) (parse_decimal_body t))"

text \<open>Underscores in \<open>int()\<close> and \<open>float()\<close> stand between two digits only.\<close>

fun drop_separators :: "string \<Rightarrow> string option" where
  "drop_separators (a # b # c # s) =
     (if b = CHR ''_''
      then (if ascii_digit a \<and> ascii_digit c then map_option (Cons a) (drop_separators (c # s)) else None)
      else map_option (Cons a) (drop_separators (b # c # s)))"
| "drop_separators s = (if CHR ''_'' \<in> set s then None else Some s)"

definition py_float :: "string \<Rightarrow> pyfloat option" where
  "py_float s =
     (let (neg, t) = split_sign (py_strip s); u = map ascii_lower t
      in if u = ''inf'' \<or> u = ''infinity'' then Some (if neg then NInf else PInf)
         else if u = ''nan'' then Some NaN
         else (case drop_separators t of None \<Rightarrow> None
               | Some t' \<Rightarrow> map_option (\<lambda>x. rnd64 (signed neg x)) (parse_decimal_body t')))"

definition py_int :: "string \<Rightarrow> int option" where
  "py_int s =
     (let (neg, t) = split_sign (py_strip s)
      in case drop_separators t of None \<Rightarrow> None
         | Some ds \<Rightarrow>
             (if ds \<noteq> [] \<and> list_all ascii_digit ds then Some (signed neg (int (digits_val ds))) else None))"

lemma digit_not_space: "ascii_digit c \<Longrightarrow> \<not> py_space c"
  by (auto simp: ascii_digit_def py_space_def)

lemma code_minus: "code CHR ''-'' = 45" and code_plus: "code CHR ''+'' = 43"
  and code_underscore: "code CHR ''_'' = 95"
  by (simp_all add: code_def)

lemma py_strip_ends: "s \<noteq> [] \<Longrightarrow> \<not> py_space (hd s) \<Longrightarrow> \<not> py_space (last s) \<Longrightarrow> py_strip s = s"
proof -
  assume a: "s \<noteq> []" "\<not> py_space (hd s)" "\<not> py_space (last s)"
  have "dropWhile py_space s = s" using a by (cases s) auto
  moreover have "dropWhile py_space (rev s) = rev s"
    using a by (cases s rule: rev_cases) auto
  ultimately show ?thesis by (simp add: py_strip_def)
qed

lemma drop_separators_digits: "list_all ascii_digit s \<Longrightarrow> drop_separators s = Some s"
proof (induction s rule: drop_separators.induct)
  case (1 a b c s)
  then show ?case by (auto simp: ascii_digit_def code_underscore)
qed (auto simp: ascii_digit_def code_underscore)

lemma split_sign_digit: "s \<noteq> [] \<Longrightarrow> ascii_digit (hd s) \<Longrightarrow> split_sign s = (False, s)"
  by (cases s) (auto simp: ascii_digit_def code_minus code_plus)

lemma nat_text_all_digits: "list_all ascii_digit (nat_text n)"
  using nat_text_digits by (auto simp: list_all_iff)

lemma nat_text_ends: "ascii_digit (hd (nat_text n))" "ascii_digit (last (nat_text n))"
  by (rule nat_text_digits, rule hd_in_set, simp) (rule nat_text_digits, rule last_in_set, simp)

lemma nat_text_strip: "py_strip (nat_text n) = nat_text n"
  by (intro py_strip_ends digit_not_space nat_text_ends nat_text_nonempty)

text \<open>\<open>int(str(n)) == n\<close>\<close>

theorem py_int_int_text: "py_int (int_text n) = Some n"
proof (cases "n < 0")
  case True
  let ?t = "nat_text (nat (- n))"
  have "py_strip (CHR ''-'' # ?t) = CHR ''-'' # ?t"
  proof (rule py_strip_ends)
    show "\<not> py_space (last (CHR ''-'' # ?t))"
      using digit_not_space nat_text_ends(2) [of "nat (- n)"] by simp
  qed (simp_all add: py_space_def code_minus)
  then show ?thesis
    using True nat_text_all_digits [of "nat (- n)"]
    by (simp add: py_int_def int_text_def drop_separators_digits signed_def)
next
  case False
  have "split_sign (nat_text (nat n)) = (False, nat_text (nat n))"
    by (intro split_sign_digit nat_text_ends nat_text_nonempty)
  then show ?thesis
    using False nat_text_all_digits [of "nat n"]
    by (simp add: py_int_def int_text_def nat_text_strip drop_separators_digits signed_def)
qed

section \<open>Printing floats\<close>

text \<open>
  \<open>repr(f)\<close>: the shortest digits that round back to \<open>f\<close>, the nearer of two candidates of that
  length.  \<open>shortest_from fuel n x\<close> tries \<open>n\<close>, \<open>n + 1\<close>, \<dots> digits; 17 always suffice for binary64.
\<close>

fun shortest_from :: "nat \<Rightarrow> nat \<Rightarrow> rat \<Rightarrow> nat \<times> int" where
  "shortest_from 0 n x = (0, 0)"
| "shortest_from (Suc fuel) n x =
     (let e = floor_exp 10 x - int n + 1; q = x / scale 10 e; lo = \<lfloor>q\<rfloor>;
          near = half_even q; far = (if near = lo then lo + 1 else lo)
      in if rnd64 (of_int near * scale 10 e) = Fin x then (nat near, e)
         else if rnd64 (of_int far * scale 10 e) = Fin x then (nat far, e)
         else shortest_from fuel (Suc n) x)"

definition strip_zeros :: "string \<Rightarrow> string" where
  "strip_zeros s = rev (dropWhile (\<lambda>c. c = CHR ''0'') (rev s))"

definition float_text_pos :: "rat \<Rightarrow> string" where
  "float_text_pos x =
     (let (m, e) = shortest_from 17 1 x; full = nat_text m; ds = strip_zeros full;
          point = int (length full) + e
      in if - 4 < point \<and> point \<le> 16 then
           (if point \<le> 0 then ''0.'' @ replicate (nat (- point)) CHR ''0'' @ ds
            else if int (length ds) \<le> point
              then ds @ replicate (nat point - length ds) CHR ''0'' @ ''.0''
            else take (nat point) ds @ ''.'' @ drop (nat point) ds)
         else
           (let ex = point - 1; es = nat_text (nat \<bar>ex\<bar>)
            in (case ds of [d] \<Rightarrow> [d] | d # r \<Rightarrow> d # CHR ''.'' # r | [] \<Rightarrow> []) @ ''e'' @
               (if ex < 0 then ''-'' else ''+'') @ (if length es < 2 then ''0'' @ es else es)))"

fun float_text :: "pyfloat \<Rightarrow> string" where
  "float_text PInf = ''inf''"
| "float_text NInf = ''-inf''"
| "float_text NaN = ''nan''"
| "float_text (Fin x) =
     (if x = 0 then ''0.0'' else if x < 0 then CHR ''-'' # float_text_pos (- x) else float_text_pos x)"

end
