(* ===== verification/Models.thy ===== *)
theory Models
  imports PyText
begin

text \<open>
  \<open>src/pineforge_data/models.py\<close>: the frozen record types shared by adapters and sinks, each
  with its constructor (\<open>__post_init__\<close>) and a declarative well-formedness predicate that the
  constructor decides.
\<close>

section \<open>Field checks\<close>

definition non_empty :: "string \<Rightarrow> string \<Rightarrow> unit result" where
  "non_empty value field = require (\<not> blank value) ValueError (field @ '' must not be empty'')"

definition non_negative :: "int \<Rightarrow> string \<Rightarrow> unit result" where
  "non_negative value field = require (\<not> value < 0) ValueError (field @ '' must be non-negative'')"

definition unix_ms :: "int \<Rightarrow> string \<Rightarrow> unit result" where
  "unix_ms value field =
     rbind (non_negative value field) (\<lambda>_.
       require (\<not> value > 2 ^ 63 - 1) ValueError (field @ '' must fit a signed 64-bit integer''))"

definition optional_text :: "string \<Rightarrow> string \<Rightarrow> unit result" where
  "optional_text value field =
     require (\<not> (value \<noteq> [] \<and> blank value)) ValueError (field @ '' must not contain only whitespace'')"

definition ms_ok :: "int \<Rightarrow> bool" where
  "ms_ok n = (0 \<le> n \<and> n < 2 ^ 63)"

definition text_ok :: "string \<Rightarrow> bool" where
  "text_ok s = (s = [] \<or> \<not> blank s)"

lemma check_returns [simp]:
  "(non_empty v f = Inr u) = (\<not> blank v)"
  "(non_negative n f = Inr u) = (0 \<le> n)"
  "(unix_ms n f = Inr u) = ms_ok n"
  "(optional_text v f = Inr u) = text_ok v"
  by (auto simp: non_empty_def non_negative_def unix_ms_def optional_text_def ms_ok_def text_ok_def
      result_simps)

section \<open>Instruments\<close>

datatype asset_class = AC_UNKNOWN | CRYPTO | EQUITY | FOREX | COMMODITY | INDEX | FUND | BOND

datatype market_type = MT_UNKNOWN | SPOT | CASH | SWAP | FUTURE | OPTION | CFD

datatype option_type = CALL | PUT

fun asset_class_value :: "asset_class \<Rightarrow> string" where
  "asset_class_value AC_UNKNOWN = ''unknown''"
| "asset_class_value CRYPTO = ''crypto''"
| "asset_class_value EQUITY = ''equity''"
| "asset_class_value FOREX = ''forex''"
| "asset_class_value COMMODITY = ''commodity''"
| "asset_class_value INDEX = ''index''"
| "asset_class_value FUND = ''fund''"
| "asset_class_value BOND = ''bond''"

fun market_type_value :: "market_type \<Rightarrow> string" where
  "market_type_value MT_UNKNOWN = ''unknown''"
| "market_type_value SPOT = ''spot''"
| "market_type_value CASH = ''cash''"
| "market_type_value SWAP = ''swap''"
| "market_type_value FUTURE = ''future''"
| "market_type_value OPTION = ''option''"
| "market_type_value CFD = ''cfd''"

fun option_type_value :: "option_type \<Rightarrow> string" where
  "option_type_value CALL = ''call''"
| "option_type_value PUT = ''put''"

definition option_type_of :: "string \<Rightarrow> option_type result" where
  "option_type_of s =
     (if s = ''call'' then Inr CALL else if s = ''put'' then Inr PUT
      else raise ValueError ''not a valid OptionType'')"

record contract_spec =
  contract_size :: "pyfloat option"
  linear :: "bool option"
  inverse :: "bool option"
  expiry_ms :: "int option"
  strike :: "pyfloat option"
  option_type :: "option_type option"

definition not_positive :: "pyfloat \<Rightarrow> bool" where
  "not_positive f = (\<not> isfinite f \<or> fle f (Fin 0))"

text \<open>\<open>value is not None and P(value)\<close>\<close>

fun some_bad :: "('a \<Rightarrow> bool) \<Rightarrow> 'a option \<Rightarrow> bool" where
  "some_bad P None = False"
| "some_bad P (Some x) = P x"

definition mk_contract_spec :: "contract_spec \<Rightarrow> contract_spec result" where
  "mk_contract_spec c =
     rbind (require (\<not> some_bad not_positive (contract_size c)) ValueError
              ''contract_size must be finite and positive'') (\<lambda>_.
     rbind (require (\<not> (linear c = Some True \<and> inverse c = Some True)) ValueError
              ''a contract cannot be both linear and inverse'') (\<lambda>_.
     rbind (case expiry_ms c of None \<Rightarrow> Inr () | Some n \<Rightarrow> unix_ms n ''expiry_ms'') (\<lambda>_.
     rbind (require (\<not> some_bad not_positive (strike c)) ValueError
              ''strike must be finite and positive'') (\<lambda>_. Inr c))))"

record instrument =
  symbol :: string
  venue :: string
  timezone :: string
  session :: string
  volume_unit :: string
  asset_class :: asset_class
  market_type :: market_type
  base :: string
  quote :: string
  settle :: string
  provider_id :: string
  contract :: "contract_spec option"

text \<open>The dataclass defaults; \<open>instrument_of name\<close> is \<open>Instrument(name)\<close> before its checks.\<close>

definition instrument_of :: "string \<Rightarrow> instrument" where
  "instrument_of name =
     \<lparr>symbol = name, venue = [], timezone = ''UTC'', session = ''24x7'', volume_unit = ''base'',
      asset_class = AC_UNKNOWN, market_type = MT_UNKNOWN, base = [], quote = [], settle = [],
      provider_id = [], contract = None\<rparr>"

definition mk_instrument :: "instrument \<Rightarrow> instrument result" where
  "mk_instrument i =
     rbind (non_empty (symbol i) ''symbol'') (\<lambda>_.
     rbind (non_empty (timezone i) ''timezone'') (\<lambda>_.
     rbind (non_empty (session i) ''session'') (\<lambda>_.
     rbind (non_empty (volume_unit i) ''volume_unit'') (\<lambda>_.
     rbind (optional_text (venue i) ''venue'') (\<lambda>_.
     rbind (optional_text (base i) ''base'') (\<lambda>_.
     rbind (optional_text (quote i) ''quote'') (\<lambda>_.
     rbind (optional_text (settle i) ''settle'') (\<lambda>_.
     rbind (optional_text (provider_id i) ''provider_id'') (\<lambda>_. Inr i)))))))))"

definition instrument_ok :: "instrument \<Rightarrow> bool" where
  "instrument_ok i =
     (\<not> blank (symbol i) \<and> \<not> blank (timezone i) \<and> \<not> blank (session i) \<and> \<not> blank (volume_unit i) \<and>
      text_ok (venue i) \<and> text_ok (base i) \<and> text_ok (quote i) \<and> text_ok (settle i) \<and>
      text_ok (provider_id i))"

lemma mk_instrument_iff: "(mk_instrument i = Inr j) = (j = i \<and> instrument_ok i)"
  by (auto simp: mk_instrument_def instrument_ok_def result_simps)

record market_listing =
  ml_instrument :: instrument
  active :: "bool option"
  margin_supported :: "bool option"

text \<open>\<open>MarketListing(instrument)\<close>, with the two optional flags at their default.\<close>

definition listing_of :: "instrument \<Rightarrow> market_listing" where
  "listing_of i = \<lparr>ml_instrument = i, active = None, margin_supported = None\<rparr>"

section \<open>Bars\<close>

record bar =
  bar_instrument :: instrument
  bar_ms :: int
  bar_open :: pyfloat
  bar_high :: pyfloat
  bar_low :: pyfloat
  bar_close :: pyfloat
  bar_volume :: pyfloat
  bar_source :: string

definition mk_bar :: "bar \<Rightarrow> bar result" where
  "mk_bar b =
     rbind (unix_ms (bar_ms b) ''timestamp_ms'') (\<lambda>_.
     rbind (non_empty (bar_source b) ''source'') (\<lambda>_.
     rbind (first_raise
       [(\<not> list_all (\<lambda>v. isfinite v \<and> flt (Fin 0) v) [bar_open b, bar_high b, bar_low b, bar_close b],
           ValueError, ''OHLC prices must be finite and positive''),
        (flt (bar_high b) (fmax (fmax (bar_open b) (bar_close b)) (bar_low b)),
           ValueError, ''high must be greater than or equal to OHLC values''),
        (flt (fmin (fmin (bar_open b) (bar_close b)) (bar_high b)) (bar_low b),
           ValueError, ''low must be less than or equal to OHLC values''),
        (\<not> isfinite (bar_volume b) \<or> flt (bar_volume b) (Fin 0),
           ValueError, ''volume must be finite and non-negative'')]) (\<lambda>_. Inr b)))"

text \<open>What a bar is: a candle whose body lies between its finite, positive extremes.\<close>

definition bar_ok :: "bar \<Rightarrow> bool" where
  "bar_ok b =
     (ms_ok (bar_ms b) \<and> \<not> blank (bar_source b) \<and>
      (\<exists>op hi lo cl vol. bar_open b = Fin op \<and> bar_high b = Fin hi \<and> bar_low b = Fin lo \<and>
         bar_close b = Fin cl \<and> bar_volume b = Fin vol \<and>
         0 < lo \<and> lo \<le> op \<and> op \<le> hi \<and> lo \<le> cl \<and> cl \<le> hi \<and> 0 \<le> vol))"

lemma mk_bar_iff: "(mk_bar b = Inr c) = (c = b \<and> bar_ok b)"
proof -
  have "(mk_bar b = Inr b) = bar_ok b"
    by (cases "bar_open b"; cases "bar_high b"; cases "bar_low b"; cases "bar_close b";
        cases "bar_volume b")
      (auto simp: mk_bar_def bar_ok_def result_simps fmax_def fmin_def)
  moreover have "mk_bar b = Inr c \<Longrightarrow> c = b"
    by (auto simp: mk_bar_def result_simps)
  ultimately show ?thesis by auto
qed

section \<open>Trades and macro observations\<close>

record trade_tick =
  tick_instrument :: instrument
  tick_ms :: int
  tick_seq :: int
  tick_price :: pyfloat
  tick_qty :: pyfloat
  tick_source :: string

definition mk_trade_tick :: "trade_tick \<Rightarrow> trade_tick result" where
  "mk_trade_tick t =
     rbind (unix_ms (tick_ms t) ''timestamp_ms'') (\<lambda>_.
     rbind (non_negative (tick_seq t) ''sequence'') (\<lambda>_.
     rbind (require (\<not> tick_seq t > 2 ^ 64 - 1) ValueError
              ''sequence must fit an unsigned 64-bit integer'') (\<lambda>_.
     rbind (non_empty (tick_source t) ''source'') (\<lambda>_.
     rbind (first_raise
       [(\<not> isfinite (tick_price t) \<or> fle (tick_price t) (Fin 0), ValueError,
           ''price must be finite and positive''),
        (\<not> isfinite (tick_qty t) \<or> flt (tick_qty t) (Fin 0), ValueError,
           ''quantity must be finite and non-negative'')]) (\<lambda>_. Inr t)))))"

definition tick_ok :: "trade_tick \<Rightarrow> bool" where
  "tick_ok t =
     (ms_ok (tick_ms t) \<and> 0 \<le> tick_seq t \<and> tick_seq t < 2 ^ 64 \<and> \<not> blank (tick_source t) \<and>
      (\<exists>p q. tick_price t = Fin p \<and> 0 < p \<and> tick_qty t = Fin q \<and> 0 \<le> q))"

lemma mk_trade_tick_iff: "(mk_trade_tick t = Inr u) = (u = t \<and> tick_ok t)"
  by (auto simp: mk_trade_tick_def tick_ok_def result_simps isfinite_iff)

record macro_observation =
  mo_key :: string
  mo_currency :: string
  period_end_ms :: int
  released_at_ms :: int
  vintage_at_ms :: int
  mo_value :: pyfloat
  mo_unit :: string
  mo_source :: string

definition mk_macro_observation :: "macro_observation \<Rightarrow> macro_observation result" where
  "mk_macro_observation m =
     rbind (non_empty (mo_key m) ''key'') (\<lambda>_.
     rbind (non_empty (mo_currency m) ''currency'') (\<lambda>_.
     rbind (non_empty (mo_unit m) ''unit'') (\<lambda>_.
     rbind (non_empty (mo_source m) ''source'') (\<lambda>_.
     rbind (unix_ms (period_end_ms m) ''period_end_ms'') (\<lambda>_.
     rbind (unix_ms (released_at_ms m) ''released_at_ms'') (\<lambda>_.
     rbind (unix_ms (vintage_at_ms m) ''vintage_at_ms'') (\<lambda>_.
     rbind (first_raise
       [(released_at_ms m < period_end_ms m, ValueError,
           ''released_at_ms must not precede period_end_ms''),
        (vintage_at_ms m < released_at_ms m, ValueError,
           ''vintage_at_ms must not precede released_at_ms''),
        (\<not> isfinite (mo_value m), ValueError, ''value must be finite'')]) (\<lambda>_. Inr m))))))))"

definition macro_ok :: "macro_observation \<Rightarrow> bool" where
  "macro_ok m =
     (\<not> blank (mo_key m) \<and> \<not> blank (mo_currency m) \<and> \<not> blank (mo_unit m) \<and> \<not> blank (mo_source m) \<and>
      0 \<le> period_end_ms m \<and> period_end_ms m \<le> released_at_ms m \<and>
      released_at_ms m \<le> vintage_at_ms m \<and> vintage_at_ms m < 2 ^ 63 \<and> isfinite (mo_value m))"

lemma mk_macro_observation_iff: "(mk_macro_observation m = Inr n) = (n = m \<and> macro_ok m)"
  by (auto simp: mk_macro_observation_def macro_ok_def result_simps ms_ok_def)

definition contract_ok :: "contract_spec \<Rightarrow> bool" where
  "contract_ok c =
     ((\<forall>f. contract_size c = Some f \<longrightarrow> (\<exists>x. f = Fin x \<and> 0 < x)) \<and>
      \<not> (linear c = Some True \<and> inverse c = Some True) \<and>
      (\<forall>n. expiry_ms c = Some n \<longrightarrow> ms_ok n) \<and>
      (\<forall>f. strike c = Some f \<longrightarrow> (\<exists>x. f = Fin x \<and> 0 < x)))"

lemma not_positive_iff: "(\<not> not_positive f) = (\<exists>x. f = Fin x \<and> 0 < x)"
  by (cases f) (auto simp: not_positive_def)

lemma mk_contract_spec_iff: "(mk_contract_spec c = Inr d) = (d = c \<and> contract_ok c)"
  using not_positive_iff
  by (cases "contract_size c"; cases "expiry_ms c"; cases "strike c")
    (auto simp: mk_contract_spec_def contract_ok_def result_simps)

text \<open>
  The record constructors accept exactly the well-formed values, and return them unchanged:
  an accepted bar has finite positive prices with \<open>low \<le> open, close \<le> high\<close>, a non-negative
  volume and a timestamp of a signed 64-bit integer; an accepted tick has a positive price and
  fits the unsigned 64-bit sequence; an accepted macro observation is released no earlier than
  its period ends and dated no earlier than its release; a contract is never both linear and
  inverse.
\<close>

theorem constructors_decide_wellformedness:
  "(mk_bar b = Inr b' \<longleftrightarrow> b' = b \<and> bar_ok b) \<and>
   (mk_trade_tick t = Inr t' \<longleftrightarrow> t' = t \<and> tick_ok t) \<and>
   (mk_macro_observation m = Inr m' \<longleftrightarrow> m' = m \<and> macro_ok m) \<and>
   (mk_instrument i = Inr i' \<longleftrightarrow> i' = i \<and> instrument_ok i) \<and>
   (mk_contract_spec c = Inr c' \<longleftrightarrow> c' = c \<and> contract_ok c)"
  by (intro conjI mk_bar_iff mk_trade_tick_iff mk_macro_observation_iff mk_instrument_iff
      mk_contract_spec_iff)

end
