(* ===== verification/Requests.thy ===== *)
theory Requests
  imports Models
begin

text \<open>
  \<open>src/pineforge_data/requests.py\<close>: catalog queries and the validated request objects, and the
  contract of a historical bar provider (\<open>providers/base.py\<close>) as a locale.
\<close>

section \<open>Catalog queries\<close>

text \<open>A \<open>frozenset\<close> of market types is a set; the empty set means no filter.\<close>

record market_query =
  q_asset_class :: "asset_class option"
  q_market_types :: "market_type set"
  q_base :: string
  q_quote :: string
  q_settle :: string
  q_active :: "bool option"
  q_margin :: "bool option"
  q_linear :: "bool option"
  q_inverse :: "bool option"

definition any_market :: market_query where
  "any_market =
     \<lparr>q_asset_class = None, q_market_types = {}, q_base = [], q_quote = [], q_settle = [],
      q_active = None, q_margin = None, q_linear = None, q_inverse = None\<rparr>"

text \<open>\<open>MarketQuery.matches\<close>\<close>

definition matches :: "market_query \<Rightarrow> market_listing \<Rightarrow> bool" where
  "matches q l =
     (let i = ml_instrument l; c = contract i in
      (q_asset_class q = None \<or> Some (asset_class i) = q_asset_class q) \<and>
      (q_market_types q = {} \<or> market_type i \<in> q_market_types q) \<and>
      (q_base q = [] \<or> casefold (base i) = casefold (q_base q)) \<and>
      (q_quote q = [] \<or> casefold (quote i) = casefold (q_quote q)) \<and>
      (q_settle q = [] \<or> casefold (settle i) = casefold (q_settle q)) \<and>
      (q_active q = None \<or> active l = q_active q) \<and>
      (q_margin q = None \<or> margin_supported l = q_margin q) \<and>
      (q_linear q = None \<or> (case c of None \<Rightarrow> False | Some s \<Rightarrow> linear s = q_linear q)) \<and>
      (q_inverse q = None \<or> (case c of None \<Rightarrow> False | Some s \<Rightarrow> inverse s = q_inverse q)))"

text \<open>\<open>q\<close> asks for no more than \<open>p\<close>: each of its filters is absent or implied by that of \<open>p\<close>.\<close>

definition asks_less :: "market_query \<Rightarrow> market_query \<Rightarrow> bool" where
  "asks_less q p =
     ((q_asset_class q = None \<or> q_asset_class q = q_asset_class p) \<and>
      (q_market_types q = {} \<or> (q_market_types p \<noteq> {} \<and> q_market_types p \<subseteq> q_market_types q)) \<and>
      (q_base q = [] \<or> (q_base p \<noteq> [] \<and> casefold (q_base q) = casefold (q_base p))) \<and>
      (q_quote q = [] \<or> (q_quote p \<noteq> [] \<and> casefold (q_quote q) = casefold (q_quote p))) \<and>
      (q_settle q = [] \<or> (q_settle p \<noteq> [] \<and> casefold (q_settle q) = casefold (q_settle p))) \<and>
      (q_active q = None \<or> q_active q = q_active p) \<and>
      (q_margin q = None \<or> q_margin q = q_margin p) \<and>
      (q_linear q = None \<or> q_linear q = q_linear p) \<and>
      (q_inverse q = None \<or> q_inverse q = q_inverse p))"

lemma matches_any [simp]: "matches any_market l"
  by (simp add: matches_def any_market_def)

lemma filter_weaken:
  "y = None \<or> R y \<Longrightarrow> x = None \<or> x = y \<Longrightarrow> x = None \<or> R x"
  by auto

lemma text_filter_weaken:
  "p = [] \<or> casefold t = casefold p \<Longrightarrow> q = [] \<or> p \<noteq> [] \<and> casefold q = casefold p \<Longrightarrow>
   q = [] \<or> casefold t = casefold q"
  by auto

lemma set_filter_weaken:
  "P = {} \<or> t \<in> P \<Longrightarrow> Q = {} \<or> P \<noteq> {} \<and> P \<subseteq> Q \<Longrightarrow> Q = {} \<or> t \<in> Q"
  by auto

lemma matches_asks_less: "asks_less q p \<Longrightarrow> matches p l \<Longrightarrow> matches q l"
  unfolding matches_def asks_less_def Let_def
  apply (elim conjE)
  apply (intro conjI)
  subgoal by (rule filter_weaken [where R = "\<lambda>v. Some (asset_class (ml_instrument l)) = v"])
  subgoal by (rule set_filter_weaken)
  subgoal by (rule text_filter_weaken [where p = "q_base p"])
  subgoal by (rule text_filter_weaken [where p = "q_quote p"])
  subgoal by (rule text_filter_weaken [where p = "q_settle p"])
  subgoal by (rule filter_weaken [where R = "\<lambda>v. active l = v"])
  subgoal by (rule filter_weaken [where R = "\<lambda>v. margin_supported l = v"])
  subgoal by (rule filter_weaken [where R = "\<lambda>v. case contract (ml_instrument l) of None \<Rightarrow> False
      | Some s \<Rightarrow> linear s = v"])
  subgoal by (rule filter_weaken [where R = "\<lambda>v. case contract (ml_instrument l) of None \<Rightarrow> False
      | Some s \<Rightarrow> inverse s = v"])
  done

section \<open>Requests\<close>

record bar_request =
  br_instrument :: instrument
  br_timeframe :: string
  start_ms :: int
  end_ms :: int
  br_limit :: "int option"

definition mk_bar_request :: "bar_request \<Rightarrow> bar_request result" where
  "mk_bar_request r =
     rbind (first_raise
       [(blank (br_timeframe r), ValueError, ''timeframe must not be empty''),
        (start_ms r < 0 \<or> end_ms r \<le> start_ms r, ValueError,
           ''bar request requires 0 <= start_ms < end_ms''),
        (some_bad (\<lambda>n. n \<le> 0) (br_limit r), ValueError, ''limit must be positive'')])
       (\<lambda>_. Inr r)"

definition bar_request_ok :: "bar_request \<Rightarrow> bool" where
  "bar_request_ok r =
     (\<not> blank (br_timeframe r) \<and> 0 \<le> start_ms r \<and> start_ms r < end_ms r \<and>
      (\<forall>n. br_limit r = Some n \<longrightarrow> 0 < n))"

lemma mk_bar_request_iff: "(mk_bar_request r = Inr q) = (q = r \<and> bar_request_ok r)"
  by (cases "br_limit r") (auto simp: mk_bar_request_def bar_request_ok_def result_simps)

record trade_subscription =
  ts_instrument :: instrument
  ts_start_ms :: "int option"
  start_sequence :: int

definition mk_trade_subscription :: "trade_subscription \<Rightarrow> trade_subscription result" where
  "mk_trade_subscription s =
     rbind (first_raise
       [(some_bad (\<lambda>n. n < 0) (ts_start_ms s), ValueError, ''start_ms must be non-negative''),
        (start_sequence s < 0, ValueError, ''start_sequence must be non-negative'')])
       (\<lambda>_. Inr s)"

record macro_request =
  mr_key :: string
  mr_currency :: string
  mr_start_ms :: int
  mr_end_ms :: int

definition mk_macro_request :: "macro_request \<Rightarrow> macro_request result" where
  "mk_macro_request r =
     rbind (first_raise
       [(blank (mr_key r) \<or> blank (mr_currency r), ValueError, ''key and currency must not be empty''),
        (mr_start_ms r < 0 \<or> mr_end_ms r \<le> mr_start_ms r, ValueError,
           ''macro request requires 0 <= start_ms < end_ms'')])
       (\<lambda>_. Inr r)"

text \<open>\<open>bars if request.limit is None else bars[: request.limit]\<close>\<close>

definition limited :: "int option \<Rightarrow> 'a list \<Rightarrow> 'a list" where
  "limited n_max xs = (case n_max of None \<Rightarrow> xs | Some n \<Rightarrow> take (nat n) xs)"

lemma set_limited: "set (limited n_max xs) \<subseteq> set xs"
  by (auto simp: limited_def dest: in_set_takeD split: option.splits)

lemma strict_limited: "sorted_wrt (<) (map k xs) \<Longrightarrow> sorted_wrt (<) (map (k :: 'a \<Rightarrow> int) (limited n_max xs))"
  by (auto simp: limited_def take_map [symmetric] strict_take split: option.splits)

lemma limited_length: "limited n xs = ys \<Longrightarrow> n = Some k \<Longrightarrow> int (length ys) \<le> max 0 k"
  by (auto simp: limited_def)

section \<open>What a historical bar provider promises\<close>

text \<open>
  \<open>HistoricalBarProvider.fetch_bars\<close>: on success the bars are well formed, belong to the
  requested instrument, lie in \<open>[start, end)\<close>, increase strictly in time and respect the limit.
\<close>

definition serves :: "bar_request \<Rightarrow> bar list \<Rightarrow> bool" where
  "serves r bs =
     (sorted_wrt (<) (map bar_ms bs) \<and>
      (\<forall>b \<in> set bs. bar_ok b \<and> bar_instrument b = br_instrument r \<and>
         start_ms r \<le> bar_ms b \<and> bar_ms b < end_ms r) \<and>
      (\<forall>n. br_limit r = Some n \<longrightarrow> int (length bs) \<le> max 0 n))"

locale historical_bars =
  fixes fetch :: "bar_request \<Rightarrow> bar list result"
  assumes fetch_serves: "fetch r = Inr bs \<Longrightarrow> serves r bs"
begin

lemma fetch_increasing: "fetch r = Inr bs \<Longrightarrow> strictly_increasing bar_ms bs"
  using fetch_serves [of r bs] by (simp add: serves_def strictly_increasing_iff)

lemma fetch_one_instrument:
  "fetch r = Inr bs \<Longrightarrow> b \<in> set bs \<Longrightarrow> bar_instrument b = br_instrument r"
  using fetch_serves [of r bs] by (simp add: serves_def)

lemma fetch_bar_ok: "fetch r = Inr bs \<Longrightarrow> b \<in> set bs \<Longrightarrow> bar_ok b"
  using fetch_serves [of r bs] by (simp add: serves_def)

lemma fetch_in_range:
  "fetch r = Inr bs \<Longrightarrow> b \<in> set bs \<Longrightarrow> start_ms r \<le> bar_ms b \<and> bar_ms b < end_ms r"
  using fetch_serves [of r bs] by (simp add: serves_def)

end

end
