(* ===== verification/CLayout.thy ===== *)
theory CLayout
  imports Requests "HOL-Library.Word"
begin

text \<open>
  The part of \<open>ctypes\<close> the package relies on: the layout of a \<open>Structure\<close> on the supported
  64-bit platforms (each field at the next multiple of its alignment, the whole padded to the
  largest alignment), the conversion of Python integers to C integers, which keeps the low bits,
  and the UTF-8 bytes of a \<open>str\<close> argument.
\<close>

section \<open>Types and layout\<close>

datatype ctype =
    C_double | C_int | C_int32 | C_int64 | C_uint64 | C_pointer
  | C_struct "(string \<times> ctype) list"

definition round_up :: "nat \<Rightarrow> nat \<Rightarrow> nat" where
  "round_up n a = (n + a - 1) div a * a"

text \<open>The offsets of fields given as (size, alignment), from offset \<open>n\<close> on, and the end.\<close>

fun place :: "nat \<Rightarrow> (nat \<times> nat) list \<Rightarrow> nat list" where
  "place n [] = []"
| "place n ((s, a) # fs) = round_up n a # place (round_up n a + s) fs"

fun place_end :: "nat \<Rightarrow> (nat \<times> nat) list \<Rightarrow> nat" where
  "place_end n [] = n"
| "place_end n ((s, a) # fs) = place_end (round_up n a + s) fs"

definition struct_align :: "(nat \<times> nat) list \<Rightarrow> nat" where
  "struct_align fs = foldr (\<lambda>f m. max (snd f) m) fs 1"

definition struct_size :: "(nat \<times> nat) list \<Rightarrow> nat" where
  "struct_size fs = round_up (place_end 0 fs) (struct_align fs)"

fun extent :: "ctype \<Rightarrow> nat \<times> nat" where
  "extent C_double = (8, 8)"
| "extent C_int = (4, 4)"
| "extent C_int32 = (4, 4)"
| "extent C_int64 = (8, 8)"
| "extent C_uint64 = (8, 8)"
| "extent C_pointer = (8, 8)"
| "extent (C_struct fs) =
     (let es = map (\<lambda>f. extent (snd f)) fs in (struct_size es, struct_align es))"

definition sizeof :: "ctype \<Rightarrow> nat" where
  "sizeof t = fst (extent t)"

fun offset_of :: "ctype \<Rightarrow> string \<Rightarrow> nat option" where
  "offset_of (C_struct fs) f = map_of (zip (map fst fs) (place 0 (map (\<lambda>f. extent (snd f)) fs))) f"
| "offset_of _ f = None"

lemma round_up_ge: "0 < a \<Longrightarrow> n \<le> round_up n a"
proof -
  assume "0 < a"
  have "(n + a - 1) = (n + a - 1) div a * a + (n + a - 1) mod a" by simp
  moreover have "(n + a - 1) mod a \<le> a - 1" using \<open>0 < a\<close> mod_less_divisor [of a "n + a - 1"] by linarith
  ultimately show ?thesis unfolding round_up_def using \<open>0 < a\<close> by linarith
qed

lemma round_up_dvd [simp]: "a dvd round_up n a"
  by (simp add: round_up_def)

lemma place_length [simp]: "length (place n fs) = length fs"
  by (induction n fs rule: place.induct) auto

lemma place_ge: "\<forall>f \<in> set fs. 0 < snd f \<Longrightarrow> i < length fs \<Longrightarrow> n \<le> place n fs ! i"
proof (induction n fs arbitrary: i rule: place.induct)
  case (2 n s a fs)
  have "n \<le> round_up n a" using "2.prems"(1) by (intro round_up_ge) simp
  then show ?case using 2 by (cases i) fastforce+
qed simp

lemma place_in_end:
  "\<forall>f \<in> set fs. 0 < snd f \<Longrightarrow> i < length fs \<Longrightarrow> place n fs ! i + fst (fs ! i) \<le> place_end n fs"
proof (induction n fs arbitrary: i rule: place.induct)
  case (2 n s a fs)
  have "round_up n a + s \<le> place_end (round_up n a + s) fs" if "\<forall>f \<in> set fs. 0 < snd f"
    using that
  proof (induction "round_up n a + s" fs arbitrary: n a s rule: place_end.induct)
    case (2 s' a' fs)
    have "round_up n a + s \<le> round_up (round_up n a + s) a'"
      using "2.prems" by (intro round_up_ge) simp
    then show ?case using "2.hyps" [OF refl] "2.prems" by fastforce
  qed simp
  then show ?case using 2 by (cases i) auto
qed simp

text \<open>Fields do not overlap, are aligned, and lie inside the structure.\<close>

lemma place_separate:
  "\<forall>f \<in> set fs. 0 < snd f \<Longrightarrow> i < j \<Longrightarrow> j < length fs \<Longrightarrow>
   place n fs ! i + fst (fs ! i) \<le> place n fs ! j"
proof (induction n fs arbitrary: i j rule: place.induct)
  case (2 n s a fs)
  obtain k where k: "j = Suc k" using "2.prems"(2) by (cases j) auto
  show ?case
  proof (cases i)
    case 0
    then show ?thesis using k "2.prems" place_ge [of fs k "round_up n a + s"] by simp
  next
    case (Suc m)
    then show ?thesis using k 2 by simp
  qed
qed simp

lemma place_aligned: "i < length fs \<Longrightarrow> snd (fs ! i) dvd place n fs ! i"
  by (induction n fs arbitrary: i rule: place.induct) (auto simp: nth_Cons split: nat.splits)

section \<open>C integers\<close>

text \<open>
  \<open>ctypes\<close> converts a Python integer to \<open>c_int64\<close>, \<open>c_uint64\<close> or \<open>c_int\<close> by keeping its low
  bits; reading the field back gives the signed or unsigned value.
\<close>

definition c_int64 :: "int \<Rightarrow> 64 word" where "c_int64 n = word_of_int n"
definition c_uint64 :: "int \<Rightarrow> 64 word" where "c_uint64 n = word_of_int n"
definition c_int :: "int \<Rightarrow> 32 word" where "c_int n = word_of_int n"

lemma sint_c_int64 [simp]: "- (2 ^ 63) \<le> n \<Longrightarrow> n < 2 ^ 63 \<Longrightarrow> sint (c_int64 n) = n"
  unfolding c_int64_def by (simp add: sint_sbintrunc' signed_take_bit_int_eq_self_iff)

lemma uint_c_uint64 [simp]: "0 \<le> n \<Longrightarrow> n < 2 ^ 64 \<Longrightarrow> uint (c_uint64 n) = n"
  unfolding c_uint64_def by (simp add: uint_word_of_int)

lemma sint_c_int [simp]: "- (2 ^ 31) \<le> n \<Longrightarrow> n < 2 ^ 31 \<Longrightarrow> sint (c_int n) = n"
  unfolding c_int_def by (simp add: sint_sbintrunc' signed_take_bit_int_eq_self_iff)

text \<open>\<open>value.encode()\<close>: the bytes, each as the character of its value.\<close>

definition utf8_char :: "char \<Rightarrow> string" where
  "utf8_char c =
     (let n = code c in
      if n < 128 then [c] else [char_of (192 + n div 64), char_of (128 + n mod 64)])"

definition encode :: "string \<Rightarrow> string" where
  "encode s = concat (map utf8_char s)"

lemma encode_Nil_iff [simp]: "(encode s = []) = (s = [])"
  by (cases s) (auto simp: encode_def utf8_char_def Let_def)

end
