(* ===== verification/Engine.thy ===== *)
theory Engine
  imports CLayout
begin

text \<open>
  \<open>src/pineforge_data/engine.py\<close>: packing of bars and trades into the engine's C structures and
  the streaming sink over the functions of a loaded strategy library.  The library is a
  parameter: a record of its functions on a state \<open>'l\<close> of its own.
\<close>

section \<open>The ABI structures\<close>

definition PfBar_type :: ctype where
  "PfBar_type = C_struct
     [(''open'', C_double), (''high'', C_double), (''low'', C_double), (''close'', C_double),
      (''volume'', C_double), (''timestamp'', C_int64)]"

definition PfTradeTick_type :: ctype where
  "PfTradeTick_type = C_struct
     [(''timestamp'', C_int64), (''sequence'', C_uint64), (''price'', C_double),
      (''quantity'', C_double)]"

text \<open>The guard at the end of the module.\<close>

definition engine_layout_guard :: "unit result" where
  "engine_layout_guard =
     require (\<not> (sizeof PfBar_type \<noteq> 48 \<or> sizeof PfTradeTick_type \<noteq> 32)) RuntimeError
       ''unsupported platform ABI layout for PineForge streaming records''"

record pf_bar =
  pf_open :: pyfloat
  pf_high :: pyfloat
  pf_low :: pyfloat
  pf_close :: pyfloat
  pf_volume :: pyfloat
  pf_timestamp :: "64 word"

record pf_trade_tick =
  pt_timestamp :: "64 word"
  pt_sequence :: "64 word"
  pt_price :: pyfloat
  pt_quantity :: pyfloat

section \<open>Packing\<close>

text \<open>An \<open>Instrument\<close> is always truthy, so \<open>expected or records[0].instrument\<close> is a default.\<close>

definition require_instrument :: "('r \<Rightarrow> instrument) \<Rightarrow> 'r list \<Rightarrow> instrument option \<Rightarrow> unit result" where
  "require_instrument of_record records expected =
     (case records of
        [] \<Rightarrow> Inr ()
      | r # _ \<Rightarrow>
          (let reference = (case expected of Some i \<Rightarrow> i | None \<Rightarrow> of_record r) in
           require (\<not> (\<exists>r \<in> set records. of_record r \<noteq> reference)) ValueError
             ''all records must belong to the expected instrument''))"

definition pack_bar :: "bar \<Rightarrow> pf_bar" where
  "pack_bar b =
     \<lparr>pf_open = bar_open b, pf_high = bar_high b, pf_low = bar_low b, pf_close = bar_close b,
      pf_volume = bar_volume b, pf_timestamp = c_int64 (bar_ms b)\<rparr>"

definition pack_tick :: "trade_tick \<Rightarrow> pf_trade_tick" where
  "pack_tick t =
     \<lparr>pt_timestamp = c_int64 (tick_ms t), pt_sequence = c_uint64 (tick_seq t),
      pt_price = tick_price t, pt_quantity = tick_qty t\<rparr>"

definition pack_bars :: "bar list \<Rightarrow> instrument option \<Rightarrow> pf_bar list result" where
  "pack_bars bars i = rbind (require_instrument bar_instrument bars i) (\<lambda>_. Inr (map pack_bar bars))"

definition pack_trade_ticks :: "trade_tick list \<Rightarrow> instrument option \<Rightarrow> pf_trade_tick list result" where
  "pack_trade_ticks ticks i =
     rbind (require_instrument tick_instrument ticks i) (\<lambda>_. Inr (map pack_tick ticks))"

text \<open>What the engine reads from the structures, for a known instrument and source.\<close>

definition unpack_bar :: "instrument \<Rightarrow> string \<Rightarrow> pf_bar \<Rightarrow> bar" where
  "unpack_bar i src p =
     \<lparr>bar_instrument = i, bar_ms = sint (pf_timestamp p), bar_open = pf_open p, bar_high = pf_high p,
      bar_low = pf_low p, bar_close = pf_close p, bar_volume = pf_volume p, bar_source = src\<rparr>"

definition unpack_tick :: "instrument \<Rightarrow> string \<Rightarrow> pf_trade_tick \<Rightarrow> trade_tick" where
  "unpack_tick i src p =
     \<lparr>tick_instrument = i, tick_ms = sint (pt_timestamp p), tick_seq = uint (pt_sequence p),
      tick_price = pt_price p, tick_qty = pt_quantity p, tick_source = src\<rparr>"

lemma require_instrument_returns [simp]:
  "(require_instrument f rs (Some i) = Inr u) = (\<forall>r \<in> set rs. f r = i)"
  "(require_instrument f rs None = Inr u) = (\<forall>r \<in> set rs. f r = f (hd rs))"
  by (cases rs; auto simp: require_instrument_def)+

lemma unpack_pack_bar: "bar_ok b \<Longrightarrow> unpack_bar (bar_instrument b) (bar_source b) (pack_bar b) = b"
  by (auto simp: unpack_bar_def pack_bar_def bar_ok_def ms_ok_def)

lemma unpack_pack_tick: "tick_ok t \<Longrightarrow> unpack_tick (tick_instrument t) (tick_source t) (pack_tick t) = t"
  by (auto simp: unpack_tick_def pack_tick_def tick_ok_def ms_ok_def)

section \<open>The streaming sink\<close>

text \<open>
  The streaming functions of the library.  A status is a C \<open>int\<close>; \<open>last_error\<close> gives the text
  of the pending error, if any.
\<close>

record 'l stream_lib =
  lib_symbols :: "string list"
  stream_begin :: "int \<Rightarrow> pf_bar list \<Rightarrow> 32 word \<Rightarrow> string \<Rightarrow> string \<Rightarrow> 'l \<Rightarrow> 32 word \<times> 'l"
  stream_push_tick :: "int \<Rightarrow> pf_trade_tick \<Rightarrow> 'l \<Rightarrow> 32 word \<times> 'l"
  stream_push_ticks :: "int \<Rightarrow> pf_trade_tick list \<Rightarrow> 32 word \<Rightarrow> 'l \<Rightarrow> 32 word \<times> 'l"
  stream_advance_time :: "int \<Rightarrow> 64 word \<Rightarrow> 'l \<Rightarrow> 32 word \<times> 'l"
  stream_end :: "int \<Rightarrow> 32 word \<Rightarrow> 'l \<Rightarrow> 32 word \<times> 'l"
  stream_last_error :: "int \<Rightarrow> 'l \<Rightarrow> string option \<times> 'l"

record 'l sink =
  sink_library :: "'l stream_lib"
  sink_state :: int
  sink_instrument :: instrument

text \<open>
  \<open>_configure_signatures\<close> looks every function up, which raises \<open>AttributeError\<close> where the
  library lacks it; the C types it declares are those of \<open>stream_lib\<close>.
\<close>

definition stream_symbols :: "string list" where
  "stream_symbols =
     [''strategy_get_last_error'', ''strategy_stream_begin'', ''strategy_stream_push_tick'',
      ''strategy_stream_push_ticks'', ''strategy_stream_advance_time'', ''strategy_stream_end'']"

definition configure_signatures :: "string list \<Rightarrow> unit result" where
  "configure_signatures present =
     first_raise (map (\<lambda>s. (s \<notin> set present, AttributeError, s)) stream_symbols)"

definition mk_sink :: "'l stream_lib \<Rightarrow> int \<Rightarrow> instrument \<Rightarrow> 'l sink result" where
  "mk_sink lib state i =
     rbind (require (state \<noteq> 0) ValueError ''state must be a non-null PineForge strategy handle'') (\<lambda>_.
     rbind (configure_signatures (lib_symbols lib)) (\<lambda>_.
     Inr \<lparr>sink_library = lib, sink_state = state, sink_instrument = i\<rparr>))"

text \<open>\<open>_check\<close>: a non-zero status fetches the error text and raises.\<close>

definition check_status :: "'l sink \<Rightarrow> string \<Rightarrow> 32 word \<times> 'l \<Rightarrow> unit result \<times> 'l" where
  "check_status s operation r =
     (case r of (status, l) \<Rightarrow>
        if status = 0 then (Inr (), l)
        else (case stream_last_error (sink_library s) (sink_state s) l of (raw, l') \<Rightarrow>
                (raise EngineStreamError
                   (operation @ '': '' @
                    (case raw of None \<Rightarrow> ''unknown engine error''
                     | Some t \<Rightarrow> if t = [] then ''unknown engine error'' else t)), l')))"

definition sink_begin :: "'l sink \<Rightarrow> bar list \<Rightarrow> string \<Rightarrow> string \<Rightarrow> 'l \<Rightarrow> unit result \<times> 'l" where
  "sink_begin s warmup_bars input_timeframe script_timeframe l =
     (if warmup_bars = [] then (raise ValueError ''warmup_bars must not be empty'', l)
      else if input_timeframe = [] \<or> script_timeframe = [] then
        (raise ValueError ''input_timeframe and script_timeframe must not be empty'', l)
      else (case pack_bars warmup_bars (Some (sink_instrument s)) of
              Inl e \<Rightarrow> (Inl e, l)
            | Inr packed \<Rightarrow>
                check_status s ''stream begin''
                  (stream_begin (sink_library s) (sink_state s) packed (c_int (int (length packed)))
                     (encode input_timeframe) (encode script_timeframe) l)))"

definition sink_push_tick :: "'l sink \<Rightarrow> trade_tick \<Rightarrow> 'l \<Rightarrow> unit result \<times> 'l" where
  "sink_push_tick s tick l =
     (if tick_instrument tick \<noteq> sink_instrument s then
        (raise ValueError ''tick does not belong to the sink instrument'', l)
      else check_status s ''stream tick''
             (stream_push_tick (sink_library s) (sink_state s) (pack_tick tick) l))"

definition sink_push_ticks :: "'l sink \<Rightarrow> trade_tick list \<Rightarrow> 'l \<Rightarrow> unit result \<times> 'l" where
  "sink_push_ticks s ticks l =
     (if ticks = [] then (Inr (), l)
      else (case pack_trade_ticks ticks (Some (sink_instrument s)) of
              Inl e \<Rightarrow> (Inl e, l)
            | Inr packed \<Rightarrow>
                check_status s ''stream ticks''
                  (stream_push_ticks (sink_library s) (sink_state s) packed
                     (c_int (int (length packed))) l)))"

definition sink_advance_time :: "'l sink \<Rightarrow> int \<Rightarrow> 'l \<Rightarrow> unit result \<times> 'l" where
  "sink_advance_time s timestamp_ms l =
     (if timestamp_ms < 0 then (raise ValueError ''timestamp_ms must be non-negative'', l)
      else check_status s ''stream advance''
             (stream_advance_time (sink_library s) (sink_state s) (c_int64 timestamp_ms) l))"

definition sink_end :: "'l sink \<Rightarrow> bool \<Rightarrow> 'l \<Rightarrow> unit result \<times> 'l" where
  "sink_end s finalize_partial_input_bar l =
     check_status s ''stream end''
       (stream_end (sink_library s) (sink_state s) (c_int (of_bool finalize_partial_input_bar)) l)"

lemma check_status_returns [simp]:
  "(fst (check_status s op r) = Inr u) = (fst r = 0)"
  by (cases r; cases "stream_last_error (sink_library s) (sink_state s) (snd r)")
    (auto simp: check_status_def)

lemma check_status_raises:
  "fst (check_status s op r) = Inl e \<Longrightarrow> exn_class e = EngineStreamError \<and> fst r \<noteq> 0"
  by (auto simp: check_status_def split: prod.splits if_splits)

text \<open>
  C27. Packing loses nothing: whatever bars or ticks the packers accept (valid records, all of the
  expected instrument), the engine reads back from the C structures exactly the records that went
  in, with signed 64-bit timestamps and unsigned 64-bit sequence numbers; and every record belongs
  to the expected instrument.
\<close>

theorem packing_roundtrip:
  assumes "\<forall>b \<in> set bars. bar_ok b \<and> bar_source b = src"
    and "\<forall>t \<in> set ticks. tick_ok t \<and> tick_source t = src"
    and "pack_bars bars (Some i) = Inr pbs" and "pack_trade_ticks ticks (Some i) = Inr pts"
  shows "map (unpack_bar i src) pbs = bars \<and> map (unpack_tick i src) pts = ticks \<and>
    (\<forall>b \<in> set bars. bar_instrument b = i) \<and> (\<forall>t \<in> set ticks. tick_instrument t = i)"
proof -
  have p: "pbs = map pack_bar bars" "\<forall>b \<in> set bars. bar_instrument b = i"
      "pts = map pack_tick ticks" "\<forall>t \<in> set ticks. tick_instrument t = i"
    using assms(3,4) by (auto simp: pack_bars_def pack_trade_ticks_def result_simps)
  have "unpack_bar i src (pack_bar b) = b" if "b \<in> set bars" for b
    using unpack_pack_bar [of b] assms(1) p(2) that by auto
  moreover have "unpack_tick i src (pack_tick t) = t" if "t \<in> set ticks" for t
    using unpack_pack_tick [of t] assms(2) p(4) that by auto
  ultimately show ?thesis using p by (auto simp: map_idI)
qed

lemma packing_roundtrip_witness:
  "\<exists>i b t. map (unpack_bar i ''x'') [pack_bar b] = [b] \<and>
     map (unpack_tick i ''x'') [pack_tick t] = [t] \<and> bar_ms b = 1700000000000 \<and>
     tick_seq t = 18446744073709551615"
proof -
  define i where "i = instrument_of ''BTC''"
  define b where "b = \<lparr>bar_instrument = i, bar_ms = 1700000000000, bar_open = Fin 2, bar_high = Fin 4,
    bar_low = Fin 1, bar_close = Fin 3, bar_volume = Fin 0, bar_source = ''x''\<rparr>"
  define t where "t = \<lparr>tick_instrument = i, tick_ms = 1700000000000, tick_seq = 18446744073709551615,
    tick_price = Fin 2, tick_qty = Fin 0, tick_source = ''x''\<rparr>"
  have "\<not> blank ''x''" by (simp add: blank_iff py_space_def code_def)
  then have "bar_ok b" "tick_ok t" by (simp_all add: bar_ok_def tick_ok_def ms_ok_def b_def t_def)
  moreover have "pack_bars [b] (Some i) = Inr [pack_bar b]"
      "pack_trade_ticks [t] (Some i) = Inr [pack_tick t]"
    by (simp_all add: pack_bars_def pack_trade_ticks_def require_instrument_def b_def t_def)
  ultimately show ?thesis
    using packing_roundtrip [of "[b]" "''x''" "[t]" i "[pack_bar b]" "[pack_tick t]"]
    by (intro exI [of _ i] exI [of _ b] exI [of _ t]) (simp add: b_def t_def)
qed

section \<open>Sessions\<close>

text \<open>The operations of a sink as data, what each needs, and the one engine call it makes.\<close>

datatype sink_op =
    SBegin "bar list" string string | SPushTick trade_tick | SPushTicks "trade_tick list"
  | SAdvance int | SEnd bool

fun run_op :: "'l sink \<Rightarrow> sink_op \<Rightarrow> 'l \<Rightarrow> unit result \<times> 'l" where
  "run_op s (SBegin bars itf stf) l = sink_begin s bars itf stf l"
| "run_op s (SPushTick t) l = sink_push_tick s t l"
| "run_op s (SPushTicks ts) l = sink_push_ticks s ts l"
| "run_op s (SAdvance n) l = sink_advance_time s n l"
| "run_op s (SEnd f) l = sink_end s f l"

fun op_admissible :: "instrument \<Rightarrow> sink_op \<Rightarrow> bool" where
  "op_admissible i (SBegin bars itf stf) =
     (bars \<noteq> [] \<and> itf \<noteq> [] \<and> stf \<noteq> [] \<and> (\<forall>b \<in> set bars. bar_instrument b = i))"
| "op_admissible i (SPushTick t) = (tick_instrument t = i)"
| "op_admissible i (SPushTicks ts) = (\<forall>t \<in> set ts. tick_instrument t = i)"
| "op_admissible i (SAdvance n) = (0 \<le> n)"
| "op_admissible i (SEnd f) = True"

fun native_call :: "'l stream_lib \<Rightarrow> int \<Rightarrow> sink_op \<Rightarrow> 'l \<Rightarrow> 32 word \<times> 'l" where
  "native_call lib h (SBegin bars itf stf) l =
     stream_begin lib h (map pack_bar bars) (c_int (int (length bars))) (encode itf) (encode stf) l"
| "native_call lib h (SPushTick t) l = stream_push_tick lib h (pack_tick t) l"
| "native_call lib h (SPushTicks ts) l =
     (if ts = [] then (0, l) else stream_push_ticks lib h (map pack_tick ts) (c_int (int (length ts))) l)"
| "native_call lib h (SAdvance n) l = stream_advance_time lib h (c_int64 n) l"
| "native_call lib h (SEnd f) l = stream_end lib h (of_bool f) l"

text \<open>The state of the engine after a call, and after the error text was fetched if it failed.\<close>

definition after_call :: "'l stream_lib \<Rightarrow> int \<Rightarrow> 32 word \<times> 'l \<Rightarrow> 'l" where
  "after_call lib h r = (if fst r = 0 then snd r else snd (stream_last_error lib h (snd r)))"

lemma check_status_state:
  "snd (check_status s op r) = after_call (sink_library s) (sink_state s) r"
  by (cases r) (auto simp: check_status_def after_call_def split: prod.splits)

lemma pack_none_foreign:
  "pack_bars bs (Some i) =
     (if \<forall>b \<in> set bs. bar_instrument b = i then Inr (map pack_bar bs)
      else raise ValueError ''all records must belong to the expected instrument'')"
  "pack_trade_ticks ts (Some i) =
     (if \<forall>t \<in> set ts. tick_instrument t = i then Inr (map pack_tick ts)
      else raise ValueError ''all records must belong to the expected instrument'')"
  by (cases bs; auto simp: pack_bars_def require_instrument_def require_def)
    (cases ts; auto simp: pack_trade_ticks_def require_instrument_def require_def)

lemma run_op_admissible:
  "op_admissible (sink_instrument s) op \<Longrightarrow>
   \<exists>what. run_op s op l = check_status s what (native_call (sink_library s) (sink_state s) op l)"
  by (cases op) (auto simp: sink_begin_def sink_push_tick_def sink_push_ticks_def sink_advance_time_def
      sink_end_def pack_none_foreign check_status_def c_int_def)

lemma run_op_refused:
  "\<not> op_admissible (sink_instrument s) op \<Longrightarrow> \<exists>m. run_op s op l = (raise ValueError m, l)"
  by (cases op) (auto simp: sink_begin_def sink_push_tick_def sink_push_ticks_def sink_advance_time_def
      sink_end_def pack_none_foreign)

text \<open>
  Every operation of the streaming sink either refuses its arguments with \<open>ValueError\<close> and
  leaves the engine untouched, which it does exactly when a record belongs to another instrument,
  a required argument is empty or a time is negative, or makes exactly one engine call with the
  packed records, after which it succeeds exactly when the status was zero and raises
  \<open>EngineStreamError\<close> otherwise.
\<close>

theorem sink_calls_engine_once:
  "(if op_admissible (sink_instrument s) op then
      (let r = native_call (sink_library s) (sink_state s) op l in
       snd (run_op s op l) = after_call (sink_library s) (sink_state s) r \<and>
       (fst (run_op s op l) = Inr ()) = (fst r = 0) \<and>
       (\<exists>m. fst r = 0 \<or> fst (run_op s op l) = raise EngineStreamError m))
    else \<exists>m. run_op s op l = (raise ValueError m, l))"
proof (cases "op_admissible (sink_instrument s) op")
  case True
  obtain what where w: "run_op s op l =
      check_status s what (native_call (sink_library s) (sink_state s) op l)"
    using run_op_admissible [OF True] by blast
  have "\<exists>m. fst r = 0 \<or> fst (check_status s what r) = raise EngineStreamError m" for r
    by (cases r) (auto simp: check_status_def split: prod.splits)
  with True w show ?thesis by (simp add: check_status_state Let_def)
next
  case False
  then show ?thesis using run_op_refused [OF False] by simp
qed

text \<open>
  A clock value past the signed 64-bit range is not refused: the engine receives it wrapped.
\<close>

lemma advance_time_wraps:
  "sink_advance_time s (2 ^ 63) l =
     check_status s ''stream advance''
       (stream_advance_time (sink_library s) (sink_state s) (c_int64 (- (2 ^ 63))) l)"
proof -
  have "c_int64 (2 ^ 63) = c_int64 (- (2 ^ 63))" by code_simp
  then show ?thesis by (simp add: sink_advance_time_def)
qed

end
