(* ===== verification/PyTime.thy ===== *)
theory PyTime
  imports Requests
begin

text \<open>
  Calendar dates and \<open>datetime.fromisoformat\<close> as the package uses them: a \<open>datetime\<close> is its wall
  clock in microseconds since 1970 (naive) or the instant it denotes (aware), and
  \<open>int(value.timestamp() * 1_000)\<close> goes through a float of seconds.
\<close>

section \<open>The proleptic Gregorian calendar\<close>

definition is_leap :: "nat \<Rightarrow> bool" where
  "is_leap y = (4 dvd y \<and> (\<not> 100 dvd y \<or> 400 dvd y))"

definition month_lengths :: "nat \<Rightarrow> nat list" where
  "month_lengths y = [31, if is_leap y then 29 else 28, 31, 30, 31, 30, 31, 31, 30, 31, 30, 31]"

text \<open>\<open>date.toordinal()\<close> for a valid date; day 1 is 0001-01-01.\<close>

definition days_before_year :: "nat \<Rightarrow> int" where
  "days_before_year y = (let p = int y - 1 in p * 365 + p div 4 - p div 100 + p div 400)"

definition ordinal :: "nat \<Rightarrow> nat \<Rightarrow> nat \<Rightarrow> int option" where
  "ordinal y m d =
     (if 1 \<le> y \<and> y \<le> 9999 \<and> 1 \<le> m \<and> m \<le> 12 \<and> 1 \<le> d \<and> d \<le> month_lengths y ! (m - 1)
      then Some (days_before_year y + int (sum_list (take (m - 1) (month_lengths y))) + int d)
      else None)"

text \<open>The Monday of ISO week 1, and the date of an ISO week and day.\<close>

definition week1_monday :: "nat \<Rightarrow> int" where
  "week1_monday y =
     (let first = days_before_year y + 1; wd = (first + 6) mod 7; mon = first - wd
      in if wd > 3 then mon + 7 else mon)"

definition iso_week_ordinal :: "nat \<Rightarrow> nat \<Rightarrow> nat \<Rightarrow> int option" where
  "iso_week_ordinal y w d =
     (let first_wd = (days_before_year y + 1) mod 7;
          long = (first_wd = 4 \<or> (first_wd = 3 \<and> is_leap y));
          day = week1_monday y + int (w - 1) * 7 + int d - 1
      in if 1 \<le> y \<and> y \<le> 9999 \<and> 0 < w \<and> (w < 53 \<or> (w = 53 \<and> long)) \<and> 0 < d \<and> d < 8 \<and>
            1 \<le> day \<and> day \<le> 3652059
         then Some day else None)"

definition epoch_ordinal :: int where
  "epoch_ordinal = 719163"

definition day_us :: int where
  "day_us = 86400000000"

section \<open>fromisoformat\<close>

datatype pydatetime = Naive int | Aware int

definition digits_at :: "nat \<Rightarrow> string \<Rightarrow> (nat \<times> string) option" where
  "digits_at n s =
     (let p = take n s in
      if length p = n \<and> list_all ascii_digit p then Some (digits_val p, drop n s) else None)"

definition iso_date :: "string \<Rightarrow> int option" where
  "iso_date s =
     (case digits_at 4 s of None \<Rightarrow> None
      | Some (y, r) \<Rightarrow>
         (let sep = (take 1 r = ''-''); r = (if sep then drop 1 r else r)
          in if take 1 r = ''W'' then
               (case digits_at 2 (drop 1 r) of None \<Rightarrow> None
                | Some (w, r2) \<Rightarrow>
                   (if r2 = [] then iso_week_ordinal y w 1
                    else if (take 1 r2 = ''-'') \<noteq> sep then None
                    else (case digits_at 1 (if sep then drop 1 r2 else r2) of
                            Some (d, []) \<Rightarrow> iso_week_ordinal y w d | _ \<Rightarrow> None)))
             else
               (case digits_at 2 r of None \<Rightarrow> None
                | Some (m, r2) \<Rightarrow>
                   (if (take 1 r2 = ''-'') \<noteq> sep then None
                    else (case digits_at 2 (if sep then drop 1 r2 else r2) of
                            Some (d, []) \<Rightarrow> ordinal y m d | _ \<Rightarrow> None)))))"

text \<open>Where the date part ends.\<close>

definition iso_separator :: "string \<Rightarrow> nat option" where
  "iso_separator s =
     (if length s < 7 then None
      else if length s = 7 then Some 7
      else if s ! 4 = CHR ''-'' then
        (if s ! 5 = CHR ''W'' then
           (if length s > 8 \<and> s ! 8 = CHR ''-''
            then (if length s = 9 then None
                  else if length s > 10 \<and> ascii_digit (s ! 10) then Some 8 else Some 10)
            else Some 8)
         else Some 10)
      else if s ! 4 = CHR ''W'' then
        (let idx = 7 + length (takeWhile ascii_digit (drop 7 s))
         in if idx < 9 then Some idx else if even idx then Some 7 else Some 8)
      else Some 8)"

text \<open>\<open>HH[:MM[:SS[.ffffff]]]\<close> in microseconds, with the fields, which the caller range-checks.\<close>

definition iso_fraction :: "string \<Rightarrow> nat option" where
  "iso_fraction s =
     (case s of [] \<Rightarrow> Some 0
      | c # r \<Rightarrow>
         (if (c = CHR ''.'' \<or> c = CHR '','') \<and> r \<noteq> [] \<and> list_all ascii_digit r
          then Some (digits_val (take 6 r) * 10 ^ (6 - length (take 6 r))) else None))"

definition iso_hms :: "string \<Rightarrow> (nat \<times> nat \<times> nat \<times> nat) option" where
  "iso_hms s =
     (case digits_at 2 s of None \<Rightarrow> None
      | Some (h, r) \<Rightarrow>
         (let sep = (take 1 r = '':'')
          in if r = [] then Some (h, 0, 0, 0)
             else (case digits_at 2 (if sep then drop 1 r else r) of None \<Rightarrow> None
                   | Some (mi, r2) \<Rightarrow>
                      (if r2 = [] then Some (h, mi, 0, 0)
                       else if sep \<and> take 1 r2 \<noteq> '':'' then None
                       else (case digits_at 2 (if sep then drop 1 r2 else r2) of None \<Rightarrow> None
                             | Some (sec, r3) \<Rightarrow>
                                 map_option (\<lambda>f. (h, mi, sec, f)) (iso_fraction r3))))))"

definition hms_us :: "nat \<times> nat \<times> nat \<times> nat \<Rightarrow> int" where
  "hms_us t = (case t of (h, mi, s, f) \<Rightarrow> ((int h * 60 + int mi) * 60 + int s) * 1000000 + int f)"

text \<open>The time of day in microseconds and the UTC offset in microseconds, if there is one.\<close>

definition iso_time :: "string \<Rightarrow> (int \<times> int option) option" where
  "iso_time s =
     (let clock = takeWhile (\<lambda>c. c \<noteq> CHR ''-'' \<and> c \<noteq> CHR ''+'' \<and> c \<noteq> CHR ''Z'') s;
          zone = drop (length clock) s
      in case iso_hms clock of None \<Rightarrow> None
         | Some (h, mi, sec, f) \<Rightarrow>
            (if \<not> (h < 24 \<and> mi < 60 \<and> sec < 60) then None
             else (let t = hms_us (h, mi, sec, f)
                   in case zone of [] \<Rightarrow> Some (t, None)
                      | c # z \<Rightarrow>
                         (if c = CHR ''Z'' then (if z = [] then Some (t, Some 0) else None)
                          else (case iso_hms z of None \<Rightarrow> None
                                | Some q \<Rightarrow>
                                   (if hms_us q < day_us
                                    then Some (t, Some (signed (c = CHR ''-'') (hms_us q)))
                                    else None))))))"

definition from_iso :: "string \<Rightarrow> pydatetime option" where
  "from_iso s =
     (case iso_separator s of None \<Rightarrow> None
      | Some n \<Rightarrow>
         (case iso_date (take n s) of None \<Rightarrow> None
          | Some day \<Rightarrow>
             (let base = (day - epoch_ordinal) * day_us; t = drop (n + 1) s
              in if length s \<le> n then Some (Naive base)
                 else (case iso_time t of None \<Rightarrow> None
                       | Some (us, None) \<Rightarrow> Some (Naive (base + us))
                       | Some (us, Some off) \<Rightarrow> Some (Aware (base + us - off))))))"

section \<open>Dates as text\<close>

text \<open>The date of an ordinal (\<open>date.fromordinal\<close>): cycles of 400, 100, 4 and 1 years, then months.\<close>

fun month_of :: "nat list \<Rightarrow> int \<Rightarrow> nat \<times> int" where
  "month_of [] n = (0, n)"
| "month_of (l # ls) n = (if n < int l then (1, n + 1) else (case month_of ls (n - int l) of (m, d) \<Rightarrow> (m + 1, d)))"

definition ymd :: "int \<Rightarrow> nat \<times> nat \<times> int" where
  "ymd n =
     (let n = n - 1; n400 = n div 146097; n = n mod 146097; n100 = n div 36524; n = n mod 36524;
          n4 = n div 1461; n = n mod 1461; n1 = n div 365; n = n mod 365;
          y = n400 * 400 + n100 * 100 + n4 * 4 + n1 + 1
      in if n1 = 4 \<or> n100 = 4 then (nat (y - 1), 12, 31)
         else (case month_of (month_lengths (nat y)) n of (m, d) \<Rightarrow> (nat y, m, d)))"

definition two_digits :: "nat \<Rightarrow> string" where
  "two_digits n = (if n < 10 then CHR ''0'' # nat_text n else nat_text n)"

definition iso_text :: "nat \<times> nat \<times> int \<Rightarrow> string" where
  "iso_text t = (case t of (y, m, d) \<Rightarrow>
     replicate (4 - length (nat_text y)) CHR ''0'' @ nat_text y @ ''-'' @ two_digits m @ ''-'' @ two_digits (nat d))"

text \<open>\<open>datetime.fromtimestamp(ms / 1_000, tz=UTC).date().isoformat()\<close>; the last date is 9999-12-31.\<close>

definition date_text :: "int \<Rightarrow> string result" where
  "date_text ms =
     (let day = ms div 86400000 + epoch_ordinal in
      if 1 \<le> day \<and> day \<le> 3652059 then Inr (iso_text (ymd day))
      else raise ValueError ''year is out of range'')"

text \<open>\<open>datetime.strptime(text, '%Y-%m-%d')\<close>, whose month and day may have one digit.\<close>

definition date_number :: "string \<Rightarrow> nat option" where
  "date_number s =
     (let t = (if length s = 2 \<and> hd s = CHR '' '' then tl s else s) in
      if t \<noteq> [] \<and> length t \<le> 2 \<and> list_all ascii_digit t then Some (digits_val t) else None)"

definition strptime_date :: "string \<Rightarrow> int option" where
  "strptime_date s =
     (case digits_at 4 s of
        Some (y, c # r) \<Rightarrow>
          (let m = takeWhile (\<lambda>c. c \<noteq> CHR ''-'') r; d = dropWhile (\<lambda>c. c \<noteq> CHR ''-'') r in
           if c = CHR ''-'' \<and> d \<noteq> [] \<and> list_all ascii_digit m then
             (case (date_number m, date_number (tl d)) of
                (Some mv, Some dv) \<Rightarrow> ordinal y mv dv | _ \<Rightarrow> None)
           else None)
      | _ \<Rightarrow> None)"

section \<open>timestamp()\<close>

text \<open>
  \<open>int(value.timestamp() * 1_000)\<close> for an instant in microseconds: the division by a million and
  the product are rounded to floats, and the product is truncated.
\<close>

definition float_ms :: "int \<Rightarrow> int" where
  "float_ms us = trunc (fval (fmul (rnd64 (of_int us / 1000000)) (Fin 1000)))"

text \<open>\<open>parsed.replace(tzinfo=timezone)\<close> where there is none: \<open>zone\<close> maps wall clock to instant.\<close>

definition instant :: "(int \<Rightarrow> int) \<Rightarrow> pydatetime \<Rightarrow> int" where
  "instant zone dt = (case dt of Naive us \<Rightarrow> zone us | Aware us \<Rightarrow> us)"

lemma fmul_thousand: "0 \<le> n \<Longrightarrow> n < 2 ^ 43 \<Longrightarrow> fmul (Fin (of_int n)) (Fin 1000) = Fin (of_int (n * 1000))"
  using rnd64_int [of "n * 1000"] by simp

text \<open>Whole seconds survive the float.\<close>

lemma float_ms_seconds:
  assumes "0 \<le> s" and "s < 2 ^ 43"
  shows "float_ms (s * 1000000) = s * 1000"
proof -
  have "rnd64 (of_int (s * 1000000) / 1000000) = Fin (of_int s)"
    using rnd64_int [of s] assms by simp
  then show ?thesis
    using fmul_thousand [OF assms] trunc_of_int [of "s * 1000"]
    by (simp only: float_ms_def fval.simps)
qed

end
