(* ===== verification/FxMacro.thy ===== *)
theory FxMacro
  imports PyTime PyValue "HOL-Library.Sublist"
begin

text \<open>
  \<open>src/pineforge_data/providers/fxmacrodata.py\<close>: paged announcements turned into release- and
  vintage-aware observations.  The transport is a parameter: a record of its request, the pause
  before a retry and the warning channel, on a state \<open>'x\<close> of its own.
\<close>

section \<open>Transport and provider\<close>

record response =
  status :: int
  payload :: json
  retry_after :: "pyfloat option"

type_synonym query = "(string \<times> json) list"

record 'x transport =
  tr_get :: "string \<Rightarrow> query \<Rightarrow> (string \<times> string) list \<Rightarrow> 'x \<Rightarrow> response result \<times> 'x"
  tr_sleep :: "pyfloat \<Rightarrow> 'x \<Rightarrow> 'x"
  tr_warn :: "string \<Rightarrow> 'x \<Rightarrow> 'x"

record fx_provider =
  api_key :: "string option"
  api_url :: string
  max_retries :: int
  retry_backoff :: pyfloat
  max_retry_after :: pyfloat
  max_pages :: int
  include_assumed :: bool
  last_skipped :: "(string, nat) dict"

definition rstrip_slash :: "string \<Rightarrow> string" where
  "rstrip_slash s = rev (dropWhile (\<lambda>c. c = CHR ''/'') (rev s))"

definition mk_fx_provider ::
  "string option \<Rightarrow> string \<Rightarrow> pyfloat \<Rightarrow> int \<Rightarrow> pyfloat \<Rightarrow> pyfloat \<Rightarrow> int \<Rightarrow> bool \<Rightarrow> fx_provider result" where
  "mk_fx_provider key url timeout retries backoff retry_cap pages assumed =
     rbind (first_raise
       [(blank url, ValueError, ''api_url must not be empty''),
        (fle timeout (Fin 0), ValueError, ''timeout_seconds must be positive''),
        (retries < 0, ValueError, ''max_retries must be non-negative''),
        (flt backoff (Fin 0), ValueError, ''retry_backoff_seconds must be non-negative''),
        (flt retry_cap (Fin 0), ValueError, ''max_retry_after_seconds must be non-negative''),
        (pages < 1, ValueError, ''max_pages must be at least 1''),
        (some_bad blank key, ValueError, ''api_key must not be empty when supplied'')])
       (\<lambda>_. Inr \<lparr>api_key = key, api_url = rstrip_slash url, max_retries = retries,
                 retry_backoff = backoff, max_retry_after = retry_cap, max_pages = pages,
                 include_assumed = assumed, last_skipped = []\<rparr>)"

text \<open>\<open>_retry_after\<close>: \<open>max(0.0, float(value))\<close>, which is 0 for a NaN.\<close>

definition retry_after_header :: "string option \<Rightarrow> pyfloat option" where
  "retry_after_header value =
     (case value of None \<Rightarrow> None
      | Some s \<Rightarrow> map_option (\<lambda>f. if flt (Fin 0) f then f else Fin 0) (py_float s))"

definition fx_headers :: "fx_provider \<Rightarrow> (string \<times> string) list" where
  "fx_headers p =
     [(''Accept'', ''application/json''), (''User-Agent'', ''pineforge-data-fxmacrodata'')] @
     (case api_key p of None \<Rightarrow> [] | Some k \<Rightarrow> [(''X-API-Key'', k)])"

section \<open>Field checks\<close>

definition fx_text :: "json \<Rightarrow> string \<Rightarrow> string result" where
  "fx_text v field =
     (case v of JStr s \<Rightarrow> (if blank s then raise FxMacroDataDataError (field @ '' must be a non-empty string'')
                           else Inr (py_strip s))
      | _ \<Rightarrow> raise FxMacroDataDataError (field @ '' must be a non-empty string''))"

definition fx_optional_number :: "json \<Rightarrow> string \<Rightarrow> pyfloat option result" where
  "fx_optional_number v field =
     (case v of
        JNull \<Rightarrow> Inr None
      | JInt n \<Rightarrow> rbind (float_of_int n) (\<lambda>f. Inr (Some f))
      | JFloat f \<Rightarrow> (if isfinite f then Inr (Some f) else raise FxMacroDataDataError (field @ '' must be finite''))
      | _ \<Rightarrow> raise FxMacroDataDataError (field @ '' must be numeric''))"

definition fx_optional_epoch_ms :: "json \<Rightarrow> string \<Rightarrow> int \<Rightarrow> int option result" where
  "fx_optional_epoch_ms v field divisor =
     (case v of
        JNull \<Rightarrow> Inr None
      | JInt n \<Rightarrow>
          (if n < 0 then raise FxMacroDataDataError (field @ '' must be a non-negative integer epoch'')
           else Inr (Some (if divisor = 1 then n * 1000 else n div divisor)))
      | _ \<Rightarrow> raise FxMacroDataDataError (field @ '' must be a non-negative integer epoch''))"

definition fx_period_end_ms :: "json \<Rightarrow> int result" where
  "fx_period_end_ms v =
     rbind (fx_text v ''record.date'') (\<lambda>s.
       case strptime_date s of
         None \<Rightarrow> raise FxMacroDataDataError ''record.date must be an ISO YYYY-MM-DD date''
       | Some day \<Rightarrow> Inr (float_ms ((day - epoch_ordinal) * day_us)))"

type_synonym entry = "(string, json) dict"

definition snapshot_statuses :: "json list" where
  "snapshot_statuses = [JStr ''captured_snapshot'', JStr ''legacy_snapshot'']"

text \<open>\<open>in frozenset\<close> hashes the value, which raises for a list or an object.\<close>

definition is_snapshot :: "entry \<Rightarrow> bool result" where
  "is_snapshot e =
     (case jget e ''vintage_status'' of
        JList xs \<Rightarrow> raise TypeError ''unhashable type''
      | JDict d \<Rightarrow> raise TypeError ''unhashable type''
      | v \<Rightarrow> Inr (v \<in> set snapshot_statuses))"

text \<open>\<open>_available_at_ms\<close>\<close>

definition available_at_ms :: "entry \<Rightarrow> string \<Rightarrow> int option result" where
  "available_at_ms e field =
     rbind (is_snapshot e) (\<lambda>snapshot.
     if snapshot then fx_optional_epoch_ms (jget e ''observed_at_ns'') (field @ ''.observed_at_ns'') 1000000
      else rbind (fx_optional_epoch_ms (jget e ''publication_at_ns'') (field @ ''.publication_at_ns'') 1000000)
             (\<lambda>published. case published of
                Some t \<Rightarrow> Inr (Some t)
              | None \<Rightarrow> fx_optional_epoch_ms (jget e ''epoch'') (field @ ''.epoch'') 1))"

definition as_entries :: "json list \<Rightarrow> string \<Rightarrow> entry list result" where
  "as_entries xs message =
     rmap (\<lambda>x. case x of JDict d \<Rightarrow> Inr d | _ \<Rightarrow> raise FxMacroDataDataError message) xs"

definition payload_records :: "entry \<Rightarrow> entry list result" where
  "payload_records pl =
     (case jget pl ''data'' of
        JList xs \<Rightarrow> as_entries xs ''response.data must contain only objects''
      | _ \<Rightarrow> raise FxMacroDataDataError ''response.data must be a list'')"

definition next_offset :: "entry \<Rightarrow> int \<Rightarrow> int \<Rightarrow> int option result" where
  "next_offset pl current returned =
     (case jget pl ''pagination'' of
        JNull \<Rightarrow> Inr None
      | JDict pagination \<Rightarrow>
          (if jget pagination ''has_more'' \<noteq> JBool True then Inr None
           else (case jget_default pagination ''next_offset'' (JInt (current + returned)) of
                   JInt n \<Rightarrow> (if n \<le> current
                              then raise FxMacroDataDataError ''response.pagination.next_offset must advance the cursor''
                              else Inr (Some n))
                 | _ \<Rightarrow> raise FxMacroDataDataError ''response.pagination.next_offset must advance the cursor''))
      | _ \<Rightarrow> raise FxMacroDataDataError ''response.pagination must be an object'')"

lemma next_offset_advances: "next_offset pl current n = Inr (Some k) \<Longrightarrow> current < k"
  by (auto simp: next_offset_def split: json.splits if_splits)

text \<open>\<open>_error_message\<close>: the first usable text of \<open>detail\<close>, \<open>message\<close> and \<open>error\<close>.\<close>

definition message_of :: "json \<Rightarrow> string option" where
  "message_of v =
     (case v of
        JStr s \<Rightarrow> (if blank s then None else Some (py_strip s))
      | JDict d \<Rightarrow> (case jget d ''message'' of
                      JStr s \<Rightarrow> (if blank s then None else Some (py_strip s)) | _ \<Rightarrow> None)
      | _ \<Rightarrow> None)"

definition error_message :: "json \<Rightarrow> string" where
  "error_message v =
     (case v of
        JDict d \<Rightarrow>
          (case List.map_filter (\<lambda>f. message_of (jget d f)) [''detail'', ''message'', ''error''] of
             [] \<Rightarrow> ''no error message'' | m # _ \<Rightarrow> m)
      | _ \<Rightarrow> ''no error message'')"

text \<open>\<open>str.replace\<close>: occurrences from the left, not overlapping.\<close>

function replace_text :: "string \<Rightarrow> string \<Rightarrow> string \<Rightarrow> string" where
  "replace_text old new s =
     (if old = [] \<or> s = [] then s
      else if take (length old) s = old then new @ replace_text old new (drop (length old) s)
      else hd s # replace_text old new (tl s))"
  by pat_completeness auto

termination
  by (relation "measure (\<lambda>(old, new, s). length s)") auto

declare replace_text.simps [simp del]

section \<open>Pages\<close>

definition retry_statuses :: "int list" where
  "retry_statuses = [429, 500, 502, 503, 504]"

text \<open>The pause before retry number \<open>attempt\<close>.\<close>

definition retry_delay :: "fx_provider \<Rightarrow> nat \<Rightarrow> pyfloat option \<Rightarrow> pyfloat result" where
  "retry_delay p attempt suggested =
     (case suggested of
        Some d \<Rightarrow>
          (if flt (max_retry_after p) d
           then rbind (float_of_int (2 ^ attempt)) (\<lambda>f. Inr (fmul (retry_backoff p) f))
           else Inr d)
      | None \<Rightarrow> rbind (float_of_int (2 ^ attempt)) (\<lambda>f. Inr (fmul (retry_backoff p) f)))"

definition page_answer :: "fx_provider \<Rightarrow> response \<Rightarrow> entry result" where
  "page_answer p r =
     (if \<not> (200 \<le> status r \<and> status r < 300) then
        raise FxMacroDataHTTPError
          (case api_key p of None \<Rightarrow> error_message (payload r)
           | Some k \<Rightarrow> replace_text k ''[redacted]'' (error_message (payload r)))
      else (case payload r of JDict d \<Rightarrow> Inr d
            | _ \<Rightarrow> raise FxMacroDataDataError ''response must be a JSON object''))"

function get_page ::
  "fx_provider \<Rightarrow> 'x transport \<Rightarrow> string \<Rightarrow> query \<Rightarrow> nat \<Rightarrow> 'x \<Rightarrow> entry result \<times> 'x" where
  "get_page p tr url params attempt x =
     (case tr_get tr url params (fx_headers p) x of
        (Inl e, x') \<Rightarrow> (Inl e, x')
      | (Inr r, x') \<Rightarrow>
          if status r \<in> set retry_statuses \<and> int attempt < max_retries p then
            (case retry_delay p attempt (retry_after r) of
               Inl e \<Rightarrow> (Inl e, x')
             | Inr d \<Rightarrow> get_page p tr url params (Suc attempt) (tr_sleep tr d x'))
          else (page_answer p r, x'))"
  by pat_completeness auto

termination
  by (relation "measure (\<lambda>(p, tr, url, params, attempt, x). nat (max_retries p - int attempt))") auto

declare get_page.simps [simp del]

section \<open>Records\<close>

definition count_skip :: "string \<Rightarrow> (string, nat) dict \<Rightarrow> (string, nat) dict" where
  "count_skip reason d = AList.update reason (Suc (case map_of d reason of None \<Rightarrow> 0 | Some n \<Rightarrow> n)) d"

definition release_ms :: "fx_provider \<Rightarrow> entry \<Rightarrow> (string, nat) dict \<Rightarrow> (int option \<times> (string, nat) dict) result" where
  "release_ms p rec skipped =
     rbind (fx_optional_epoch_ms (jget rec ''announcement_datetime'') ''record.announcement_datetime'' 1)
       (\<lambda>released. case released of
          None \<Rightarrow> Inr (None, count_skip ''unknown_release_time'' skipped)
        | Some t \<Rightarrow>
            if (jget rec ''release_time_assumed'' = JBool True \<or>
                jget rec ''publication_time_status'' = JStr ''assumed_historical'') \<and> \<not> include_assumed p
            then Inr (None, count_skip ''assumed_release_time'' skipped)
            else Inr (Some t, skipped))"

definition vintage_entries :: "entry \<Rightarrow> (bool \<times> entry) list result" where
  "vintage_entries rec =
     (case jget rec ''revisions'' of
        JNull \<Rightarrow> Inr [(True, rec)]
      | JList [] \<Rightarrow> Inr [(True, rec)]
      | JList xs \<Rightarrow> rbind (as_entries xs ''record.revisions must contain objects'')
                     (\<lambda>es. Inr (map (\<lambda>e. (False, e)) es))
      | _ \<Rightarrow> raise FxMacroDataDataError ''record.revisions must be a list when supplied'')"

text \<open>One entry: a dated value, or a reason to leave it out.\<close>

definition entry_vintage ::
  "int \<Rightarrow> bool \<times> entry \<Rightarrow> (string + int \<times> pyfloat) result" where
  "entry_vintage released_at en =
     (case en of (own, e) \<Rightarrow>
        rbind (fx_optional_number (jget e ''val'') ''val'') (\<lambda>value.
        case value of None \<Rightarrow> Inr (Inl ''missing_value'')
        | Some v \<Rightarrow>
            rbind (if own then is_snapshot e else Inr True) (\<lambda>dated_by_itself.
            rbind (if \<not> dated_by_itself then Inr (Some released_at)
                   else available_at_ms e ''entry'') (\<lambda>available.
            case available of None \<Rightarrow> Inr (Inl ''revision_without_vintage_time'')
            | Some t \<Rightarrow> Inr (Inr (max released_at t, v))))))"

fun vintage_step ::
  "int \<Rightarrow> (int \<times> pyfloat) list \<times> (string, nat) dict \<Rightarrow> bool \<times> entry \<Rightarrow>
   ((int \<times> pyfloat) list \<times> (string, nat) dict) result" where
  "vintage_step released_at (candidates, skipped) en =
     rbind (entry_vintage released_at en) (\<lambda>outcome. case outcome of
       Inl reason \<Rightarrow> Inr (candidates, count_skip reason skipped)
     | Inr c \<Rightarrow> Inr (if c \<in> set candidates then candidates else candidates @ [c], skipped))"

text \<open>Order of the candidates: by time, then by value; values are finite.\<close>

definition vintage_key :: "int \<times> pyfloat \<Rightarrow> int \<times> rat" where
  "vintage_key c = (fst c, fval (snd c))"

text \<open>A value is kept only where it differs from the one before it.\<close>

fun drop_repeats :: "pyfloat option \<Rightarrow> (int \<times> pyfloat) list \<Rightarrow> (int \<times> pyfloat) list" where
  "drop_repeats prev [] = []"
| "drop_repeats prev ((t, v) # cs) =
     (if prev = Some v then drop_repeats prev cs else (t, v) # drop_repeats (Some v) cs)"

definition vintages ::
  "entry \<Rightarrow> int \<Rightarrow> (string, nat) dict \<Rightarrow> ((int \<times> pyfloat) list \<times> (string, nat) dict) result" where
  "vintages rec released_at skipped =
     rbind (vintage_entries rec) (\<lambda>entries.
     rbind (rfold (vintage_step released_at) ([], skipped) entries) (\<lambda>(candidates, skipped').
     Inr (drop_repeats None (sort_key vintage_key candidates), skipped')))"

record fx_run =
  run_skipped :: "(string, nat) dict"
  observations :: "(int \<times> int, macro_observation) dict"

text \<open>The unit and source of a record, falling back to those of the page.\<close>

definition record_unit :: "json \<Rightarrow> entry \<Rightarrow> string result" where
  "record_unit page_unit rec =
     (let u = jget_default rec ''unit'' page_unit in
      if u = JNull then Inr ''unknown'' else fx_text u ''unit'')"

definition record_source :: "json \<Rightarrow> entry \<Rightarrow> string result" where
  "record_source page_source rec =
     (let s = jget_default rec ''source'' page_source in
      if s = JNull then Inr ''fxmacrodata''
      else rbind (fx_text s ''source'') (\<lambda>t. Inr (''fxmacrodata:'' @ t)))"

fun store_vintage ::
  "string \<Rightarrow> string \<Rightarrow> int \<Rightarrow> int \<Rightarrow> string \<Rightarrow> string \<Rightarrow> (int \<times> int, macro_observation) dict \<Rightarrow> int \<times> pyfloat \<Rightarrow>
   (int \<times> int, macro_observation) dict result" where
  "store_vintage key currency period released u src obs (t, v) =
     rbind (mk_macro_observation
       \<lparr>mo_key = key, mo_currency = currency, period_end_ms = period, released_at_ms = released,
        vintage_at_ms = t, mo_value = v, mo_unit = u, mo_source = src\<rparr>)
       (\<lambda>m. Inr (AList.update (period, t) m obs))"

definition record_step ::
  "fx_provider \<Rightarrow> macro_request \<Rightarrow> string \<Rightarrow> string \<Rightarrow> json \<Rightarrow> json \<Rightarrow> fx_run \<Rightarrow> entry \<Rightarrow> fx_run result" where
  "record_step p req key currency page_unit page_source run rec =
     rbind (fx_period_end_ms (jget rec ''date'')) (\<lambda>period.
     if \<not> (mr_start_ms req \<le> period \<and> period < mr_end_ms req) then Inr run
     else
     rbind (release_ms p rec (run_skipped run)) (\<lambda>(released, skipped).
     case released of
       None \<Rightarrow> Inr (run\<lparr>run_skipped := skipped\<rparr>)
     | Some rel \<Rightarrow>
         if rel < period then Inr (run\<lparr>run_skipped := count_skip ''released_before_period_end'' skipped\<rparr>)
         else
         rbind (record_unit page_unit rec) (\<lambda>u.
         rbind (record_source page_source rec) (\<lambda>src.
         rbind (vintages rec rel skipped) (\<lambda>(vs, skipped').
         rbind (rfold (store_vintage key currency period rel u src) (observations run) vs) (\<lambda>obs.
         Inr \<lparr>run_skipped = skipped', observations = obs\<rparr>))))))"

section \<open>Fetching\<close>

definition currency_rx :: rx where
  "currency_rx = rx_times 3 (RClass [(65, 90)])"

definition indicator_rx :: rx where
  "indicator_rx = rx_plus (RClass [(97, 122), (48, 57), (95, 95)])"

text \<open>
  \<open>str.upper\<close> and \<open>str.lower\<close>: the sharp s becomes two letters; any other character that is not
  ASCII stays outside ASCII, which the patterns refuse in either case.
\<close>

definition upper_text :: "string \<Rightarrow> string" where
  "upper_text s = concat (map (\<lambda>c. if code c = 223 then ''SS'' else [ascii_upper c]) s)"

definition lower_text :: "string \<Rightarrow> string" where
  "lower_text s = map ascii_lower s"

text \<open>\<open>_warn_on_access_limits\<close>: the warnings in order, compared by date as text.\<close>

definition access_warnings :: "entry \<Rightarrow> macro_request \<Rightarrow> string list result" where
  "access_warnings pl req =
     rbind (case jget pl ''freemium_window'' of
              JDict w \<Rightarrow>
                (if jget w ''applied'' \<noteq> JBool True then Inr []
                 else (case jget w ''cutoff_date'' of
                         JStr cutoff \<Rightarrow>
                           rbind (date_text (mr_start_ms req)) (\<lambda>d.
                           Inr (if d < cutoff then [''keyless access is limited''] else []))
                       | _ \<Rightarrow> Inr []))
            | _ \<Rightarrow> Inr []) (\<lambda>first.
     Inr (first @
       (case jget pl ''freemium_delay'' of
          JDict d \<Rightarrow> (case jget d ''withheld_count'' of
                         JInt n \<Rightarrow> (if 0 < n then [''releases were withheld''] else []) | _ \<Rightarrow> [])
        | _ \<Rightarrow> [])))"

definition page_fields :: "entry \<Rightarrow> json \<times> json" where
  "page_fields pl =
     ((case jget pl ''value_metadata'' of JDict m \<Rightarrow> jget m ''source_unit'' | _ \<Rightarrow> JNull), jget pl ''source'')"

definition page_params :: "string \<Rightarrow> string \<Rightarrow> int \<Rightarrow> query" where
  "page_params start_date end_date offset =
     [(''start_date'', JStr start_date), (''end_date'', JStr end_date), (''limit'', JInt 100),
      (''offset'', JInt offset), (''revisions'', JStr ''all'')]"

definition page_records ::
  "fx_provider \<Rightarrow> macro_request \<Rightarrow> string \<Rightarrow> string \<Rightarrow> entry \<Rightarrow> fx_run \<Rightarrow> (nat \<times> fx_run) result" where
  "page_records p req key currency pl run =
     rbind (payload_records pl) (\<lambda>records.
     case page_fields pl of (page_unit, page_source) \<Rightarrow>
       rbind (rfold (record_step p req key currency page_unit page_source) run records) (\<lambda>run'.
       Inr (length records, run')))"

text \<open>\<open>while True\<close>, with the number of pages asked for; the bound on it ends the loop.\<close>

function page_loop ::
  "fx_provider \<Rightarrow> 'x transport \<Rightarrow> macro_request \<Rightarrow> string \<Rightarrow> string \<Rightarrow> string \<Rightarrow> string \<times> string \<Rightarrow>
   nat \<Rightarrow> int \<Rightarrow> fx_run \<Rightarrow> 'x \<Rightarrow> fx_run result \<times> 'x" where
  "page_loop p tr req key currency url dates pages offset run x =
     (if int (Suc pages) > max_pages p then
        (raise FxMacroDataDataError ''response.pagination did not finish within max_pages'', x)
      else
        (case get_page p tr url (page_params (fst dates) (snd dates) offset) 0 x of
           (Inl e, x1) \<Rightarrow> (Inl e, x1)
         | (Inr pl, x1) \<Rightarrow>
             (case (if pages = 0 then access_warnings pl req else Inr []) of
                Inl e \<Rightarrow> (Inl e, x1)
              | Inr ws \<Rightarrow>
                  (let x2 = fold (tr_warn tr) ws x1 in
                   case page_records p req key currency pl run of
                     Inl e \<Rightarrow> (Inl e, x2)
                   | Inr (n, run') \<Rightarrow>
                       (case next_offset pl offset (int n) of
                          Inl e \<Rightarrow> (Inl e, x2)
                        | Inr next \<Rightarrow>
                            (case next of None \<Rightarrow> (Inr run', x2)
                             | Some k \<Rightarrow>
                                 if n = 0 then (Inr run', x2)
                                 else page_loop p tr req key currency url dates (Suc pages) k run' x2))))))"
  by pat_completeness auto

termination
  by (relation "measure (\<lambda>(p, tr, req, key, currency, url, dates, pages, offset, run, x).
        nat (max_pages p - int pages))") auto

declare page_loop.simps [simp del]

definition announcement_url :: "fx_provider \<Rightarrow> string \<Rightarrow> string \<Rightarrow> string" where
  "announcement_url p currency key = api_url p @ ''/announcements/'' @ currency @ ''/'' @ key"

definition fx_fetch ::
  "fx_provider \<Rightarrow> 'x transport \<Rightarrow> macro_request \<Rightarrow> 'x \<Rightarrow> (macro_observation list \<times> fx_provider) result \<times> 'x" where
  "fx_fetch p tr req =
     (let currency = upper_text (py_strip (mr_currency req)); key = lower_text (py_strip (mr_key req)) in
      sbind (slift (first_raise
        [(\<not> fullmatch currency_rx currency, ValueError, ''currency must be a three-letter code''),
         (\<not> fullmatch indicator_rx key, ValueError, ''key must be an FXMacroData indicator slug'')])) (\<lambda>_.
      sbind (slift (date_text (mr_start_ms req))) (\<lambda>start_date.
      sbind (slift (date_text (mr_end_ms req - 1))) (\<lambda>end_date.
      sbind (page_loop p tr req key currency
               (announcement_url p currency key) (start_date, end_date) 0 0
               \<lparr>run_skipped = [], observations = []\<rparr>) (\<lambda>run.
      slift (Inr (sort_key (\<lambda>m. (period_end_ms m, vintage_at_ms m)) (map snd (observations run)),
                  p\<lparr>last_skipped := run_skipped run\<rparr>)))))))"

section \<open>What a fetch returns\<close>

definition obs_ok ::
  "macro_request \<Rightarrow> string \<Rightarrow> string \<Rightarrow> (int \<times> int, macro_observation) dict \<Rightarrow> bool" where
  "obs_ok req key currency obs =
     (wf_dict obs \<and>
      (\<forall>km \<in> set obs. fst km = (period_end_ms (snd km), vintage_at_ms (snd km)) \<and> macro_ok (snd km) \<and>
         mo_key (snd km) = key \<and> mo_currency (snd km) = currency \<and>
         mr_start_ms req \<le> period_end_ms (snd km) \<and> period_end_ms (snd km) < mr_end_ms req))"

lemma store_vintage_ok:
  assumes "store_vintage key currency period rel u src obs c = Inr obs'" and "obs_ok req key currency obs"
    and "mr_start_ms req \<le> period" and "period < mr_end_ms req"
  shows "obs_ok req key currency obs'"
proof -
  obtain m where m: "macro_ok m" "mo_key m = key" "mo_currency m = currency" "period_end_ms m = period"
      "vintage_at_ms m = fst c"
    and obs': "obs' = AList.update (period, fst c) m obs"
    using assms(1) by (cases c) (auto simp: result_simps mk_macro_observation_iff)
  have wf: "wf_dict obs" using assms(2) by (simp add: obs_ok_def)
  show ?thesis
    unfolding obs_ok_def
  proof (intro conjI ballI)
    show "wf_dict obs'" using wf obs' by simp
    fix km assume km: "km \<in> set obs'"
    obtain k v where kv: "km = (k, v)" by (cases km)
    have "km = ((period, fst c), m) \<or> km \<in> set obs"
      using mem_update [OF wf, of k v "(period, fst c)" m] km unfolding kv obs' by (cases "k = (period, fst c)") auto
    then show "fst km = (period_end_ms (snd km), vintage_at_ms (snd km))" "macro_ok (snd km)"
      "mo_key (snd km) = key" "mo_currency (snd km) = currency"
      "mr_start_ms req \<le> period_end_ms (snd km)" "period_end_ms (snd km) < mr_end_ms req"
      using m assms(2-4) by (auto simp: obs_ok_def)
  qed
qed

lemma record_step_ok:
  assumes "record_step p req key currency pu ps run rec = Inr run'" and "obs_ok req key currency (observations run)"
  shows "obs_ok req key currency (observations run')"
proof -
  have store: "obs_ok req key currency obs'"
    if "rfold (store_vintage key currency period rel u src) (observations run) vs = Inr obs'"
      "mr_start_ms req \<le> period" "period < mr_end_ms req" for period rel u src vs obs'
    using that assms(2) store_vintage_ok by (intro rfold_invariant [OF that(1), of "obs_ok req key currency"]) blast+
  obtain period where period: "fx_period_end_ms (jget rec ''date'') = Inr period"
    using assms(1) by (auto simp: record_step_def result_simps)
  show ?thesis
  proof (cases "mr_start_ms req \<le> period \<and> period < mr_end_ms req")
    case False
    then show ?thesis using assms period by (simp add: record_step_def)
  next
    case True
    then obtain released skipped where rel: "release_ms p rec (run_skipped run) = Inr (released, skipped)"
      using assms(1) period by (auto simp: record_step_def result_simps)
    show ?thesis
    proof (cases "\<exists>r. released = Some r \<and> period \<le> r")
      case late: True
      then obtain r where "released = Some r" "\<not> r < period" by auto
      then obtain u src vs obs' where
        "rfold (store_vintage key currency period r u src) (observations run) vs = Inr obs'"
        "observations run' = obs'"
        using assms(1) period True rel by (auto simp: record_step_def result_simps)
      then show ?thesis using store True by blast
    next
      case early: False
      then have "observations run' = observations run"
        using assms(1) period True rel
        by (cases released) (auto simp: record_step_def)
      then show ?thesis using assms(2) by simp
    qed
  qed
qed

lemma page_records_ok:
  assumes "page_records p req key currency pl run = Inr (n, run')" and "obs_ok req key currency (observations run)"
  shows "obs_ok req key currency (observations run')"
proof -
  obtain recs pu ps where "rfold (record_step p req key currency pu ps) run recs = Inr run'"
    using assms(1) by (cases "page_fields pl") (auto simp: page_records_def result_simps)
  then show ?thesis
    using assms(2) record_step_ok
    by (rule rfold_invariant [where I = "\<lambda>run. obs_ok req key currency (observations run)"])
qed

lemma page_loop_ok:
  "fst (page_loop p tr req key currency url dates pages offset run x) = Inr run' \<Longrightarrow>
   obs_ok req key currency (observations run) \<Longrightarrow> obs_ok req key currency (observations run')"
proof (induction p tr req key currency url dates pages offset run x rule: page_loop.induct)
  case (1 p tr req key currency url dates pages offset run x)
  show ?case
    using "1.prems"
    by (subst (asm) page_loop.simps)
      (auto simp: Let_def split: if_splits prod.splits sum.splits option.splits
        intro: page_records_ok "1.IH")
qed

lemma fx_fetch_returns:
  assumes "fst (fx_fetch p tr req x) = Inr (obs, p')"
  obtains run :: fx_run where
    "obs_ok req (lower_text (py_strip (mr_key req))) (upper_text (py_strip (mr_currency req))) (observations run)"
    and "obs = sort_key (\<lambda>m. (period_end_ms m, vintage_at_ms m)) (map snd (observations run))"
    and "p' = p\<lparr>last_skipped := run_skipped run\<rparr>"
proof -
  let ?cur = "upper_text (py_strip (mr_currency req))" and ?key = "lower_text (py_strip (mr_key req))"
  obtain url dates run x1 y where loop: "page_loop p tr req ?key ?cur url dates 0 0
        \<lparr>run_skipped = [], observations = []\<rparr> x1 = (Inr run, y)"
    and obs: "obs = sort_key (\<lambda>m. (period_end_ms m, vintage_at_ms m)) (map snd (observations run))"
    and p': "p' = p\<lparr>last_skipped := run_skipped run\<rparr>"
    using assms by (auto simp: fx_fetch_def Let_def result_simps simp del: first_raise.simps)
  have "fst (page_loop p tr req ?key ?cur url dates 0 0 \<lparr>run_skipped = [], observations = []\<rparr> x1) = Inr run"
    using loop by simp
  then have "obs_ok req ?key ?cur (observations run)" by (rule page_loop_ok) (simp add: obs_ok_def)
  then show thesis by (rule that(1) [OF _ obs p'])
qed


section \<open>The value in force\<close>

text \<open>The latest value of a dated list at time \<open>T\<close>: what a reader at \<open>T\<close> would see.\<close>

fun as_of :: "pyfloat option \<Rightarrow> (int \<times> pyfloat) list \<Rightarrow> int \<Rightarrow> pyfloat option" where
  "as_of prev [] T = prev"
| "as_of prev ((t, v) # cs) T = (if t \<le> T then as_of (Some v) cs T else prev)"

fun changes :: "pyfloat option \<Rightarrow> (int \<times> pyfloat) list \<Rightarrow> bool" where
  "changes prev [] = True"
| "changes prev ((t, v) # cs) = (prev \<noteq> Some v \<and> changes (Some v) cs)"

lemma as_of_late: "sorted (map fst cs) \<Longrightarrow> (\<forall>c \<in> set cs. T < fst c) \<Longrightarrow> as_of prev cs T = prev"
  by (cases cs) auto

lemma drop_repeats_subset: "set (drop_repeats prev cs) \<subseteq> set cs"
  by (induction prev cs rule: drop_repeats.induct) auto

lemma drop_repeats_changes: "changes prev (drop_repeats prev cs)"
  by (induction prev cs rule: drop_repeats.induct) auto

lemma drop_repeats_sorted: "sorted (map fst cs) \<Longrightarrow> sorted (map fst (drop_repeats prev cs))"
proof (induction prev cs rule: drop_repeats.induct)
  case (2 prev t v cs)
  then show ?case using drop_repeats_subset [of "Some v" cs] by auto
qed simp

lemma drop_repeats_as_of:
  "sorted (map fst cs) \<Longrightarrow> as_of prev (drop_repeats prev cs) T = as_of prev cs T"
proof (induction prev cs rule: drop_repeats.induct)
  case (2 prev t v cs)
  show ?case
  proof (cases "prev = Some v \<and> \<not> t \<le> T")
    case True
    then have "\<forall>c \<in> set (drop_repeats prev cs). T < fst c"
      using "2.prems" drop_repeats_subset [of prev cs] by fastforce
    moreover have "sorted (map fst (drop_repeats prev cs))"
      using "2.prems" by (intro drop_repeats_sorted) simp
    ultimately show ?thesis using True as_of_late by simp
  qed (use 2 in auto)
qed simp

text \<open>The dated values of the entries, each at the time it was available, not before the release.\<close>

definition dated_values :: "int \<Rightarrow> (bool \<times> entry) list \<Rightarrow> (int \<times> pyfloat) set" where
  "dated_values released_at entries = {c. \<exists>en \<in> set entries. entry_vintage released_at en = Inr (Inr c)}"

lemma vintage_fold:
  "rfold (vintage_step rel) (cands, sk) entries = Inr (cands', sk') \<Longrightarrow>
   set cands' = set cands \<union> dated_values rel entries \<and> (distinct cands \<longrightarrow> distinct cands')"
proof (induction entries arbitrary: cands sk)
  case (Cons en entries)
  obtain outcome where outcome: "entry_vintage rel en = Inr outcome"
    using Cons.prems by (auto simp: result_simps)
  show ?case
  proof (cases outcome)
    case (Inl reason)
    then have "rfold (vintage_step rel) (cands, count_skip reason sk) entries = Inr (cands', sk')"
      using Cons.prems outcome by simp
    then show ?thesis using Cons.IH outcome Inl by (fastforce simp: dated_values_def)
  next
    case (Inr c)
    let ?next = "if c \<in> set cands then cands else cands @ [c]"
    have "rfold (vintage_step rel) (?next, sk) entries = Inr (cands', sk')"
      using Cons.prems outcome Inr by simp
    then have "set cands' = set ?next \<union> dated_values rel entries \<and> (distinct ?next \<longrightarrow> distinct cands')"
      by (rule Cons.IH)
    moreover have "dated_values rel (en # entries) = insert c (dated_values rel entries)"
      using outcome Inr by (auto simp: dated_values_def)
    ultimately show ?thesis by auto
  qed
qed (simp add: dated_values_def)

lemma entry_vintage_released: "entry_vintage rel en = Inr (Inr c) \<Longrightarrow> rel \<le> fst c"
  by (cases en) (auto simp: entry_vintage_def result_simps split: option.splits)

lemma sorted_fst: "sorted (ps :: (int \<times> rat) list) \<Longrightarrow> sorted (map fst ps)"
  by (induction ps) (auto simp: less_eq_prod_def)

lemma vintage_key_sorted: "sorted (map fst (sort_key vintage_key cs))"
  using sorted_fst [of "map vintage_key (sort_key vintage_key cs)"] by (simp add: vintage_key_def comp_def)

text \<open>
  C22. The vintages of a record are its history: they are in time order, each is a value some entry
  of the record carries, dated when that entry was available and never before the release, two
  neighbours differ, and at every time the value in force by them is the value in force by all the
  dated entries together, of which only repetitions were dropped.
\<close>

theorem vintages_history:
  assumes "vintages rec rel sk = Inr (vs, sk')" and "vintage_entries rec = Inr entries"
  shows "sorted (map fst vs) \<and> changes None vs \<and> set vs \<subseteq> dated_values rel entries \<and>
    (\<forall>c \<in> set vs. rel \<le> fst c) \<and>
    (\<exists>cs. set cs = dated_values rel entries \<and> distinct cs \<and> sorted (map vintage_key cs) \<and>
       (\<forall>T. as_of None vs T = as_of None cs T))"
proof -
  obtain cands where fold: "rfold (vintage_step rel) ([], sk) entries = Inr (cands, sk')"
    and vs: "vs = drop_repeats None (sort_key vintage_key cands)"
    using assms by (auto simp: vintages_def result_simps split: prod.splits)
  let ?cs = "sort_key vintage_key cands"
  have cands: "set ?cs = dated_values rel entries" "distinct ?cs"
    using vintage_fold [OF fold] by simp_all
  have sorted: "sorted (map fst ?cs)" by (rule vintage_key_sorted)
  have sub: "set vs \<subseteq> dated_values rel entries" using drop_repeats_subset vs cands(1) by metis
  have "\<forall>c \<in> set vs. rel \<le> fst c"
    using sub entry_vintage_released by (fastforce simp: dated_values_def)
  moreover have "\<forall>T. as_of None vs T = as_of None ?cs T"
    unfolding vs using drop_repeats_as_of [OF sorted] by blast
  moreover have "sorted (map vintage_key ?cs)" by simp
  ultimately show ?thesis
    using drop_repeats_sorted [OF sorted, of None] drop_repeats_changes [of None ?cs] sub cands
    unfolding vs by blast
qed

text \<open>Two revisions published before the release, the smaller value last.\<close>

definition revised_record :: entry where
  "revised_record =
     [(''revisions'', JList
        [JDict [(''val'', JFloat (Fin 2)), (''publication_at_ns'', JInt 3000000)],
         JDict [(''val'', JFloat (Fin 1)), (''publication_at_ns'', JInt 8000000)]])]"

lemma revised_vintages:
  "vintages revised_record 10 [] = Inr ([(10, Fin 1), (10, Fin 2)], [])"
  "vintage_entries revised_record = Inr
     [(False, [(''val'', JFloat (Fin 2)), (''publication_at_ns'', JInt 3000000)]),
      (False, [(''val'', JFloat (Fin 1)), (''publication_at_ns'', JInt 8000000)])]"
  by (simp_all add: vintages_def vintage_entries_def revised_record_def jget_def as_entries_def
      entry_vintage_def fx_optional_number_def available_at_ms_def is_snapshot_def snapshot_statuses_def
      fx_optional_epoch_ms_def vintage_key_def)

lemma vintages_history_witness:
  "sorted (map fst [(10, Fin 1), (10 :: int, Fin 2)]) \<and> changes None [(10, Fin 1), (10, Fin 2)]"
  using vintages_history [OF revised_vintages] by simp

text \<open>
  Revisions that become available before the release are dated at the release, where the
  larger value wins whichever was published last: here the later revision says 1 and the
  observation stored is 2.
\<close>

theorem same_time_keeps_larger:
  "vintages revised_record 10 [] = Inr ([(10, Fin 1), (10, Fin 2)], []) \<and>
   rfold (store_vintage ''inflation'' ''USD'' 0 10 ''pct'' ''fx'') [] [(10, Fin 1), (10, Fin 2)] =
     Inr [((0, 10), \<lparr>mo_key = ''inflation'', mo_currency = ''USD'', period_end_ms = 0, released_at_ms = 10,
        vintage_at_ms = 10, mo_value = Fin 2, mo_unit = ''pct'', mo_source = ''fx''\<rparr>)]"
proof
  have "\<not> blank ''inflation''" "\<not> blank ''USD''" "\<not> blank ''pct''" "\<not> blank ''fx''"
    by (simp_all add: blank_iff py_space_def code_def)
  then have "mk_macro_observation \<lparr>mo_key = ''inflation'', mo_currency = ''USD'', period_end_ms = 0,
        released_at_ms = 10, vintage_at_ms = 10, mo_value = Fin v, mo_unit = ''pct'', mo_source = ''fx''\<rparr> =
      Inr \<lparr>mo_key = ''inflation'', mo_currency = ''USD'', period_end_ms = 0, released_at_ms = 10,
        vintage_at_ms = 10, mo_value = Fin v, mo_unit = ''pct'', mo_source = ''fx''\<rparr>" for v
    by (simp add: mk_macro_observation_iff macro_ok_def)
  then show "rfold (store_vintage ''inflation'' ''USD'' 0 10 ''pct'' ''fx'') [] [(10, Fin 1), (10, Fin 2)] =
     Inr [((0, 10), \<lparr>mo_key = ''inflation'', mo_currency = ''USD'', period_end_ms = 0, released_at_ms = 10,
        vintage_at_ms = 10, mo_value = Fin 2, mo_unit = ''pct'', mo_source = ''fx''\<rparr>)]"
    by simp
qed (rule revised_vintages)

section \<open>Bounded requests\<close>

text \<open>A measure of the transport that counts its requests.\<close>

definition counts_requests :: "('x \<Rightarrow> nat) \<Rightarrow> 'x transport \<Rightarrow> bool" where
  "counts_requests cnt tr =
     ((\<forall>url q h x. cnt (snd (tr_get tr url q h x)) = cnt x + 1) \<and>
      (\<forall>d x. cnt (tr_sleep tr d x) = cnt x) \<and> (\<forall>w x. cnt (tr_warn tr w x) = cnt x))"

lemma get_page_requests:
  "counts_requests cnt tr \<Longrightarrow>
   cnt (snd (get_page p tr url q attempt x)) \<le> cnt x + (nat (max_retries p - int attempt) + 1)"
proof (induction p tr url q attempt x rule: get_page.induct)
  case (1 p tr url q attempt x)
  obtain r x' where get: "tr_get tr url q (fx_headers p) x = (r, x')" by (cases "tr_get tr url q (fx_headers p) x")
  have one: "cnt x' = cnt x + 1" using "1.prems" get unfolding counts_requests_def by (metis snd_conv)
  have sleep: "cnt (tr_sleep tr d y) = cnt y" for d y using "1.prems" by (simp add: counts_requests_def)
  show ?case
  proof (cases "\<exists>a d. r = Inr a \<and> status a \<in> set retry_statuses \<and> int attempt < max_retries p \<and>
      retry_delay p attempt (retry_after a) = Inr d")
    case True
    then obtain a d where a: "r = Inr a" "status a \<in> set retry_statuses" "int attempt < max_retries p"
      "retry_delay p attempt (retry_after a) = Inr d" by blast
    have "cnt (snd (get_page p tr url q (Suc attempt) (tr_sleep tr d x'))) \<le>
        cnt (tr_sleep tr d x') + (nat (max_retries p - int (Suc attempt)) + 1)"
      using a(2,3) by (intro "1.IH" [OF get [symmetric] a(1) _ a(4) "1.prems"]) simp
    then show ?thesis using a get one sleep by (subst get_page.simps) simp
  next
    case False
    then have "snd (get_page p tr url q attempt x) = x'"
      using get by (subst get_page.simps) (auto split: sum.splits)
    then show ?thesis using one by simp
  qed
qed

lemma warnings_no_request: "counts_requests cnt tr \<Longrightarrow> cnt (fold (tr_warn tr) ws x) = cnt x"
  by (induction ws arbitrary: x) (auto simp: counts_requests_def)

lemma page_loop_requests:
  "counts_requests cnt tr \<Longrightarrow>
   cnt (snd (page_loop p tr req key currency url dates pages offset run x)) \<le>
     cnt x + nat (max_pages p - int pages) * (nat (max_retries p) + 1)"
proof (induction p tr req key currency url dates pages offset run x rule: page_loop.induct)
  case (1 p tr req key currency url dates pages offset run x)
  let ?R = "nat (max_retries p) + 1"
  show ?case
  proof (cases "int (Suc pages) > max_pages p")
    case True
    then show ?thesis by (subst page_loop.simps) simp
  next
    case pages: False
    let ?q = "page_params (fst dates) (snd dates) offset"
    obtain a x1 where get: "get_page p tr url ?q 0 x = (a, x1)" by (cases "get_page p tr url ?q 0 x")
    have x1: "cnt x1 \<le> cnt x + ?R" using get_page_requests [OF "1.prems", of p url ?q 0 x] get by simp
    have left: "nat (max_pages p - int pages) = Suc (nat (max_pages p - int (Suc pages)))"
      using pages by simp
    have stop: "cnt y \<le> cnt x + nat (max_pages p - int pages) * ?R" if "cnt y = cnt x1" for y
      using x1 left that by simp
    show ?thesis
    proof (cases "\<exists>pl ws n run' k. a = Inr pl \<and> (if pages = 0 then access_warnings pl req else Inr []) = Inr ws \<and>
        page_records p req key currency pl run = Inr (n, run') \<and>
        next_offset pl offset (int n) = Inr (Some k) \<and> n \<noteq> 0")
      case True
      then obtain pl ws n run' k where c: "a = Inr pl"
        "(if pages = 0 then access_warnings pl req else Inr []) = Inr ws"
        "page_records p req key currency pl run = Inr (n, run')"
        "next_offset pl offset (int n) = Inr (Some k)" "n \<noteq> 0" by blast
      let ?x2 = "fold (tr_warn tr) ws x1"
      have x2: "cnt ?x2 = cnt x1" by (rule warnings_no_request [OF "1.prems"])
      have "cnt (snd (page_loop p tr req key currency url dates (Suc pages) k run' ?x2)) \<le>
          cnt ?x2 + nat (max_pages p - int (Suc pages)) * ?R"
        by (rule "1.IH" [OF pages get [symmetric] c(1,2) refl c(3) refl c(4) refl c(5) "1.prems"])
      then have "cnt (snd (page_loop p tr req key currency url dates (Suc pages) k run' ?x2)) \<le>
          cnt x + nat (max_pages p - int pages) * ?R"
        using x1 x2 left by simp
      then show ?thesis using pages get c by (subst page_loop.simps) (simp add: Let_def)
    next
      case False
      have "\<exists>y. snd (page_loop p tr req key currency url dates pages offset run x) = y \<and> cnt y = cnt x1"
      proof (cases a)
        case (Inl e)
        then show ?thesis using pages get by (subst page_loop.simps) simp
      next
        case (Inr pl)
        then show ?thesis
          using pages get False warnings_no_request [OF "1.prems"]
          by (subst page_loop.simps)
            (auto simp: Let_def split: sum.splits prod.splits option.splits if_splits)
      qed
      then show ?thesis using stop by blast
    qed
  qed
qed

text \<open>
  C28. A fetch always returns, after at most \<open>max_pages * (max_retries + 1)\<close> requests, whatever the
  service answers: pages that never end and statuses that always ask for a retry included.
\<close>

theorem macro_requests_bounded:
  assumes "counts_requests cnt tr" and "0 \<le> max_pages p" and "0 \<le> max_retries p"
  shows "int (cnt (snd (fx_fetch p tr req x))) \<le> int (cnt x) + max_pages p * (max_retries p + 1)"
proof -
  let ?cur = "upper_text (py_strip (mr_currency req))" and ?key = "lower_text (py_strip (mr_key req))"
  have "snd (fx_fetch p tr req x) = x \<or>
      (\<exists>url dates. snd (fx_fetch p tr req x) =
         snd (page_loop p tr req ?key ?cur url dates 0 0 \<lparr>run_skipped = [], observations = []\<rparr> x))"
    unfolding fx_fetch_def Let_def sbind_def slift_def
    by (auto split: sum.splits prod.splits simp del: first_raise.simps) (metis snd_conv)+
  then show ?thesis
  proof
    assume "snd (fx_fetch p tr req x) = x"
    then show ?thesis using assms(2,3) by simp
  next
    assume "\<exists>url dates. snd (fx_fetch p tr req x) =
        snd (page_loop p tr req ?key ?cur url dates 0 0 \<lparr>run_skipped = [], observations = []\<rparr> x)"
    then have "cnt (snd (fx_fetch p tr req x)) \<le> cnt x + nat (max_pages p) * (nat (max_retries p) + 1)"
      using page_loop_requests [OF assms(1), of p req ?key ?cur _ _ 0] by fastforce
    then have "int (cnt (snd (fx_fetch p tr req x))) \<le>
        int (cnt x + nat (max_pages p) * (nat (max_retries p) + 1))" by (rule of_nat_mono)
    then show ?thesis using assms(2,3) by (simp add: distrib_left)
  qed
qed

text \<open>A service that always asks for a retry, on a state that counts the requests.\<close>

definition busy_transport :: "nat transport" where
  "busy_transport =
     \<lparr>tr_get = (\<lambda>url q h n. (Inr \<lparr>status = 503, payload = JNull, retry_after = None\<rparr>, n + 1)),
      tr_sleep = (\<lambda>d n. n), tr_warn = (\<lambda>w n. n)\<rparr>"

definition keyed_provider :: fx_provider where
  "keyed_provider =
     \<lparr>api_key = Some ''s3cret'', api_url = ''https://h'', max_retries = 2, retry_backoff = Fin 1,
      max_retry_after = Fin 60, max_pages = 1000, include_assumed = False, last_skipped = []\<rparr>"

lemma macro_requests_bounded_witness:
  "int (snd (fx_fetch keyed_provider busy_transport
     \<lparr>mr_key = ''inflation'', mr_currency = ''usd'', mr_start_ms = 0, mr_end_ms = 86400000\<rparr> 0)) \<le> 3000"
  using macro_requests_bounded [of id busy_transport keyed_provider _ 0]
  by (simp add: counts_requests_def busy_transport_def keyed_provider_def)

text \<open>A service with one page of one announcement.\<close>

definition page_transport :: "unit transport" where
  "page_transport = \<lparr>tr_get = (\<lambda>url q h x. (Inr \<lparr>status = 200, payload = JDict [(''data'', JList
       [JDict [(''date'', JStr ''1970-01-01''), (''val'', JFloat (Fin 3)), (''announcement_datetime'', JInt 5)]])],
       retry_after = None\<rparr>, x)), tr_sleep = (\<lambda>d x. x), tr_warn = (\<lambda>m x. x)\<rparr>"

definition first_days :: macro_request where
  "first_days = \<lparr>mr_key = ''cpi'', mr_currency = ''usd'', mr_start_ms = 0, mr_end_ms = 1000\<rparr>"

definition first_observation :: macro_observation where
  "first_observation =
     \<lparr>mo_key = ''cpi'', mo_currency = ''USD'', period_end_ms = 0, released_at_ms = 5000,
      vintage_at_ms = 5000, mo_value = Fin 3, mo_unit = ''unknown'', mo_source = ''fxmacrodata''\<rparr>"

lemma page_transport_fetch:
  "fst (fx_fetch keyed_provider page_transport first_days ()) = Inr ([first_observation], keyed_provider)"
  by code_simp

section \<open>The key stays out of messages\<close>

text \<open>A text without an opening bracket that the result starts with, the original starts with.\<close>

lemma replace_prefix:
  "CHR ''['' \<notin> set q \<Longrightarrow> prefix q (replace_text k ''[redacted]'' s) \<Longrightarrow> prefix q s"
proof (induction k "''[redacted]''" s arbitrary: q rule: replace_text.induct)
  case (1 k s)
  show ?case
  proof (cases "k = [] \<or> s = []")
    case True
    then show ?thesis using "1.prems"(2) by (subst (asm) replace_text.simps) simp
  next
    case go: False
    show ?thesis
    proof (cases "take (length k) s = k")
      case True
      then have "prefix q (''[redacted]'' @ replace_text k ''[redacted]'' (drop (length k) s))"
        using "1.prems"(2) go by (subst (asm) replace_text.simps) simp
      then show ?thesis using "1.prems"(1) by (cases q) auto
    next
      case False
      then have pre: "prefix q (hd s # replace_text k ''[redacted]'' (tl s))"
        using "1.prems"(2) go by (subst (asm) replace_text.simps) simp
      show ?thesis
      proof (cases q)
        case (Cons c q')
        then have "c = hd s" "prefix q' (replace_text k ''[redacted]'' (tl s))" using pre by auto
        then have "prefix q' (tl s)" using "1.hyps"(2) [OF go False] "1.prems"(1) Cons by simp
        then show ?thesis using \<open>c = hd s\<close> go Cons by (cases s) auto
      qed simp
    qed
  qed
qed

lemma sublist_bracketed:
  assumes "sublist k (''[redacted]'' @ r)" and "CHR ''['' \<notin> set k" and "CHR '']'' \<notin> set k"
  shows "sublist k ''redacted'' \<or> sublist k r"
proof -
  obtain u v where uv: "''[redacted]'' @ r = u @ k @ v" using assms(1) by (auto simp: sublist_def)
  show ?thesis
  proof (cases k)
    case Nil
    then show ?thesis by simp
  next
    case (Cons c k')
    show ?thesis
    proof (cases "length u \<ge> 10")
      case True
      have "drop 10 (''[redacted]'' @ r) = drop 10 (u @ k @ v)" using uv by simp
      then have "r = drop 10 u @ k @ v" using True by simp
      then show ?thesis by (auto simp: sublist_def)
    next
      case False
      have len: "length (u @ k) \<le> 9"
      proof (rule ccontr)
        assume "\<not> length (u @ k) \<le> 9"
        then have long: "9 < length (u @ k)" by simp
        have "(''[redacted]'' @ r) ! 9 = ((u @ k) @ v) ! 9" using uv by simp
        then have "(u @ k) ! 9 = CHR '']''"
          unfolding nth_append_left [OF long] by simp
        moreover have "9 - length u < length k" "\<not> 9 < length u"
          using False \<open>\<not> length (u @ k) \<le> 9\<close> by simp_all
        ultimately have "CHR '']'' \<in> set k" by (metis nth_append nth_mem)
        then show False using assms(3) by simp
      qed
      have "u \<noteq> []" using uv Cons assms(2) by (cases u) auto
      then obtain u' where u: "u = CHR ''['' # u'" using uv by (cases u) auto
      have "take 9 (''[redacted]'' @ r) = take 9 (u @ k @ v)" using uv by simp
      then have "''[redacted'' = u @ k @ take (9 - length (u @ k)) v" using len by simp
      then have "''redacted'' = u' @ k @ take (9 - length (u @ k)) v" using u by simp
      then show ?thesis unfolding sublist_def by blast
    qed
  qed
qed

lemma replace_removes:
  "k \<noteq> [] \<Longrightarrow> CHR ''['' \<notin> set k \<Longrightarrow> CHR '']'' \<notin> set k \<Longrightarrow> \<not> sublist k ''redacted'' \<Longrightarrow>
   \<not> sublist k (replace_text k ''[redacted]'' s)"
proof (induction k "''[redacted]''" s rule: replace_text.induct)
  case (1 k s)
  show ?case
  proof (cases "s = []")
    case True
    then show ?thesis using "1.prems" by (subst replace_text.simps) simp
  next
    case go: False
    then have ks: "\<not> (k = [] \<or> s = [])" using "1.prems" by simp
    show ?thesis
    proof (cases "take (length k) s = k")
      case True
      have "\<not> sublist k (''[redacted]'' @ replace_text k ''[redacted]'' (drop (length k) s))"
        using sublist_bracketed "1.hyps"(1) [OF ks True "1.prems"] "1.prems" by blast
      then show ?thesis using True ks by (subst replace_text.simps) simp
    next
      case False
      have step: "replace_text k ''[redacted]'' s = hd s # replace_text k ''[redacted]'' (tl s)"
        using False ks by (subst replace_text.simps) simp
      have "\<not> prefix k (replace_text k ''[redacted]'' s)"
      proof
        assume "prefix k (replace_text k ''[redacted]'' s)"
        with "1.prems"(2) have "prefix k s" by (rule replace_prefix)
        then show False using False by (metis append_eq_conv_conj prefix_def)
      qed
      then show ?thesis
        using "1.hyps"(2) [OF ks False "1.prems"] unfolding step by (simp add: sublist_Cons_right)
    qed
  qed
qed

text \<open>
  An API key never appears in the message of an HTTP error, whatever the service echoes back,
  for any key without square brackets that is not itself part of the word \<open>redacted\<close>.
\<close>

theorem api_key_redacted:
  assumes "api_key p = Some k" and "k \<noteq> []" and "CHR ''['' \<notin> set k" and "CHR '']'' \<notin> set k"
    and "\<not> sublist k ''redacted''" and "page_answer p r = raise FxMacroDataHTTPError m"
  shows "\<not> sublist k m"
proof (cases "200 \<le> status r \<and> status r < 300")
  case True
  then have "page_answer p r = (case payload r of JDict d \<Rightarrow> Inr d
      | _ \<Rightarrow> raise FxMacroDataDataError ''response must be a JSON object'')"
    unfolding page_answer_def by simp
  with assms(6) show ?thesis by (cases "payload r") simp_all
next
  case False
  then have "m = replace_text k ''[redacted]'' (error_message (payload r))"
    using assms(6) unfolding page_answer_def assms(1) by simp
  then show ?thesis using replace_removes [OF assms(2-5)] by simp
qed

lemma api_key_redacted_witness:
  "\<exists>m. page_answer keyed_provider
      \<lparr>status = 401, payload = JDict [(''detail'', JStr ''bad key s3cret'')], retry_after = None\<rparr> =
      raise FxMacroDataHTTPError m \<and> \<not> sublist ''s3cret'' m"
proof -
  let ?r = "\<lparr>status = 401, payload = JDict [(''detail'', JStr ''bad key s3cret'')], retry_after = None\<rparr>"
  let ?m = "replace_text ''s3cret'' ''[redacted]'' (error_message (payload ?r))"
  have "page_answer keyed_provider ?r = raise FxMacroDataHTTPError ?m"
    by (simp add: page_answer_def keyed_provider_def)
  moreover have "\<not> sublist ''s3cret'' ''redacted''"
    using set_mono_sublist [of "''s3cret''" "''redacted''"] by auto
  ultimately show ?thesis
    using api_key_redacted [of keyed_provider "''s3cret''" ?r ?m] by (simp add: keyed_provider_def)
qed

end
