(* ===== verification/Json.thy ===== *)
theory Json
  imports PyValue
begin

text \<open>
  \<open>json.dumps(value, separators=(",", ":"), allow_nan=False)\<close>, the form in which parameters and
  payloads leave the package: ASCII text with escapes, and an error for a float without a JSON form.
\<close>

definition json_char :: "char \<Rightarrow> string" where
  "json_char c =
     (let n = code c in
      if n = 34 \<or> n = 92 then [CHR 0x5C, c]
      else if n = 10 then [CHR 0x5C, CHR ''n''] else if n = 13 then [CHR 0x5C, CHR ''r'']
      else if n = 9 then [CHR 0x5C, CHR ''t''] else if n = 8 then [CHR 0x5C, CHR ''b'']
      else if n = 12 then [CHR 0x5C, CHR ''f'']
      else if 32 \<le> n \<and> n \<le> 126 then [c]
      else [CHR 0x5C, CHR ''u'', CHR ''0'', CHR ''0'', hex_digit (n div 16), hex_digit (n mod 16)])"

definition json_string :: "string \<Rightarrow> string" where
  "json_string s = CHR 0x22 # concat (map json_char s) @ [CHR 0x22]"

fun joined :: "string list \<Rightarrow> string" where
  "joined [] = []"
| "joined [s] = s"
| "joined (s # t # ss) = s @ CHR '','' # joined (t # ss)"

fun json_text :: "json \<Rightarrow> string" where
  "json_text JNull = ''null''"
| "json_text (JBool b) = (if b then ''true'' else ''false'')"
| "json_text (JInt n) = int_text n"
| "json_text (JFloat f) = float_text f"
| "json_text (JStr s) = json_string s"
| "json_text (JList xs) = CHR ''['' # joined (map json_text xs) @ '']''"
| "json_text (JDict d) =
     CHR ''{'' # joined (map (\<lambda>(k, v). json_string k @ CHR '':'' # json_text v) d) @ ''}''"

fun json_finite :: "json \<Rightarrow> bool" where
  "json_finite (JFloat f) = isfinite f"
| "json_finite (JList xs) = list_all json_finite xs"
| "json_finite (JDict d) = list_all (\<lambda>(k, v). json_finite v) d"
| "json_finite _ = True"

definition dumps :: "json \<Rightarrow> string result" where
  "dumps v =
     (if json_finite v then Inr (json_text v)
      else raise ValueError ''Out of range float values are not JSON compliant'')"

lemma dumps_returns [simp]: "(dumps v = Inr s) = (json_finite v \<and> s = json_text v)"
  by (auto simp: dumps_def)

text \<open>No character outside printable ASCII leaves the encoder.\<close>

lemma hex_digit_ascii: "n < 16 \<Longrightarrow> 32 \<le> code (hex_digit n) \<and> code (hex_digit n) \<le> 126"
  by (simp add: hex_digit_def code_def)

lemma json_char_ascii: "c' \<in> set (json_char c) \<Longrightarrow> 32 \<le> code c' \<and> code c' \<le> 126"
proof -
  have "code c < 256" by (simp add: code_def)
  then have "code c div 16 < 16" "code c mod 16 < 16" by simp_all
  then show "c' \<in> set (json_char c) \<Longrightarrow> ?thesis"
    using hex_digit_ascii [of "code c div 16"] hex_digit_ascii [of "code c mod 16"]
    by (auto simp: json_char_def Let_def code_def split: if_splits)
qed

lemma json_string_ascii: "c \<in> set (json_string s) \<Longrightarrow> 32 \<le> code c \<and> code c \<le> 126"
  using json_char_ascii by (auto simp: json_string_def code_def)

end
