(* ===== verification/Backtest.thy ===== *)
theory Backtest
  imports Engine Json
begin

text \<open>
  \<open>src/pineforge_data/backtest.py\<close>: the options of a backtest, the C structures of its report,
  the runner over the functions of a loaded strategy library and the detached, JSON-safe copy of
  the report.  The library is a parameter: a record of its functions on a state \<open>'l\<close> of its own.
\<close>

section \<open>Options\<close>

datatype magnifier_distribution = UNIFORM | COSINE | TRIANGLE | ENDPOINTS | FRONT_LOADED | BACK_LOADED

fun magnifier_value :: "magnifier_distribution \<Rightarrow> int" where
  "magnifier_value UNIFORM = 0"
| "magnifier_value COSINE = 1"
| "magnifier_value TRIANGLE = 2"
| "magnifier_value ENDPOINTS = 3"
| "magnifier_value FRONT_LOADED = 4"
| "magnifier_value BACK_LOADED = 5"

text \<open>\<open>.name.lower()\<close>\<close>

fun magnifier_name :: "magnifier_distribution \<Rightarrow> string" where
  "magnifier_name UNIFORM = ''uniform''"
| "magnifier_name COSINE = ''cosine''"
| "magnifier_name TRIANGLE = ''triangle''"
| "magnifier_name ENDPOINTS = ''endpoints''"
| "magnifier_name FRONT_LOADED = ''front_loaded''"
| "magnifier_name BACK_LOADED = ''back_loaded''"

record backtest_options =
  input_timeframe :: string
  script_timeframe :: string
  bar_magnifier :: bool
  magnifier_samples :: int
  magnifier :: magnifier_distribution
  trace_enabled :: bool
  chart_timezone :: "string option"
  trade_start_time_ms :: "int option"

definition mk_backtest_options :: "backtest_options \<Rightarrow> backtest_options result" where
  "mk_backtest_options q =
     rbind (first_raise
       [(magnifier_samples q \<le> 0, ValueError, ''magnifier_samples must be positive''),
        (input_timeframe q \<noteq> [] \<and> blank (input_timeframe q), ValueError,
           ''input_timeframe must not be whitespace''),
        (script_timeframe q \<noteq> [] \<and> blank (script_timeframe q), ValueError,
           ''script_timeframe must not be whitespace''),
        (some_bad blank (chart_timezone q), ValueError, ''chart_timezone must not be empty''),
        (some_bad (\<lambda>t. \<not> (0 \<le> t \<and> t \<le> 2 ^ 63 - 1)) (trade_start_time_ms q), ValueError,
           ''trade_start_time_ms must be a non-negative signed 64-bit integer'')])
       (\<lambda>_. Inr q)"

definition default_options :: backtest_options where
  "default_options = \<lparr>input_timeframe = [], script_timeframe = [], bar_magnifier = False,
     magnifier_samples = 4, magnifier = ENDPOINTS, trace_enabled = False, chart_timezone = None,
     trade_start_time_ms = None\<rparr>"

section \<open>The report structures\<close>

definition PfTrade_type :: ctype where
  "PfTrade_type = C_struct
     [(''entry_time'', C_int64), (''exit_time'', C_int64), (''entry_price'', C_double),
      (''exit_price'', C_double), (''pnl'', C_double), (''pnl_pct'', C_double), (''is_long'', C_int),
      (''max_runup'', C_double), (''max_drawdown'', C_double), (''qty'', C_double),
      (''commission'', C_double), (''entry_bar_index'', C_int32), (''exit_bar_index'', C_int32),
      (''open_at_end'', C_int32)]"

definition PfTradeStats_type :: ctype where
  "PfTradeStats_type = C_struct
     [(''num_trades'', C_int32), (''num_wins'', C_int32), (''num_losses'', C_int32), (''num_even'', C_int32),
      (''percent_profitable'', C_double), (''net_profit'', C_double), (''net_profit_pct'', C_double),
      (''gross_profit'', C_double), (''gross_profit_pct'', C_double), (''gross_loss'', C_double),
      (''gross_loss_pct'', C_double), (''profit_factor'', C_double), (''avg_trade'', C_double),
      (''avg_trade_pct'', C_double), (''avg_win'', C_double), (''avg_win_pct'', C_double),
      (''avg_loss'', C_double), (''avg_loss_pct'', C_double), (''ratio_avg_win_avg_loss'', C_double),
      (''largest_win'', C_double), (''largest_win_pct'', C_double), (''largest_loss'', C_double),
      (''largest_loss_pct'', C_double), (''commission_paid'', C_double), (''expectancy'', C_double),
      (''max_consecutive_wins'', C_int32), (''max_consecutive_losses'', C_int32),
      (''avg_bars_in_trade'', C_double), (''avg_bars_in_wins'', C_double), (''avg_bars_in_losses'', C_double)]"

definition PfEquityStats_type :: ctype where
  "PfEquityStats_type = C_struct
     [(''max_equity_drawdown'', C_double), (''max_equity_drawdown_pct'', C_double),
      (''max_equity_runup'', C_double), (''max_equity_runup_pct'', C_double),
      (''buy_hold_return'', C_double), (''buy_hold_return_pct'', C_double), (''sharpe_tv'', C_double),
      (''sortino_tv'', C_double), (''sharpe_bar'', C_double), (''sortino_bar'', C_double),
      (''cagr'', C_double), (''calmar'', C_double), (''recovery_factor'', C_double),
      (''time_in_market_pct'', C_double), (''open_pl'', C_double)]"

definition PfMetrics_type :: ctype where
  "PfMetrics_type = C_struct
     [(''all'', PfTradeStats_type), (''longs'', PfTradeStats_type), (''shorts'', PfTradeStats_type),
      (''equity'', PfEquityStats_type)]"

definition PfEquityPoint_type :: ctype where
  "PfEquityPoint_type = C_struct [(''time_ms'', C_int64), (''equity'', C_double), (''open_profit'', C_double)]"

definition PfSecurityDiagnostic_type :: ctype where
  "PfSecurityDiagnostic_type = C_struct
     [(''sec_id'', C_int), (''feed_count'', C_int64), (''complete_count'', C_int64), (''partial_count'', C_int64)]"

definition PfTraceEntry_type :: ctype where
  "PfTraceEntry_type = C_struct
     [(''timestamp'', C_int64), (''bar_index'', C_int32), (''name_id'', C_int32), (''value'', C_double)]"

definition PfReport_type :: ctype where
  "PfReport_type = C_struct
     [(''total_trades'', C_int), (''trades'', C_pointer), (''trades_len'', C_int), (''net_profit'', C_double),
      (''input_bars_processed'', C_int64), (''script_bars_processed'', C_int64),
      (''security_feeds_total'', C_int64), (''security_complete_total'', C_int64),
      (''security_partial_total'', C_int64), (''magnifier_sub_bars_total'', C_int64),
      (''magnifier_sample_ticks_total'', C_int64), (''input_tf_seconds'', C_int),
      (''script_tf_seconds'', C_int), (''script_tf_ratio'', C_int), (''needs_aggregation'', C_int),
      (''bar_magnifier_enabled'', C_int), (''security_diag'', C_pointer), (''security_diag_len'', C_int),
      (''trace'', C_pointer), (''trace_len'', C_int), (''trace_names'', C_pointer),
      (''trace_names_len'', C_int), (''metrics'', PfMetrics_type), (''equity_curve'', C_pointer),
      (''equity_curve_len'', C_int64), (''broker_state_hash'', C_pointer),
      (''broker_state_hash_len'', C_int64)]"

text \<open>The guard at the end of the module.\<close>

definition report_layout_guard :: "unit result" where
  "report_layout_guard =
     require (\<not> (sizeof PfReport_type \<noteq> 960 \<or> offset_of PfReport_type ''metrics'' \<noteq> Some 160 \<or>
                 sizeof PfTrade_type \<noteq> 104)) RuntimeError
       ''unsupported platform ABI layout for PineForge reports''"

definition trade_stats_fields :: "string list" where
  "trade_stats_fields =
     [''num_trades'', ''num_wins'', ''num_losses'', ''num_even'', ''percent_profitable'', ''net_profit'',
      ''net_profit_pct'', ''gross_profit'', ''gross_profit_pct'', ''gross_loss'', ''gross_loss_pct'',
      ''profit_factor'', ''avg_trade'', ''avg_trade_pct'', ''avg_win'', ''avg_win_pct'', ''avg_loss'',
      ''avg_loss_pct'', ''ratio_avg_win_avg_loss'', ''largest_win'', ''largest_win_pct'', ''largest_loss'',
      ''largest_loss_pct'', ''commission_paid'', ''expectancy'', ''max_consecutive_wins'',
      ''max_consecutive_losses'', ''avg_bars_in_trade'', ''avg_bars_in_wins'', ''avg_bars_in_losses'']"

definition equity_stats_fields :: "string list" where
  "equity_stats_fields =
     [''max_equity_drawdown'', ''max_equity_drawdown_pct'', ''max_equity_runup'', ''max_equity_runup_pct'',
      ''buy_hold_return'', ''buy_hold_return_pct'', ''sharpe_tv'', ''sortino_tv'', ''sharpe_bar'',
      ''sortino_bar'', ''cagr'', ''calmar'', ''recovery_factor'', ''time_in_market_pct'', ''open_pl'']"

section \<open>Structures as the code reads them\<close>

text \<open>A structure instance: the Python value of every field that is not a pointer or a structure.\<close>

datatype cvalue = VInt int | VDouble pyfloat

type_synonym c_values = "(string, cvalue) dict"

definition get_field :: "c_values \<Rightarrow> string \<Rightarrow> cvalue result" where
  "get_field s name = (case map_of s name of None \<Rightarrow> raise AttributeError name | Some v \<Rightarrow> Inr v)"

fun value_fits :: "cvalue \<Rightarrow> ctype \<Rightarrow> bool" where
  "value_fits (VDouble f) C_double = True"
| "value_fits (VInt n) C_int = (- (2 ^ 31) \<le> n \<and> n < 2 ^ 31)"
| "value_fits (VInt n) C_int32 = (- (2 ^ 31) \<le> n \<and> n < 2 ^ 31)"
| "value_fits (VInt n) C_int64 = (- (2 ^ 63) \<le> n \<and> n < 2 ^ 63)"
| "value_fits (VInt n) C_uint64 = (0 \<le> n \<and> n < 2 ^ 64)"
| "value_fits _ _ = False"

fun scalar :: "ctype \<Rightarrow> bool" where
  "scalar C_pointer = False"
| "scalar (C_struct fs) = False"
| "scalar _ = True"

fun scalar_fields :: "ctype \<Rightarrow> (string \<times> ctype) list" where
  "scalar_fields (C_struct fs) = filter (\<lambda>(name, t). scalar t) fs"
| "scalar_fields _ = []"

definition typed :: "c_values \<Rightarrow> ctype \<Rightarrow> bool" where
  "typed s t = list_all2 (\<lambda>(name, v) (name', c). name = name' \<and> value_fits v c) s (scalar_fields t)"

lemma typed_get:
  "typed s t \<Longrightarrow> distinct (map fst (scalar_fields t)) \<Longrightarrow> (name, c) \<in> set (scalar_fields t) \<Longrightarrow>
   \<exists>v. get_field s name = Inr v \<and> value_fits v c"
proof -
  assume *: "typed s t" "distinct (map fst (scalar_fields t))" "(name, c) \<in> set (scalar_fields t)"
  have "list_all2 (\<lambda>(name, v) (name', c). name = name' \<and> value_fits v c) s fs \<Longrightarrow>
      distinct (map fst fs) \<Longrightarrow> (name, c) \<in> set fs \<Longrightarrow> \<exists>v. map_of s name = Some v \<and> value_fits v c" for fs
    by (induction s fs rule: list_all2_induct) (auto split: if_splits, (metis image_eqI fst_conv)+)
  from this [OF * (1) [unfolded typed_def] *(2,3)] show ?thesis by (auto simp: get_field_def)
qed

section \<open>Copying a report\<close>

definition json_number :: "pyfloat \<Rightarrow> json" where
  "json_number f = (if isfinite f then JFloat f else JNull)"

text \<open>\<open>_numeric_structure\<close>; a field is a float or an int, so its last branch is never taken.\<close>

fun numeric_value :: "cvalue \<Rightarrow> json" where
  "numeric_value (VDouble f) = json_number f"
| "numeric_value (VInt n) = JInt n"

definition numeric_structure :: "c_values \<Rightarrow> string list \<Rightarrow> (string, json) dict result" where
  "numeric_structure s names =
     rmap (\<lambda>name. rbind (get_field s name) (\<lambda>v. Inr (name, numeric_value v))) names"

text \<open>The three ways \<open>_copy_report\<close> copies a field: as it is, through \<open>_json_number\<close>, through \<open>bool\<close>.\<close>

datatype field_copy = AsIs | Number | Flag

fun copy_value :: "field_copy \<Rightarrow> cvalue \<Rightarrow> json" where
  "copy_value AsIs (VInt n) = JInt n"
| "copy_value AsIs (VDouble f) = JFloat f"
| "copy_value Number v = numeric_value v"
| "copy_value Flag (VInt n) = JBool (n \<noteq> 0)"
| "copy_value Flag (VDouble f) = JBool (f \<noteq> Fin 0)"

definition copy_fields :: "(string \<times> field_copy) list \<Rightarrow> c_values \<Rightarrow> (string, json) dict result" where
  "copy_fields spec s = rmap (\<lambda>(name, k). rbind (get_field s name) (\<lambda>v. Inr (name, copy_value k v))) spec"

definition summary_copy :: "(string \<times> field_copy) list" where
  "summary_copy =
     [(''total_trades'', AsIs), (''net_profit'', Number), (''input_bars_processed'', AsIs),
      (''script_bars_processed'', AsIs), (''security_feeds_total'', AsIs), (''security_complete_total'', AsIs),
      (''security_partial_total'', AsIs), (''magnifier_sub_bars_total'', AsIs),
      (''magnifier_sample_ticks_total'', AsIs), (''input_tf_seconds'', AsIs), (''script_tf_seconds'', AsIs),
      (''script_tf_ratio'', AsIs), (''needs_aggregation'', Flag), (''bar_magnifier_enabled'', Flag)]"

definition trade_copy :: "(string \<times> field_copy) list" where
  "trade_copy =
     [(''entry_time'', AsIs), (''exit_time'', AsIs), (''entry_price'', Number), (''exit_price'', Number),
      (''pnl'', Number), (''pnl_pct'', Number), (''is_long'', Flag), (''max_runup'', Number),
      (''max_drawdown'', Number), (''qty'', Number), (''commission'', Number), (''entry_bar_index'', AsIs),
      (''exit_bar_index'', AsIs), (''open_at_end'', Flag)]"

definition diagnostic_copy :: "(string \<times> field_copy) list" where
  "diagnostic_copy = [(''sec_id'', AsIs), (''feed_count'', AsIs), (''complete_count'', AsIs), (''partial_count'', AsIs)]"

definition equity_copy :: "(string \<times> field_copy) list" where
  "equity_copy = [(''time_ms'', AsIs), (''equity'', Number), (''open_profit'', Number)]"

text \<open>
  The report as the engine fills it: the scalar fields, the four blocks of metrics, and the
  arrays behind the pointers, read by index below their lengths only.
\<close>

record native_report =
  nr_fields :: c_values
  nr_all :: c_values
  nr_longs :: c_values
  nr_shorts :: c_values
  nr_equity :: c_values
  nr_trades :: "nat \<Rightarrow> c_values"
  nr_security_diag :: "nat \<Rightarrow> c_values"
  nr_trace :: "nat \<Rightarrow> c_values"
  nr_trace_names :: "nat \<Rightarrow> string option"
  nr_equity_curve :: "nat \<Rightarrow> c_values"

record backtest_report =
  summary :: "(string, json) dict"
  metrics :: "(string, (string, json) dict) dict"
  trades :: "(string, json) dict list"
  security_diagnostics :: "(string, json) dict list"
  trace :: "(string, json) dict list"
  equity_curve :: "(string, json) dict list"

definition report_to_dict :: "backtest_report \<Rightarrow> (string, json) dict" where
  "report_to_dict r =
     [(''summary'', JDict (summary r)),
      (''metrics'', JDict (map (\<lambda>(name, values). (name, JDict values)) (metrics r))),
      (''trades'', JList (map JDict (trades r))),
      (''security_diagnostics'', JList (map JDict (security_diagnostics r))),
      (''trace'', JList (map JDict (trace r))),
      (''equity_curve'', JList (map JDict (equity_curve r)))]"

text \<open>\<open>range(report.field)\<close>; a float length is a \<open>TypeError\<close>.\<close>

definition indices :: "c_values \<Rightarrow> string \<Rightarrow> nat list result" where
  "indices s name =
     rbind (get_field s name) (\<lambda>v. case v of
       VInt n \<Rightarrow> Inr [0..<nat n]
     | VDouble f \<Rightarrow> raise TypeError ''float object cannot be interpreted as an integer'')"

definition copy_array ::
  "(string \<times> field_copy) list \<Rightarrow> c_values \<Rightarrow> string \<Rightarrow> (nat \<Rightarrow> c_values) \<Rightarrow> (string, json) dict list result" where
  "copy_array spec s length_field items =
     rbind (indices s length_field) (\<lambda>is. rmap (\<lambda>i. copy_fields spec (items i)) is)"

text \<open>
  \<open>bytes.decode("utf-8", "replace")\<close>, where a character beyond Latin-1 and the replacement
  character are both written as a question mark.
\<close>

fun decode_utf8 :: "string \<Rightarrow> string" where
  "decode_utf8 [] = []"
| "decode_utf8 [c] = (if code c < 128 then [c] else ''?'')"
| "decode_utf8 (c # d # s) =
     (if code c < 128 then c # decode_utf8 (d # s)
      else if (code c = 194 \<or> code c = 195) \<and> 128 \<le> code d \<and> code d < 192
        then char_of ((code c - 192) * 64 + (code d - 128)) # decode_utf8 s
      else CHR ''?'' # decode_utf8 (d # s))"

definition decode :: "string option \<Rightarrow> string" where
  "decode value = (case value of None \<Rightarrow> [] | Some s \<Rightarrow> decode_utf8 s)"

definition trace_name :: "string list \<Rightarrow> cvalue \<Rightarrow> json result" where
  "trace_name names v =
     (case v of
        VInt n \<Rightarrow> Inr (if 0 \<le> n \<and> n < int (length names) then JStr (names ! nat n) else JNull)
      | VDouble f \<Rightarrow> raise TypeError ''list indices must be integers'')"

definition copy_trace :: "string list \<Rightarrow> c_values \<Rightarrow> (string, json) dict result" where
  "copy_trace names e =
     rbind (get_field e ''name_id'') (\<lambda>name_id.
     rbind (trace_name names name_id) (\<lambda>name.
     rbind (copy_fields [(''timestamp'', AsIs), (''bar_index'', AsIs), (''name_id'', AsIs)] e) (\<lambda>first.
     rbind (copy_fields [(''value'', Number)] e) (\<lambda>last.
     Inr (first @ (''name'', name) # last)))))"

definition copy_report :: "native_report \<Rightarrow> backtest_report result" where
  "copy_report r =
     rbind (copy_fields summary_copy (nr_fields r)) (\<lambda>summary.
     rbind (rmap (\<lambda>(name, s, names). rbind (numeric_structure s names) (\<lambda>values. Inr (name, values)))
              [(''all'', nr_all r, trade_stats_fields), (''longs'', nr_longs r, trade_stats_fields),
               (''shorts'', nr_shorts r, trade_stats_fields), (''equity'', nr_equity r, equity_stats_fields)])
       (\<lambda>metrics.
     rbind (copy_array trade_copy (nr_fields r) ''trades_len'' (nr_trades r)) (\<lambda>trades.
     rbind (copy_array diagnostic_copy (nr_fields r) ''security_diag_len'' (nr_security_diag r)) (\<lambda>diagnostics.
     rbind (indices (nr_fields r) ''trace_names_len'') (\<lambda>name_indices.
     let names = map (\<lambda>i. decode (nr_trace_names r i)) name_indices in
     rbind (indices (nr_fields r) ''trace_len'') (\<lambda>trace_indices.
     rbind (rmap (\<lambda>i. copy_trace names (nr_trace r i)) trace_indices) (\<lambda>trace.
     rbind (copy_array equity_copy (nr_fields r) ''equity_curve_len'' (nr_equity_curve r)) (\<lambda>curve.
     Inr \<lparr>summary = summary, metrics = metrics, trades = trades, security_diagnostics = diagnostics,
          trace = trace, equity_curve = curve\<rparr>))))))))"

section \<open>The runner\<close>

record 'l strategy_lib =
  st_symbols :: "string list"
  pf_abi_version :: "'l \<Rightarrow> 32 word \<times> 'l"
  strategy_create :: "string \<Rightarrow> 'l \<Rightarrow> int \<times> 'l"
  strategy_free :: "int \<Rightarrow> 'l \<Rightarrow> 'l"
  run_backtest_full :: "int \<Rightarrow> pf_bar list \<Rightarrow> 32 word \<Rightarrow> string \<Rightarrow> string \<Rightarrow> 32 word \<Rightarrow> 32 word \<Rightarrow> 32 word \<Rightarrow>
    native_report \<Rightarrow> 'l \<Rightarrow> native_report \<times> 'l"
  report_free :: "native_report \<Rightarrow> 'l \<Rightarrow> 'l"
  strategy_get_last_error :: "int \<Rightarrow> 'l \<Rightarrow> string option \<times> 'l"
  strategy_set_trace_enabled :: "int \<Rightarrow> 32 word \<Rightarrow> 'l \<Rightarrow> 'l"
  strategy_set_input :: "int \<Rightarrow> string \<Rightarrow> string \<Rightarrow> 'l \<Rightarrow> 'l"
  strategy_set_chart_timezone :: "int \<Rightarrow> string \<Rightarrow> 'l \<Rightarrow> 'l"
  strategy_set_syminfo_timezone :: "int \<Rightarrow> string \<Rightarrow> 'l \<Rightarrow> 'l"
  strategy_set_syminfo_session :: "int \<Rightarrow> string \<Rightarrow> 'l \<Rightarrow> 'l"
  strategy_set_trade_start_time :: "int \<Rightarrow> 64 word \<Rightarrow> 'l \<Rightarrow> 'l"

definition has_symbol :: "'l strategy_lib \<Rightarrow> string \<Rightarrow> bool" where
  "has_symbol lib name = (name \<in> set (st_symbols lib))"

definition expected_pf_abi :: int where
  "expected_pf_abi = 4"

definition refused_abi_hints :: "(int, string) dict" where
  "refused_abi_hints =
     [(2, ''engine v0.10.2 to v0.12.3 built it: rebuild the strategy with engine 1.x, '' @
          ''or read it with pineforge-data 0.2.0''),
      (3, ''engine v0.13.0 to v0.13.1 built it: rebuild the strategy with engine 1.x'')]"

definition abi_hint :: "int \<Rightarrow> string option" where
  "abi_hint actual =
     (case map_of refused_abi_hints actual of
        Some h \<Rightarrow> Some h
      | None \<Rightarrow> if expected_pf_abi < actual then Some ''a newer engine built it: upgrade pineforge-data'' else None)"

definition check_abi :: "'l strategy_lib \<Rightarrow> 'l \<Rightarrow> unit result \<times> 'l" where
  "check_abi lib l =
     (if \<not> has_symbol lib ''pf_abi_version'' then
        (raise EngineBacktestError ''strategy library predates pf_abi_version'', l)
      else (case pf_abi_version lib l of (actual, l') \<Rightarrow>
              (if sint actual \<noteq> expected_pf_abi then
                 raise EngineBacktestError
                   (case abi_hint (sint actual) of None \<Rightarrow> ''PineForge ABI mismatch''
                    | Some h \<Rightarrow> ''PineForge ABI mismatch; '' @ h)
               else Inr (), l')))"

definition strategy_signatures :: "'l strategy_lib \<Rightarrow> unit result" where
  "strategy_signatures lib =
     first_raise (map (\<lambda>s. (\<not> has_symbol lib s, AttributeError, s))
       [''strategy_create'', ''strategy_free'', ''run_backtest_full'', ''report_free''])"

text \<open>\<open>PineForgeBacktestRunner(library)\<close>, and \<open>load\<close> for the libraries found on the disk.\<close>

definition mk_runner :: "'l strategy_lib \<Rightarrow> 'l \<Rightarrow> 'l strategy_lib result \<times> 'l" where
  "mk_runner lib = sbind (check_abi lib) (\<lambda>_. slift (rbind (strategy_signatures lib) (\<lambda>_. Inr lib)))"

definition load_runner :: "(string \<Rightarrow> 'l strategy_lib option) \<Rightarrow> string \<Rightarrow> 'l \<Rightarrow> 'l strategy_lib result \<times> 'l" where
  "load_runner disk path =
     (case disk path of None \<Rightarrow> slift (raise FileNotFoundError ''strategy library not found'')
      | Some lib \<Rightarrow> mk_runner lib)"

text \<open>A call that is made only where it applies.\<close>

definition call_if :: "bool \<Rightarrow> ('l \<Rightarrow> 'l) \<Rightarrow> 'l \<Rightarrow> 'l" where
  "call_if b f l = (if b then f l else l)"

definition apply_context :: "'l strategy_lib \<Rightarrow> int \<Rightarrow> instrument \<Rightarrow> backtest_options \<Rightarrow> 'l \<Rightarrow> unit result \<times> 'l" where
  "apply_context lib state i q l =
     (let l1 = call_if (trace_enabled q \<and> has_symbol lib ''strategy_set_trace_enabled'')
                 (strategy_set_trace_enabled lib state (c_int 1)) l;
          chart = (case chart_timezone q of None \<Rightarrow> timezone i | Some z \<Rightarrow> if z = [] then timezone i else z);
          l2 = call_if (chart \<noteq> [] \<and> has_symbol lib ''strategy_set_chart_timezone'')
                 (strategy_set_chart_timezone lib state (encode chart)) l1;
          l3 = call_if (timezone i \<noteq> [] \<and> has_symbol lib ''strategy_set_syminfo_timezone'')
                 (strategy_set_syminfo_timezone lib state (encode (timezone i))) l2;
          l4 = call_if (session i \<noteq> [] \<and> has_symbol lib ''strategy_set_syminfo_session'')
                 (strategy_set_syminfo_session lib state (encode (session i))) l3
      in case trade_start_time_ms q of
           None \<Rightarrow> (Inr (), l4)
         | Some t \<Rightarrow>
             if \<not> has_symbol lib ''strategy_set_trade_start_time'' then
               (raise EngineBacktestError ''strategy library does not expose strategy_set_trade_start_time'', l4)
             else (Inr (), strategy_set_trade_start_time lib state (c_int64 t) l4))"

definition last_error :: "'l strategy_lib \<Rightarrow> int \<Rightarrow> 'l \<Rightarrow> string \<times> 'l" where
  "last_error lib state l =
     (if \<not> has_symbol lib ''strategy_get_last_error'' then ([], l)
      else (case strategy_get_last_error lib state l of (raw, l') \<Rightarrow> (decode raw, l')))"

text \<open>\<open>_PfReport()\<close>: every field zero.\<close>

definition zeros :: "ctype \<Rightarrow> c_values" where
  "zeros t = map (\<lambda>(name, c). (name, case c of C_double \<Rightarrow> VDouble (Fin 0) | _ \<Rightarrow> VInt 0)) (scalar_fields t)"

definition empty_report :: native_report where
  "empty_report =
     \<lparr>nr_fields = zeros PfReport_type, nr_all = zeros PfTradeStats_type, nr_longs = zeros PfTradeStats_type,
      nr_shorts = zeros PfTradeStats_type, nr_equity = zeros PfEquityStats_type,
      nr_trades = (\<lambda>i. []), nr_security_diag = (\<lambda>i. []), nr_trace = (\<lambda>i. []),
      nr_trace_names = (\<lambda>i. None), nr_equity_curve = (\<lambda>i. [])\<rparr>"

fun ordered_pairs :: "('a \<Rightarrow> int) \<Rightarrow> 'a list \<Rightarrow> bool" where
  "ordered_pairs k (x # y # xs) = (\<not> k y \<le> k x \<and> ordered_pairs k (y # xs))"
| "ordered_pairs k xs = True"

text \<open>The body of the \<open>try\<close>: its result, the report it leaves behind and the library's state.\<close>

definition run_body ::
  "'l strategy_lib \<Rightarrow> int \<Rightarrow> pf_bar list \<Rightarrow> instrument \<Rightarrow> backtest_options \<Rightarrow> (string, json) dict \<Rightarrow> 'l \<Rightarrow>
   backtest_report result \<times> native_report \<times> 'l" where
  "run_body lib state packed i q params l =
     (case apply_context lib state i q l of
        (Inl e, l1) \<Rightarrow> (Inl e, empty_report, l1)
      | (Inr u, l1) \<Rightarrow>
          (let l2 = (if has_symbol lib ''strategy_set_input''
                     then fold (\<lambda>(name, v). strategy_set_input lib state (encode name) (encode (py_str v))) params l1
                     else l1)
           in case run_backtest_full lib state packed (c_int (int (length packed)))
                     (encode (input_timeframe q)) (encode (script_timeframe q)) (c_int (of_bool (bar_magnifier q)))
                     (c_int (magnifier_samples q)) (c_int (magnifier_value (magnifier q))) empty_report l2 of
                (report, l3) \<Rightarrow>
                  (case last_error lib state l3 of (error, l4) \<Rightarrow>
                     (if error \<noteq> [] then raise EngineBacktestError error else copy_report report, report, l4))))"

definition run_guards :: "bar list \<Rightarrow> unit result" where
  "run_guards bars =
     first_raise
       [(bars = [], ValueError, ''bars must not be empty''),
        (2 ^ 31 - 1 < int (length bars), ValueError, ''bar count exceeds the PineForge C ABI limit''),
        (\<not> ordered_pairs bar_ms bars, ValueError, ''bar timestamps must be strictly increasing'')]"

definition run_backtest ::
  "'l strategy_lib \<Rightarrow> bar list \<Rightarrow> instrument \<Rightarrow> backtest_options option \<Rightarrow> (string, json) dict option \<Rightarrow> 'l \<Rightarrow>
   backtest_report result \<times> 'l" where
  "run_backtest lib bars i options strategy_params =
     (let q = (case options of None \<Rightarrow> default_options | Some q \<Rightarrow> q);
          params = (case strategy_params of None \<Rightarrow> [] | Some d \<Rightarrow> d) in
      sbind (slift (run_guards bars)) (\<lambda>_.
      sbind (slift (pack_bars bars (Some i))) (\<lambda>packed.
      sbind (slift (dumps (JDict params))) (\<lambda>params_json.
      \<lambda>l. case strategy_create lib (encode params_json) l of (state, l1) \<Rightarrow>
            if state = 0 then (raise EngineBacktestError ''strategy_create returned a null handle'', l1)
            else (case run_body lib state packed i q params l1 of (res, report, l2) \<Rightarrow>
                    (res, strategy_free lib state (report_free lib report l2)))))))"

section \<open>Layout\<close>

lemma metric_fields:
  "trade_stats_fields = map fst (scalar_fields PfTradeStats_type)"
  "equity_stats_fields = map fst (scalar_fields PfEquityStats_type)"
  by (simp_all add: PfTradeStats_type_def PfEquityStats_type_def trade_stats_fields_def equity_stats_fields_def)

text \<open>
  On the supported platforms the report structures have the size and the offset the engine's
  header fixes, so the guard lets the module load; and the lists of metric fields name exactly the
  fields of their structures, in order.
\<close>

theorem report_layout:
  "report_layout_guard = Inr () \<and>
   trade_stats_fields = map fst (scalar_fields PfTradeStats_type) \<and>
   equity_stats_fields = map fst (scalar_fields PfEquityStats_type) \<and>
   sizeof PfTradeStats_type = 216 \<and> sizeof PfEquityStats_type = 120 \<and> sizeof PfSecurityDiagnostic_type = 32"
  by (simp add: report_layout_guard_def sizeof_def PfReport_type_def PfTrade_type_def PfMetrics_type_def
      PfTradeStats_type_def PfEquityStats_type_def PfSecurityDiagnostic_type_def struct_size_def
      struct_align_def round_up_def Let_def trade_stats_fields_def equity_stats_fields_def)

section \<open>The copied report\<close>

lemma json_finite_number [simp]: "json_finite (json_number f)"
  by (simp add: json_number_def)

lemma json_finite_numeric [simp]: "json_finite (numeric_value v)"
  by (cases v) simp_all

lemma json_finite_dict: "json_finite (JDict d) = (\<forall>v \<in> snd ` set d. json_finite v)"
  by (auto simp: list_all_iff)

text \<open>A field that is copied as it is must hold an integer.\<close>

fun copy_fits :: "ctype \<Rightarrow> string \<times> field_copy \<Rightarrow> bool" where
  "copy_fits t (name, k) =
     (case map_of (scalar_fields t) name of None \<Rightarrow> False | Some c \<Rightarrow> k = AsIs \<longrightarrow> c \<noteq> C_double)"

lemma copy_fitsD:
  "copy_fits t (name, k) \<Longrightarrow> \<exists>c. (name, c) \<in> set (scalar_fields t) \<and> (k = AsIs \<longrightarrow> c \<noteq> C_double)"
  by (auto split: option.splits dest: map_of_SomeD)

lemma fits_int: "value_fits v c \<Longrightarrow> c \<noteq> C_double \<Longrightarrow> \<exists>n. v = VInt n"
  by (cases v; cases c) auto

lemma copy_fields_safe:
  assumes "typed s t" and "distinct (map fst (scalar_fields t))" and "list_all (copy_fits t) spec"
  shows "\<exists>d. copy_fields spec s = Inr d \<and> json_finite (JDict d)"
proof -
  let ?f = "\<lambda>(name, k). rbind (get_field s name) (\<lambda>v. Inr (name, copy_value k v))"
  have each: "\<exists>v. ?f nk = Inr (fst nk, v) \<and> json_finite v" if nk: "nk \<in> set spec" for nk
  proof (cases nk)
    case (Pair name k)
    then obtain c where c: "(name, c) \<in> set (scalar_fields t)" "k = AsIs \<longrightarrow> c \<noteq> C_double"
      using assms(3) nk by (metis copy_fitsD list_all_iff)
    then obtain v where v: "get_field s name = Inr v" "value_fits v c"
      using typed_get [OF assms(1,2)] by blast
    show ?thesis
      using Pair v c(2) fits_int [OF v(2)] by (cases k; cases v) auto
  qed
  then have "\<forall>nk \<in> set spec. \<exists>y. ?f nk = Inr y" by blast
  then obtain d where d: "rmap ?f spec = Inr d" using rmap_total by blast
  have "json_finite v" if "(name, v) \<in> set d" for name v
    using rmap_set [OF d that] each by fastforce
  then show ?thesis using d by (auto simp: copy_fields_def list_all_iff)
qed

lemma numeric_structure_safe:
  assumes "typed s t" and "distinct (map fst (scalar_fields t))" and "set names \<subseteq> fst ` set (scalar_fields t)"
  shows "\<exists>d. numeric_structure s names = Inr d \<and> json_finite (JDict d)"
proof -
  let ?f = "\<lambda>name. rbind (get_field s name) (\<lambda>v. Inr (name, numeric_value v))"
  have "\<exists>v. ?f name = Inr v" if mem: "name \<in> set names" for name
  proof -
    obtain c where "(name, c) \<in> set (scalar_fields t)" using mem assms(3) by auto
    then obtain v where "get_field s name = Inr v" using typed_get [OF assms(1,2)] by blast
    then show ?thesis by simp
  qed
  then obtain d where d: "rmap ?f names = Inr d" using rmap_total [of names ?f] by blast
  have "json_finite v" if "(name, v) \<in> set d" for name v
    using rmap_set [OF d that] by (auto simp: result_simps)
  then show ?thesis using d by (auto simp: numeric_structure_def list_all_iff)
qed

text \<open>What an engine that keeps to the header writes: typed fields, and typed entries below each length.\<close>

definition array_typed :: "c_values \<Rightarrow> string \<Rightarrow> (nat \<Rightarrow> c_values) \<Rightarrow> ctype \<Rightarrow> bool" where
  "array_typed s name items t = (\<forall>is. indices s name = Inr is \<longrightarrow> (\<forall>i \<in> set is. typed (items i) t))"

definition report_typed :: "native_report \<Rightarrow> bool" where
  "report_typed r =
     (typed (nr_fields r) PfReport_type \<and> typed (nr_all r) PfTradeStats_type \<and>
      typed (nr_longs r) PfTradeStats_type \<and> typed (nr_shorts r) PfTradeStats_type \<and>
      typed (nr_equity r) PfEquityStats_type \<and>
      array_typed (nr_fields r) ''trades_len'' (nr_trades r) PfTrade_type \<and>
      array_typed (nr_fields r) ''security_diag_len'' (nr_security_diag r) PfSecurityDiagnostic_type \<and>
      array_typed (nr_fields r) ''trace_len'' (nr_trace r) PfTraceEntry_type \<and>
      array_typed (nr_fields r) ''equity_curve_len'' (nr_equity_curve r) PfEquityPoint_type)"

lemmas report_types = PfReport_type_def PfTrade_type_def PfTradeStats_type_def PfEquityStats_type_def
  PfSecurityDiagnostic_type_def PfTraceEntry_type_def PfEquityPoint_type_def PfMetrics_type_def

lemma report_names_distinct:
  "distinct (map fst (scalar_fields PfReport_type))" "distinct (map fst (scalar_fields PfTrade_type))"
  "distinct (map fst (scalar_fields PfTradeStats_type))" "distinct (map fst (scalar_fields PfEquityStats_type))"
  "distinct (map fst (scalar_fields PfSecurityDiagnostic_type))" "distinct (map fst (scalar_fields PfTraceEntry_type))"
  "distinct (map fst (scalar_fields PfEquityPoint_type))"
  by (simp_all add: report_types)

lemma copies_fit:
  "list_all (copy_fits PfReport_type) summary_copy" "list_all (copy_fits PfTrade_type) trade_copy"
  "list_all (copy_fits PfSecurityDiagnostic_type) diagnostic_copy"
  "list_all (copy_fits PfEquityPoint_type) equity_copy"
  by code_simp+

lemma indices_total:
  assumes "typed s t" and "distinct (map fst (scalar_fields t))" and "(name, c) \<in> set (scalar_fields t)" "c \<noteq> C_double"
  shows "\<exists>is. indices s name = Inr is"
  using typed_get [OF assms(1-3)] assms(4) by (auto simp: indices_def dest!: fits_int)

lemma copy_array_safe:
  assumes "indices s name = Inr is" and "array_typed s name items t"
    and "distinct (map fst (scalar_fields t))" and "list_all (copy_fits t) spec"
  shows "\<exists>ds. copy_array spec s name items = Inr ds \<and> length ds = length is \<and> list_all (json_finite \<circ> JDict) ds"
proof -
  have each: "\<exists>d. copy_fields spec (items i) = Inr d \<and> json_finite (JDict d)" if "i \<in> set is" for i
    using assms that copy_fields_safe by (auto simp: array_typed_def)
  then obtain ds where ds: "rmap (\<lambda>i. copy_fields spec (items i)) is = Inr ds"
    using rmap_total [of "is" "\<lambda>i. copy_fields spec (items i)"] by blast
  have "json_finite (JDict d)" if "d \<in> set ds" for d
    using rmap_set [OF ds that] each by fastforce
  then show ?thesis using ds assms(1) rmap_length [OF ds] by (simp add: copy_array_def list_all_iff)
qed


lemma indices_upto: "indices s name = Inr is \<Longrightarrow> indices s name = Inr [0..<length is]"
  by (cases "get_field s name") (auto simp: indices_def split: cvalue.splits)

lemma copy_trace_safe:
  assumes "typed e PfTraceEntry_type"
  shows "\<exists>d. copy_trace names e = Inr d \<and> json_finite (JDict d)"
proof -
  have fits: "list_all (copy_fits PfTraceEntry_type) [(''timestamp'', AsIs), (''bar_index'', AsIs), (''name_id'', AsIs)]"
      "list_all (copy_fits PfTraceEntry_type) [(''value'', Number)]"
      "(''name_id'', C_int32) \<in> set (scalar_fields PfTraceEntry_type)"
    by code_simp+
  obtain n where n: "get_field e ''name_id'' = Inr (VInt n)"
    using typed_get [OF assms report_names_distinct(6) fits(3)] fits_int by blast
  obtain d1 d2 where d: "copy_fields [(''timestamp'', AsIs), (''bar_index'', AsIs), (''name_id'', AsIs)] e = Inr d1"
      "json_finite (JDict d1)" "copy_fields [(''value'', Number)] e = Inr d2" "json_finite (JDict d2)"
    using copy_fields_safe [OF assms report_names_distinct(6) fits(1)]
      copy_fields_safe [OF assms report_names_distinct(6) fits(2)] by blast
  obtain name where "trace_name names (VInt n) = Inr name" "json_finite name"
    by (simp add: trace_name_def)
  then show ?thesis using n d by (simp add: copy_trace_def)
qed

lemma array_total:
  assumes "typed (nr_fields r) PfReport_type" and "array_typed (nr_fields r) name items t"
    and "distinct (map fst (scalar_fields t))" and "list_all (copy_fits t) spec"
    and "copy_fits PfReport_type (name, AsIs)"
  shows "\<exists>ds. copy_array spec (nr_fields r) name items = Inr ds \<and>
    indices (nr_fields r) name = Inr [0..<length ds] \<and> list_all (json_finite \<circ> JDict) ds"
proof -
  obtain ix where ix: "indices (nr_fields r) name = Inr ix"
    using indices_total [OF assms(1) report_names_distinct(1)] copy_fitsD [OF assms(5)] by blast
  show ?thesis using copy_array_safe [OF ix assms(2-4)] indices_upto [OF ix] by auto
qed

lemma length_fields:
  "copy_fits PfReport_type (''trades_len'', AsIs)" "copy_fits PfReport_type (''security_diag_len'', AsIs)"
  "copy_fits PfReport_type (''trace_len'', AsIs)" "copy_fits PfReport_type (''trace_names_len'', AsIs)"
  "copy_fits PfReport_type (''equity_curve_len'', AsIs)"
  by code_simp+

text \<open>
  C24. Whatever an engine that keeps to the header writes into its report, NaN and infinities
  included, the copy succeeds, has one entry for each native one, and always has a JSON form.
\<close>

theorem report_copy_json_safe:
  assumes "report_typed r"
  shows "\<exists>c. copy_report r = Inr c \<and> (\<exists>text. dumps (JDict (report_to_dict c)) = Inr text) \<and>
    indices (nr_fields r) ''trades_len'' = Inr [0..<length (trades c)] \<and>
    indices (nr_fields r) ''security_diag_len'' = Inr [0..<length (security_diagnostics c)] \<and>
    indices (nr_fields r) ''trace_len'' = Inr [0..<length (trace c)] \<and>
    indices (nr_fields r) ''equity_curve_len'' = Inr [0..<length (equity_curve c)]"
proof -
  note r = assms [unfolded report_typed_def]
  note t = report_names_distinct
  obtain smry where 1: "copy_fields summary_copy (nr_fields r) = Inr smry" "json_finite (JDict smry)"
    using copy_fields_safe [OF _ t(1) copies_fit(1)] r by blast
  have stats: "\<exists>d. numeric_structure s trade_stats_fields = Inr d \<and> json_finite (JDict d)"
    if "typed s PfTradeStats_type" for s
    using numeric_structure_safe [OF that t(3)] by (simp add: metric_fields)
  have "typed (nr_all r) PfTradeStats_type" "typed (nr_longs r) PfTradeStats_type" "typed (nr_shorts r) PfTradeStats_type"
    using r by simp_all
  then obtain da dl ds where 2: "numeric_structure (nr_all r) trade_stats_fields = Inr da" "json_finite (JDict da)"
      "numeric_structure (nr_longs r) trade_stats_fields = Inr dl" "json_finite (JDict dl)"
      "numeric_structure (nr_shorts r) trade_stats_fields = Inr ds" "json_finite (JDict ds)"
    by (metis stats)
  obtain de where 3: "numeric_structure (nr_equity r) equity_stats_fields = Inr de" "json_finite (JDict de)"
    using numeric_structure_safe [OF _ t(4), of "nr_equity r" equity_stats_fields] r
    by (auto simp: metric_fields)
  obtain trs where 4: "copy_array trade_copy (nr_fields r) ''trades_len'' (nr_trades r) = Inr trs"
      "indices (nr_fields r) ''trades_len'' = Inr [0..<length trs]" "list_all (json_finite \<circ> JDict) trs"
    using array_total [OF _ _ t(2) copies_fit(2) length_fields(1)] r by blast
  obtain dgs where 5: "copy_array diagnostic_copy (nr_fields r) ''security_diag_len'' (nr_security_diag r) = Inr dgs"
      "indices (nr_fields r) ''security_diag_len'' = Inr [0..<length dgs]" "list_all (json_finite \<circ> JDict) dgs"
    using array_total [OF _ _ t(5) copies_fit(3) length_fields(2)] r by blast
  obtain pts where 6: "copy_array equity_copy (nr_fields r) ''equity_curve_len'' (nr_equity_curve r) = Inr pts"
      "indices (nr_fields r) ''equity_curve_len'' = Inr [0..<length pts]" "list_all (json_finite \<circ> JDict) pts"
    using array_total [OF _ _ t(7) copies_fit(4) length_fields(5)] r by blast
  obtain ns where 7: "indices (nr_fields r) ''trace_names_len'' = Inr ns"
    using indices_total [OF _ t(1)] copy_fitsD [OF length_fields(4)] r by blast
  obtain ts where 8: "indices (nr_fields r) ''trace_len'' = Inr ts"
    using indices_total [OF _ t(1)] copy_fitsD [OF length_fields(3)] r by blast
  let ?names = "map (\<lambda>i. decode (nr_trace_names r i)) ns"
  have each: "\<exists>d. copy_trace ?names (nr_trace r i) = Inr d \<and> json_finite (JDict d)" if "i \<in> set ts" for i
    using copy_trace_safe r 8 that by (auto simp: array_typed_def)
  obtain tes where 9: "rmap (\<lambda>i. copy_trace ?names (nr_trace r i)) ts = Inr tes"
    using rmap_total [of ts "\<lambda>i. copy_trace ?names (nr_trace r i)"] each by blast
  have 10: "json_finite (JDict d)" if "d \<in> set tes" for d
    using rmap_set [OF 9 that] each by fastforce
  let ?c = "\<lparr>summary = smry, metrics = [(''all'', da), (''longs'', dl), (''shorts'', ds), (''equity'', de)],
    trades = trs, security_diagnostics = dgs, trace = tes, equity_curve = pts\<rparr>"
  have "copy_report r = Inr ?c"
    by (simp add: copy_report_def 1 2 3 4(1) 5(1) 6(1) 7 8 9)
  moreover have "json_finite (JDict (report_to_dict ?c))"
    using 1(2) 2 3(2) 4(3) 5(3) 6(3) 10
    by (simp add: report_to_dict_def list_all_iff comp_def)
  moreover have "indices (nr_fields r) ''trace_len'' = Inr [0..<length tes]"
    using indices_upto [OF 8] rmap_length [OF 9] by simp
  ultimately show ?thesis using 4(2) 5(2) 6(2) by (intro exI [of _ ?c]) simp
qed

section \<open>Ownership of the native objects\<close>

text \<open>The library with a record of the calls made to it.\<close>

datatype native_call =
    CallAbi | CallCreate string | CallFree int | CallRun int "pf_bar list" | CallReportFree native_report
  | CallError int | CallSet int string

definition traced :: "'l strategy_lib \<Rightarrow> ('l \<times> native_call list) strategy_lib" where
  "traced lib =
     \<lparr>st_symbols = st_symbols lib,
      pf_abi_version = (\<lambda>(l, cs). case pf_abi_version lib l of (v, l') \<Rightarrow> (v, l', cs @ [CallAbi])),
      strategy_create = (\<lambda>p (l, cs). case strategy_create lib p l of (h, l') \<Rightarrow> (h, l', cs @ [CallCreate p])),
      strategy_free = (\<lambda>h (l, cs). (strategy_free lib h l, cs @ [CallFree h])),
      run_backtest_full = (\<lambda>h bars n itf stf bm ms md r (l, cs).
        case run_backtest_full lib h bars n itf stf bm ms md r l of (r', l') \<Rightarrow> (r', l', cs @ [CallRun h bars])),
      report_free = (\<lambda>r (l, cs). (report_free lib r l, cs @ [CallReportFree r])),
      strategy_get_last_error = (\<lambda>h (l, cs).
        case strategy_get_last_error lib h l of (e, l') \<Rightarrow> (e, l', cs @ [CallError h])),
      strategy_set_trace_enabled = (\<lambda>h b (l, cs). (strategy_set_trace_enabled lib h b l, cs @ [CallSet h ''trace''])),
      strategy_set_input = (\<lambda>h n v (l, cs). (strategy_set_input lib h n v l, cs @ [CallSet h n])),
      strategy_set_chart_timezone = (\<lambda>h z (l, cs). (strategy_set_chart_timezone lib h z l, cs @ [CallSet h ''chart''])),
      strategy_set_syminfo_timezone = (\<lambda>h z (l, cs). (strategy_set_syminfo_timezone lib h z l, cs @ [CallSet h ''timezone''])),
      strategy_set_syminfo_session = (\<lambda>h z (l, cs). (strategy_set_syminfo_session lib h z l, cs @ [CallSet h ''session''])),
      strategy_set_trade_start_time = (\<lambda>h t (l, cs). (strategy_set_trade_start_time lib h t l, cs @ [CallSet h ''start'']))\<rparr>"

text \<open>Calls on a live handle that neither create nor free anything.\<close>

fun uses_handle :: "int \<Rightarrow> native_call \<Rightarrow> bool" where
  "uses_handle h (CallSet h' n) = (h' = h)"
| "uses_handle h (CallRun h' bars) = (h' = h)"
| "uses_handle h (CallError h') = (h' = h)"
| "uses_handle h _ = False"

definition extends :: "int \<Rightarrow> 'l \<times> native_call list \<Rightarrow> 'l \<times> native_call list \<Rightarrow> bool" where
  "extends h s s' = (\<exists>cs. snd s' = snd s @ cs \<and> list_all (uses_handle h) cs)"

lemma extends_refl [simp]: "extends h s s"
  by (simp add: extends_def)

lemma extends_trans: "extends h s t \<Longrightarrow> extends h t u \<Longrightarrow> extends h s u"
  by (auto simp: extends_def)

lemma extends_step: "snd s' = snd s @ [c] \<Longrightarrow> uses_handle h c \<Longrightarrow> extends h s s'"
  by (simp add: extends_def)

lemma traced_has [simp]: "has_symbol (traced lib) = has_symbol lib"
  by (simp add: has_symbol_def traced_def fun_eq_iff)

lemma extends_call_if: "(\<And>l. extends h l (f l)) \<Longrightarrow> extends h l (call_if b f l)"
  by (simp add: call_if_def)

lemma traced_sets:
  "extends h l (strategy_set_trace_enabled (traced lib) h b l)"
  "extends h l (strategy_set_input (traced lib) h n v l)"
  "extends h l (strategy_set_chart_timezone (traced lib) h z l)"
  "extends h l (strategy_set_syminfo_timezone (traced lib) h z l)"
  "extends h l (strategy_set_syminfo_session (traced lib) h z l)"
  "extends h l (strategy_set_trade_start_time (traced lib) h t l)"
  by (cases l; auto simp: traced_def intro!: extends_step)+

lemma traced_results:
  "extends h l (snd (run_backtest_full (traced lib) h bars n itf stf bm ms md r l))"
  "extends h l (snd (strategy_get_last_error (traced lib) h l))"
  by (cases l; auto simp: traced_def intro!: extends_step split: prod.splits)+

lemma extends_call:
  assumes "extends h l0 l" and "\<And>x. extends h x (f x)"
  shows "extends h l0 (call_if b f l)"
  by (rule extends_trans [OF assms(1)]) (rule extends_call_if, rule assms(2))

lemma extends_context: "extends h l (snd (apply_context (traced lib) h i q l))"
proof (cases "trade_start_time_ms q")
  case None
  then show ?thesis
    unfolding apply_context_def Let_def None option.case snd_conv
    by (intro extends_call traced_sets extends_refl)
next
  case (Some t)
  let ?set = "strategy_set_trade_start_time (traced lib) h (c_int64 t)"
  have last: "extends h l l4 \<Longrightarrow> extends h l (?set l4)" for l4
    using traced_sets(6) extends_trans by blast
  show ?thesis
  proof (cases "has_symbol (traced lib) ''strategy_set_trade_start_time''")
    case True
    show ?thesis
      unfolding apply_context_def Let_def Some option.case
      by (simp only: True not_True_eq_False if_False snd_conv)
        (intro last extends_call traced_sets extends_refl)
  next
    case False
    show ?thesis
      unfolding apply_context_def Let_def Some option.case
      by (simp only: False not_False_eq_True if_True snd_conv)
        (intro extends_call traced_sets extends_refl)
  qed
qed

lemma extends_fold: "(\<And>x l. extends h l (f x l)) \<Longrightarrow> extends h l (fold f xs l)"
proof (induction xs arbitrary: l)
  case (Cons x xs)
  have "extends h l (f x l)" "extends h (f x l) (fold f xs (f x l))" using Cons by blast+
  then show ?case using extends_trans by simp
qed simp

lemma extends_body: "extends h l (snd (snd (run_body (traced lib) h packed i q params l)))"
proof -
  obtain res l1 where Pair: "apply_context (traced lib) h i q l = (res, l1)" by (metis prod.collapse)
  have l1: "extends h l l1" using extends_context [of h l lib i q] Pair by simp
  show ?thesis
  proof (cases res)
    case (Inl e)
    then show ?thesis using Pair l1 by (simp add: run_body_def)
  next
    case (Inr u)
    let ?l2 = "if has_symbol lib ''strategy_set_input''
               then fold (\<lambda>(name, v). strategy_set_input (traced lib) h (encode name) (encode (py_str v))) params l1
               else l1"
    have l2: "extends h l ?l2"
    proof (cases "has_symbol lib ''strategy_set_input''")
      case True
      have "extends h l1 (fold (\<lambda>(name, v). strategy_set_input (traced lib) h (encode name) (encode (py_str v))) params l1)"
        by (rule extends_fold) (simp add: traced_sets split: prod.split)
      then show ?thesis using True extends_trans [OF l1] by simp
    qed (use l1 in simp)
    let ?run = "run_backtest_full (traced lib) h packed (c_int (int (length packed)))
        (encode (input_timeframe q)) (encode (script_timeframe q)) (c_int (of_bool (bar_magnifier q)))
        (c_int (magnifier_samples q)) (c_int (magnifier_value (magnifier q))) empty_report ?l2"
    obtain report l3 where run: "?run = (report, l3)" by (metis prod.collapse)
    have "extends h ?l2 (snd ?run)" by (rule traced_results(1))
    then have l3: "extends h l l3" unfolding run snd_conv by (rule extends_trans [OF l2])
    obtain error l4 where err: "last_error (traced lib) h l3 = (error, l4)" by (metis prod.collapse)
    have "extends h l3 (snd (strategy_get_last_error (traced lib) h l3))" by (rule traced_results(2))
    then have "extends h l3 l4"
      using err by (simp add: last_error_def split: if_splits prod.splits)
    from extends_trans [OF l3 this] show ?thesis using Pair Inr run err by (simp add: run_body_def Let_def)
  qed
qed

lemma run_calls:
  fixes lib :: "'l strategy_lib"
  assumes "snd (run_backtest (traced lib) bars i options params (l, [])) = (l', calls)"
  shows "calls = [] \<or>
    (\<exists>p. calls = [CallCreate p]) \<or>
    (\<exists>p h cs r. calls = CallCreate p # cs @ [CallReportFree r, CallFree h] \<and> h \<noteq> 0 \<and> list_all (uses_handle h) cs)"
proof -
  let ?q = "case options of None \<Rightarrow> default_options | Some q \<Rightarrow> q"
  let ?params = "case params of None \<Rightarrow> [] | Some d \<Rightarrow> d"
  note run = assms [unfolded run_backtest_def Let_def]
  show ?thesis
  proof (cases "run_guards bars")
    case (Inl e)
    then show ?thesis using run by simp
  next
    case guards: (Inr u)
    show ?thesis
    proof (cases "pack_bars bars (Some i)")
      case (Inl e)
      then show ?thesis using run by (simp add: guards)
    next
      case packed: (Inr packed)
      show ?thesis
      proof (cases "dumps (JDict ?params)")
        case (Inl e)
        then show ?thesis using run by (simp add: guards packed)
      next
        case json: (Inr js)
        obtain h l1 where create: "strategy_create (traced lib) (encode js) (l, []) = (h, l1)"
          by (metis prod.collapse)
        then have calls1: "snd l1 = [CallCreate (encode js)]"
          by (auto simp: traced_def split: prod.splits)
        show ?thesis
        proof (cases "h = 0")
          case True
          then show ?thesis using run calls1 by (simp add: guards packed json create)
        next
          case False
          obtain res report l2 where body: "run_body (traced lib) h packed i ?q ?params l1 = (res, report, l2)"
            by (metis prod.collapse)
          have "extends h l1 l2"
            using extends_body [of h l1 lib packed i ?q ?params] by (simp add: body)
          then obtain cs where cs: "snd l2 = snd l1 @ cs" "list_all (uses_handle h) cs"
            by (auto simp: extends_def)
          have "snd (strategy_free (traced lib) h (report_free (traced lib) report l2)) =
              snd l2 @ [CallReportFree report, CallFree h]"
            by (cases l2) (simp add: traced_def)
          moreover have "snd (strategy_free (traced lib) h (report_free (traced lib) report l2)) = calls"
            using run False by (simp add: guards packed json create body)
          ultimately show ?thesis using False cs calls1 by auto
        qed
      qed
    qed
  qed
qed


text \<open>
  A library becomes a runner exactly where it reports C ABI 4 and exports the four functions
  a run needs; a library that is refused is asked for its version at most, and never runs.
\<close>

theorem runner_requires_abi:
  "(fst (mk_runner lib l) = Inr lib') =
     (lib' = lib \<and> has_symbol lib ''pf_abi_version'' \<and> sint (fst (pf_abi_version lib l)) = 4 \<and>
      list_all (has_symbol lib) [''strategy_create'', ''strategy_free'', ''run_backtest_full'', ''report_free'']) \<and>
   set (snd (snd (mk_runner (traced lib) (l, [])))) \<subseteq> {CallAbi}"
proof
  show "(fst (mk_runner lib l) = Inr lib') =
     (lib' = lib \<and> has_symbol lib ''pf_abi_version'' \<and> sint (fst (pf_abi_version lib l)) = 4 \<and>
      list_all (has_symbol lib) [''strategy_create'', ''strategy_free'', ''run_backtest_full'', ''report_free''])"
    by (auto simp: mk_runner_def check_abi_def strategy_signatures_def expected_pf_abi_def result_simps
        split: prod.splits simp del: first_raise.simps)
  show "set (snd (snd (mk_runner (traced lib) (l, [])))) \<subseteq> {CallAbi}"
    by (auto simp: mk_runner_def check_abi_def sbind_def slift_def split: prod.splits sum.splits)
      (auto simp: traced_def split: prod.splits)
qed

text \<open>
  The number of magnifier samples has no upper bound in the options, while the engine takes a
  C \<open>int\<close>: a request for 2 to the 32 samples is accepted and reaches the engine as 0, which the
  options themselves refuse.
\<close>

theorem magnifier_samples_wrap:
  "mk_backtest_options (default_options\<lparr>magnifier_samples := 2 ^ 32\<rparr>) =
     Inr (default_options\<lparr>magnifier_samples := 2 ^ 32\<rparr>) \<and>
   sint (c_int (2 ^ 32)) = 0 \<and>
   (\<exists>m. mk_backtest_options (default_options\<lparr>magnifier_samples := 0\<rparr>) = raise ValueError m)"
  by (simp add: mk_backtest_options_def default_options_def c_int_def)

text \<open>A report whose equity statistics are all NaN.\<close>

definition nan_report :: native_report where
  "nan_report = empty_report\<lparr>nr_equity := map (\<lambda>(name, v). (name, VDouble NaN)) (zeros PfEquityStats_type)\<rparr>"

lemma nan_report_typed: "report_typed nan_report"
proof -
  have "typed (nr_fields nan_report) PfReport_type" "typed (nr_all nan_report) PfTradeStats_type"
    "typed (nr_longs nan_report) PfTradeStats_type" "typed (nr_shorts nan_report) PfTradeStats_type"
    "typed (nr_equity nan_report) PfEquityStats_type"
    "indices (nr_fields nan_report) ''trades_len'' = Inr []"
    "indices (nr_fields nan_report) ''security_diag_len'' = Inr []"
    "indices (nr_fields nan_report) ''trace_len'' = Inr []"
    "indices (nr_fields nan_report) ''equity_curve_len'' = Inr []"
    by code_simp+
  then show ?thesis by (simp add: report_typed_def array_typed_def)
qed

lemma report_copy_json_safe_witness:
  "\<exists>c. copy_report nan_report = Inr c \<and> (\<exists>text. dumps (JDict (report_to_dict c)) = Inr text)"
  using report_copy_json_safe [OF nan_report_typed] by blast

end
