(* ===== verification/Tabular.thy ===== *)
theory Tabular
  imports PyTime PyValue
begin

text \<open>
  \<open>src/pineforge_data/providers/tabular.py\<close>: mapping of arbitrary source columns to bar fields,
  exact normalization of timestamps and numbers, and the provider that turns the rows of a
  user-owned source into validated bars.
\<close>

section \<open>Timestamp units\<close>

datatype timestamp_unit = SECONDS | MILLISECONDS | MICROSECONDS | NANOSECONDS | ISO8601

definition unit_aliases :: "(string, timestamp_unit) dict" where
  "unit_aliases =
     [(''s'', SECONDS), (''sec'', SECONDS), (''second'', SECONDS), (''seconds'', SECONDS),
      (''ms'', MILLISECONDS), (''millisecond'', MILLISECONDS), (''milliseconds'', MILLISECONDS),
      (''us'', MICROSECONDS), (''microsecond'', MICROSECONDS), (''microseconds'', MICROSECONDS),
      (''ns'', NANOSECONDS), (''nanosecond'', NANOSECONDS), (''nanoseconds'', NANOSECONDS),
      (''iso'', ISO8601), (''iso8601'', ISO8601), (''datetime'', ISO8601)]"

text \<open>\<open>TimestampUnit.parse\<close> on text; a member of the enumeration is returned unchanged.\<close>

definition parse_unit :: "string \<Rightarrow> timestamp_unit result" where
  "parse_unit value =
     (case map_of unit_aliases (casefold (py_strip value)) of
        Some u \<Rightarrow> Inr u
      | None \<Rightarrow> raise ValueError ''unknown timestamp unit'')"

section \<open>Schema and column mapping\<close>

record source_column =
  sc_name :: string
  data_type :: string
  nullable :: "bool option"

definition mk_source_column :: "source_column \<Rightarrow> source_column result" where
  "mk_source_column c =
     rbind (require (sc_name c \<noteq> []) ValueError ''source column name must not be empty'') (\<lambda>_. Inr c)"

record tabular_schema =
  ts_source :: string
  ts_columns :: "source_column list"

definition column_names :: "tabular_schema \<Rightarrow> string list" where
  "column_names s = map sc_name (ts_columns s)"

definition mk_schema :: "tabular_schema \<Rightarrow> tabular_schema result" where
  "mk_schema s =
     rbind (first_raise
       [(ts_source s = [], ValueError, ''schema source must not be empty''),
        (\<not> distinct (column_names s), SchemaMappingError, ''source has duplicate column names'')])
       (\<lambda>_. Inr s)"

definition required_fields :: "string list" where
  "required_fields = [''timestamp'', ''open'', ''high'', ''low'', ''close'', ''volume'']"

definition optional_fields :: "string list" where
  "optional_fields = [''symbol'', ''timeframe'']"

definition mapping_fields :: "string list" where
  "mapping_fields = required_fields @ optional_fields"

definition field_aliases :: "(string, string list) dict" where
  "field_aliases =
     [(''timestamp'', [''timestamp'', ''timestamp_ms'', ''time'', ''datetime'', ''date'', ''ts'',
                       ''open_time'', ''bar_time'']),
      (''open'', [''open'', ''open_price'', ''price_open'', ''px_open'', ''o'']),
      (''high'', [''high'', ''high_price'', ''price_high'', ''px_high'', ''h'']),
      (''low'', [''low'', ''low_price'', ''price_low'', ''px_low'', ''l'']),
      (''close'', [''close'', ''close_price'', ''price_close'', ''px_close'', ''c'']),
      (''volume'', [''volume'', ''vol'', ''base_volume'', ''quantity'', ''qty'', ''v'']),
      (''symbol'', [''symbol'', ''ticker'', ''instrument'', ''market'', ''security'']),
      (''timeframe'', [''timeframe'', ''interval'', ''resolution'', ''bar_size''])]"

definition normalized_column_name :: "string \<Rightarrow> string" where
  "normalized_column_name value = filter py_alnum (casefold value)"

definition validate_overrides :: "(string, string) dict \<Rightarrow> (string, string) dict result" where
  "validate_overrides overrides =
     rbind (first_raise
       [(\<exists>f \<in> set (dkeys overrides). f \<notin> set mapping_fields, SchemaMappingError,
           ''unknown canonical column field(s)''),
        (\<exists>fc \<in> set overrides. snd fc = [], SchemaMappingError,
           ''column override must be a non-empty string'')])
       (\<lambda>_. Inr overrides)"

record bar_columns =
  c_timestamp :: string
  c_open :: string
  c_high :: string
  c_low :: string
  c_close :: string
  c_volume :: string
  c_symbol :: "string option"
  c_timeframe :: "string option"

text \<open>\<open>columns\<close>: the mapped source columns in canonical order.\<close>

definition mapped_columns :: "bar_columns \<Rightarrow> string list" where
  "mapped_columns m =
     [c_timestamp m, c_open m, c_high m, c_low m, c_close m, c_volume m] @
     (case c_symbol m of None \<Rightarrow> [] | Some c \<Rightarrow> [c]) @ (case c_timeframe m of None \<Rightarrow> [] | Some c \<Rightarrow> [c])"

definition mk_bar_columns :: "bar_columns \<Rightarrow> bar_columns result" where
  "mk_bar_columns m =
     rbind (first_raise
       [([] \<in> set [c_timestamp m, c_open m, c_high m, c_low m, c_close m, c_volume m], ValueError,
           ''column must be a non-empty string''),
        (c_symbol m = Some [] \<or> c_timeframe m = Some [], ValueError,
           ''column must be None or a non-empty string''),
        (\<not> distinct (mapped_columns m), ValueError, ''one source column cannot map to multiple fields'')])
       (\<lambda>_. Inr m)"

text \<open>\<open>getattr(self, field)\<close> for the canonical fields.\<close>

definition mapped_field :: "bar_columns \<Rightarrow> string \<Rightarrow> string option" where
  "mapped_field m f =
     (if f = ''timestamp'' then Some (c_timestamp m) else if f = ''open'' then Some (c_open m)
      else if f = ''high'' then Some (c_high m) else if f = ''low'' then Some (c_low m)
      else if f = ''close'' then Some (c_close m) else if f = ''volume'' then Some (c_volume m)
      else if f = ''symbol'' then c_symbol m else if f = ''timeframe'' then c_timeframe m else None)"

definition matches_field :: "string \<Rightarrow> string \<Rightarrow> bool" where
  "matches_field f column =
     (normalized_column_name column \<in>
        normalized_column_name ` set (case map_of field_aliases f of None \<Rightarrow> [] | Some as \<Rightarrow> as))"

text \<open>One turn of the loop of \<open>infer\<close>: the dictionary of chosen columns and the ambiguous fields.\<close>

fun infer_field ::
  "string list \<Rightarrow> string \<Rightarrow> (string, string) dict \<times> string set \<times> string list \<Rightarrow>
   (string, string) dict \<times> string set \<times> string list" where
  "infer_field available f (selected, used, ambiguous) =
     (if f \<in> set (dkeys selected) then (selected, used, ambiguous)
      else (case filter (\<lambda>c. c \<notin> used \<and> matches_field f c) available of
              [] \<Rightarrow> (selected, used, ambiguous)
            | [c] \<Rightarrow> (AList.update f c selected, insert c used, ambiguous)
            | _ \<Rightarrow> (selected, used, ambiguous @ [f])))"

definition infer :: "string list \<Rightarrow> (string, string) dict \<Rightarrow> bar_columns result" where
  "infer available overrides =
     rbind (first_raise
       [(available = [], SchemaMappingError, ''source exposes no columns''),
        (\<not> distinct available, SchemaMappingError, ''source has duplicate column names'')]) (\<lambda>_.
     rbind (validate_overrides overrides) (\<lambda>selected.
     rbind (require (snd ` set selected \<subseteq> set available) SchemaMappingError
              ''mapped column(s) not found'') (\<lambda>_.
     (case fold (infer_field available) mapping_fields (selected, snd ` set selected, []) of
        (chosen, used, ambiguous) \<Rightarrow>
          rbind (require (\<not> ((\<exists>f \<in> set required_fields. f \<notin> set (dkeys chosen)) \<or> ambiguous \<noteq> []))
                   SchemaMappingError ''missing or ambiguous mappings'') (\<lambda>_.
          let get = (\<lambda>f. case map_of chosen f of None \<Rightarrow> [] | Some c \<Rightarrow> c) in
          mk_bar_columns
            \<lparr>c_timestamp = get ''timestamp'', c_open = get ''open'', c_high = get ''high'',
             c_low = get ''low'', c_close = get ''close'', c_volume = get ''volume'',
             c_symbol = map_of chosen ''symbol'', c_timeframe = map_of chosen ''timeframe''\<rparr>)))))"

definition validate_mapping :: "bar_columns \<Rightarrow> string list \<Rightarrow> unit result" where
  "validate_mapping m columns =
     require (set (mapped_columns m) \<subseteq> set columns) SchemaMappingError ''mapped column(s) not found''"

section \<open>Cells\<close>

text \<open>
  A value of a row, by the types the code tests for.  Dates and datetimes carry their \<open>str\<close>;
  \<open>CObject\<close> is any other object (a \<open>Decimal\<close>, \<open>bytes\<close>), of which only \<open>str\<close> is used.
\<close>

datatype cell =
    CNone | CBool bool | CInt int | CFloat pyfloat | CText string
  | CDatetime pydatetime string | CDate int string | CObject string

fun cell_text :: "cell \<Rightarrow> string" where
  "cell_text CNone = ''None''"
| "cell_text (CBool b) = (if b then ''True'' else ''False'')"
| "cell_text (CInt n) = int_text n"
| "cell_text (CFloat f) = float_text f"
| "cell_text (CText s) = s"
| "cell_text (CDatetime d s) = s"
| "cell_text (CDate d s) = s"
| "cell_text (CObject s) = s"

type_synonym row = "(string, cell) dict"

definition row_item :: "row \<Rightarrow> string \<Rightarrow> cell result" where
  "row_item row column =
     (case map_of row column of Some v \<Rightarrow> Inr v | None \<Rightarrow> raise KeyError column)"

definition in_range_ms :: "int \<Rightarrow> bool" where
  "in_range_ms n = (\<not> (n < 0 \<or> n > 2 ^ 63 - 1))"

definition unit_scale :: "timestamp_unit \<Rightarrow> rat result" where
  "unit_scale u =
     (case u of SECONDS \<Rightarrow> Inr 1000 | MILLISECONDS \<Rightarrow> Inr 1 | MICROSECONDS \<Rightarrow> Inr (1 / 1000)
      | NANOSECONDS \<Rightarrow> Inr (1 / 1000000) | ISO8601 \<Rightarrow> raise KeyError ''iso8601'')"

text \<open>
  \<open>_numeric_timestamp_ms\<close> on \<open>str(value)\<close>.  The product is taken in the default decimal context
  (28 digits); its exponent limits are out of reach of any accepted value and are not modelled.
\<close>

definition numeric_timestamp_ms :: "string \<Rightarrow> timestamp_unit \<Rightarrow> int result" where
  "numeric_timestamp_ms text u =
     (case py_decimal (py_strip text) of
        None \<Rightarrow> raise ValueError ''invalid numeric timestamp''
      | Some (DFin x) \<Rightarrow>
          rbind (unit_scale u) (\<lambda>scale.
          let ms = dec_mult x scale in
          if \<not> is_integer ms then
            raise ValueError ''timestamp cannot be represented exactly at millisecond precision''
          else if \<not> in_range_ms (trunc ms) then
            raise ValueError ''timestamp must fit a non-negative signed 64-bit millisecond value''
          else Inr (trunc ms))
      | Some _ \<Rightarrow> raise ValueError ''timestamp must be finite'')"

definition replace_Z :: "string \<Rightarrow> string" where
  "replace_Z s = concat (map (\<lambda>c. if c = CHR ''Z'' then ''+00:00'' else [c]) s)"

definition datetime_ms :: "(int \<Rightarrow> int) \<Rightarrow> pydatetime \<Rightarrow> int result" where
  "datetime_ms zone parsed =
     (let n = float_ms (instant zone parsed) in
      if in_range_ms n then Inr n
      else raise ValueError ''timestamp must fit a non-negative signed 64-bit millisecond value'')"

text \<open>\<open>_timestamp_ms\<close>; \<open>zone\<close> is the conversion of the configured \<open>ZoneInfo\<close>.\<close>

definition timestamp_ms :: "(int \<Rightarrow> int) \<Rightarrow> timestamp_unit \<Rightarrow> cell \<Rightarrow> int result" where
  "timestamp_ms zone u v =
     (let not_text = (if u = ISO8601
            then raise ValueError ''timestamp_unit=iso8601 requires text or datetime values''
            else numeric_timestamp_ms (cell_text v) u)
      in case v of
           CNone \<Rightarrow> raise ValueError ''timestamp must be numeric, ISO-8601 text, or a datetime''
         | CBool b \<Rightarrow> raise ValueError ''timestamp must be numeric, ISO-8601 text, or a datetime''
         | CDatetime d s \<Rightarrow> datetime_ms zone d
         | CDate day s \<Rightarrow> datetime_ms zone (Naive (day * day_us))
         | CText s \<Rightarrow>
             (let t = py_strip s in
              if t = [] then raise ValueError ''timestamp must not be empty''
              else if u \<noteq> ISO8601 \<and> py_decimal t \<noteq> None then numeric_timestamp_ms t u
              else (case from_iso (replace_Z t) of
                      None \<Rightarrow> raise ValueError ''invalid ISO-8601 timestamp''
                    | Some d \<Rightarrow> datetime_ms zone d))
         | CInt n \<Rightarrow> not_text
         | CFloat f \<Rightarrow> not_text
         | CObject s \<Rightarrow> not_text)"

text \<open>\<open>_number\<close>: \<open>float(huge int)\<close> raises \<open>OverflowError\<close>, which the handler does not catch.\<close>

definition cell_number :: "cell \<Rightarrow> string \<Rightarrow> pyfloat result" where
  "cell_number v field =
     (let parsed = (\<lambda>s. case py_float s of None \<Rightarrow> raise ValueError (field @ '' must be numeric'')
                        | Some f \<Rightarrow> Inr f)
      in rbind (case v of
                  CNone \<Rightarrow> raise ValueError (field @ '' must be numeric'')
                | CBool b \<Rightarrow> raise ValueError (field @ '' must be numeric'')
                | CInt n \<Rightarrow> float_of_int n
                | CFloat f \<Rightarrow> Inr f
                | CText s \<Rightarrow> parsed s
                | CDatetime d s \<Rightarrow> parsed s
                | CDate d s \<Rightarrow> parsed s
                | CObject s \<Rightarrow> parsed s)
         (\<lambda>f. if isfinite f then Inr f else raise ValueError (field @ '' must be finite'')))"

text \<open>\<open>numeric_source_bounds\<close>; seconds are a float division, the others exact integers.\<close>

datatype bound = IntBound int | FloatBound pyfloat

definition numeric_source_bounds :: "int \<Rightarrow> int \<Rightarrow> timestamp_unit \<Rightarrow> (bound \<times> bound) option" where
  "numeric_source_bounds s e u =
     (case u of ISO8601 \<Rightarrow> None
      | SECONDS \<Rightarrow> Some (FloatBound (rnd64 (of_int s / 1000)), FloatBound (rnd64 (of_int e / 1000)))
      | MILLISECONDS \<Rightarrow> Some (IntBound s, IntBound e)
      | MICROSECONDS \<Rightarrow> Some (IntBound (s * 1000), IntBound (e * 1000))
      | NANOSECONDS \<Rightarrow> Some (IntBound (s * 1000000), IntBound (e * 1000000)))"

section \<open>Inference of the mapping\<close>

text \<open>What the loop of \<open>infer\<close> keeps, with the columns in use by field.\<close>

definition inferred :: "string list \<Rightarrow> (string, string) dict \<Rightarrow>
    (string, string) dict \<times> string set \<times> string list \<Rightarrow> bool" where
  "inferred available overrides st =
     (case st of (selected, used, ambiguous) \<Rightarrow>
        wf_dict selected \<and> used = snd ` set selected \<and> used \<subseteq> set available \<and>
        set (dkeys selected) \<subseteq> set mapping_fields \<and>
        (\<forall>f c. map_of overrides f = Some c \<longrightarrow> map_of selected f = Some c) \<and>
        (\<forall>f c. map_of overrides f = None \<and> map_of selected f = Some c \<longrightarrow>
           matches_field f c \<and> (\<forall>c' \<in> set available. matches_field f c' \<longrightarrow> c' \<in> used)))"

lemma inferred_step:
  assumes "inferred available overrides st" and "f \<in> set mapping_fields"
  shows "inferred available overrides (infer_field available f st)"
proof -
  obtain sel us am where st: "st = (sel, us, am)" by (cases st)
  show ?thesis
  proof (cases "f \<in> set (dkeys sel) \<or> (\<nexists>c. filter (\<lambda>c. c \<notin> us \<and> matches_field f c) available = [c])")
    case True
    then obtain am' where r: "infer_field available f st = (sel, us, am')"
      unfolding st by (fastforce split: list.splits)
    show ?thesis unfolding r using assms(1) by (auto simp: inferred_def st)
  next
    case False
    then obtain c where new: "f \<notin> set (dkeys sel)"
      and c: "filter (\<lambda>c. c \<notin> us \<and> matches_field f c) available = [c]" by auto
    have only: "c' = c" if "c' \<in> set available" "c' \<notin> us" "matches_field f c'" for c'
    proof -
      have "c' \<in> set (filter (\<lambda>c. c \<notin> us \<and> matches_field f c) available)" using that by simp
      then show ?thesis by (simp add: c)
    qed
    have "c \<in> set (filter (\<lambda>c. c \<notin> us \<and> matches_field f c) available)" by (simp add: c)
    then have mem: "c \<in> set available" "matches_field f c" by auto
    have none: "map_of sel f = None" using new by (simp add: map_of_eq_None_iff)
    have res: "infer_field available f st = (sel @ [(f, c)], insert c us, am)"
      using new c unfolding st by (simp add: dict_add)
    have look: "map_of (sel @ [(f, c)]) g = (if g = f then Some c else map_of sel g)" for g
      using none by (auto simp: map_add_def split: option.splits)
    have over: "map_of overrides g \<noteq> None \<Longrightarrow> g \<noteq> f" for g
      using assms(1) none by (auto simp: inferred_def st)
    note inv = assms(1) [unfolded inferred_def st prod.case]
    have late: "matches_field g d \<and> (\<forall>c' \<in> set available. matches_field g c' \<longrightarrow> c' \<in> insert c us)"
      if "map_of overrides g = None" "(if g = f then Some c else map_of sel g) = Some d" for g d
    proof (cases "g = f")
      case True
      then show ?thesis using that(2) mem(2) only by auto
    next
      case False
      then have "map_of sel g = Some d" using that(2) by simp
      with that(1) inv show ?thesis by blast
    qed
    show ?thesis
      unfolding res inferred_def prod.case look
    proof (intro conjI allI impI)
      show "wf_dict (sel @ [(f, c)])" using inv new by (simp add: wf_dict_def)
      show "insert c us = snd ` set (sel @ [(f, c)])" using inv by simp
      show "insert c us \<subseteq> set available" using inv mem by blast
      show "set (dkeys (sel @ [(f, c)])) \<subseteq> set mapping_fields" using inv assms(2) by simp
      show "(if g = f then Some c else map_of sel g) = Some d" if "map_of overrides g = Some d" for g d
        using inv over [of g] that by simp
    qed (use late in blast)+
  qed
qed

lemma inferred_fold:
  "inferred available overrides st \<Longrightarrow> set fs \<subseteq> set mapping_fields \<Longrightarrow>
   inferred available overrides (fold (infer_field available) fs st)"
  by (induction fs arbitrary: st) (simp_all add: inferred_step del: infer_field.simps)

lemma mk_bar_columns_returns:
  "mk_bar_columns m = Inr n \<Longrightarrow> n = m \<and> distinct (mapped_columns m)"
  by (auto simp: mk_bar_columns_def result_simps simp del: first_raise.simps)

lemma mapped_field_range:
  "c \<in> set (mapped_columns m) \<longleftrightarrow> (\<exists>f. mapped_field m f = Some c)"
proof
  assume "c \<in> set (mapped_columns m)"
  then have "\<exists>f \<in> set mapping_fields. mapped_field m f = Some c"
    by (auto simp: mapped_columns_def mapped_field_def mapping_fields_def required_fields_def
        optional_fields_def split: option.splits)
  then show "\<exists>f. mapped_field m f = Some c" by blast
next
  assume "\<exists>f. mapped_field m f = Some c"
  then show "c \<in> set (mapped_columns m)"
    by (auto simp: mapped_columns_def mapped_field_def split: if_splits)
qed

lemma infer_mapped:
  assumes "infer available overrides = Inr m"
  obtains chosen used ambiguous where
    "fold (infer_field available) mapping_fields (overrides, snd ` set overrides, []) =
       (chosen, used, ambiguous)"
    and "\<forall>f \<in> set mapping_fields. mapped_field m f = map_of chosen f"
    and "distinct (mapped_columns m)" and "set (dkeys overrides) \<subseteq> set mapping_fields"
    and "snd ` set overrides \<subseteq> set available"
proof -
  obtain chosen used ambiguous where st:
    "fold (infer_field available) mapping_fields (overrides, snd ` set overrides, []) =
       (chosen, used, ambiguous)"
    by (metis prod_cases3)
  let ?get = "\<lambda>f. case map_of chosen f of None \<Rightarrow> [] | Some c \<Rightarrow> c"
  have ovr: "validate_overrides overrides = Inr overrides"
      "snd ` set overrides \<subseteq> set available"
      "\<forall>f \<in> set required_fields. f \<in> set (dkeys chosen)"
    and made: "mk_bar_columns
       \<lparr>c_timestamp = ?get ''timestamp'', c_open = ?get ''open'', c_high = ?get ''high'',
        c_low = ?get ''low'', c_close = ?get ''close'', c_volume = ?get ''volume'',
        c_symbol = map_of chosen ''symbol'', c_timeframe = map_of chosen ''timeframe''\<rparr> = Inr m"
    using assms by (auto simp: infer_def result_simps st Let_def validate_overrides_def)
  have keys: "set (dkeys overrides) \<subseteq> set mapping_fields"
    using ovr(1) by (auto simp: validate_overrides_def result_simps simp del: first_raise.simps)
  note m = mk_bar_columns_returns [OF made]
  have req: "\<exists>c. map_of chosen f = Some c" if "f \<in> set required_fields" for f
    using ovr(3) that by (metis domD domI dom_map_of_conv_image_fst image_set)
  have "mapped_field m f = map_of chosen f" if "f \<in> set mapping_fields" for f
  proof -
    have eqs: "\<forall>f \<in> set required_fields. Some (?get f) = map_of chosen f"
      using req by fastforce
    show ?thesis
      using that eqs m
      by (auto simp: mapping_fields_def required_fields_def optional_fields_def mapped_field_def)
  qed
  then show thesis using that st m keys ovr(2) by blast
qed

text \<open>
  Column inference is sound: the chosen columns exist in the source, no column serves two
  fields, every override is honoured, and a column found by name carries one of the field's
  aliases while every other source column with such an alias is in use for some field, so that
  no choice is made silently between two candidates.
\<close>

theorem infer_sound:
  assumes "wf_dict overrides" and "infer available overrides = Inr m"
  shows "distinct (mapped_columns m) \<and> set (mapped_columns m) \<subseteq> set available \<and>
    (\<forall>f c. map_of overrides f = Some c \<longrightarrow> mapped_field m f = Some c) \<and>
    (\<forall>f c. map_of overrides f = None \<and> mapped_field m f = Some c \<longrightarrow>
       matches_field f c \<and> (\<forall>c' \<in> set available. matches_field f c' \<longrightarrow> c' \<in> set (mapped_columns m)))"
proof -
  obtain chosen used ambiguous where st:
    "fold (infer_field available) mapping_fields (overrides, snd ` set overrides, []) =
       (chosen, used, ambiguous)"
    and f: "\<forall>f \<in> set mapping_fields. mapped_field m f = map_of chosen f"
    and d: "distinct (mapped_columns m)" and k: "set (dkeys overrides) \<subseteq> set mapping_fields"
    and av: "snd ` set overrides \<subseteq> set available"
    using infer_mapped [OF assms(2)] by blast
  have inv: "inferred available overrides (chosen, used, ambiguous)"
    unfolding st [symmetric] using assms(1) k av
    by (intro inferred_fold) (auto simp: inferred_def)
  have other: "mapped_field m g = None" if "g \<notin> set mapping_fields" for g
    using that by (auto simp: mapped_field_def mapping_fields_def required_fields_def optional_fields_def)
  have eq: "mapped_field m g = map_of chosen g" for g
  proof (cases "g \<in> set mapping_fields")
    case False
    then have "g \<notin> set (dkeys chosen)" using inv by (auto simp: inferred_def)
    then have "map_of chosen g = None" by (simp add: map_of_eq_None_iff)
    then show ?thesis using other [OF False] by simp
  qed (use f in simp)
  have cols: "set (mapped_columns m) = used"
  proof -
    have "(c \<in> set (mapped_columns m)) = (\<exists>g. map_of chosen g = Some c)" for c
      by (simp add: mapped_field_range eq)
    moreover have "(c \<in> used) = (\<exists>g. map_of chosen g = Some c)" for c
      using inv by (auto simp: inferred_def wf_dict_def image_iff map_of_eq_Some_iff) force
    ultimately show ?thesis by blast
  qed
  show ?thesis using inv d unfolding cols eq by (auto simp: inferred_def)
qed

lemma inferred_overridden:
  "infer [''Date'', ''Open'', ''High'', ''Low'', ''Close'', ''Volume'', ''vol''] [(''volume'', ''vol'')] =
   Inr \<lparr>c_timestamp = ''Date'', c_open = ''Open'', c_high = ''High'',
        c_low = ''Low'', c_close = ''Close'', c_volume = ''vol'',
        c_symbol = None, c_timeframe = None\<rparr>"
  by code_simp

lemma infer_sound_witness:
  "let m = \<lparr>c_timestamp = ''Date'', c_open = ''Open'', c_high = ''High'',
        c_low = ''Low'', c_close = ''Close'', c_volume = ''vol'', c_symbol = None, c_timeframe = None\<rparr>
   in mapped_field m ''volume'' = Some ''vol''"
  using infer_sound [OF _ inferred_overridden] by (simp add: wf_dict_def Let_def)

section \<open>Exactness of timestamps\<close>

lemma digits_lower: "list_all ascii_digit s \<Longrightarrow> map ascii_lower s = s"
  by (induction s) (auto simp: ascii_lower_def ascii_digit_def)

lemma digits_not_named:
  assumes "s \<noteq> []" and "list_all ascii_digit s"
  shows "take n s \<noteq> ''inf''" "take n s \<noteq> ''infinity''" "take n s \<noteq> ''nan''" "take n s \<noteq> ''snan''"
proof -
  have "\<And>c. c \<in> set (take n s) \<Longrightarrow> ascii_digit c"
    using assms(2) by (meson in_set_takeD list_all_iff)
  then have "\<And>c t. take n s = c # t \<Longrightarrow> ascii_digit c" by simp
  moreover have "\<not> ascii_digit CHR ''i''" "\<not> ascii_digit CHR ''n''" "\<not> ascii_digit CHR ''s''"
    by (simp_all add: ascii_digit_def code_def)
  ultimately show "take n s \<noteq> ''inf''" "take n s \<noteq> ''infinity''" "take n s \<noteq> ''nan''"
      "take n s \<noteq> ''snan''" by blast+
qed

lemma digits_body:
  assumes "s \<noteq> []" and "list_all ascii_digit s"
  shows "parse_decimal_body s = Some (of_nat (digits_val s))"
proof -
  have "takeWhile ascii_digit s = s" "dropWhile ascii_digit s = []"
    using assms(2) by (auto simp: list_all_iff)
  then show ?thesis
    unfolding parse_decimal_body_def Let_def using assms(1)
    by (simp only: list.case prod.case option.map parse_exponent_def append_Nil2) (simp add: scale_def)
qed

lemma no_underscore: "list_all ascii_digit s \<Longrightarrow> filter (\<lambda>c. c \<noteq> CHR ''_'') s = s"
  by (induction s) (auto simp: ascii_digit_def code_def)

lemma int_text_strip: "py_strip (int_text n) = int_text n"
proof (cases "n < 0")
  case True
  then show ?thesis
    using digit_not_space nat_text_ends(2) [of "nat (- n)"]
    by (auto simp: int_text_def py_space_def code_minus intro!: py_strip_ends)
qed (simp add: int_text_def nat_text_strip)

lemma py_decimal_int_text: "py_decimal (int_text n) = Some (DFin (of_int n))"
proof -
  have body: "py_decimal (int_text n) =
      (case split_sign (filter (\<lambda>c. c \<noteq> CHR ''_'') (int_text n)) of (neg, t) \<Rightarrow>
         map_option (\<lambda>x. DFin (signed neg x)) (parse_decimal_body t))"
    if "split_sign (filter (\<lambda>c. c \<noteq> CHR ''_'') (int_text n)) = (neg, nat_text k)" for neg k
    using that digits_lower [OF nat_text_all_digits, of k]
      digits_not_named [OF nat_text_nonempty nat_text_all_digits, of 3 k]
      digits_not_named [OF nat_text_nonempty nat_text_all_digits, of 4 k]
      digits_not_named [OF nat_text_nonempty nat_text_all_digits, of "length (nat_text k)" k]
    by (simp add: py_decimal_def int_text_strip Let_def)
  show ?thesis
  proof (cases "n < 0")
    case True
    have sp: "split_sign (filter (\<lambda>c. c \<noteq> CHR ''_'') (int_text n)) = (True, nat_text (nat (- n)))"
      using True by (simp add: int_text_def no_underscore nat_text_all_digits)
    then show ?thesis
      using True body [OF sp] sp digits_body [OF nat_text_nonempty nat_text_all_digits, of "nat (- n)"]
      by (simp add: signed_def)
  next
    case False
    have sp: "split_sign (filter (\<lambda>c. c \<noteq> CHR ''_'') (int_text n)) = (False, nat_text (nat n))"
      using False split_sign_digit [OF nat_text_nonempty nat_text_ends(1), of "nat n"]
      by (simp add: int_text_def no_underscore nat_text_all_digits)
    then show ?thesis
      using False body [OF sp] sp digits_body [OF nat_text_nonempty nat_text_all_digits, of "nat n"]
      by (simp add: signed_def)
  qed
qed

text \<open>Milliseconds per stored unit.\<close>

fun unit_ms :: "timestamp_unit \<Rightarrow> rat" where
  "unit_ms SECONDS = 1000"
| "unit_ms MILLISECONDS = 1"
| "unit_ms MICROSECONDS = 1 / 1000"
| "unit_ms NANOSECONDS = 1 / 1000000"
| "unit_ms ISO8601 = 0"

lemma unit_scale_ms: "u \<noteq> ISO8601 \<Longrightarrow> unit_scale u = Inr (unit_ms u)"
  by (cases u) (simp_all add: unit_scale_def)

lemma dec_mult_unit:
  assumes "\<bar>n\<bar> < 10 ^ 24" shows "dec_mult (of_int n) (unit_ms u) = of_int n * unit_ms u"
proof (cases u)
  case SECONDS
  have "\<bar>n * 1000\<bar> < 10 ^ 28" using assms by simp
  then show ?thesis using dec_round_exact [of "n * 1000" 0] SECONDS by (simp add: dec_mult_def scale_def)
next
  case MILLISECONDS
  then show ?thesis using dec_round_exact [of n 0] assms by (simp add: dec_mult_def scale_def)
next
  case MICROSECONDS
  then show ?thesis using dec_round_exact [of n "- 3"] assms by (simp add: dec_mult_def scale_def)
next
  case NANOSECONDS
  then show ?thesis using dec_round_exact [of n "- 6"] assms by (simp add: dec_mult_def scale_def)
qed (simp add: dec_mult_def dec_round_def)

lemma numeric_timestamp_int:
  assumes "\<bar>n\<bar> < 10 ^ 24" and "u \<noteq> ISO8601"
  shows "(numeric_timestamp_ms (int_text n) u = Inr t) =
    (of_int n * unit_ms u = of_int t \<and> 0 \<le> t \<and> t < 2 ^ 63)"
proof -
  have "numeric_timestamp_ms (int_text n) u =
      (if \<not> is_integer (of_int n * unit_ms u)
       then raise ValueError ''timestamp cannot be represented exactly at millisecond precision''
       else if \<not> in_range_ms (trunc (of_int n * unit_ms u))
       then raise ValueError ''timestamp must fit a non-negative signed 64-bit millisecond value''
       else Inr (trunc (of_int n * unit_ms u)))"
    using assms
    by (simp add: numeric_timestamp_ms_def int_text_strip py_decimal_int_text unit_scale_ms
        dec_mult_unit Let_def)
  then show ?thesis
    using trunc_is_integer [of "of_int n * unit_ms u"]
    by (auto simp: in_range_ms_def is_integer_iff)
qed

lemma int_text_nonempty [simp]: "int_text n \<noteq> []"
  by (simp add: int_text_def)

text \<open>
  C25. A stored integer timestamp of up to 24 digits, as a number or as text, is accepted exactly
  when it denotes a whole, non-negative signed 64-bit number of milliseconds in its unit, and its
  value is that number: nothing is rounded.  A datetime of whole seconds keeps its value as well.
\<close>

theorem timestamps_exact:
  assumes "\<bar>n\<bar> < 10 ^ 24" and "u \<noteq> ISO8601" and "0 \<le> s" and "s < 2 ^ 43"
  shows "((timestamp_ms zone u (CInt n) = Inr t) =
           (of_int n * unit_ms u = of_int t \<and> 0 \<le> t \<and> t < 2 ^ 63)) \<and>
    ((timestamp_ms zone u (CText (int_text n)) = Inr t) =
           (of_int n * unit_ms u = of_int t \<and> 0 \<le> t \<and> t < 2 ^ 63)) \<and>
    timestamp_ms zone u (CDatetime (Aware (s * 1000000)) txt) = Inr (s * 1000)"
proof -
  have "s * 1000 < 2 ^ 43 * 1000" using assms(4) by simp
  then have "s * 1000 \<le> 2 ^ 63 - 1" by simp
  then have "datetime_ms zone (Aware (s * 1000000)) = Inr (s * 1000)"
    using float_ms_seconds [OF assms(3,4)] assms(3)
    by (simp add: datetime_ms_def instant_def in_range_ms_def)
  then show ?thesis
    using numeric_timestamp_int [OF assms(1,2)] assms(2)
    by (simp add: timestamp_ms_def Let_def int_text_strip py_decimal_int_text)
qed

lemma timestamps_exact_witness:
  "timestamp_ms id MICROSECONDS (CInt 1700000000123000) = Inr 1700000000123 \<and>
   timestamp_ms id MICROSECONDS (CInt 1700000000123456) \<noteq> Inr 1700000000123 \<and>
   timestamp_ms id MICROSECONDS (CDatetime (Aware (1700000000 * 1000000)) []) = Inr 1700000000000"
  using timestamps_exact [of 1700000000123000 MICROSECONDS 1700000000 id 1700000000123 "[]"]
    timestamps_exact [of 1700000000123456 MICROSECONDS 1700000000 id 1700000000123 "[]"]
  by simp

lemma rnd64_overflow: "rnd64 (of_int (2 ^ 1024)) = PInf"
proof -
  let ?x = "of_int (2 ^ 1024) :: rat" and ?e = "max (floor_exp 2 (of_int (2 ^ 1024)) - 52) (- 1074)"
  have "floor_exp 2 ?x < int 1025" by (rule floor_exp_int) simp_all
  then have e: "?e \<le> 1024" by linarith
  have "?x = of_int (2 ^ nat (1024 - ?e)) * scale 2 ?e"
    using scale_diff [of 2 ?e 1024] e by (simp add: scale_def)
  then have r: "round_at 2 ?e ?x = ?x" by (metis round_at_multiple zero_less_numeral)
  have pos: "0 < ?x" by simp
  show ?thesis unfolding rnd64_def abs_of_pos [OF pos] Let_def r using pos by simp
qed

lemma float_ms_loses: "float_ms 1079113366202000 = 1079113366201"
proof -
  have "rnd64 (1079113366202000 / 1000000) = Fin (of_int 4526129508314513 * scale 2 (- 22))"
    by (rule rnd64_eq) (simp_all add: scale_def)
  moreover have "rnd64 (of_int 4526129508314513 * scale 2 (- 22) * 1000) =
      Fin (of_int 8840096695926783 * scale 2 (- 13))"
    by (rule rnd64_eq) (simp_all add: scale_def)
  ultimately show ?thesis by (simp add: float_ms_def trunc_def scale_def floor_eq_iff)
qed

lemma long_decimal:
  "py_strip ''1700000000000.0000000000000001'' = ''1700000000000.0000000000000001''"
  "py_decimal ''1700000000000.0000000000000001'' =
     Some (DFin (17000000000000000000000000001 / 10000000000000000))"
proof -
  let ?t = "''1700000000000.0000000000000001''"
  have digits: "ascii_digit CHR ''0''" "ascii_digit CHR ''1''" "ascii_digit CHR ''7''"
      "\<not> ascii_digit CHR ''.''" by (simp_all add: ascii_digit_def code_def)
  have body: "parse_decimal_body ?t = Some (17000000000000000000000000001 / 10000000000000000)"
    by (simp add: code_def parse_decimal_body_def digits digits_val_def parse_exponent_def scale_def)
  show strip: "py_strip ?t = ?t" by (rule py_strip_ends) (simp_all add: py_space_def code_def)
  show "py_decimal ?t = Some (DFin (17000000000000000000000000001 / 10000000000000000))"
    unfolding py_decimal_def strip by (simp add: body signed_def ascii_lower_def code_def Let_def)
qed

lemma long_decimal_product:
  "dec_mult (17000000000000000000000000001 / 10000000000000000) 1 = 1700000000000"
proof -
  have "dec_round (17000000000000000000000000001 / 10000000000000000) =
      of_int 1700000000000000000000000000 * scale 10 (- 15)"
    by (rule dec_round_eq) (simp_all add: scale_def)
  then show ?thesis by (simp add: dec_mult_def scale_def)
qed

text \<open>
  Where normalization departs from what it promises: a decimal timestamp of more than 28
  digits that is not a whole millisecond is accepted, because the product is rounded first; a
  datetime of a whole millisecond may lose one, because it passes through a float of seconds; and
  an integer price too large for a float raises \<open>OverflowError\<close>, which the row handler, catching
  only key, type and value errors, does not turn into a \<open>TabularDataError\<close>.
\<close>

theorem normalization_deviations:
  "timestamp_ms zone MILLISECONDS (CText ''1700000000000.0000000000000001'') = Inr 1700000000000 \<and>
   timestamp_ms zone u (CDatetime (Aware 1079113366202000) txt) = Inr 1079113366201 \<and>
   (\<exists>m. cell_number (CInt (2 ^ 1024)) field = raise OverflowError m) \<and>
   \<not> caught (Exn OverflowError msg) [KeyError, TypeError, ValueError]"
proof (intro conjI)
  let ?t = "''1700000000000.0000000000000001''"
  show "timestamp_ms zone MILLISECONDS (CText ?t) = Inr 1700000000000"
    using long_decimal long_decimal_product trunc_of_int [of 1700000000000]
      is_integer_of_int [of 1700000000000]
    by (simp add: timestamp_ms_def numeric_timestamp_ms_def unit_scale_def Let_def in_range_ms_def)
  show "timestamp_ms zone u (CDatetime (Aware 1079113366202000) txt) = Inr 1079113366201"
    by (simp add: timestamp_ms_def datetime_ms_def instant_def in_range_ms_def float_ms_loses)
  have "\<exists>m. float_of_int (2 ^ 1024) = raise OverflowError m"
    using rnd64_overflow by (simp add: float_of_int_def)
  then show "\<exists>m. cell_number (CInt (2 ^ 1024)) field = raise OverflowError m"
    by (auto simp: cell_number_def)
  show "\<not> caught (Exn OverflowError msg) [KeyError, TypeError, ValueError]"
    by (simp add: caught_def is_a_def)
qed

end
