(* ===== verification/TabularProvider.thy ===== *)
theory TabularProvider
  imports Tabular
begin

text \<open>
  \<open>TabularBarProvider\<close> of \<open>providers/tabular.py\<close>: the common catalog and bar behaviour over the
  three abstract methods of a source (\<open>_inspect_schema_sync\<close>, \<open>_read_rows_sync\<close>,
  \<open>_distinct_values_sync\<close>), which are the fields of a record here.
\<close>

section \<open>Sources and providers\<close>

record row_source =
  inspect_schema :: "tabular_schema result"
  read_rows :: "bar_columns \<Rightarrow> bar_request \<Rightarrow> row list result"
  distinct_values :: "string \<Rightarrow> cell list result"

datatype mapping_input = NoMapping | Explicit bar_columns | Overrides "(string, string) dict"

record tabular_provider =
  tp_name :: string
  tp_venue :: string
  tp_unit :: timestamp_unit
  tp_zone :: "int \<Rightarrow> int"
  tp_template :: "instrument option"
  tp_timeframe :: "string option"
  tp_explicit :: "bar_columns option"
  tp_overrides :: "(string, string) dict"

text \<open>
  \<open>__init__\<close>.  \<open>zones\<close> is the IANA database: the conversion of a zone name, where there is one.
\<close>

definition mk_tabular_provider ::
  "(string \<Rightarrow> (int \<Rightarrow> int) option) \<Rightarrow> string \<Rightarrow> string \<Rightarrow> mapping_input \<Rightarrow> string \<Rightarrow> string \<Rightarrow>
   instrument option \<Rightarrow> string option \<Rightarrow> tabular_provider result" where
  "mk_tabular_provider zones name venue_name mapping unit zone_name template timeframe =
     rbind (first_raise
       [(blank venue_name, ValueError, ''venue must not be empty''),
        (some_bad blank timeframe, ValueError, ''timeframe must not be empty''),
        (some_bad (\<lambda>i. venue i \<noteq> [] \<and> venue i \<noteq> venue_name) template, ValueError,
           ''instrument venue does not match provider venue'')]) (\<lambda>_.
     rbind (case zones zone_name of Some z \<Rightarrow> Inr z
            | None \<Rightarrow> raise ValueError ''unknown IANA timestamp timezone'') (\<lambda>zone.
     rbind (parse_unit unit) (\<lambda>u.
     rbind (case mapping of Overrides ovr \<Rightarrow> validate_overrides ovr | _ \<Rightarrow> Inr []) (\<lambda>overrides.
     Inr \<lparr>tp_name = name, tp_venue = venue_name, tp_unit = u, tp_zone = zone, tp_template = template,
          tp_timeframe = timeframe,
          tp_explicit = (case mapping of Explicit m \<Rightarrow> Some m | _ \<Rightarrow> None),
          tp_overrides = overrides\<rparr>))))"

definition resolved_mapping :: "tabular_provider \<Rightarrow> row_source \<Rightarrow> bar_columns result" where
  "resolved_mapping p src =
     rbind (inspect_schema src) (\<lambda>schema.
     case tp_explicit p of
       Some m \<Rightarrow> rbind (validate_mapping m (column_names schema)) (\<lambda>_. Inr m)
     | None \<Rightarrow> infer (column_names schema) (tp_overrides p))"

definition default_to :: "string \<Rightarrow> string \<Rightarrow> string" where
  "default_to s t = (if s = [] then t else s)"

definition provider_instrument :: "tabular_provider \<Rightarrow> string \<Rightarrow> instrument result" where
  "provider_instrument p name =
     (case tp_template p of
        Some t \<Rightarrow>
          (if symbol t \<noteq> name then raise MarketNotFoundError ''provider is bound to another symbol''
           else mk_instrument (t\<lparr>venue := default_to (venue t) (tp_venue p),
                                 provider_id := default_to (provider_id t) name\<rparr>))
      | None \<Rightarrow> mk_instrument ((instrument_of name)\<lparr>venue := tp_venue p, provider_id := name\<rparr>))"

definition provider_symbols :: "tabular_provider \<Rightarrow> row_source \<Rightarrow> bar_columns \<Rightarrow> string list result" where
  "provider_symbols p src m =
     (case c_symbol m of
        None \<Rightarrow> Inr (case tp_template p of None \<Rightarrow> [] | Some t \<Rightarrow> [symbol t])
      | Some column \<Rightarrow>
          rbind (distinct_values src column) (\<lambda>values.
          Inr (sort (remdups (filter (\<lambda>s. s \<noteq> [])
                 (map (\<lambda>v. py_strip (cell_text v)) (filter (\<lambda>v. v \<noteq> CNone) values)))))))"

definition tabular_list_markets ::
  "tabular_provider \<Rightarrow> row_source \<Rightarrow> market_query option \<Rightarrow> market_listing list result" where
  "tabular_list_markets p src query =
     rbind (resolved_mapping p src) (\<lambda>m.
     rbind (provider_symbols p src m) (\<lambda>symbols.
     rbind (rmap (\<lambda>s. rbind (provider_instrument p s) (\<lambda>i. Inr (listing_of i))) symbols) (\<lambda>listings.
     Inr (case query of None \<Rightarrow> listings | Some q \<Rightarrow> filter (matches q) listings))))"

definition tabular_resolve_market ::
  "tabular_provider \<Rightarrow> row_source \<Rightarrow> string \<Rightarrow> market_listing result" where
  "tabular_resolve_market p src name =
     rbind (require (\<not> blank name) ValueError ''symbol must not be empty'') (\<lambda>_.
     rbind (resolved_mapping p src) (\<lambda>m.
     rbind (if c_symbol m = None then Inr ()
            else rbind (provider_symbols p src m) (\<lambda>symbols.
                   require (name \<in> set symbols) MarketNotFoundError ''no exact symbol'')) (\<lambda>_.
     rbind (provider_instrument p name) (\<lambda>i. Inr (listing_of i)))))"

section \<open>Reading bars\<close>

text \<open>\<open>str(row[column]).strip() != wanted\<close>, where the column is mapped.\<close>

definition column_is :: "row \<Rightarrow> string option \<Rightarrow> string \<Rightarrow> bool result" where
  "column_is row column wanted =
     (case column of None \<Rightarrow> Inr True
      | Some c \<Rightarrow> rbind (row_item row c) (\<lambda>v. Inr (py_strip (cell_text v) = wanted)))"

definition row_number :: "row \<Rightarrow> string \<Rightarrow> string \<Rightarrow> pyfloat result" where
  "row_number row column field = rbind (row_item row column) (\<lambda>v. cell_number v field)"

text \<open>The timestamp of a row the request asks for; \<open>None\<close> where the loop continues.\<close>

definition row_time ::
  "tabular_provider \<Rightarrow> bar_columns \<Rightarrow> bar_request \<Rightarrow> row \<Rightarrow> int option result" where
  "row_time p m r row =
     rbind (column_is row (c_symbol m) (symbol (br_instrument r))) (\<lambda>same.
     if \<not> same then Inr None else
     rbind (column_is row (c_timeframe m) (br_timeframe r)) (\<lambda>same.
     if \<not> same then Inr None else
     rbind (row_item row (c_timestamp m)) (\<lambda>v.
     rbind (timestamp_ms (tp_zone p) (tp_unit p) v) (\<lambda>t.
     Inr (if start_ms r \<le> t \<and> t < end_ms r then Some t else None)))))"

definition row_bar ::
  "tabular_provider \<Rightarrow> bar_columns \<Rightarrow> bar_request \<Rightarrow> row \<Rightarrow> int \<Rightarrow> bar result" where
  "row_bar p m r row t =
     rbind (row_number row (c_open m) ''open'') (\<lambda>op.
     rbind (row_number row (c_high m) ''high'') (\<lambda>hi.
     rbind (row_number row (c_low m) ''low'') (\<lambda>lo.
     rbind (row_number row (c_close m) ''close'') (\<lambda>cl.
     rbind (row_number row (c_volume m) ''volume'') (\<lambda>vol.
     mk_bar \<lparr>bar_instrument = br_instrument r, bar_ms = t, bar_open = op, bar_high = hi,
             bar_low = lo, bar_close = cl, bar_volume = vol, bar_source = tp_name p\<rparr>)))))"

text \<open>One turn of the loop, with its handlers; a \<open>TabularDataError\<close> is raised as it is.\<close>

definition row_step ::
  "tabular_provider \<Rightarrow> bar_columns \<Rightarrow> bar_request \<Rightarrow> (int, bar) dict \<Rightarrow> row \<Rightarrow> (int, bar) dict result" where
  "row_step p m r by_timestamp row =
     rcatch
       (rbind (row_time p m r row) (\<lambda>time.
          case time of
            None \<Rightarrow> Inr by_timestamp
          | Some t \<Rightarrow>
              if t \<in> set (dkeys by_timestamp) then raise TabularDataError ''duplicate bar timestamp''
              else rbind (row_bar p m r row t) (\<lambda>b. Inr (AList.update t b by_timestamp))))
       [KeyError, TypeError, ValueError]
       (\<lambda>e. raise TabularDataError ''cannot normalize source row'')"

definition tabular_fetch :: "tabular_provider \<Rightarrow> row_source \<Rightarrow> bar_request \<Rightarrow> bar list result" where
  "tabular_fetch p src r =
     rbind (first_raise
       [(venue (br_instrument r) \<noteq> [] \<and> venue (br_instrument r) \<noteq> tp_venue p, ValueError,
           ''instrument venue does not match provider venue'')]) (\<lambda>_.
     rbind (if tp_template p = None then Inr ()
            else rbind (provider_instrument p (symbol (br_instrument r))) (\<lambda>_. Inr ())) (\<lambda>_.
     rbind (require (\<not> some_bad (\<lambda>t. br_timeframe r \<noteq> t) (tp_timeframe p)) ValueError
              ''source timeframe does not match request'') (\<lambda>_.
     rbind (resolved_mapping p src) (\<lambda>m.
     rbind (read_rows src m r) (\<lambda>rows.
     rbind (rfold (row_step p m r) [] rows) (\<lambda>by_timestamp.
     let bars = map (\<lambda>t. the (map_of by_timestamp t)) (sort (dkeys by_timestamp))
     in Inr (limited (br_limit r) bars)))))))"

section \<open>What the loop computes\<close>

text \<open>The bar a row contributes, if it does.\<close>

definition row_result :: "tabular_provider \<Rightarrow> bar_columns \<Rightarrow> bar_request \<Rightarrow> row \<Rightarrow> bar option result" where
  "row_result p m r row =
     rbind (row_time p m r row) (\<lambda>time.
       case time of None \<Rightarrow> Inr None | Some t \<Rightarrow> rbind (row_bar p m r row t) (\<lambda>b. Inr (Some b)))"

lemma row_bar_returns:
  "row_bar p m r row t = Inr b \<Longrightarrow>
   bar_ok b \<and> bar_ms b = t \<and> bar_instrument b = br_instrument r \<and> bar_source b = tp_name p"
  by (auto simp: row_bar_def result_simps mk_bar_iff)

lemma row_time_returns: "row_time p m r row = Inr (Some t) \<Longrightarrow> start_ms r \<le> t \<and> t < end_ms r"
  by (auto simp: row_time_def result_simps split: if_splits)

lemma row_step_returns:
  "(row_step p m r d row = Inr d') =
     (row_result p m r row = Inr None \<and> d' = d \<or>
      (\<exists>b. row_result p m r row = Inr (Some b) \<and> bar_ms b \<notin> set (dkeys d) \<and> d' = d @ [(bar_ms b, b)]))"
proof (cases "row_time p m r row")
  case (Inr time)
  show ?thesis
  proof (cases time)
    case (Some t)
    have "row_bar p m r row t = Inr b \<Longrightarrow> bar_ms b = t" for b by (simp add: row_bar_returns)
    then show ?thesis
      using Inr Some
      by (auto simp: row_step_def row_result_def result_simps dict_add caught_def is_a_def)
  qed (auto simp: row_step_def row_result_def Inr result_simps)
qed (auto simp: row_step_def row_result_def result_simps)

text \<open>The bars of a list of rows, in the order of the rows.\<close>

definition row_bars :: "tabular_provider \<Rightarrow> bar_columns \<Rightarrow> bar_request \<Rightarrow> row list \<Rightarrow> bar list" where
  "row_bars p m r rows =
     concat (map (\<lambda>row. case row_result p m r row of Inr (Some b) \<Rightarrow> [b] | _ \<Rightarrow> []) rows)"

lemma row_fold:
  "(rfold (row_step p m r) d rows = Inr d') =
     ((\<forall>row \<in> set rows. \<exists>x. row_result p m r row = Inr x) \<and>
      d' = d @ map (\<lambda>b. (bar_ms b, b)) (row_bars p m r rows) \<and>
      distinct (map bar_ms (row_bars p m r rows)) \<and>
      set (map bar_ms (row_bars p m r rows)) \<inter> set (dkeys d) = {})"
proof (induction rows arbitrary: d)
  case (Cons row rows)
  show ?case
  proof (cases "row_result p m r row")
    case (Inr x)
    show ?thesis
    proof (cases x)
      case None
      then show ?thesis using Inr Cons.IH [of d]
        by (simp add: result_simps row_step_returns row_bars_def)
    next
      case (Some b)
      have bars: "row_bars p m r (row # rows) = b # row_bars p m r rows"
        using Inr Some by (simp add: row_bars_def)
      show ?thesis
        using Inr Some Cons.IH [of "d @ [(bar_ms b, b)]"] unfolding bars
        by (auto simp: result_simps row_step_returns)
    qed
  qed (simp add: result_simps row_step_returns)
qed (auto simp: row_bars_def)

lemma row_bars_result: "b \<in> set (row_bars p m r rows) = (\<exists>row \<in> set rows. row_result p m r row = Inr (Some b))"
  by (auto simp: row_bars_def split: sum.splits option.splits) force

lemma row_result_bar:
  "row_result p m r row = Inr (Some b) \<Longrightarrow>
   bar_ok b \<and> bar_instrument b = br_instrument r \<and> bar_source b = tp_name p \<and>
   start_ms r \<le> bar_ms b \<and> bar_ms b < end_ms r"
  using row_time_returns
  by (auto simp: row_result_def result_simps split: option.splits dest!: row_bar_returns)

lemma stored_bars_sorted:
  assumes "distinct (map bar_ms bs)"
  shows "map (\<lambda>t. the (map_of (map (\<lambda>b. (bar_ms b, b)) bs) t)) (sort (map bar_ms bs)) = sort_key bar_ms bs"
proof -
  let ?d = "map (\<lambda>b. (bar_ms b, b)) bs"
  have look: "the (map_of ?d (bar_ms b)) = b" if "b \<in> set bs" for b
    using assms that by (simp add: map_of_eq_Some_iff comp_def image_iff)
  have "map bar_ms (sort_key bar_ms bs) = sort (map bar_ms bs)"
    by (intro properties_for_sort [symmetric]) (simp_all add: mset_map)
  then have "map (\<lambda>t. the (map_of ?d t)) (sort (map bar_ms bs)) =
      map (\<lambda>b. the (map_of ?d (bar_ms b))) (sort_key bar_ms bs)"
    by (metis (no_types, lifting) map_map comp_apply map_eq_conv)
  also have "\<dots> = sort_key bar_ms bs" using look by (intro map_idI) simp
  finally show ?thesis .
qed

text \<open>What a fetch that returns did.\<close>

lemma tabular_fetch_returns:
  assumes "tabular_fetch p src r = Inr bs"
  obtains m rows where "resolved_mapping p src = Inr m" and "read_rows src m r = Inr rows"
    and "\<forall>row \<in> set rows. \<exists>x. row_result p m r row = Inr x"
    and "distinct (map bar_ms (row_bars p m r rows))"
    and "bs = limited (br_limit r) (sort_key bar_ms (row_bars p m r rows))"
proof -
  obtain m rows d where *: "resolved_mapping p src = Inr m" "read_rows src m r = Inr rows"
      "rfold (row_step p m r) [] rows = Inr d"
      "bs = limited (br_limit r) (map (\<lambda>t. the (map_of d t)) (sort (dkeys d)))"
    using assms by (auto simp: tabular_fetch_def result_simps Let_def)
  note d = *(3) [unfolded row_fold]
  have "d = map (\<lambda>b. (bar_ms b, b)) (row_bars p m r rows)" using d by simp
  then have "bs = limited (br_limit r) (sort_key bar_ms (row_bars p m r rows))"
    using d *(4) by (simp add: comp_def stored_bars_sorted)
  then show thesis using that * d by blast
qed

lemma sort_key_strict:
  "distinct (map bar_ms bs) \<Longrightarrow> sorted_wrt (<) (map bar_ms (sort_key bar_ms bs))"
  by (intro sorted_distinct_strict) (metis sorted_sort_key, metis distinct_map mset_sort
      mset_map mset_eq_imp_distinct_iff)

lemma tabular_fetch_serves: "tabular_fetch p src r = Inr bs \<Longrightarrow> serves r bs"
proof -
  assume "tabular_fetch p src r = Inr bs"
  then obtain m rows where "distinct (map bar_ms (row_bars p m r rows))"
      and bs: "bs = limited (br_limit r) (sort_key bar_ms (row_bars p m r rows))"
    by (rule tabular_fetch_returns)
  moreover have "bar_ok b \<and> bar_instrument b = br_instrument r \<and> start_ms r \<le> bar_ms b \<and> bar_ms b < end_ms r"
    if "b \<in> set bs" for b
  proof -
    have "b \<in> set (row_bars p m r rows)" using that bs set_limited by fastforce
    then show ?thesis using row_result_bar row_bars_result by meson
  qed
  ultimately show ?thesis
    unfolding serves_def using strict_limited sort_key_strict limited_length by metis
qed

text \<open>The contract of a historical provider holds for every tabular source.\<close>

interpretation tabular: historical_bars "tabular_fetch p src" for p src
  by unfold_locales (rule tabular_fetch_serves)

section \<open>Properties\<close>

text \<open>What the guards before the read ask of a request.\<close>

definition request_fits :: "tabular_provider \<Rightarrow> bar_request \<Rightarrow> bool" where
  "request_fits p r =
     ((venue (br_instrument r) = [] \<or> venue (br_instrument r) = tp_venue p) \<and>
      (tp_template p = None \<or> (\<exists>i. provider_instrument p (symbol (br_instrument r)) = Inr i)) \<and>
      (tp_timeframe p = None \<or> tp_timeframe p = Some (br_timeframe r)))"

lemma tabular_fetch_iff:
  "(tabular_fetch p src r = Inr bs) =
     (request_fits p r \<and>
      (\<exists>m rows. resolved_mapping p src = Inr m \<and> read_rows src m r = Inr rows \<and>
         (\<forall>row \<in> set rows. \<exists>x. row_result p m r row = Inr x) \<and>
         distinct (map bar_ms (row_bars p m r rows)) \<and>
         bs = limited (br_limit r) (sort_key bar_ms (row_bars p m r rows))))"
proof
  assume fetch: "tabular_fetch p src r = Inr bs"
  have "request_fits p r"
    using fetch
    by (cases "tp_timeframe p")
      (auto simp: tabular_fetch_def result_simps request_fits_def split: if_splits)
  then show "request_fits p r \<and>
      (\<exists>m rows. resolved_mapping p src = Inr m \<and> read_rows src m r = Inr rows \<and>
         (\<forall>row \<in> set rows. \<exists>x. row_result p m r row = Inr x) \<and>
         distinct (map bar_ms (row_bars p m r rows)) \<and>
         bs = limited (br_limit r) (sort_key bar_ms (row_bars p m r rows)))"
    using tabular_fetch_returns [OF fetch] by metis
next
  assume "request_fits p r \<and>
      (\<exists>m rows. resolved_mapping p src = Inr m \<and> read_rows src m r = Inr rows \<and>
         (\<forall>row \<in> set rows. \<exists>x. row_result p m r row = Inr x) \<and>
         distinct (map bar_ms (row_bars p m r rows)) \<and>
         bs = limited (br_limit r) (sort_key bar_ms (row_bars p m r rows)))"
  then obtain m rows where fits: "request_fits p r"
    and m: "resolved_mapping p src = Inr m" "read_rows src m r = Inr rows"
    and ok: "\<forall>row \<in> set rows. \<exists>x. row_result p m r row = Inr x"
      "distinct (map bar_ms (row_bars p m r rows))"
    and bs: "bs = limited (br_limit r) (sort_key bar_ms (row_bars p m r rows))" by blast
  have fold: "rfold (row_step p m r) [] rows = Inr (map (\<lambda>b. (bar_ms b, b)) (row_bars p m r rows))"
    unfolding row_fold using ok by simp
  show "tabular_fetch p src r = Inr bs"
    using fits m fold ok(2) unfolding bs
    by (cases "tp_timeframe p"; cases "tp_template p")
      (auto simp: tabular_fetch_def request_fits_def stored_bars_sorted comp_def)
qed

text \<open>A fetch in one comprehension: normalize every row, keep the selected ones, sort, cut.\<close>

definition reference_bars :: "tabular_provider \<Rightarrow> row_source \<Rightarrow> bar_request \<Rightarrow> bar list result" where
  "reference_bars p src r =
     rbind (resolved_mapping p src) (\<lambda>m.
     rbind (read_rows src m r) (\<lambda>rows.
     rbind (rmap (row_result p m r) rows) (\<lambda>outcomes. Inr (List.map_filter id outcomes))))"

lemma row_bars_outcomes:
  "rmap (row_result p m r) rows = Inr xs \<Longrightarrow> List.map_filter id xs = row_bars p m r rows"
  by (induction rows arbitrary: xs)
    (auto simp: result_simps row_bars_def List.map_filter_simps split: option.splits)

lemma reference_bars_iff:
  "(reference_bars p src r = Inr bars) =
     (\<exists>m rows. resolved_mapping p src = Inr m \<and> read_rows src m r = Inr rows \<and>
        (\<forall>row \<in> set rows. \<exists>x. row_result p m r row = Inr x) \<and> bars = row_bars p m r rows)"
  using row_bars_outcomes rmap_returns_iff [of "row_result p m r" for m]
  by (auto simp: reference_bars_def result_simps) (metis, metis)


text \<open>
  Bars read from any tabular source increase strictly in time, belong to the requested
  instrument, are valid, carry the provider's name, lie in the requested interval and respect the
  limit.
\<close>

theorem tabular_bars_contract:
  assumes "tabular_fetch p src r = Inr bs"
  shows "strictly_increasing bar_ms bs \<and> (\<forall>n. br_limit r = Some n \<longrightarrow> int (length bs) \<le> max 0 n) \<and>
    (\<forall>b \<in> set bs. bar_ok b \<and> bar_instrument b = br_instrument r \<and> bar_source b = tp_name p \<and>
       start_ms r \<le> bar_ms b \<and> bar_ms b < end_ms r)"
proof -
  obtain m rows where rows: "bs = limited (br_limit r) (sort_key bar_ms (row_bars p m r rows))"
    using tabular_fetch_returns [OF assms] by metis
  have "bar_source b = tp_name p" if "b \<in> set bs" for b
  proof -
    have "b \<in> set (row_bars p m r rows)" using that rows set_limited by fastforce
    then show ?thesis using row_result_bar row_bars_result by meson
  qed
  then show ?thesis
    using tabular.fetch_increasing [OF assms] tabular.fetch_one_instrument [OF assms]
      tabular.fetch_bar_ok [OF assms] tabular.fetch_in_range [OF assms]
      tabular.fetch_serves [OF assms] by (auto simp: serves_def)
qed

lemma timestamp_ms_int [simp]:
  "0 \<le> n \<Longrightarrow> n < 2 ^ 63 \<Longrightarrow> timestamp_ms zone MILLISECONDS (CInt n) = Inr n"
  using numeric_timestamp_int [of n MILLISECONDS n] by (simp add: timestamp_ms_def)

text \<open>A source of two rows out of order, and a provider for it.\<close>

definition sample_mapping :: bar_columns where
  "sample_mapping =
     \<lparr>c_timestamp = ''t'', c_open = ''o'', c_high = ''h'', c_low = ''l'', c_close = ''c'',
      c_volume = ''v'', c_symbol = None, c_timeframe = None\<rparr>"

definition sample_row :: "int \<Rightarrow> rat \<Rightarrow> row" where
  "sample_row t x =
     [(''t'', CInt t), (''o'', CFloat (Fin x)), (''h'', CFloat (Fin (x + 1))), (''l'', CFloat (Fin x)),
      (''c'', CFloat (Fin x)), (''v'', CInt 0)]"

definition sample_source :: row_source where
  "sample_source =
     \<lparr>inspect_schema = Inr \<lparr>ts_source = ''s'',
        ts_columns = map (\<lambda>n. \<lparr>sc_name = n, data_type = [], nullable = None\<rparr>)
          [''t'', ''o'', ''h'', ''l'', ''c'', ''v'']\<rparr>,
      read_rows = (\<lambda>m r. Inr [sample_row 2000 5, sample_row 1000 3, sample_row 9000 7]),
      distinct_values = (\<lambda>c. Inr [])\<rparr>"

definition sample_provider :: tabular_provider where
  "sample_provider =
     \<lparr>tp_name = ''csv:x'', tp_venue = ''x'', tp_unit = MILLISECONDS, tp_zone = id, tp_template = None,
      tp_timeframe = None, tp_explicit = Some sample_mapping, tp_overrides = []\<rparr>"

definition sample_request :: bar_request where
  "sample_request =
     \<lparr>br_instrument = instrument_of ''BTC'', br_timeframe = ''1h'', start_ms = 1000, end_ms = 3000,
      br_limit = None\<rparr>"

definition sample_bar :: "int \<Rightarrow> rat \<Rightarrow> bar" where
  "sample_bar t x =
     \<lparr>bar_instrument = instrument_of ''BTC'', bar_ms = t, bar_open = Fin x, bar_high = Fin (x + 1),
      bar_low = Fin x, bar_close = Fin x, bar_volume = Fin 0, bar_source = ''csv:x''\<rparr>"

lemma sample_row_bar:
  "0 < x \<Longrightarrow> 0 \<le> t \<Longrightarrow> t < 2 ^ 63 \<Longrightarrow>
   row_result sample_provider sample_mapping sample_request (sample_row t x) =
     Inr (if 1000 \<le> t \<and> t < 3000 then Some (sample_bar t x) else None)"
proof -
  assume x: "0 < x" and t: "0 \<le> t" "t < 2 ^ 63"
  have z: "float_of_int 0 = Inr (Fin 0)" using float_of_int_exact [of 0] by simp
  have "\<not> blank ''csv:x''" by (simp add: blank_iff py_space_def code_def)
  then have "bar_ok (sample_bar t x)" using x t by (simp add: bar_ok_def ms_ok_def sample_bar_def)
  then have "mk_bar (sample_bar t x) = Inr (sample_bar t x)" by (simp add: mk_bar_iff)
  then show ?thesis
    using t by (simp add: row_result_def row_time_def row_bar_def column_is_def row_number_def
        row_item_def cell_number_def sample_provider_def sample_mapping_def sample_request_def
        sample_row_def sample_bar_def z)
qed

lemma sample_fetch:
  "tabular_fetch sample_provider sample_source sample_request = Inr [sample_bar 1000 3, sample_bar 2000 5]"
  unfolding tabular_fetch_iff
proof (intro conjI exI)
  let ?rows = "[sample_row 2000 5, sample_row 1000 3, sample_row 9000 7]"
  show "request_fits sample_provider sample_request"
    by (simp add: request_fits_def sample_provider_def sample_request_def instrument_of_def)
  show "resolved_mapping sample_provider sample_source = Inr sample_mapping"
    by (simp add: resolved_mapping_def validate_mapping_def mapped_columns_def column_names_def
        sample_provider_def sample_source_def sample_mapping_def)
  show "read_rows sample_source sample_mapping sample_request = Inr ?rows"
    by (simp add: sample_source_def)
  have bars: "row_bars sample_provider sample_mapping sample_request ?rows =
      [sample_bar 2000 5, sample_bar 1000 3]"
    by (simp add: row_bars_def sample_row_bar)
  show "\<forall>row \<in> set ?rows. \<exists>x. row_result sample_provider sample_mapping sample_request row = Inr x"
    by (simp add: sample_row_bar)
  show "distinct (map bar_ms (row_bars sample_provider sample_mapping sample_request ?rows))"
    unfolding bars by (simp add: sample_bar_def)
  show "[sample_bar 1000 3, sample_bar 2000 5] = limited (br_limit sample_request)
      (sort_key bar_ms (row_bars sample_provider sample_mapping sample_request ?rows))"
    unfolding bars by (simp add: sample_request_def limited_def sample_bar_def)
qed

lemma tabular_bars_contract_witness:
  "strictly_increasing bar_ms [sample_bar 1000 3, sample_bar 2000 5]"
  using tabular_bars_contract [OF sample_fetch] by simp

end
