(* ===== verification/TabularSources.thy ===== *)
theory TabularSources
  imports TabularProvider
begin

text \<open>
  \<open>providers/local.py\<close> and \<open>providers/sqlalchemy.py\<close>: the CSV, SQLite and SQLAlchemy sources.
  The text of a file and the database behind a connection are parameters; reading CSV records and
  building SQL statements are the package's (and the standard library's) and are defined here.
\<close>

section \<open>CSV\<close>

text \<open>
  The record reader of the \<open>csv\<close> module in its default dialect: quotes double inside a quoted
  field, a quote elsewhere is an ordinary character, a record ends at \<open>\\r\<close>, \<open>\\n\<close> or
  \<open>\\r\\n\<close> outside quotes, and a blank line is an empty record.
\<close>

datatype csv_state = StartRecord | StartField | InField | InQuoted | QuoteInQuoted

definition is_newline :: "char \<Rightarrow> bool" where
  "is_newline c = (code c = 10 \<or> code c = 13)"

definition quote_char :: char where
  "quote_char = CHR 0x22"

fun drop_lf :: "char \<Rightarrow> string \<Rightarrow> string" where
  "drop_lf c [] = []"
| "drop_lf c (d # s) = (if code c = 13 \<and> code d = 10 then s else d # s)"

lemma length_drop_lf [simp]: "length (drop_lf c s) \<le> length s"
  by (cases s) auto

function csv_records :: "char \<Rightarrow> csv_state \<Rightarrow> string \<Rightarrow> string list \<Rightarrow> string \<Rightarrow> string list list" where
  "csv_records dl st fd fds [] = (if st = StartRecord then [] else [fds @ [fd]])"
| "csv_records dl st fd fds (c # s) =
     (if st = InQuoted then
        (if c = quote_char then csv_records dl QuoteInQuoted fd fds s
         else csv_records dl InQuoted (fd @ [c]) fds s)
      else if st = QuoteInQuoted \<and> c = quote_char then csv_records dl InQuoted (fd @ [c]) fds s
      else if is_newline c then
        (if st = StartRecord then [] else fds @ [fd]) # csv_records dl StartRecord [] [] (drop_lf c s)
      else if c = dl then csv_records dl StartField [] (fds @ [fd]) s
      else if c = quote_char \<and> (st = StartRecord \<or> st = StartField)
        then csv_records dl InQuoted fd fds s
      else csv_records dl InField (fd @ [c]) fds s)"
  by pat_completeness auto

termination
  by (relation "measure (\<lambda>(dl, st, fd, fds, s). length s)") (auto simp: le_imp_less_Suc)

definition read_csv :: "char \<Rightarrow> string \<Rightarrow> string list list" where
  "read_csv dl s = csv_records dl StartRecord [] [] s"

text \<open>
  A record as \<open>DictReader\<close> returns it: \<open>None\<close> where it has more values than the header, and
  \<open>None\<close> cells where it has fewer.
\<close>

definition dict_record :: "string list \<Rightarrow> string list \<Rightarrow> row option" where
  "dict_record header values =
     (if length header < length values then None
      else Some (fold (\<lambda>(k, v). AList.update k v)
             (zip header (map CText values @ replicate (length header - length values) CNone)) []))"

record csv_provider =
  csv_base :: tabular_provider
  csv_path :: string
  csv_delimiter :: char

definition mk_csv_provider ::
  "(string \<Rightarrow> (int \<Rightarrow> int) option) \<Rightarrow> string \<Rightarrow> string \<Rightarrow> mapping_input \<Rightarrow> string \<Rightarrow> string \<Rightarrow>
   instrument option \<Rightarrow> string option \<Rightarrow> string \<Rightarrow> string \<Rightarrow> csv_provider result" where
  "mk_csv_provider zones path venue_name mapping unit zone_name template timeframe encoding delimiter =
     rbind (mk_tabular_provider zones (''csv:'' @ venue_name) venue_name mapping unit zone_name
              template timeframe) (\<lambda>base.
     rbind (first_raise
       [(encoding = [], ValueError, ''encoding must not be empty''),
        (length delimiter \<noteq> 1, ValueError, ''delimiter must be exactly one character'')]) (\<lambda>_.
     Inr \<lparr>csv_base = base, csv_path = path, csv_delimiter = hd delimiter\<rparr>))"

text \<open>\<open>_reader\<close>, for the decoded text of the file, where it is one.\<close>

definition csv_reader :: "csv_provider \<Rightarrow> string option \<Rightarrow> string list list result" where
  "csv_reader p file =
     (case file of None \<Rightarrow> raise FileNotFoundError ''CSV file not found''
      | Some content \<Rightarrow> Inr (read_csv (csv_delimiter p) content))"

definition csv_inspect :: "csv_provider \<Rightarrow> string option \<Rightarrow> tabular_schema result" where
  "csv_inspect p file =
     rbind (csv_reader p file) (\<lambda>records.
     let fieldnames = (case records of [] \<Rightarrow> [] | header # _ \<Rightarrow> header) in
     rbind (first_raise
       [(fieldnames = [], TabularDataError, ''CSV file has no header''),
        ([] \<in> set fieldnames, TabularDataError, ''CSV header contains an empty column name'')]) (\<lambda>_.
     rbind (rmap (\<lambda>f. mk_source_column \<lparr>sc_name = f, data_type = ''text'', nullable = None\<rparr>) fieldnames)
       (\<lambda>columns. mk_schema \<lparr>ts_source = csv_path p, ts_columns = columns\<rparr>)))"

definition csv_all_rows :: "csv_provider \<Rightarrow> string option \<Rightarrow> row list result" where
  "csv_all_rows p file =
     rbind (csv_reader p file) (\<lambda>records.
     case records of [] \<Rightarrow> Inr []
     | header # rest \<Rightarrow>
         rmap (\<lambda>values. case dict_record header values of
                 None \<Rightarrow> raise TabularDataError ''CSV row has more values than the header''
               | Some row \<Rightarrow> Inr row)
           (filter (\<lambda>values. values \<noteq> []) rest))"

definition csv_source :: "csv_provider \<Rightarrow> string option \<Rightarrow> row_source" where
  "csv_source p file =
     \<lparr>inspect_schema = csv_inspect p file,
      read_rows = (\<lambda>m r. csv_all_rows p file),
      distinct_values = (\<lambda>column.
        rbind (csv_all_rows p file) (\<lambda>rows. rmap (\<lambda>row. row_item row column) rows))\<rparr>"

text \<open>Writing a record with every field quoted, the inverse of the reader.\<close>

definition quoted :: "string \<Rightarrow> string" where
  "quoted s = quote_char # concat (map (\<lambda>c. if c = quote_char then [c, c] else [c]) s) @ [quote_char]"

fun join_fields :: "char \<Rightarrow> string list \<Rightarrow> string" where
  "join_fields dl [] = []"
| "join_fields dl [f] = quoted f"
| "join_fields dl (f # g # fs) = quoted f @ dl # join_fields dl (g # fs)"

definition write_csv :: "char \<Rightarrow> string list list \<Rightarrow> string" where
  "write_csv dl records = concat (map (\<lambda>fs. join_fields dl fs @ [CHR 0x0D, CHR 0x0A]) records)"

lemma csv_quoted_body:
  "csv_records dl InQuoted fd fds (concat (map (\<lambda>c. if c = quote_char then [c, c] else [c]) f) @ s) =
     csv_records dl InQuoted (fd @ f) fds s"
  by (induction f arbitrary: fd) auto

lemma quote_char_newline [simp]: "\<not> is_newline quote_char"
  by (simp add: is_newline_def quote_char_def code_def)

lemma csv_quoted:
  "st = StartRecord \<or> st = StartField \<Longrightarrow> dl \<noteq> quote_char \<Longrightarrow>
   csv_records dl st [] fds (quoted f @ s) = csv_records dl QuoteInQuoted f fds s"
  using csv_quoted_body [of dl "[]" fds f "quote_char # s"] by (auto simp: quoted_def)

lemma csv_record:
  "dl \<noteq> quote_char \<Longrightarrow> \<not> is_newline dl \<Longrightarrow> fs \<noteq> [] \<Longrightarrow> st = StartRecord \<or> st = StartField \<Longrightarrow>
    csv_records dl st [] fds (join_fields dl fs @ CHR 0x0D # CHR 0x0A # s) =
      (fds @ fs) # csv_records dl StartRecord [] [] s"
proof (induction dl fs arbitrary: fds st rule: join_fields.induct)
  case (2 dl f)
  have "is_newline CHR 0x0D" "code CHR 0x0D = 13" "code CHR 0x0A = 10"
      "CHR 0x0D \<noteq> quote_char" by (simp_all add: is_newline_def code_def quote_char_def)
  then show ?case using 2 by (simp add: csv_quoted)
next
  case (3 dl f g fs)
  then show ?case by (simp add: csv_quoted)
qed simp

text \<open>
  The CSV reader inverts quoting: records written with every field quoted, whatever
  delimiters, quotes or line breaks the fields contain, are read back unchanged.
\<close>

theorem csv_roundtrip:
  assumes "dl \<noteq> quote_char" and "\<not> is_newline dl" and "\<forall>fs \<in> set records. fs \<noteq> []"
  shows "read_csv dl (write_csv dl records) = records"
  using assms(3)
proof (induction records)
  case (Cons fs records)
  then show ?case
    using csv_record [OF assms(1,2), of fs StartRecord "[]" "write_csv dl records"]
    by (simp add: read_csv_def write_csv_def)
qed (simp add: read_csv_def write_csv_def)

lemma csv_roundtrip_witness:
  "read_csv CHR '','' (write_csv CHR '','' [[''a,b'', ''c''], [[CHR 0x22, CHR 0x0A]]]) =
     [[''a,b'', ''c''], [[CHR 0x22, CHR 0x0A]]]"
  by (rule csv_roundtrip) (simp_all add: quote_char_def is_newline_def code_def)

section \<open>SQLite\<close>

text \<open>\<open>_quote_identifier\<close>\<close>

definition quote_identifier :: "string \<Rightarrow> string" where
  "quote_identifier identifier =
     quote_char # concat (map (\<lambda>c. if c = quote_char then [c, c] else [c]) identifier) @ [quote_char]"

fun join_text :: "string \<Rightarrow> string list \<Rightarrow> string" where
  "join_text glue [] = []"
| "join_text glue [s] = s"
| "join_text glue (s # t # ss) = s @ glue @ join_text glue (t # ss)"

fun bound_cell :: "bound \<Rightarrow> cell" where
  "bound_cell (IntBound n) = CInt n"
| "bound_cell (FloatBound f) = CFloat f"

text \<open>The predicates of \<open>_read_rows_sync\<close>: column, comparison and bound parameter, in order.\<close>

definition pushdown_predicates ::
  "timestamp_unit \<Rightarrow> bar_columns \<Rightarrow> bar_request \<Rightarrow> (string \<times> string \<times> cell) list" where
  "pushdown_predicates u m r =
     (case c_symbol m of None \<Rightarrow> [] | Some c \<Rightarrow> [(c, ''='', CText (symbol (br_instrument r)))]) @
     (case c_timeframe m of None \<Rightarrow> [] | Some c \<Rightarrow> [(c, ''='', CText (br_timeframe r))]) @
     (case numeric_source_bounds (start_ms r) (end_ms r) u of None \<Rightarrow> []
      | Some (lo, hi) \<Rightarrow> [(c_timestamp m, ''>='', bound_cell lo), (c_timestamp m, ''<'', bound_cell hi)])"

definition select_statement :: "string \<Rightarrow> bar_columns \<Rightarrow> (string \<times> string \<times> cell) list \<Rightarrow> string" where
  "select_statement table m predicates =
     ''SELECT '' @ join_text '', '' (map quote_identifier (mapped_columns m)) @
     '' FROM '' @ quote_identifier table @
     (if predicates = [] then []
      else '' WHERE '' @ join_text '' AND ''
             (map (\<lambda>(c, op, v). quote_identifier c @ '' '' @ op @ '' ?'') predicates)) @
     '' ORDER BY '' @ quote_identifier (c_timestamp m)"

definition distinct_statement :: "string \<Rightarrow> string \<Rightarrow> string" where
  "distinct_statement table column =
     ''SELECT DISTINCT '' @ quote_identifier column @ '' FROM '' @ quote_identifier table @
     '' ORDER BY '' @ quote_identifier column"

text \<open>
  The database file: whether it is there, what \<open>sqlite_schema\<close> says of a name, the rows of
  \<open>PRAGMA table_info\<close> (name, declared type, not-null, primary key) and of a query with parameters.
\<close>

record sqlite_db =
  db_is_file :: bool
  db_has_table :: "string \<Rightarrow> bool"
  db_table_info :: "string \<Rightarrow> (string \<times> string \<times> bool \<times> bool) list result"
  db_query :: "string \<Rightarrow> cell list \<Rightarrow> row list result"

record sqlite_provider =
  sq_base :: tabular_provider
  sq_path :: string
  sq_table :: string

definition mk_sqlite_provider ::
  "(string \<Rightarrow> (int \<Rightarrow> int) option) \<Rightarrow> string \<Rightarrow> string \<Rightarrow> string \<Rightarrow> mapping_input \<Rightarrow> string \<Rightarrow>
   string \<Rightarrow> instrument option \<Rightarrow> string option \<Rightarrow> sqlite_provider result" where
  "mk_sqlite_provider zones path table venue_name mapping unit zone_name template timeframe =
     rbind (mk_tabular_provider zones (''sqlite:'' @ venue_name) venue_name mapping unit zone_name
              template timeframe) (\<lambda>base.
     rbind (require (table \<noteq> []) ValueError ''table must not be empty'') (\<lambda>_.
     Inr \<lparr>sq_base = base, sq_path = path, sq_table = table\<rparr>))"

definition sqlite_connect :: "sqlite_db \<Rightarrow> unit result" where
  "sqlite_connect db = require (db_is_file db) FileNotFoundError ''SQLite database not found''"

definition require_table :: "sqlite_provider \<Rightarrow> sqlite_db \<Rightarrow> unit result" where
  "require_table p db =
     require (db_has_table db (sq_table p)) TabularDataError ''SQLite table or view not found''"

text \<open>Binding a Python integer beyond 64 bits raises.\<close>

definition bind_parameter :: "cell \<Rightarrow> unit result" where
  "bind_parameter v =
     (case v of CInt n \<Rightarrow> require (- (2 ^ 63) \<le> n \<and> n < 2 ^ 63) OverflowError
                          ''Python int too large to convert to SQLite INTEGER''
      | _ \<Rightarrow> Inr ())"

definition sqlite_inspect :: "sqlite_provider \<Rightarrow> sqlite_db \<Rightarrow> tabular_schema result" where
  "sqlite_inspect p db =
     rbind (sqlite_connect db) (\<lambda>_.
     rbind (require_table p db) (\<lambda>_.
     rbind (db_table_info db (''PRAGMA table_info('' @ quote_identifier (sq_table p) @ '')'')) (\<lambda>rows.
     rbind (require (rows \<noteq> []) TabularDataError ''SQLite source has no columns'') (\<lambda>_.
     rbind (rmap (\<lambda>(name, ty, notnull, pk). mk_source_column
              \<lparr>sc_name = name, data_type = ty, nullable = Some (\<not> notnull \<and> \<not> pk)\<rparr>) rows) (\<lambda>columns.
     mk_schema \<lparr>ts_source = sq_path p @ ''#'' @ sq_table p, ts_columns = columns\<rparr>)))))"

definition sqlite_read_rows :: "sqlite_provider \<Rightarrow> sqlite_db \<Rightarrow> bar_columns \<Rightarrow> bar_request \<Rightarrow> row list result" where
  "sqlite_read_rows p db m r =
     (let predicates = pushdown_predicates (tp_unit (sq_base p)) m r;
          parameters = map (\<lambda>(c, op, v). v) predicates in
      rbind (sqlite_connect db) (\<lambda>_.
      rbind (require_table p db) (\<lambda>_.
      rbind (rmap bind_parameter parameters) (\<lambda>_.
      db_query db (select_statement (sq_table p) m predicates) parameters))))"

definition sqlite_distinct :: "sqlite_provider \<Rightarrow> sqlite_db \<Rightarrow> string \<Rightarrow> cell list result" where
  "sqlite_distinct p db column =
     rbind (sqlite_connect db) (\<lambda>_.
     rbind (require_table p db) (\<lambda>_.
     rbind (db_query db (distinct_statement (sq_table p) column) []) (\<lambda>rows.
     rmap (\<lambda>row. case row of [] \<Rightarrow> raise IndexError [] | (k, v) # _ \<Rightarrow> Inr v) rows)))"

definition sqlite_source :: "sqlite_provider \<Rightarrow> sqlite_db \<Rightarrow> row_source" where
  "sqlite_source p db =
     \<lparr>inspect_schema = sqlite_inspect p db, read_rows = sqlite_read_rows p db,
      distinct_values = sqlite_distinct p db\<rparr>"

section \<open>SQLAlchemy\<close>

text \<open>
  The statement built through the core API is data: the selected columns, the conditions and the
  order.  A reflected table is its columns; the engine is a parameter.
\<close>

record sa_statement =
  sa_columns :: "string list"
  sa_where :: "(string \<times> string \<times> cell) list"
  sa_order :: string
  sa_distinct :: bool

type_synonym sa_table = "source_column list"

record sa_engine =
  sa_reflect :: "string \<Rightarrow> string option \<Rightarrow> sa_table result"
  sa_execute :: "sa_statement \<Rightarrow> row list result"

record sa_provider =
  sa_base :: tabular_provider
  sa_table_name :: string
  sa_schema :: "string option"
  sa_cached :: "sa_table option"

definition mk_sa_provider ::
  "(string \<Rightarrow> (int \<Rightarrow> int) option) \<Rightarrow> bool \<Rightarrow> string \<Rightarrow> string \<Rightarrow> string \<Rightarrow> string option \<Rightarrow>
   mapping_input \<Rightarrow> string \<Rightarrow> string \<Rightarrow> instrument option \<Rightarrow> string option \<Rightarrow> sa_provider result" where
  "mk_sa_provider zones installed url table venue_name schema mapping unit zone_name template timeframe =
     rbind (mk_tabular_provider zones (''sqlalchemy:'' @ venue_name) venue_name mapping unit zone_name
              template timeframe) (\<lambda>base.
     rbind (first_raise
       [(blank url, ValueError, ''SQLAlchemy URL must not be empty''),
        (table = [], ValueError, ''table must not be empty''),
        (schema = Some [], ValueError, ''schema must be None or a non-empty string''),
        (\<not> installed, SqlAlchemyDependencyError, ''SQLAlchemy is not installed'')]) (\<lambda>_.
     Inr \<lparr>sa_base = base, sa_table_name = table, sa_schema = schema, sa_cached = None\<rparr>))"

text \<open>\<open>_reflected_table\<close> keeps the table it reflected; a failure is not kept.\<close>

definition reflected_table :: "sa_engine \<Rightarrow> sa_provider \<Rightarrow> sa_table result \<times> sa_provider" where
  "reflected_table e p =
     (case sa_cached p of
        Some t \<Rightarrow> (Inr t, p)
      | None \<Rightarrow>
          (case sa_reflect e (sa_table_name p) (sa_schema p) of
             Inl x \<Rightarrow> (Inl x, p)
           | Inr t \<Rightarrow> (Inr t, p\<lparr>sa_cached := Some t\<rparr>)))"

definition sa_inspect :: "sa_provider \<Rightarrow> sa_table \<Rightarrow> tabular_schema result" where
  "sa_inspect p table =
     (let qualified = (case sa_schema p of None \<Rightarrow> sa_table_name p
                       | Some s \<Rightarrow> s @ ''.'' @ sa_table_name p) in
      rbind (rmap mk_source_column table) (\<lambda>columns.
      mk_schema \<lparr>ts_source = ''sqlalchemy:'' @ tp_venue (sa_base p) @ ''#'' @ qualified,
                 ts_columns = columns\<rparr>))"

text \<open>\<open>table.c[name]\<close> raises \<open>KeyError\<close> for an unknown column.\<close>

definition sa_column :: "sa_table \<Rightarrow> string \<Rightarrow> string result" where
  "sa_column table name = (if name \<in> sc_name ` set table then Inr name else raise KeyError name)"

definition sa_read_rows ::
  "sa_engine \<Rightarrow> sa_provider \<Rightarrow> sa_table \<Rightarrow> bar_columns \<Rightarrow> bar_request \<Rightarrow> row list result" where
  "sa_read_rows e p table m r =
     rbind (rmap (sa_column table) (mapped_columns m)) (\<lambda>columns.
     let predicates = pushdown_predicates (tp_unit (sa_base p)) m r in
     rbind (rmap (\<lambda>(c, op, v). sa_column table c) predicates) (\<lambda>_.
     rbind (sa_column table (c_timestamp m)) (\<lambda>order.
     sa_execute e \<lparr>sa_columns = columns, sa_where = predicates, sa_order = order, sa_distinct = False\<rparr>)))"

definition sa_distinct_values :: "sa_engine \<Rightarrow> sa_table \<Rightarrow> string \<Rightarrow> cell list result" where
  "sa_distinct_values e table column =
     rbind (sa_column table column) (\<lambda>c.
     rbind (sa_execute e \<lparr>sa_columns = [c], sa_where = [], sa_order = c, sa_distinct = True\<rparr>) (\<lambda>rows.
     rmap (\<lambda>row. case row of [] \<Rightarrow> raise IndexError [] | (k, v) # _ \<Rightarrow> Inr v) rows))"

text \<open>The source of a provider whose table has been reflected, or whose reflection failed.\<close>

definition sa_source :: "sa_engine \<Rightarrow> sa_provider \<Rightarrow> row_source" where
  "sa_source e p =
     (let table = fst (reflected_table e p) in
      \<lparr>inspect_schema = rbind table (sa_inspect p),
       read_rows = (\<lambda>m r. rbind table (\<lambda>t. sa_read_rows e p t m r)),
       distinct_values = (\<lambda>column. rbind table (\<lambda>t. sa_distinct_values e t column))\<rparr>)"

section \<open>Names stay names\<close>

text \<open>
  How SQL reads a statement: quoted identifiers, in which a doubled quote stands for one, and the
  other characters; \<open>None\<close> where an identifier is not closed.
\<close>

datatype sql_token = TIdent string | TChar char

fun lex_ident :: "string \<Rightarrow> string \<Rightarrow> (string \<times> string) option" where
  "lex_ident acc [] = None"
| "lex_ident acc [c] = (if c = quote_char then Some (acc, []) else None)"
| "lex_ident acc (c # d # s) =
     (if c \<noteq> quote_char then lex_ident (acc @ [c]) (d # s)
      else if d = quote_char then lex_ident (acc @ [c]) s
      else Some (acc, d # s))"

lemma lex_ident_shorter: "lex_ident acc s = Some (i, rest) \<Longrightarrow> length rest < length s"
  by (induction acc s rule: lex_ident.induct) (auto split: if_splits)

definition emit :: "'a list \<Rightarrow> 'a list option \<Rightarrow> 'a list option" where
  "emit ts r = map_option (append ts) r"

lemma emit_simps [simp]:
  "emit [] r = r" "emit ts (emit us r) = emit (ts @ us) r" "emit ts (Some us) = Some (ts @ us)"
  "emit ts None = None"
  by (cases r; simp add: emit_def)+

function sql_tokens :: "string \<Rightarrow> sql_token list option" where
  "sql_tokens [] = Some []"
| "sql_tokens (c # s) =
     (if c = quote_char then
        (case lex_ident [] s of None \<Rightarrow> None
         | Some (i, rest) \<Rightarrow> emit [TIdent i] (sql_tokens rest))
      else emit [TChar c] (sql_tokens s))"
  by pat_completeness auto

termination
  by (relation "measure length") (auto dest: lex_ident_shorter)

abbreviation plain :: "string \<Rightarrow> sql_token list" where
  "plain \<equiv> map TChar"

fun join_tokens :: "sql_token list \<Rightarrow> sql_token list list \<Rightarrow> sql_token list" where
  "join_tokens glue [] = []"
| "join_tokens glue [t] = t"
| "join_tokens glue (t # u # ts) = t @ glue @ join_tokens glue (u # ts)"

definition ends_name :: "string \<Rightarrow> bool" where
  "ends_name s = (s = [] \<or> hd s \<noteq> quote_char)"

lemma lex_quoted:
  "ends_name s \<Longrightarrow>
   lex_ident acc (concat (map (\<lambda>c. if c = quote_char then [c, c] else [c]) i) @ quote_char # s) =
     Some (acc @ i, s)"
proof (induction i arbitrary: acc)
  case Nil
  then show ?case by (cases s) (auto simp: ends_name_def)
next
  case (Cons c i)
  let ?r = "concat (map (\<lambda>c. if c = quote_char then [c, c] else [c]) i) @ quote_char # s"
  obtain d t where r: "?r = d # t" by (cases ?r) auto
  show ?case using Cons.IH [of "acc @ [c]"] Cons.prems r by (cases "c = quote_char") simp_all
qed

lemma tokens_name:
  "ends_name s \<Longrightarrow>
   sql_tokens (quote_identifier i @ s) = emit [TIdent i] (sql_tokens s)"
  using lex_quoted [of s "[]" i] by (simp add: quote_identifier_def)

lemma tokens_plain:
  "quote_char \<notin> set t \<Longrightarrow> sql_tokens (t @ s) = emit (plain t) (sql_tokens s)"
  by (induction t) auto

lemma tokens_join:
  assumes "quote_char \<notin> set glue" and "glue \<noteq> []"
    and "\<And>x s. x \<in> set xs \<Longrightarrow> ends_name s \<Longrightarrow>
      sql_tokens (f x @ s) = emit (g x) (sql_tokens s)"
  shows "ends_name s \<Longrightarrow> sql_tokens (join_text glue (map f xs) @ s) =
    emit (join_tokens (plain glue) (map g xs)) (sql_tokens s)"
  using assms(3)
proof (induction xs rule: induct_list012)
  case (3 x y xs)
  have "ends_name (glue @ join_text glue (map f (y # xs)) @ s)"
    using assms(1,2) by (cases glue) (auto simp: ends_name_def)
  then show ?case using 3 tokens_plain [OF assms(1)] by simp
qed simp_all

definition select_tokens :: "string \<Rightarrow> bar_columns \<Rightarrow> (string \<times> string \<times> cell) list \<Rightarrow> sql_token list" where
  "select_tokens table m predicates =
     plain ''SELECT '' @ join_tokens (plain '', '') (map (\<lambda>c. [TIdent c]) (mapped_columns m)) @
     plain '' FROM '' @ [TIdent table] @
     (if predicates = [] then []
      else plain '' WHERE '' @ join_tokens (plain '' AND '')
             (map (\<lambda>(c, op, v). TIdent c # plain '' '' @ plain op @ plain '' ?'') predicates)) @
     plain '' ORDER BY '' @ [TIdent (c_timestamp m)]"

lemma pushdown_ops:
  "(c, op, v) \<in> set (pushdown_predicates u m r) \<Longrightarrow> op \<in> {''='', ''>='', ''<''}"
  by (auto simp: pushdown_predicates_def split: option.splits)

lemma op_plain: "op \<in> {''='', ''>='', ''<''} \<Longrightarrow> quote_char \<notin> set op"
  by (auto simp: quote_char_def)

lemma tokens_predicate:
  "quote_char \<notin> set op \<Longrightarrow>
   sql_tokens ((quote_identifier c @ '' '' @ op @ '' ?'') @ s) =
     emit (TIdent c # plain '' '' @ plain op @ plain '' ?'') (sql_tokens s)"
proof -
  assume "quote_char \<notin> set op"
  then have "quote_char \<notin> set ('' '' @ op @ '' ?'')" by (simp add: quote_char_def)
  moreover have "ends_name (('' '' @ op @ '' ?'') @ s)" by (simp add: ends_name_def quote_char_def)
  ultimately show ?thesis
    using tokens_name [of "('' '' @ op @ '' ?'') @ s" c] tokens_plain [of "'' '' @ op @ '' ?''" s]
    by simp
qed

text \<open>
  No column or table name can change the SQL statement: whatever characters the names of the
  mapping and the table contain, the statement reads as the fixed clauses with each name as one
  identifier, equal to the name, and every requested value is a bound parameter.
\<close>

theorem select_statement_names:
  "sql_tokens (select_statement table m (pushdown_predicates u m r)) =
     Some (select_tokens table m (pushdown_predicates u m r))"
proof -
  let ?ps = "pushdown_predicates u m r" and ?last = "'' ORDER BY '' @ quote_identifier (c_timestamp m)"
  have q: "quote_char \<notin> set ''SELECT ''" "quote_char \<notin> set '', ''" "quote_char \<notin> set '' FROM ''"
      "quote_char \<notin> set '' WHERE ''" "quote_char \<notin> set '' AND ''" "quote_char \<notin> set '' ORDER BY ''"
    by (simp_all add: quote_char_def)
  have "sql_tokens (quote_identifier (c_timestamp m) @ []) = Some [TIdent (c_timestamp m)]"
    by (subst tokens_name) (simp_all add: ends_name_def)
  then have last: "sql_tokens ?last = Some (plain '' ORDER BY '' @ [TIdent (c_timestamp m)])"
    using tokens_plain [OF q(6), of "quote_identifier (c_timestamp m)"] by simp
  have el: "ends_name ?last" by (simp add: ends_name_def quote_char_def)
  let ?where = "if ?ps = [] then [] else '' WHERE '' @ join_text '' AND ''
      (map (\<lambda>(c, op, v). quote_identifier c @ '' '' @ op @ '' ?'') ?ps)"
  let ?wtok = "if ?ps = [] then [] else plain '' WHERE '' @ join_tokens (plain '' AND '')
      (map (\<lambda>(c, op, v). TIdent c # plain '' '' @ plain op @ plain '' ?'') ?ps)"
  have "sql_tokens (join_text '' AND '' (map (\<lambda>(c, op, v). quote_identifier c @ '' '' @ op @ '' ?'') ?ps) @ ?last) =
      emit (join_tokens (plain '' AND '')
        (map (\<lambda>(c, op, v). TIdent c # plain '' '' @ plain op @ plain '' ?'') ?ps)) (sql_tokens ?last)"
    using tokens_predicate [OF op_plain [OF pushdown_ops]] by (intro tokens_join [OF q(5) _ _ el]) auto
  then have w: "sql_tokens (?where @ ?last) = Some (?wtok @ plain '' ORDER BY '' @ [TIdent (c_timestamp m)])"
    using tokens_plain [OF q(4)] last by simp
  have ew: "ends_name (?where @ ?last)" by (simp add: ends_name_def quote_char_def)
  have "sql_tokens (quote_identifier table @ ?where @ ?last) =
      Some (TIdent table # ?wtok @ plain '' ORDER BY '' @ [TIdent (c_timestamp m)])"
    using tokens_name [OF ew, of table] w by simp
  then have f: "sql_tokens ('' FROM '' @ quote_identifier table @ ?where @ ?last) =
      Some (plain '' FROM '' @ TIdent table # ?wtok @ plain '' ORDER BY '' @ [TIdent (c_timestamp m)])"
    using tokens_plain [OF q(3), of "quote_identifier table @ ?where @ ?last"] by (simp only: emit_simps append.simps append_assoc)
  have ef: "ends_name ('' FROM '' @ quote_identifier table @ ?where @ ?last)"
    by (simp add: ends_name_def quote_char_def)
  have "sql_tokens (join_text '', '' (map quote_identifier (mapped_columns m)) @
        '' FROM '' @ quote_identifier table @ ?where @ ?last) =
      emit (join_tokens (plain '', '') (map (\<lambda>c. [TIdent c]) (mapped_columns m)))
        (sql_tokens ('' FROM '' @ quote_identifier table @ ?where @ ?last))"
    by (rule tokens_join [OF q(2) _ _ ef]) (simp_all add: tokens_name)
  then show ?thesis
    unfolding select_statement_def select_tokens_def
    using tokens_plain [OF q(1)] f by (simp only: emit_simps append_assoc append.simps)
qed

section \<open>Filtering in the database loses nothing\<close>

text \<open>Which rows the predicates select, for a comparison \<open>holds\<close> of the database.\<close>

definition sql_selects :: "(string \<Rightarrow> cell \<Rightarrow> cell \<Rightarrow> bool) \<Rightarrow> (string \<times> string \<times> cell) list \<Rightarrow> row \<Rightarrow> bool" where
  "sql_selects holds predicates row =
     list_all (\<lambda>(c, op, v). case map_of row c of None \<Rightarrow> False | Some x \<Rightarrow> holds op x v) predicates"

definition project :: "string list \<Rightarrow> row \<Rightarrow> row" where
  "project columns row = filter (\<lambda>kv. fst kv \<in> set columns) row"

text \<open>
  The documented comparisons: texts are equal when they are the same, integers compare as numbers.
\<close>

definition sql_compares :: "(string \<Rightarrow> cell \<Rightarrow> cell \<Rightarrow> bool) \<Rightarrow> bool" where
  "sql_compares holds =
     ((\<forall>a b. holds ''='' (CText a) (CText b) = (a = b)) \<and>
      (\<forall>a b. holds ''>='' (CInt a) (CInt b) = (b \<le> a)) \<and>
      (\<forall>a b. holds ''<'' (CInt a) (CInt b) = (a < b)))"

text \<open>Rows whose timestamps are integers and whose names carry no surrounding space.\<close>

definition clean_name :: "row \<Rightarrow> string option \<Rightarrow> bool" where
  "clean_name row column =
     (case column of None \<Rightarrow> True
      | Some c \<Rightarrow> (case map_of row c of Some (CText s) \<Rightarrow> py_strip s = s | _ \<Rightarrow> False))"

definition clean_row :: "bar_columns \<Rightarrow> row \<Rightarrow> bool" where
  "clean_row m row =
     (clean_name row (c_symbol m) \<and> clean_name row (c_timeframe m) \<and>
      (case map_of row (c_timestamp m) of Some (CInt n) \<Rightarrow> \<bar>n\<bar> < 10 ^ 24 | _ \<Rightarrow> False))"

lemma map_of_project: "c \<in> set columns \<Longrightarrow> map_of (project columns row) c = map_of row c"
  unfolding project_def by (induction row) auto

lemma row_result_project:
  "row_result p m r (project (mapped_columns m) row) = row_result p m r row"
proof -
  have "c \<in> set (mapped_columns m) \<Longrightarrow> row_item (project (mapped_columns m) row) c = row_item row c" for c
    by (simp add: row_item_def map_of_project)
  then have items: "row_item (project (mapped_columns m) row) (c_timestamp m) = row_item row (c_timestamp m)"
      "row_item (project (mapped_columns m) row) (c_open m) = row_item row (c_open m)"
      "row_item (project (mapped_columns m) row) (c_high m) = row_item row (c_high m)"
      "row_item (project (mapped_columns m) row) (c_low m) = row_item row (c_low m)"
      "row_item (project (mapped_columns m) row) (c_close m) = row_item row (c_close m)"
      "row_item (project (mapped_columns m) row) (c_volume m) = row_item row (c_volume m)"
      "c_symbol m = Some c \<Longrightarrow> row_item (project (mapped_columns m) row) c = row_item row c"
      "c_timeframe m = Some c \<Longrightarrow> row_item (project (mapped_columns m) row) c = row_item row c" for c
    by (simp_all add: mapped_columns_def)
  have cols: "column_is (project (mapped_columns m) row) (c_symbol m) w = column_is row (c_symbol m) w"
      "column_is (project (mapped_columns m) row) (c_timeframe m) w = column_is row (c_timeframe m) w" for w
    using items(7,8) by (auto simp: column_is_def split: option.splits)
  show ?thesis
    unfolding row_result_def row_time_def row_bar_def row_number_def items(1-6) cols by (rule refl)
qed

lemma column_is_clean:
  "column_is row (Some c) w = Inr True \<Longrightarrow> clean_name row (Some c) \<Longrightarrow> map_of row c = Some (CText w)"
  by (auto simp: column_is_def row_item_def clean_name_def split: option.splits cell.splits)

lemma bounds_select:
  assumes "of_int n * unit_ms u = of_int t" and "start_ms r \<le> t" and "t < end_ms r"
    and "u \<in> {MILLISECONDS, MICROSECONDS, NANOSECONDS}"
    and "numeric_source_bounds (start_ms r) (end_ms r) u = Some (lo, hi)"
  shows "\<exists>a b. lo = IntBound a \<and> hi = IntBound b \<and> a \<le> n \<and> n < b"
proof -
  have n: "u = MILLISECONDS \<and> n = t \<or> u = MICROSECONDS \<and> n = t * 1000 \<or>
      u = NANOSECONDS \<and> n = t * 1000000"
  proof -
    have "(of_int n :: rat) = of_int (t * 1000)" if "u = MICROSECONDS"
      using assms(1) that by (simp add: field_simps)
    moreover have "(of_int n :: rat) = of_int (t * 1000000)" if "u = NANOSECONDS"
      using assms(1) that by (simp add: field_simps)
    ultimately show ?thesis using assms(1,4) by (auto simp only: of_int_eq_iff unit_ms.simps mult_1_right)
  qed
  then show ?thesis using assms(2,3,5) by (auto simp: numeric_source_bounds_def)
qed

lemma wanted_row_selected:
  assumes "sql_compares holds" and "clean_row m row"
    and "tp_unit p \<in> {MILLISECONDS, MICROSECONDS, NANOSECONDS}"
    and "row_result p m r row = Inr (Some b)"
  shows "sql_selects holds (pushdown_predicates (tp_unit p) m r) row"
proof -
  obtain t where t: "row_time p m r row = Inr (Some t)"
    using assms(4) by (auto simp: row_result_def result_simps split: option.splits)
  then have sy: "column_is row (c_symbol m) (symbol (br_instrument r)) = Inr True"
    and tf: "column_is row (c_timeframe m) (br_timeframe r) = Inr True"
    by (auto simp: row_time_def result_simps split: if_splits)
  obtain n where n: "map_of row (c_timestamp m) = Some (CInt n)" "\<bar>n\<bar> < 10 ^ 24"
    using assms(2) by (auto simp: clean_row_def split: option.splits cell.splits)
  have ms: "timestamp_ms (tp_zone p) (tp_unit p) (CInt n) = Inr t" "start_ms r \<le> t" "t < end_ms r"
    using t n(1) by (auto simp: row_time_def result_simps row_item_def split: if_splits)
  have "of_int n * unit_ms (tp_unit p) = of_int t"
    using ms(1) numeric_timestamp_int [OF n(2), of "tp_unit p" t] assms(3)
    by (auto simp: timestamp_ms_def)
  note bounds = bounds_select [OF this ms(2,3) assms(3)]
  have names: "c_symbol m = Some c \<Longrightarrow> map_of row c = Some (CText (symbol (br_instrument r)))"
      "c_timeframe m = Some c \<Longrightarrow> map_of row c = Some (CText (br_timeframe r))" for c
    using sy tf column_is_clean assms(2) by (auto simp: clean_row_def)
  show ?thesis
    unfolding sql_selects_def list_all_iff
  proof (intro ballI)
    show "case q of (c, op, v) \<Rightarrow> (case map_of row c of None \<Rightarrow> False | Some x \<Rightarrow> holds op x v)"
      if q: "q \<in> set (pushdown_predicates (tp_unit p) m r)" for q
    proof -
      consider (sy) c where "c_symbol m = Some c" "q = (c, ''='', CText (symbol (br_instrument r)))"
        | (tf) c where "c_timeframe m = Some c" "q = (c, ''='', CText (br_timeframe r))"
        | (ts) lo hi where "numeric_source_bounds (start_ms r) (end_ms r) (tp_unit p) = Some (lo, hi)"
            "q = (c_timestamp m, ''>='', bound_cell lo) \<or> q = (c_timestamp m, ''<'', bound_cell hi)"
        using q by (cases "c_symbol m"; cases "c_timeframe m";
          cases "numeric_source_bounds (start_ms r) (end_ms r) (tp_unit p)")
            (auto simp: pushdown_predicates_def)
      then show ?thesis
      proof cases
        case sy
        then show ?thesis using names(1) assms(1) by (simp add: sql_compares_def)
      next
        case tf
        then show ?thesis using names(2) assms(1) by (simp add: sql_compares_def)
      next
        case ts
        then show ?thesis using bounds [OF ts(1)] n(1) assms(1) by (auto simp: sql_compares_def)
      qed
    qed
  qed
qed

text \<open>The bars of the rows a database returns are those of the whole table.\<close>

lemma mset_concat_map: "mset (concat (map f xs)) = sum_mset (image_mset (\<lambda>x. mset (f x)) (mset xs))"
  by (induction xs) auto

lemma row_bars_mset:
  "mset rows = mset rows' \<Longrightarrow> mset (row_bars p m r rows) = mset (row_bars p m r rows')"
  by (simp add: row_bars_def mset_concat_map)

lemma row_bars_filter:
  "(\<And>row b. row \<in> set rows \<Longrightarrow> row_result p m r row = Inr (Some b) \<Longrightarrow> keep row) \<Longrightarrow>
   row_bars p m r (map (project (mapped_columns m)) (filter keep rows)) = row_bars p m r rows"
proof (induction rows)
  case (Cons row rows)
  have "\<not> keep row \<Longrightarrow> (case row_result p m r row of Inr (Some b) \<Rightarrow> [b] | _ \<Rightarrow> []) = []"
    using Cons.prems [of row] by (auto split: sum.splits option.splits)
  then show ?case using Cons by (simp add: row_bars_def row_result_project)
qed (simp add: row_bars_def)

lemma sort_key_mset:
  assumes "mset xs = mset ys" and "distinct (map bar_ms xs)"
  shows "sort_key bar_ms xs = sort_key bar_ms ys"
proof -
  have "distinct (map bar_ms ys)" using assms by (metis mset_map mset_eq_imp_distinct_iff)
  then show ?thesis
    using sort_key_strict [OF assms(2)] sort_key_strict [of ys] mset_eq_setD [OF assms(1)]
    by (intro strict_key_unique [of bar_ms]) simp_all
qed

text \<open>
  C21. Filtering in SQLite does not change the bars: when the columns resolve to a mapping, the
  database compares integers and texts as documented and answers the generated statement with the
  matching rows of the table, and the table holds integer timestamps (milliseconds to nanoseconds)
  and unpadded names, then wherever reading every row of the table would give bars, the SQLite
  provider gives the same bars.
\<close>

theorem sqlite_pushdown_agrees:
  assumes "sql_compares holds" and "resolved_mapping (sq_base q) (sqlite_source q db) = Inr m"
    and "tp_unit (sq_base q) \<in> {MILLISECONDS, MICROSECONDS, NANOSECONDS}"
    and "\<forall>row \<in> set content. clean_row m row"
    and "ps = pushdown_predicates (tp_unit (sq_base q)) m r"
    and "\<forall>(c, op, v) \<in> set ps. bind_parameter v = Inr ()"
    and "db_query db (select_statement (sq_table q) m ps) (map (\<lambda>(c, op, v). v) ps) = Inr got"
    and "mset got = mset (map (project (mapped_columns m)) (filter (sql_selects holds ps) content))"
    and "tabular_fetch (sq_base q) ((sqlite_source q db)\<lparr>read_rows := \<lambda>m r. Inr content\<rparr>) r = Inr bs"
  shows "tabular_fetch (sq_base q) (sqlite_source q db) r = Inr bs"
proof -
  let ?p = "sq_base q" and ?full = "(sqlite_source q db)\<lparr>read_rows := \<lambda>m r. Inr content\<rparr>"
  have same: "resolved_mapping ?p ?full = Inr m"
    using assms(2) by (simp add: resolved_mapping_def)
  from assms(9) [unfolded tabular_fetch_iff] same
  have fits: "request_fits ?p r" and ok: "\<forall>row \<in> set content. \<exists>x. row_result ?p m r row = Inr x"
    and dist: "distinct (map bar_ms (row_bars ?p m r content))"
    and bs: "bs = limited (br_limit r) (sort_key bar_ms (row_bars ?p m r content))" by auto
  have "sqlite_connect db = Inr ()" "require_table q db = Inr ()"
    using assms(2) by (auto simp: resolved_mapping_def sqlite_source_def sqlite_inspect_def result_simps)
  moreover have "\<exists>us. rmap bind_parameter (map (\<lambda>(c, op, v). v) ps) = Inr us"
  proof -
    have "rmap bind_parameter (map (\<lambda>(c, op, v). v) ps) = Inr (map (\<lambda>_. ()) (map (\<lambda>(c, op, v). v) ps))"
      using assms(6) by (intro rmap_map) auto
    then show ?thesis by blast
  qed
  ultimately have read: "read_rows (sqlite_source q db) m r = Inr got"
    using assms(5,7) by (auto simp: sqlite_source_def sqlite_read_rows_def Let_def)
  let ?sel = "map (project (mapped_columns m)) (filter (sql_selects holds ps) content)"
  have "row_bars ?p m r ?sel = row_bars ?p m r content"
    using wanted_row_selected [OF assms(1) _ assms(3)] assms(4,5) by (intro row_bars_filter) blast
  then have bars: "mset (row_bars ?p m r content) = mset (row_bars ?p m r got)"
    using row_bars_mset [OF assms(8)] by simp
  have "set got = set ?sel" using assms(8) by (rule mset_eq_setD)
  then have "\<forall>row \<in> set got. \<exists>x. row_result ?p m r row = Inr x"
    using ok by (auto simp: row_result_project)
  moreover have "distinct (map bar_ms (row_bars ?p m r got))"
    using dist bars by (metis mset_map mset_eq_imp_distinct_iff)
  moreover have "bs = limited (br_limit r) (sort_key bar_ms (row_bars ?p m r got))"
    unfolding bs using sort_key_mset [OF bars dist] by simp
  ultimately show ?thesis
    unfolding tabular_fetch_iff using fits read assms(2) by blast
qed

text \<open>A database of the sample rows that compares as documented.\<close>

definition plain_holds :: "string \<Rightarrow> cell \<Rightarrow> cell \<Rightarrow> bool" where
  "plain_holds op a b =
     (case (a, b) of (CInt x, CInt y) \<Rightarrow> if op = ''>='' then y \<le> x else if op = ''<'' then x < y else x = y
      | (CText x, CText y) \<Rightarrow> op = ''='' \<and> x = y | _ \<Rightarrow> False)"

definition sample_table :: "row list" where
  "sample_table = [sample_row 2000 5, sample_row 1000 3, sample_row 9000 7]"

definition sample_db :: sqlite_db where
  "sample_db =
     \<lparr>db_is_file = True, db_has_table = (\<lambda>t. t = ''bars''),
      db_table_info = (\<lambda>s. Inr (map (\<lambda>n. (n, [], False, False)) [''t'', ''o'', ''h'', ''l'', ''c'', ''v''])),
      db_query = (\<lambda>s ps. Inr [sample_row 1000 3, sample_row 2000 5])\<rparr>"

definition sample_sqlite :: sqlite_provider where
  "sample_sqlite = \<lparr>sq_base = sample_provider, sq_path = ''f'', sq_table = ''bars''\<rparr>"

lemma sqlite_pushdown_agrees_witness:
  "tabular_fetch sample_provider (sqlite_source sample_sqlite sample_db) sample_request =
     Inr [sample_bar 1000 3, sample_bar 2000 5]"
proof -
  let ?ps = "pushdown_predicates MILLISECONDS sample_mapping sample_request"
  have schema: "sqlite_inspect sample_sqlite sample_db =
      Inr \<lparr>ts_source = ''f#bars'', ts_columns = map (\<lambda>n. \<lparr>sc_name = n, data_type = [], nullable = Some True\<rparr>)
        [''t'', ''o'', ''h'', ''l'', ''c'', ''v'']\<rparr>"
    by (simp add: sqlite_inspect_def sqlite_connect_def require_table_def sample_db_def sample_sqlite_def
        mk_source_column_def mk_schema_def column_names_def)
  have m: "resolved_mapping sample_provider (sqlite_source sample_sqlite sample_db) = Inr sample_mapping"
    by (simp add: resolved_mapping_def sqlite_source_def schema validate_mapping_def mapped_columns_def
        column_names_def sample_provider_def sample_mapping_def)
  have ps: "?ps = [(''t'', ''>='', CInt 1000), (''t'', ''<'', CInt 3000)]"
    by (simp add: pushdown_predicates_def sample_mapping_def sample_request_def numeric_source_bounds_def)
  have full: "tabular_fetch sample_provider
      ((sqlite_source sample_sqlite sample_db)\<lparr>read_rows := \<lambda>m r. Inr sample_table\<rparr>) sample_request =
      Inr [sample_bar 1000 3, sample_bar 2000 5]"
    using sample_fetch m
    by (simp add: tabular_fetch_def resolved_mapping_def sample_source_def sample_table_def
        validate_mapping_def mapped_columns_def column_names_def sample_provider_def sample_mapping_def)
  show ?thesis
    using sqlite_pushdown_agrees [where q = sample_sqlite and db = sample_db and m = sample_mapping
        and content = sample_table and r = sample_request and holds = plain_holds and ps = ?ps
        and got = "[sample_row 1000 3, sample_row 2000 5]"
        and bs = "[sample_bar 1000 3, sample_bar 2000 5]"] m ps full
    by (simp add: sample_sqlite_def sql_compares_def plain_holds_def sample_table_def clean_row_def
        clean_name_def sample_mapping_def sample_row_def sample_provider_def bind_parameter_def
        sample_db_def sql_selects_def project_def mapped_columns_def)
qed

text \<open>A table is reflected once: a provider that has it never asks the engine again.\<close>

lemma reflected_once:
  "reflected_table e p = (Inr t, p') \<Longrightarrow> reflected_table e' p' = (Inr t, p')"
  by (auto simp: reflected_table_def split: option.splits sum.splits)

end
