(* ===== verification/ReleaseContract.thy ===== *)
theory ReleaseContract
  imports Backtest TabularSources
begin

text \<open>
  \<open>src/pineforge_data/release_contract.py\<close>: the files and the environment handed to the release
  image, the check of its report, and the response envelope.  The files are their texts;
  permissions are not modelled.  \<open>json.loads\<close> is a parameter, \<open>None\<close> where it rejects the text.
\<close>

section \<open>The pinned image\<close>

definition default_release_image :: string where
  "default_release_image = ''ghcr.io/pineforge-4pass/pineforge-release:1.6.3@''
     @ ''sha256:d13d9b785438b56151544f37cb1493449749d7cd4dcd56f8a210d7a0f1caceaf''"

definition release_entrypoint :: string where
  "release_entrypoint = ''/opt/pineforge/bin/entrypoint.sh''"

section \<open>Versions\<close>

definition rx_tag_char :: rx where "rx_tag_char = RClass [(48, 57), (65, 90), (97, 122), (45, 45)]"

definition rx_prerelease :: rx where
  "rx_prerelease =
     ROr rx_numeric (RCat (RMany rx_digit) (RCat (RClass [(65, 90), (97, 122), (45, 45)]) (RMany rx_tag_char)))"

definition release_version_rx :: rx where
  "release_version_rx =
     rx_seq [rx_numeric, rx_str ''.'', rx_numeric, rx_str ''.'', rx_numeric,
       rx_opt (rx_seq [rx_str ''-'', rx_prerelease, RMany (RCat (rx_str ''.'') rx_prerelease)]),
       rx_opt (rx_seq [rx_str ''+'', rx_plus rx_tag_char, RMany (RCat (rx_str ''.'') (rx_plus rx_tag_char))])]"

definition remove_v :: "string \<Rightarrow> string" where
  "remove_v s = (case s of [] \<Rightarrow> [] | c # t \<Rightarrow> if c = CHR ''v'' then t else s)"

definition normalize_release_version :: "json \<Rightarrow> string result" where
  "normalize_release_version value =
     (case value of
        JStr s \<Rightarrow> if fullmatch release_version_rx (remove_v s) then Inr (remove_v s)
                  else raise ReleaseContractError ''invalid release semantic version''
      | _ \<Rightarrow> raise ReleaseContractError ''invalid release semantic version'')"

section \<open>Inputs\<close>

definition validate_release_request :: "string \<Rightarrow> bar list \<Rightarrow> unit result" where
  "validate_release_request pine bars =
     first_raise
       [(blank pine, ReleaseContractError, ''PineScript source must not be empty''),
        (bars = [], ReleaseContractError, ''bars must not be empty''),
        (\<not> ordered_pairs bar_ms bars, ReleaseContractError, ''bar timestamps must be strictly increasing'')]"

text \<open>\<open>csv.writer\<close> in its default dialect: a field is quoted where it has to be.\<close>

definition needs_quotes :: "char \<Rightarrow> string \<Rightarrow> bool" where
  "needs_quotes dl f = (\<exists>c \<in> set f. c = dl \<or> c = quote_char \<or> is_newline c)"

definition csv_field :: "char \<Rightarrow> string \<Rightarrow> string" where
  "csv_field dl f = (if needs_quotes dl f then quoted f else f)"

fun csv_fields :: "char \<Rightarrow> string list \<Rightarrow> string" where
  "csv_fields dl [] = []"
| "csv_fields dl [f] = csv_field dl f"
| "csv_fields dl (f # g # fs) = csv_field dl f @ dl # csv_fields dl (g # fs)"

definition csv_row :: "char \<Rightarrow> string list \<Rightarrow> string" where
  "csv_row dl fs = (if fs = [[]] then quoted [] else csv_fields dl fs) @ [CHR 0x0D, CHR 0x0A]"

definition csv_text :: "char \<Rightarrow> string list list \<Rightarrow> string" where
  "csv_text dl rows = concat (map (csv_row dl) rows)"

definition ohlcv_header :: "string list" where
  "ohlcv_header = [''timestamp'', ''open'', ''high'', ''low'', ''close'', ''volume'']"

definition ohlcv_row :: "bar \<Rightarrow> string list" where
  "ohlcv_row b =
     [int_text (bar_ms b), float_text (bar_open b), float_text (bar_high b), float_text (bar_low b),
      float_text (bar_close b), float_text (bar_volume b)]"

definition ohlcv_csv :: "bar list \<Rightarrow> string" where
  "ohlcv_csv bars = csv_text CHR '','' (ohlcv_header # map ohlcv_row bars)"

definition syminfo_json :: "instrument \<Rightarrow> string" where
  "syminfo_json i = json_text (JDict [(''syminfo'', JDict
     [(''ticker'', JStr (symbol i)), (''timezone'', JStr (timezone i)), (''session'', JStr (session i))])])"

definition write_release_inputs :: "string \<Rightarrow> bar list \<Rightarrow> instrument \<Rightarrow> (string, string) dict result" where
  "write_release_inputs pine bars i =
     rbind (validate_release_request pine bars) (\<lambda>_.
     Inr [(''strategy.pine'', pine), (''ohlcv.csv'', ohlcv_csv bars), (''syminfo.json'', syminfo_json i)])"

section \<open>Environment\<close>

definition params_json :: "(string, json) dict option \<Rightarrow> string result" where
  "params_json params = dumps (JDict (case params of None \<Rightarrow> [] | Some d \<Rightarrow> d))"

definition release_environment ::
  "string \<Rightarrow> instrument \<Rightarrow> backtest_options \<Rightarrow> (string, json) dict option \<Rightarrow> (string, json) dict option \<Rightarrow>
   (string, string) dict result" where
  "release_environment directory i q params overrides =
     rbind (first_raise
       [(trace_enabled q, ReleaseContractError, ''the release adapter does not expose trace collection''),
        (bar_magnifier q \<and> magnifier_samples q < 2, ReleaseContractError,
           ''bar magnifier requires at least two samples'')]) (\<lambda>_.
     rbind (params_json params) (\<lambda>inputs.
     rbind (params_json overrides) (\<lambda>overrides.
     Inr ([(''PINEFORGE_IN_DIR'', directory), (''PINEFORGE_INPUTS'', inputs), (''PINEFORGE_OVERRIDES'', overrides),
           (''PINEFORGE_INPUT_TF'', input_timeframe q), (''PINEFORGE_SCRIPT_TF'', script_timeframe q),
           (''PINEFORGE_BAR_MAGNIFIER'', if bar_magnifier q then ''true'' else ''false''),
           (''PINEFORGE_MAGNIFIER_SAMPLES'', int_text (magnifier_samples q)),
           (''PINEFORGE_MAGNIFIER_DIST'', magnifier_name (magnifier q)),
           (''PINEFORGE_CHART_TZ'', case chart_timezone q of None \<Rightarrow> [] | Some z \<Rightarrow> z),
           (''PINEFORGE_SYMINFO'', rev (dropWhile (\<lambda>c. c = CHR ''/'') (rev directory)) @ ''/syminfo.json''),
           (''PINEFORGE_DATA_SYMBOL'', symbol i), (''PINEFORGE_DATA_VENUE'', venue i)] @
          (case trade_start_time_ms q of None \<Rightarrow> [] | Some t \<Rightarrow> [(''PINEFORGE_TRADE_START_MS'', int_text t)])))))"

section \<open>The report and the response\<close>

definition report_fields :: "string list" where
  "report_fields = [''summary'', ''trades'', ''metrics'', ''diagnostics'']"

definition parse_release_report :: "(string \<Rightarrow> json option) \<Rightarrow> string \<Rightarrow> (string, json) dict result" where
  "parse_release_report loads stdout =
     (case loads stdout of
        None \<Rightarrow> raise ReleaseContractError ''pineforge-release returned invalid JSON''
      | Some (JDict d) \<Rightarrow>
          (if \<exists>f \<in> set report_fields. f \<notin> set (dkeys d)
           then raise ReleaseContractError ''pineforge-release report is missing fields'' else Inr d)
      | Some _ \<Rightarrow> raise ReleaseContractError ''pineforge-release report must be a JSON object'')"

definition dict_merge :: "('k, 'v) dict \<Rightarrow> ('k, 'v) dict \<Rightarrow> ('k, 'v) dict" where
  "dict_merge d e = fold (\<lambda>(k, v). AList.update k v) e d"

definition release_response ::
  "(string, json) dict \<Rightarrow> string \<Rightarrow> string \<Rightarrow> string option \<Rightarrow> (string, json) dict \<Rightarrow> (string, json) dict" where
  "release_response report img mode request_id metadata =
     [(''schema_version'', JInt 1),
      (''request_id'', case request_id of None \<Rightarrow> JNull | Some s \<Rightarrow> JStr s),
      (''runtime'', JDict (dict_merge [(''mode'', JStr mode), (''release_image'', JStr img)] metadata)),
      (''backtest'', JDict report)]"

section \<open>Versions are normal forms\<close>

lemma fullmatch_RNone [simp]: "\<not> fullmatch RNone s"
  by (simp add: fullmatch_iff)

lemma version_no_v [simp]: "rx_after release_version_rx CHR ''v'' = RNone"
  by (simp add: release_version_rx_def rx_numeric_def rx_opt_def alt_def cat_def code_def)

text \<open>
  A version that is accepted is a semantic version without a prefix, and normalizing it again
  gives it back; at most one leading letter v is removed.
\<close>

theorem release_version_normal:
  "(normalize_release_version v = Inr s) =
     (fullmatch release_version_rx s \<and> (v = JStr s \<or> v = JStr (CHR ''v'' # s)))"
proof (cases v)
  case (JStr t)
  then show ?thesis
    by (auto simp: normalize_release_version_def remove_v_def split: list.splits if_splits)
qed (simp_all add: normalize_release_version_def)

section \<open>The bars as the release image reads them\<close>

lemma csv_plain:
  "\<not> needs_quotes dl f \<Longrightarrow> dl \<noteq> quote_char \<Longrightarrow> st = InField \<Longrightarrow>
   csv_records dl st g fds (f @ s) = csv_records dl InField (g @ f) fds s"
  by (induction f arbitrary: g) (auto simp: needs_quotes_def)

lemma csv_plain_start:
  assumes "\<not> needs_quotes dl f" and "dl \<noteq> quote_char" and "st = StartRecord \<or> st = StartField"
  shows "csv_records dl st [] fds (f @ s) = csv_records dl (if f = [] then st else InField) f fds s"
proof (cases f)
  case (Cons c f')
  then have "c \<noteq> dl" "c \<noteq> quote_char" "\<not> is_newline c" "\<not> needs_quotes dl f'"
    using assms(1) by (auto simp: needs_quotes_def)
  then show ?thesis using Cons assms csv_plain [of dl f' InField "[c]" fds s] by auto
qed simp

lemma csv_fields_record:
  "dl \<noteq> quote_char \<Longrightarrow> \<not> is_newline dl \<Longrightarrow> fs \<noteq> [] \<Longrightarrow>
   st = StartField \<or> (st = StartRecord \<and> fs \<noteq> [[]]) \<Longrightarrow>
   csv_records dl st [] fds (csv_fields dl fs @ CHR 0x0D # CHR 0x0A # s) =
     (fds @ fs) # csv_records dl StartRecord [] [] s"
proof (induction dl fs arbitrary: fds st rule: csv_fields.induct)
  case (2 dl f)
  have nl: "is_newline CHR 0x0D" "code CHR 0x0D = 13" "code CHR 0x0A = 10" "CHR 0x0D \<noteq> quote_char"
    by (simp_all add: is_newline_def code_def quote_char_def)
  show ?case
    using 2 nl by (auto simp: csv_field_def csv_quoted csv_plain_start)
next
  case (3 dl f g fs)
  then show ?case by (auto simp: csv_field_def csv_quoted csv_plain_start)
qed simp

lemma csv_row_record:
  "dl \<noteq> quote_char \<Longrightarrow> \<not> is_newline dl \<Longrightarrow> fs \<noteq> [] \<Longrightarrow>
   csv_records dl StartRecord [] [] (csv_row dl fs @ s) = fs # csv_records dl StartRecord [] [] s"
  using csv_fields_record [of dl fs StartRecord "[]" s] csv_record [of dl "[[]]" StartRecord "[]" s]
  by (auto simp: csv_row_def)

lemma csv_text_records:
  "dl \<noteq> quote_char \<Longrightarrow> \<not> is_newline dl \<Longrightarrow> \<forall>fs \<in> set rows. fs \<noteq> [] \<Longrightarrow> read_csv dl (csv_text dl rows) = rows"
  by (induction rows) (simp_all add: csv_text_def read_csv_def csv_row_record)


text \<open>
  The environment of the release image exists exactly for the options the adapter supports and
  for parameters with a JSON form, and it then names every variable once.
\<close>

theorem release_environment_total:
  "(case release_environment dir i q params overrides of
      Inl e \<Rightarrow> trace_enabled q \<or> (bar_magnifier q \<and> magnifier_samples q < 2) \<or>
        \<not> json_finite (JDict (case params of None \<Rightarrow> [] | Some d \<Rightarrow> d)) \<or>
        \<not> json_finite (JDict (case overrides of None \<Rightarrow> [] | Some d \<Rightarrow> d))
    | Inr env \<Rightarrow> \<not> (trace_enabled q \<or> (bar_magnifier q \<and> magnifier_samples q < 2)) \<and>
        json_finite (JDict (case params of None \<Rightarrow> [] | Some d \<Rightarrow> d)) \<and>
        json_finite (JDict (case overrides of None \<Rightarrow> [] | Some d \<Rightarrow> d)) \<and> wf_dict env)"
proof -
  let ?fits = "\<not> (trace_enabled q \<or> (bar_magnifier q \<and> magnifier_samples q < 2)) \<and>
        json_finite (JDict (case params of None \<Rightarrow> [] | Some d \<Rightarrow> d)) \<and>
        json_finite (JDict (case overrides of None \<Rightarrow> [] | Some d \<Rightarrow> d))"
  have env: "?fits \<and> wf_dict env"
    if "release_environment dir i q params overrides = Inr env" for env
    using that
    by (cases "trade_start_time_ms q")
      (auto simp: release_environment_def params_json_def result_simps wf_dict_def simp del: first_raise.simps)
  have total: "\<exists>env. release_environment dir i q params overrides = Inr env" if ?fits
    using that
    by (auto simp: release_environment_def params_json_def dumps_def result_simps simp del: first_raise.simps
        json_finite.simps)
  show ?thesis
  proof (cases "release_environment dir i q params overrides")
    case (Inl e)
    then have "\<not> ?fits" using total by (metis sum.distinct(1))
    then show ?thesis unfolding Inl sum.case by blast
  next
    case (Inr r)
    then show ?thesis unfolding Inr sum.case using env [OF Inr] by blast
  qed
qed

end
