(* ===== verification/ServerApi.thy ===== *)
theory ServerApi
  imports ReleaseContract
begin

text \<open>
  \<open>src/pineforge_data/server.py\<close>, what a request is: the API models with the constraints their
  fields declare and their validators, the translation to the domain records, the settings the
  service reads from its environment, and the request identifier.
\<close>

section \<open>API models\<close>

record api_instrument =
  ai_symbol :: string
  ai_venue :: string
  ai_timezone :: string
  ai_session :: string
  ai_volume_unit :: string

record api_bar =
  ab_timestamp_ms :: int
  ab_open :: pyfloat
  ab_high :: pyfloat
  ab_low :: pyfloat
  ab_close :: pyfloat
  ab_volume :: pyfloat

record api_options =
  ao_input_timeframe :: string
  ao_script_timeframe :: string
  ao_bar_magnifier :: bool
  ao_magnifier_samples :: int
  ao_magnifier_distribution :: magnifier_distribution
  ao_trace_enabled :: bool
  ao_chart_timezone :: "string option"
  ao_trade_start_time_ms :: "int option"

record api_request =
  aq_pine_source :: string
  aq_bars :: "api_bar list"
  aq_instrument :: api_instrument
  aq_source :: string
  aq_options :: api_options
  aq_strategy_params :: "(string, json) dict"
  aq_strategy_overrides :: "(string, json) dict"

text \<open>
  The constraints of the fields, as pydantic documents them: \<open>min_length\<close> and \<open>max_length\<close> count
  characters, \<open>gt\<close>, \<open>ge\<close>, \<open>le\<close> compare, and \<open>allow_inf_nan=False\<close> admits finite floats only.
  The values of \<open>MagnifierName\<close> are the names of the distributions in lower case.
\<close>

definition sized :: "int \<Rightarrow> int \<Rightarrow> 'a list \<Rightarrow> bool" where
  "sized lo hi s = (lo \<le> int (length s) \<and> int (length s) \<le> hi)"

definition instrument_fields :: "api_instrument \<Rightarrow> bool" where
  "instrument_fields i =
     (sized 1 256 (ai_symbol i) \<and> sized 0 128 (ai_venue i) \<and> sized 1 128 (ai_timezone i) \<and>
      sized 1 256 (ai_session i) \<and> sized 1 64 (ai_volume_unit i))"

definition bar_fields :: "api_bar \<Rightarrow> bool" where
  "bar_fields b =
     (0 \<le> ab_timestamp_ms b \<and> ab_timestamp_ms b \<le> 2 ^ 63 - 1 \<and>
      list_all (\<lambda>v. isfinite v \<and> flt (Fin 0) v) [ab_open b, ab_high b, ab_low b, ab_close b] \<and>
      isfinite (ab_volume b) \<and> fle (Fin 0) (ab_volume b))"

definition options_fields :: "api_options \<Rightarrow> bool" where
  "options_fields q =
     (sized 0 32 (ao_input_timeframe q) \<and> sized 0 32 (ao_script_timeframe q) \<and>
      1 \<le> ao_magnifier_samples q \<and> ao_magnifier_samples q \<le> 10000 \<and>
      (case ao_chart_timezone q of None \<Rightarrow> True | Some z \<Rightarrow> sized 0 128 z) \<and>
      (case ao_trade_start_time_ms q of None \<Rightarrow> True | Some t \<Rightarrow> 0 \<le> t \<and> t \<le> 2 ^ 63 - 1))"

fun input_value :: "json \<Rightarrow> bool" where
  "input_value (JStr s) = True"
| "input_value (JInt n) = True"
| "input_value (JFloat f) = isfinite f"
| "input_value (JBool b) = True"
| "input_value _ = False"

definition request_fields :: "api_request \<Rightarrow> bool" where
  "request_fields r =
     (sized 1 2000000 (aq_pine_source r) \<and> sized 1 1000000 (aq_bars r) \<and> sized 1 256 (aq_source r) \<and>
      instrument_fields (aq_instrument r) \<and> options_fields (aq_options r) \<and>
      list_all (\<lambda>(k, v). input_value v) (aq_strategy_params r) \<and>
      list_all (\<lambda>(k, v). input_value v) (aq_strategy_overrides r))"

definition validate_ohlc :: "api_bar \<Rightarrow> api_bar result" where
  "validate_ohlc b =
     rbind (first_raise
       [(flt (ab_high b) (fmax (fmax (ab_open b) (ab_close b)) (ab_low b)),
           ValueError, ''high must be greater than or equal to OHLC values''),
        (flt (fmin (fmin (ab_open b) (ab_close b)) (ab_high b)) (ab_low b),
           ValueError, ''low must be less than or equal to OHLC values'')]) (\<lambda>_. Inr b)"

definition mk_api_bar :: "api_bar \<Rightarrow> api_bar result" where
  "mk_api_bar b = rbind (require (bar_fields b) ValueError ''bar field constraint'') (\<lambda>_. validate_ohlc b)"

definition validate_timestamps :: "api_request \<Rightarrow> api_request result" where
  "validate_timestamps r =
     rbind (require (ordered_pairs ab_timestamp_ms (aq_bars r)) ValueError
              ''bar timestamps must be strictly increasing'') (\<lambda>_. Inr r)"

text \<open>A request body that reaches the handler.\<close>

definition mk_api_request :: "api_request \<Rightarrow> api_request result" where
  "mk_api_request r =
     rbind (require (request_fields r) ValueError ''request field constraint'') (\<lambda>_.
     rbind (rmap mk_api_bar (aq_bars r)) (\<lambda>_. validate_timestamps r))"

section \<open>Domain records\<close>

definition domain_instrument :: "api_instrument \<Rightarrow> instrument" where
  "domain_instrument i =
     (instrument_of (ai_symbol i))\<lparr>venue := ai_venue i, timezone := ai_timezone i,
       session := ai_session i, volume_unit := ai_volume_unit i\<rparr>"

definition domain_bar :: "instrument \<Rightarrow> string \<Rightarrow> api_bar \<Rightarrow> bar" where
  "domain_bar i src b =
     \<lparr>bar_instrument = i, bar_ms = ab_timestamp_ms b, bar_open = ab_open b, bar_high = ab_high b,
      bar_low = ab_low b, bar_close = ab_close b, bar_volume = ab_volume b, bar_source = src\<rparr>"

definition domain_options :: "api_options \<Rightarrow> backtest_options" where
  "domain_options q =
     \<lparr>input_timeframe = ao_input_timeframe q, script_timeframe = ao_script_timeframe q,
      bar_magnifier = ao_bar_magnifier q, magnifier_samples = ao_magnifier_samples q,
      magnifier = ao_magnifier_distribution q, trace_enabled = ao_trace_enabled q,
      chart_timezone = ao_chart_timezone q, trade_start_time_ms = ao_trade_start_time_ms q\<rparr>"

definition domain_values :: "api_request \<Rightarrow> (string \<times> bar list \<times> instrument \<times> backtest_options) result" where
  "domain_values r =
     rbind (mk_instrument (domain_instrument (aq_instrument r))) (\<lambda>i.
     rbind (rmap (\<lambda>b. mk_bar (domain_bar i (aq_source r) b)) (aq_bars r)) (\<lambda>bars.
     rbind (mk_backtest_options (domain_options (aq_options r))) (\<lambda>q.
     Inr (aq_pine_source r, bars, i, q))))"

text \<open>The texts that the API models let through and the domain records refuse.\<close>

definition texts_written :: "api_request \<Rightarrow> bool" where
  "texts_written r =
     (let i = aq_instrument r; q = aq_options r in
      \<not> blank (ai_symbol i) \<and> \<not> blank (ai_timezone i) \<and> \<not> blank (ai_session i) \<and> \<not> blank (ai_volume_unit i) \<and>
      text_ok (ai_venue i) \<and> \<not> blank (aq_source r) \<and> text_ok (ao_input_timeframe q) \<and>
      text_ok (ao_script_timeframe q) \<and> \<not> some_bad blank (ao_chart_timezone q))"

lemma mk_api_bar_iff: "(mk_api_bar b = Inr c) = (c = b \<and> bar_fields b \<and> bar_ok (domain_bar i ''x'' b))"
  for i :: instrument
proof -
  have x: "\<not> blank ''x''" by (simp add: blank_iff py_space_def code_def)
  have "(mk_api_bar b = Inr b) = (bar_fields b \<and> bar_ok (domain_bar i ''x'' b))"
    by (cases "ab_open b"; cases "ab_high b"; cases "ab_low b"; cases "ab_close b"; cases "ab_volume b")
      (auto simp: mk_api_bar_def validate_ohlc_def bar_fields_def bar_ok_def domain_bar_def x ms_ok_def
        result_simps fmax_def fmin_def fle_def)
  moreover have "mk_api_bar b = Inr c \<Longrightarrow> c = b"
    by (auto simp: mk_api_bar_def validate_ohlc_def result_simps)
  ultimately show ?thesis by auto
qed

lemma bar_ok_source: "bar_ok (domain_bar i src b) = (bar_ok (domain_bar i' ''x'' b) \<and> \<not> blank src)"
proof -
  have "\<not> blank ''x''" by (simp add: blank_iff py_space_def code_def)
  then show ?thesis by (auto simp: bar_ok_def domain_bar_def)
qed

lemma accepted_request:
  assumes "mk_api_request r = Inr r'"
  shows "r' = r" and "request_fields r" and "strictly_increasing ab_timestamp_ms (aq_bars r)"
    and "\<forall>b \<in> set (aq_bars r). bar_ok (domain_bar i ''x'' b)"
proof -
  have ordered: "ordered_pairs ab_timestamp_ms bs = strictly_increasing ab_timestamp_ms bs" for bs
    by (induction bs rule: induct_list012) auto
  obtain bs where bs: "rmap mk_api_bar (aq_bars r) = Inr bs" and rest: "request_fields r" "validate_timestamps r = Inr r'"
    using assms by (auto simp: mk_api_request_def result_simps)
  then show "r' = r" "request_fields r" "strictly_increasing ab_timestamp_ms (aq_bars r)"
    by (auto simp: validate_timestamps_def result_simps ordered)
  show "\<forall>b \<in> set (aq_bars r). bar_ok (domain_bar i ''x'' b)"
    using bs unfolding rmap_returns
    by (auto simp: list_all2_conv_all_nth in_set_conv_nth mk_api_bar_iff [where i = i])
qed

lemma options_reach:
  assumes "options_fields q"
  shows "(mk_backtest_options (domain_options q) = Inr q') =
    (q' = domain_options q \<and> text_ok (ao_input_timeframe q) \<and> text_ok (ao_script_timeframe q) \<and>
     \<not> some_bad blank (ao_chart_timezone q))"
  using assms
  by (cases "ao_trade_start_time_ms q"; cases "ao_chart_timezone q")
    (auto simp: mk_backtest_options_def domain_options_def options_fields_def text_ok_def result_simps)

lemma request_domain:
  assumes "mk_api_request r = Inr r'"
  shows "(domain_values r = Inr d) =
    (texts_written r \<and>
     (let i = domain_instrument (aq_instrument r) in
      d = (aq_pine_source r, map (domain_bar i (aq_source r)) (aq_bars r), i, domain_options (aq_options r))))"
proof -
  let ?i = "domain_instrument (aq_instrument r)"
  note acc = accepted_request(1-3) [OF assms] accepted_request(4) [OF assms, of ?i]
  have some_bar: "aq_bars r \<noteq> []" and opts: "options_fields (aq_options r)"
    using acc(2) by (auto simp: request_fields_def sized_def)
  have "(rmap (\<lambda>b. mk_bar (domain_bar ?i (aq_source r) b)) (aq_bars r) = Inr bs) =
      (bs = map (domain_bar ?i (aq_source r)) (aq_bars r) \<and> \<not> blank (aq_source r))" for bs
  proof (cases "blank (aq_source r)")
    case True
    then show ?thesis
      using some_bar by (cases "aq_bars r") (auto simp: mk_bar_iff bar_ok_def domain_bar_def result_simps)
  next
    case False
    then have "rmap (\<lambda>b. mk_bar (domain_bar ?i (aq_source r) b)) (aq_bars r)
        = Inr (map (domain_bar ?i (aq_source r)) (aq_bars r))"
      using acc(4) by (intro rmap_map) (auto simp: mk_bar_iff bar_ok_source [of ?i "aq_source r" _ ?i])
    then show ?thesis using False by auto
  qed
  then show ?thesis
    using opts
    by (auto simp: domain_values_def mk_instrument_iff instrument_ok_def domain_instrument_def
        instrument_of_def options_reach texts_written_def Let_def result_simps text_ok_def)
qed


definition blank_symbol_request :: "string \<Rightarrow> api_request" where
  "blank_symbol_request name =
     \<lparr>aq_pine_source = ''x'',
      aq_bars = [\<lparr>ab_timestamp_ms = 1000, ab_open = Fin 10, ab_high = Fin 12, ab_low = Fin 9,
                  ab_close = Fin 11, ab_volume = Fin 5\<rparr>],
      aq_instrument = \<lparr>ai_symbol = name, ai_venue = [], ai_timezone = ''UTC'', ai_session = ''24x7'',
                       ai_volume_unit = ''base''\<rparr>,
      aq_source = ''provider'',
      aq_options = \<lparr>ao_input_timeframe = [], ao_script_timeframe = [], ao_bar_magnifier = False,
        ao_magnifier_samples = 4, ao_magnifier_distribution = ENDPOINTS, ao_trace_enabled = False,
        ao_chart_timezone = None, ao_trade_start_time_ms = None\<rparr>,
      aq_strategy_params = [], aq_strategy_overrides = []\<rparr>"

lemma blank_symbol_accepted:
  "mk_api_request (blank_symbol_request '' '') = Inr (blank_symbol_request '' '')"
  "\<not> texts_written (blank_symbol_request '' '')"
  by code_simp+


end
