(* ===== verification/Machine.thy ===== *)
theory Machine
  imports Main
begin

text \<open>
  Runs of a machine whose steps are a partial function of an event: the state after a list of
  events, or nothing where one of them is not enabled.  The invariants of the lock protocol and
  of the admission control are proved for one step each and lifted to runs here.
\<close>

fun run_events :: "('e \<Rightarrow> 's \<Rightarrow> 's option) \<Rightarrow> 'e list \<Rightarrow> 's \<Rightarrow> 's option" where
  "run_events step [] s = Some s"
| "run_events step (e # es) s = (case step e s of None \<Rightarrow> None | Some s' \<Rightarrow> run_events step es s')"

lemma run_events_append:
  "run_events step (es @ fs) s =
     (case run_events step es s of None \<Rightarrow> None | Some s' \<Rightarrow> run_events step fs s')"
  by (induction es arbitrary: s) (auto split: option.splits)

lemma run_events_snoc:
  "run_events step (es @ [e]) s = Some s'' \<longleftrightarrow>
     (\<exists>s'. run_events step es s = Some s' \<and> step e s' = Some s'')"
  by (auto simp: run_events_append split: option.splits)

text \<open>A machine with an invariant of its enabled steps, for the events a client allows itself.\<close>

locale state_machine =
  fixes step :: "'e \<Rightarrow> 's \<Rightarrow> 's option" and allowed :: "'e \<Rightarrow> bool" and inv :: "'s \<Rightarrow> bool"
  assumes keeps: "inv s \<Longrightarrow> allowed e \<Longrightarrow> step e s = Some s' \<Longrightarrow> inv s'"
begin

lemma run_inv: "run_events step es s = Some s' \<Longrightarrow> list_all allowed es \<Longrightarrow> inv s \<Longrightarrow> inv s'"
  by (induction es arbitrary: s) (auto split: option.splits intro: keeps)

end

end
