(* ===== verification/CompileCache.thy ===== *)
theory CompileCache
  imports Prelude
begin

text \<open>
  \<open>src/pineforge_data/compile_cache.py\<close>, the artifacts: the files of the cache directory with
  their time stamps and sizes, the counters, and the reservations that protect an artifact from
  eviction.  Every operation here runs under \<open>_files_guard\<close>, so each is one step of the cache;
  the two that touch the disk outside the guard (\<open>lookup\<close>, \<open>commit\<close>) take that part
  separately.  The compile lock is in theory CompileLock.
\<close>

section \<open>State\<close>

record file_stat =
  mtime_ns :: int
  st_size :: int

record compile_cache =
  root :: string
  max_entries :: int
  max_bytes :: int
  files :: "(string, file_stat) dict"
  active :: "(string, int) dict"
  hits :: int
  misses :: int
  compiles :: int

definition mk_compile_cache :: "string \<Rightarrow> int \<Rightarrow> int \<Rightarrow> (string, file_stat) dict \<Rightarrow> compile_cache result" where
  "mk_compile_cache dir entries bytes disk =
     rbind (require (\<not> (entries \<le> 0 \<or> bytes \<le> 0)) ValueError ''cache limits must be positive'') (\<lambda>_.
     Inr \<lparr>root = dir, max_entries = entries, max_bytes = bytes, files = disk, active = [],
          hits = 0, misses = 0, compiles = 0\<rparr>)"

definition artifact :: "string \<Rightarrow> string" where
  "artifact key = key @ ''.so''"

definition temporary_path :: "string \<Rightarrow> string \<Rightarrow> string" where
  "temporary_path key uuid = ''.'' @ key @ ''.'' @ uuid @ ''.tmp''"

text \<open>\<open>glob("*.so")\<close> and \<open>Path.stem\<close> on such a name; a name that is only the suffix is its own stem.\<close>

definition is_artifact :: "string \<Rightarrow> bool" where
  "is_artifact name = (3 \<le> length name \<and> drop (length name - 3) name = ''.so'')"

definition stem :: "string \<Rightarrow> string" where
  "stem name = (if length name \<le> 3 then name else take (length name - 3) name)"

section \<open>Operations\<close>

definition is_file :: "compile_cache \<Rightarrow> string \<Rightarrow> bool" where
  "is_file c name = (name \<in> set (dkeys (files c)))"

text \<open>\<open>lookup\<close>: the existence test came before the guard, so it is an argument.\<close>

definition lookup :: "string \<Rightarrow> bool \<Rightarrow> compile_cache \<Rightarrow> string option \<times> compile_cache" where
  "lookup key existed c =
     (if existed then (Some (artifact key), c\<lparr>hits := hits c + 1\<rparr>)
      else (None, c\<lparr>misses := misses c + 1\<rparr>))"

text \<open>\<open>os.replace\<close>\<close>

definition replace_file :: "string \<Rightarrow> string \<Rightarrow> compile_cache \<Rightarrow> compile_cache result" where
  "replace_file temporary target c =
     (case map_of (files c) temporary of
        None \<Rightarrow> raise FileNotFoundError temporary
      | Some st \<Rightarrow> Inr (c\<lparr>files := AList.update target st (AList.delete temporary (files c))\<rparr>))"

definition commit :: "string \<Rightarrow> string \<Rightarrow> compile_cache \<Rightarrow> (string \<times> compile_cache) result" where
  "commit key temporary c =
     rbind (replace_file temporary (artifact key) c) (\<lambda>c'.
     Inr (artifact key, c'\<lparr>compiles := compiles c' + 1\<rparr>))"

text \<open>\<open>self._active[key] += 1\<close> on a \<open>defaultdict(int)\<close>\<close>

definition active_count :: "compile_cache \<Rightarrow> string \<Rightarrow> int" where
  "active_count c key = (case map_of (active c) key of None \<Rightarrow> 0 | Some n \<Rightarrow> n)"

definition reserve :: "string \<Rightarrow> compile_cache \<Rightarrow> compile_cache" where
  "reserve key c = c\<lparr>active := AList.update key (active_count c key + 1) (active c)\<rparr>"

definition acquire :: "int \<Rightarrow> string \<Rightarrow> compile_cache \<Rightarrow> string option \<times> compile_cache" where
  "acquire now key c =
     (case map_of (files c) (artifact key) of
        None \<Rightarrow> (None, c\<lparr>misses := misses c + 1\<rparr>)
      | Some st \<Rightarrow>
          let c' = reserve key (c\<lparr>hits := hits c + 1\<rparr>) in
          (Some (artifact key),
           c'\<lparr>files := AList.update (artifact key) (st\<lparr>mtime_ns := now\<rparr>) (files c')\<rparr>))"

definition commit_and_acquire :: "string \<Rightarrow> string \<Rightarrow> compile_cache \<Rightarrow> (string \<times> compile_cache) result" where
  "commit_and_acquire key temporary c =
     rbind (replace_file temporary (artifact key) c) (\<lambda>c'.
     Inr (artifact key, reserve key (c'\<lparr>compiles := compiles c' + 1\<rparr>)))"

definition release :: "string \<Rightarrow> compile_cache \<Rightarrow> compile_cache" where
  "release key c =
     (let n = active_count c key - 1 in
      c\<lparr>active := (if n = 0 then AList.delete key (active c) else AList.update key n (active c))\<rparr>)"

text \<open>\<open>_snapshot_sync\<close> and \<open>status\<close>\<close>

definition snapshot :: "compile_cache \<Rightarrow> (string, file_stat) dict" where
  "snapshot c = filter (\<lambda>(name, st). is_artifact name) (files c)"

record cache_status =
  directory :: string
  cs_entries :: int
  cs_bytes :: int
  cs_hits :: int
  cs_misses :: int
  cs_compiles :: int

definition cache_status :: "compile_cache \<Rightarrow> cache_status" where
  "cache_status c =
     \<lparr>directory = root c, cs_entries = int (length (snapshot c)),
      cs_bytes = sum_list (map (st_size \<circ> snd) (snapshot c)),
      cs_hits = hits c, cs_misses = misses c, cs_compiles = compiles c\<rparr>"

text \<open>\<open>_trim_sync\<close>: oldest first, then smallest, then by name.\<close>

type_synonym trim_entry = "int \<times> int \<times> string"

definition trim_entries :: "compile_cache \<Rightarrow> trim_entry list" where
  "trim_entries c = sort (map (\<lambda>(name, st). (mtime_ns st, st_size st, name)) (snapshot c))"

definition entry_size :: "trim_entry \<Rightarrow> int" where
  "entry_size e = fst (snd e)"

definition entry_name :: "trim_entry \<Rightarrow> string" where
  "entry_name e = snd (snd e)"

fun trim_loop ::
  "int \<Rightarrow> int \<Rightarrow> string list \<Rightarrow> trim_entry list \<Rightarrow> int \<Rightarrow> int \<Rightarrow> (string, file_stat) dict \<Rightarrow> (string, file_stat) dict" where
  "trim_loop me mb reserved [] n size0 disk = disk"
| "trim_loop me mb reserved (e # es) n size0 disk =
     (if n \<le> me \<and> size0 \<le> mb then disk
      else if stem (entry_name e) \<in> set reserved then trim_loop me mb reserved es n size0 disk
      else if entry_name e \<notin> set (dkeys disk) then trim_loop me mb reserved es n size0 disk
      else trim_loop me mb reserved es (n - 1) (size0 - entry_size e)
             (AList.delete (entry_name e) disk))"

definition trim :: "compile_cache \<Rightarrow> compile_cache" where
  "trim c =
     (let es = trim_entries c in
      c\<lparr>files := trim_loop (max_entries c) (max_bytes c) (dkeys (active c)) es
          (int (length es)) (sum_list (map entry_size es)) (files c)\<rparr>)"

section \<open>Reservations\<close>

definition wf_cache :: "compile_cache \<Rightarrow> bool" where
  "wf_cache c = (wf_dict (files c) \<and> wf_dict (active c))"

lemma wf_dict_delete [simp, intro]: "wf_dict d \<Longrightarrow> wf_dict (AList.delete k d)"
  by (simp add: wf_dict_def distinct_delete)

lemma set_dkeys_delete [simp]:
  "set (dkeys (AList.delete k d)) = set (dkeys d) - {k}" "fst ` set (AList.delete k d) = fst ` set d - {k}"
  by (induction d) auto

lemma artifact_inj [simp]: "(artifact k = artifact k') = (k = k')"
  by (simp add: artifact_def)

lemma artifact_is_artifact [simp]: "is_artifact (artifact k)"
  by (simp add: is_artifact_def artifact_def)

lemma stem_artifact [simp]: "k \<noteq> [] \<Longrightarrow> stem (artifact k) = k"
  by (simp add: stem_def artifact_def)

lemma temporary_not_artifact [simp]: "temporary_path k u \<noteq> artifact k'"
proof
  assume eq: "temporary_path k u = artifact k'"
  have "last (temporary_path k u) = CHR ''p''" "last (artifact k') = CHR ''o''"
    by (simp_all add: temporary_path_def artifact_def)
  then show False unfolding eq by simp
qed

text \<open>Reserved, and at least one time: what the client of the cache counts on.\<close>

lemma active_count_reserve [simp]:
  "active_count (reserve key c) k = active_count c k + (if k = key then 1 else 0)"
  by (simp add: active_count_def reserve_def update_conv')

lemma active_count_release [simp]:
  "active_count (release key c) k = active_count c k - (if k = key then 1 else 0)"
  by (auto simp: active_count_def release_def Let_def update_conv' delete_conv' split: option.splits)

lemma release_other [simp]: "files (release key c) = files c"
  by (simp add: release_def Let_def)

lemma reserve_other [simp]: "files (reserve key c) = files c"
  by (simp add: reserve_def)

section \<open>Eviction\<close>

text \<open>An artifact nobody has reserved, and the limits after the first \<open>m\<close> of them are gone.\<close>

definition free_entry :: "string list \<Rightarrow> trim_entry \<Rightarrow> bool" where
  "free_entry reserved e = (stem (entry_name e) \<notin> set reserved)"

definition fits_after :: "int \<Rightarrow> int \<Rightarrow> int \<Rightarrow> int \<Rightarrow> trim_entry list \<Rightarrow> nat \<Rightarrow> bool" where
  "fits_after me mb n size0 candidates m =
     (n - int m \<le> me \<and> size0 - sum_list (map entry_size (take m candidates)) \<le> mb)"

definition without :: "string set \<Rightarrow> (string, file_stat) dict \<Rightarrow> (string, file_stat) dict" where
  "without names disk = filter (\<lambda>(name, st). name \<notin> names) disk"

lemma without_delete: "without names (AList.delete name disk) = without (insert name names) disk"
  by (induction disk) (auto simp: without_def)

lemma without_none [simp]: "without {} disk = disk"
  by (simp add: without_def)

lemma fits_after_Suc:
  "fits_after me mb n size0 (e # es) (Suc m) = fits_after me mb (n - 1) (size0 - entry_size e) es m"
  by (simp add: fits_after_def algebra_simps)

lemma trim_loop_evicts:
  assumes "distinct (map entry_name es)" and "\<forall>e \<in> set es. entry_name e \<in> set (dkeys disk)"
  shows "\<exists>m \<le> length (filter (free_entry R) es).
    trim_loop me mb R es n size0 disk =
      without (entry_name ` set (take m (filter (free_entry R) es))) disk \<and>
    (fits_after me mb n size0 (filter (free_entry R) es) m \<or> m = length (filter (free_entry R) es)) \<and>
    (\<forall>k < m. \<not> fits_after me mb n size0 (filter (free_entry R) es) k)"
  using assms
proof (induction es arbitrary: n size0 disk)
  case Nil
  then show ?case by simp
next
  case (Cons e es)
  let ?free = "filter (free_entry R)"
  consider (fits) "n \<le> me \<and> size0 \<le> mb" | (kept) "\<not> (n \<le> me \<and> size0 \<le> mb)" "\<not> free_entry R e"
    | (evicted) "\<not> (n \<le> me \<and> size0 \<le> mb)" "free_entry R e" by blast
  then show ?case
  proof cases
    case fits
    then show ?thesis by (intro exI [of _ 0]) (auto simp: fits_after_def)
  next
    case kept
    then show ?thesis using Cons.IH [of disk n size0] Cons.prems by (auto simp: free_entry_def)
  next
    case evicted
    let ?disk = "AList.delete (entry_name e) disk"
    have "\<forall>e' \<in> set es. entry_name e' \<in> set (dkeys ?disk)"
      unfolding set_dkeys_delete using Cons.prems by auto (metis image_eqI)
    then obtain m where m: "m \<le> length (?free es)"
      "trim_loop me mb R es (n - 1) (size0 - entry_size e) ?disk =
         without (entry_name ` set (take m (?free es))) ?disk"
      "fits_after me mb (n - 1) (size0 - entry_size e) (?free es) m \<or> m = length (?free es)"
      "\<forall>k < m. \<not> fits_after me mb (n - 1) (size0 - entry_size e) (?free es) k"
      using Cons.IH [of ?disk "n - 1" "size0 - entry_size e"] Cons.prems by auto
    have step: "trim_loop me mb R (e # es) n size0 disk =
        trim_loop me mb R es (n - 1) (size0 - entry_size e) ?disk"
      using evicted Cons.prems by (auto simp: free_entry_def)
    have "\<not> fits_after me mb n size0 (e # ?free es) k" if "k < Suc m" for k
      using that m(4) evicted(1) by (cases k) (auto simp: fits_after_Suc, auto simp: fits_after_def)
    then show ?thesis
      using m evicted(2) unfolding step
      by (intro exI [of _ "Suc m"]) (auto simp: fits_after_Suc without_delete)
  qed
qed

lemma trim_entries_files:
  "wf_dict (files c) \<Longrightarrow> distinct (map entry_name (trim_entries c)) \<and>
   entry_name ` set (trim_entries c) = {name \<in> set (dkeys (files c)). is_artifact name}"
proof
  assume wf: "wf_dict (files c)"
  let ?f = "\<lambda>(name, st). (mtime_ns st, st_size st, name)"
  have names: "map entry_name (map ?f (snapshot c)) = dkeys (snapshot c)"
    by (auto simp: entry_name_def)
  have "mset (map entry_name (trim_entries c)) = mset (dkeys (snapshot c))"
    unfolding trim_entries_def names [symmetric] by (simp only: mset_map mset_sort)
  moreover have "distinct (dkeys (snapshot c))"
    using wf by (simp add: wf_dict_def snapshot_def distinct_map_filter)
  ultimately show "distinct (map entry_name (trim_entries c))" by (metis mset_eq_imp_distinct_iff)
  show "entry_name ` set (trim_entries c) = {name \<in> set (dkeys (files c)). is_artifact name}"
    by (force simp: trim_entries_def snapshot_def entry_name_def image_iff)
qed

text \<open>
  Eviction removes exactly a prefix, in the order of last use, of the artifacts nobody has
  reserved: the shortest one that brings the cache within both limits, or all of them where even
  that is not enough.  Everything else on the disk stays, so a reserved artifact is never evicted.
\<close>

theorem trim_evicts_oldest:
  assumes "wf_dict (files c)"
  shows "let candidates = filter (free_entry (dkeys (active c))) (trim_entries c);
             fits = fits_after (max_entries c) (max_bytes c) (int (length (trim_entries c)))
                      (sum_list (map entry_size (trim_entries c))) candidates
         in \<exists>m \<le> length candidates.
              trim c = c\<lparr>files := without (entry_name ` set (take m candidates)) (files c)\<rparr> \<and>
              (fits m \<or> m = length candidates) \<and> (\<forall>k < m. \<not> fits k)"
proof -
  have "distinct (map entry_name (trim_entries c))"
    "\<forall>e \<in> set (trim_entries c). entry_name e \<in> set (dkeys (files c))"
    using trim_entries_files [OF assms] by auto
  from trim_loop_evicts [OF this, of "dkeys (active c)" "max_entries c" "max_bytes c"
      "int (length (trim_entries c))" "sum_list (map entry_size (trim_entries c))"]
  show ?thesis by (auto simp: trim_def Let_def)
qed

text \<open>Three artifacts of 40 bytes, one reserved, in a cache that may hold one.\<close>

definition three_artifacts :: compile_cache where
  "three_artifacts = \<lparr>root = ''/c'', max_entries = 1, max_bytes = 100,
     files = [(''b.so'', \<lparr>mtime_ns = 5, st_size = 40\<rparr>), (''a.so'', \<lparr>mtime_ns = 3, st_size = 40\<rparr>),
              (''k.so'', \<lparr>mtime_ns = 1, st_size = 40\<rparr>)],
     active = [(''k'', 1)], hits = 0, misses = 0, compiles = 3\<rparr>"

definition oldest_first :: "trim_entry list" where
  "oldest_first = [(3, 40, ''a.so''), (5, 40, ''b.so'')]"

lemma three_candidates:
  "filter (free_entry (dkeys (active three_artifacts))) (trim_entries three_artifacts) = oldest_first"
  by code_simp

lemma trim_evicts_oldest_witness:
  "\<exists>m \<le> length oldest_first.
     trim three_artifacts = three_artifacts\<lparr>files :=
       without (entry_name ` set (take m oldest_first)) (files three_artifacts)\<rparr>"
proof -
  have "wf_dict (files three_artifacts)" by (simp add: wf_dict_def three_artifacts_def)
  from trim_evicts_oldest [OF this] show ?thesis unfolding three_candidates Let_def by blast
qed

lemma trim_keeps_reserved:
  assumes "wf_dict (files c)" and "k \<in> set (dkeys (active c))" and "k \<noteq> []"
    and "artifact k \<in> set (dkeys (files c))"
  shows "artifact k \<in> set (dkeys (files (trim c)))"
proof -
  have names: "distinct (map entry_name (trim_entries c))"
    "\<forall>e \<in> set (trim_entries c). entry_name e \<in> set (dkeys (files c))"
    using trim_entries_files [OF assms(1)] by auto
  obtain m where "files (trim c) =
      without (entry_name ` set (take m (filter (free_entry (dkeys (active c))) (trim_entries c)))) (files c)"
    using trim_loop_evicts [OF names, of "dkeys (active c)" "max_entries c" "max_bytes c"
        "int (length (trim_entries c))" "sum_list (map entry_size (trim_entries c))"]
    by (auto simp: trim_def Let_def)
  moreover have "artifact k \<noteq> entry_name e" if "e \<in> set (take m (filter (free_entry (dkeys (active c))) es))" for e es
  proof
    assume eq: "artifact k = entry_name e"
    have "free_entry (dkeys (active c)) e" using that by (auto dest: in_set_takeD)
    then show False using assms(2,3) by (simp add: free_entry_def eq [symmetric])
  qed
  ultimately show ?thesis using assms(4) by (force simp: without_def)
qed

lemma trim_other [simp]:
  "active (trim c) = active c" "max_entries (trim c) = max_entries c" "max_bytes (trim c) = max_bytes c"
  by (simp_all add: trim_def Let_def)

lemma trim_loop_wf: "wf_dict disk \<Longrightarrow> wf_dict (trim_loop me mb R es n sz disk)"
  by (induction me mb R es n sz disk rule: trim_loop.induct) simp_all

section \<open>The store as its clients see it\<close>

text \<open>
  What a client of an artifact store needs: a new use is of an artifact that is present, and an
  artifact in use stays present.  Then every artifact in use is present, after any operations.
\<close>

locale artifact_store =
  fixes ok :: "'s \<Rightarrow> bool" and allowed :: "'op \<Rightarrow> bool"
    and present :: "'s \<Rightarrow> 'k \<Rightarrow> bool" and uses :: "'s \<Rightarrow> 'k \<Rightarrow> int"
    and step :: "'op \<Rightarrow> 's \<Rightarrow> 's"
  assumes step_ok: "ok s \<Longrightarrow> allowed p \<Longrightarrow> ok (step p s)"
    and new_use: "ok s \<Longrightarrow> allowed p \<Longrightarrow> uses s k < uses (step p s) k \<Longrightarrow> present (step p s) k"
    and stays: "ok s \<Longrightarrow> allowed p \<Longrightarrow> 0 < uses s k \<Longrightarrow> present s k \<Longrightarrow> present (step p s) k"
begin

definition in_use_present :: "'s \<Rightarrow> bool" where
  "in_use_present s = (\<forall>k. 0 < uses s k \<longrightarrow> present s k)"

lemma step_in_use: "ok s \<Longrightarrow> allowed p \<Longrightarrow> in_use_present s \<Longrightarrow> in_use_present (step p s)"
  unfolding in_use_present_def using new_use stays by (metis linorder_not_less order_less_le_trans)

lemma run_in_use:
  "list_all allowed ps \<Longrightarrow> ok s \<Longrightarrow> in_use_present s \<Longrightarrow> in_use_present (fold step ps s)"
  by (induction ps arbitrary: s) (simp_all add: step_ok step_in_use)

lemma run_ok: "list_all allowed ps \<Longrightarrow> ok s \<Longrightarrow> ok (fold step ps s)"
  by (induction ps arbitrary: s) (simp_all add: step_ok)

end

text \<open>The guarded operations, and the compiler writing its output to a temporary name.\<close>

datatype cache_op =
    Lookup string bool | Acquire int string | Commit string string | CommitAcquire string string
  | Release string | Trim | Compiled string string file_stat

fun cache_step :: "cache_op \<Rightarrow> compile_cache \<Rightarrow> compile_cache" where
  "cache_step (Lookup key existed) c = snd (lookup key existed c)"
| "cache_step (Acquire now key) c = snd (acquire now key c)"
| "cache_step (Commit key tmp) c = (case commit key tmp c of Inl e \<Rightarrow> c | Inr (t, c') \<Rightarrow> c')"
| "cache_step (CommitAcquire key tmp) c = (case commit_and_acquire key tmp c of Inl e \<Rightarrow> c | Inr (t, c') \<Rightarrow> c')"
| "cache_step (Release key) c = release key c"
| "cache_step Trim c = trim c"
| "cache_step (Compiled key uuid st) c = c\<lparr>files := AList.update (temporary_path key uuid) st (files c)\<rparr>"

text \<open>Keys are digests, and a commit moves a temporary file.\<close>

fun cache_op_ok :: "cache_op \<Rightarrow> bool" where
  "cache_op_ok (Acquire now key) = (key \<noteq> [])"
| "cache_op_ok (Commit key tmp) = (key \<noteq> [] \<and> \<not> is_artifact tmp)"
| "cache_op_ok (CommitAcquire key tmp) = (key \<noteq> [] \<and> \<not> is_artifact tmp)"
| "cache_op_ok _ = True"

definition on_disk :: "compile_cache \<Rightarrow> string \<Rightarrow> bool" where
  "on_disk c key = (map_of (files c) (artifact key) \<noteq> None)"

lemma on_disk_keys: "on_disk c k = (artifact k \<in> set (dkeys (files c)))"
  by (simp add: on_disk_def map_of_eq_None_iff)

definition cache_ok :: "compile_cache \<Rightarrow> bool" where
  "cache_ok c = (wf_cache c \<and> active_count c [] \<le> 0)"

lemma replace_file_returns:
  "replace_file tmp target c = Inr c' \<Longrightarrow>
   active c' = active c \<and> (\<exists>st. map_of (files c') = (map_of (files c))(tmp := None, target \<mapsto> st)) \<and>
   (wf_cache c \<longrightarrow> wf_cache c')"
  by (auto simp: replace_file_def wf_cache_def update_conv' delete_conv' split: option.splits)

lemma active_count_active: "active c = active d \<Longrightarrow> active_count c = active_count d"
  by (simp add: active_count_def fun_eq_iff)

lemma count_nonzero_active: "active_count c k \<noteq> 0 \<Longrightarrow> k \<in> set (dkeys (active c))"
  by (auto simp: active_count_def split: option.splits dest!: map_of_SomeD) force

lemma active_count_unchanged [simp]:
  "active_count (c\<lparr>hits := n\<rparr>) = active_count c" "active_count (c\<lparr>misses := n\<rparr>) = active_count c"
  "active_count (c\<lparr>compiles := n\<rparr>) = active_count c" "active_count (c\<lparr>files := d\<rparr>) = active_count c"
  "active_count (trim c) = active_count c"
  by (simp_all add: active_count_def fun_eq_iff)

lemma on_disk_unchanged [simp]:
  "on_disk (c\<lparr>hits := n\<rparr>) = on_disk c" "on_disk (c\<lparr>misses := n\<rparr>) = on_disk c"
  "on_disk (c\<lparr>compiles := n\<rparr>) = on_disk c" "on_disk (reserve key c) = on_disk c"
  "on_disk (release key c) = on_disk c"
  by (simp_all add: on_disk_def fun_eq_iff)

lemma wf_cache_unchanged [simp]:
  "wf_cache (c\<lparr>hits := n\<rparr>) = wf_cache c" "wf_cache (c\<lparr>misses := n\<rparr>) = wf_cache c"
  "wf_cache (c\<lparr>compiles := n\<rparr>) = wf_cache c"
  "wf_cache c \<Longrightarrow> wf_cache (reserve key c)" "wf_cache c \<Longrightarrow> wf_cache (release key c)"
  "wf_cache c \<Longrightarrow> wf_cache (trim c)"
  by (auto simp: wf_cache_def reserve_def release_def trim_def Let_def trim_loop_wf)

section \<open>What each operation does to the store\<close>

lemma acquire_hit:
  "on_disk c key \<Longrightarrow> \<exists>c'. acquire now key c = (Some (artifact key), c') \<and> on_disk c' = on_disk c \<and>
     active_count c' = (active_count c)(key := active_count c key + 1) \<and> (wf_cache c \<longrightarrow> wf_cache c')"
  by (auto simp: acquire_def on_disk_def Let_def update_conv' fun_eq_iff wf_cache_def reserve_def
      active_count_def split: option.splits)

lemma acquire_miss:
  "\<not> on_disk c key \<Longrightarrow> acquire now key c = (None, c\<lparr>misses := misses c + 1\<rparr>)"
  by (simp add: acquire_def on_disk_def)

lemma commit_returns:
  assumes "commit_and_acquire key tmp c = Inr (t, c')" and "\<not> is_artifact tmp"
  shows "t = artifact key \<and> on_disk c' = (on_disk c)(key := True) \<and>
    active_count c' = (active_count c)(key := active_count c key + 1) \<and> (wf_cache c \<longrightarrow> wf_cache c')"
proof -
  obtain d where d: "replace_file tmp (artifact key) c = Inr d" "t = artifact key"
      "c' = reserve key (d\<lparr>compiles := compiles d + 1\<rparr>)"
    using assms(1) by (auto simp: commit_and_acquire_def result_simps)
  have "artifact k \<noteq> tmp" for k using assms(2) by auto
  then show ?thesis
    using replace_file_returns [OF d(1)] active_count_active [of d c] d(2,3)
    by (auto simp: on_disk_def fun_eq_iff)
qed

lemma commit_only_returns:
  assumes "commit key tmp c = Inr (t, c')" and "\<not> is_artifact tmp"
  shows "on_disk c' = (on_disk c)(key := True) \<and> active_count c' = active_count c \<and>
    (wf_cache c \<longrightarrow> wf_cache c')"
proof -
  obtain d where d: "replace_file tmp (artifact key) c = Inr d" "c' = d\<lparr>compiles := compiles d + 1\<rparr>"
    using assms(1) by (auto simp: commit_def result_simps)
  have "artifact k \<noteq> tmp" for k using assms(2) by auto
  then show ?thesis
    using replace_file_returns [OF d(1)] active_count_active [of d c] d(2)
    by (auto simp: on_disk_def fun_eq_iff)
qed

lemma release_store:
  "active_count (release key c) = (active_count c)(key := active_count c key - 1)"
  by (simp add: fun_eq_iff)

lemma trim_store:
  assumes "wf_cache c" and "0 < active_count c k" and "k \<noteq> []" and "on_disk c k"
  shows "on_disk (trim c) k"
  using assms trim_keeps_reserved [of c k] count_nonzero_active [of c k]
  by (simp add: on_disk_keys wf_cache_def)

text \<open>Where an operation takes a new reservation, the artifact is on the disk.\<close>

lemma cache_step_ok: "cache_ok c \<Longrightarrow> cache_op_ok p \<Longrightarrow> cache_ok (cache_step p c)"
proof (cases p)
  case (Acquire now key)
  assume "cache_ok c" "cache_op_ok p"
  then show ?thesis
    using Acquire acquire_hit [of c key now] acquire_miss [of c key now]
    by (cases "on_disk c key") (auto simp: cache_ok_def)
next
  case (Commit key tmp)
  assume "cache_ok c" "cache_op_ok p"
  then show ?thesis
    using Commit commit_only_returns [of key tmp c] by (auto simp: cache_ok_def split: sum.splits)
next
  case (CommitAcquire key tmp)
  assume "cache_ok c" "cache_op_ok p"
  then show ?thesis
    using CommitAcquire commit_returns [of key tmp c]
    by (auto simp: cache_ok_def split: sum.splits)
next
  case (Compiled key uuid st)
  assume "cache_ok c"
  then show ?thesis using Compiled by (simp add: cache_ok_def wf_cache_def)
qed (auto simp: cache_ok_def lookup_def)

lemma cache_new_use:
  assumes "cache_ok c" and "cache_op_ok p" and "active_count c k < active_count (cache_step p c) k"
  shows "on_disk (cache_step p c) k"
proof (cases p)
  case (Acquire now key)
  then show ?thesis
    using assms(3) acquire_hit [of c key now] acquire_miss [of c key now]
    by (cases "on_disk c key") (auto split: if_splits)
next
  case (Commit key tmp)
  then show ?thesis
    using assms(2,3) commit_only_returns [of key tmp c] by (auto split: sum.splits)
next
  case (CommitAcquire key tmp)
  then show ?thesis
    using assms(2,3) commit_returns [of key tmp c] by (auto split: sum.splits if_splits)
qed (use assms(3) in \<open>auto simp: lookup_def split: if_splits\<close>)

lemma cache_stays:
  assumes "cache_ok c" and "cache_op_ok p" and "0 < active_count c k" and "on_disk c k"
  shows "on_disk (cache_step p c) k"
proof (cases p)
  case (Acquire now key)
  then show ?thesis
    using assms acquire_hit [of c key now] acquire_miss [of c key now]
    by (cases "on_disk c key") auto
next
  case (Commit key tmp)
  then show ?thesis
    using assms commit_only_returns [of key tmp c] by (auto split: sum.splits)
next
  case (CommitAcquire key tmp)
  then show ?thesis
    using assms commit_returns [of key tmp c] by (auto split: sum.splits)
next
  case Trim
  have "k \<noteq> []" using assms(1,3) by (auto simp: cache_ok_def)
  then show ?thesis using Trim trim_store assms by (simp add: cache_ok_def)
next
  case (Compiled key uuid st)
  then show ?thesis using assms(4) by (auto simp: on_disk_def update_conv')
qed (use assms(4) in \<open>auto simp: lookup_def\<close>)

interpretation cache: artifact_store cache_ok cache_op_ok on_disk active_count cache_step
  by unfold_locales (rule cache_step_ok, assumption+, rule cache_new_use, assumption+,
      rule cache_stays, assumption+)

text \<open>
  An artifact that is reserved is on the disk, after any operations of any clients on a new
  cache, evictions and recompilations in between included.
\<close>

theorem reserved_on_disk:
  assumes "mk_compile_cache dir entries bytes disk = Inr c" and "wf_dict disk"
    and "list_all cache_op_ok ps" and "0 < active_count (fold cache_step ps c) k"
  shows "on_disk (fold cache_step ps c) k"
proof -
  have c: "cache_ok c" "cache.in_use_present c"
    using assms(1,2) by (auto simp: mk_compile_cache_def result_simps cache_ok_def wf_cache_def
        cache.in_use_present_def active_count_def)
  then show ?thesis
    using cache.run_in_use [OF assms(3) c] assms(4) by (simp add: cache.in_use_present_def)
qed

text \<open>Two compiled strategies in a cache that may hold one; the first stays in use.\<close>

definition two_strategies :: "cache_op list" where
  "two_strategies =
     [Compiled ''k'' ''1'' \<lparr>mtime_ns = 1, st_size = 90\<rparr>, CommitAcquire ''k'' (temporary_path ''k'' ''1''),
      Compiled ''q'' ''2'' \<lparr>mtime_ns = 2, st_size = 90\<rparr>, CommitAcquire ''q'' (temporary_path ''q'' ''2''),
      Release ''q'', Trim]"

definition small_cache :: compile_cache where
  "small_cache = \<lparr>root = ''/c'', max_entries = 1, max_bytes = 100, files = [], active = [],
     hits = 0, misses = 0, compiles = 0\<rparr>"

lemma reserved_on_disk_witness: "on_disk (fold cache_step two_strategies small_cache) ''k''"
proof (rule reserved_on_disk)
  show "mk_compile_cache ''/c'' 1 100 [] = Inr small_cache"
    by (simp add: mk_compile_cache_def small_cache_def)
  show "list_all cache_op_ok two_strategies" by code_simp
  show "0 < active_count (fold cache_step two_strategies small_cache) ''k''" by code_simp
qed simp

lemma second_strategy_evicted: "\<not> on_disk (fold cache_step two_strategies small_cache) ''q''"
  by code_simp
end
