(* ===== verification/CompileLock.thy ===== *)
theory CompileLock
  imports Machine CompileCache
begin

text \<open>
  \<open>CompileCache.compile_lock\<close> (\<open>src/pineforge_data/compile_cache.py\<close>): one lock object per key in
  use, created on demand, counted, and dropped with its last user.  Lock objects have an identity
  of their own, because a task keeps the object it found while the table forgets and recreates
  the entry of the key.
\<close>

section \<open>Locks\<close>

type_synonym task = nat
type_synonym lock_id = nat

record locks =
  table :: "string \<Rightarrow> lock_id option"
  references :: "lock_id \<Rightarrow> nat"
  holder :: "lock_id \<Rightarrow> task option"
  fresh :: lock_id

definition no_locks :: locks where
  "no_locks = \<lparr>table = (\<lambda>k. None), references = (\<lambda>l. 0), holder = (\<lambda>l. None), fresh = 0\<rparr>"

text \<open>The first guarded section: find or create the entry and count the reference.\<close>

definition lock_enter :: "string \<Rightarrow> locks \<Rightarrow> lock_id \<times> locks" where
  "lock_enter key s =
     (case table s key of
        Some l \<Rightarrow> (l, s\<lparr>references := (references s)(l := references s l + 1)\<rparr>)
      | None \<Rightarrow>
          (fresh s, s\<lparr>table := (table s)(key \<mapsto> fresh s), references := (references s)(fresh s := 1),
                     holder := (holder s)(fresh s := None), fresh := fresh s + 1\<rparr>))"

definition lock_take :: "task \<Rightarrow> lock_id \<Rightarrow> locks \<Rightarrow> locks option" where
  "lock_take t l s = (if holder s l = None then Some (s\<lparr>holder := (holder s)(l \<mapsto> t)\<rparr>) else None)"

definition lock_free :: "lock_id \<Rightarrow> locks \<Rightarrow> locks" where
  "lock_free l s = s\<lparr>holder := (holder s)(l := None)\<rparr>"

text \<open>The last guarded section: count the reference down and drop the entry with the last one.\<close>

definition lock_leave :: "string \<Rightarrow> lock_id \<Rightarrow> locks \<Rightarrow> locks" where
  "lock_leave key l s =
     (let s' = s\<lparr>references := (references s)(l := references s l - 1)\<rparr>
      in if references s' l = 0 then s'\<lparr>table := (table s')(key := None)\<rparr> else s')"

section \<open>What the table and the tasks agree on\<close>

text \<open>
  \<open>engaged\<close> gives for each task the key and the lock object it counts on, \<open>inside\<close> the tasks
  between taking and freeing the lock, and \<open>lost\<close> how many references nobody counts on any more.
\<close>

type_synonym engagement = "task \<Rightarrow> (string \<times> lock_id) option"

definition users :: "engagement \<Rightarrow> lock_id \<Rightarrow> task set" where
  "users engaged l = {t. \<exists>k. engaged t = Some (k, l)}"

definition table_inv :: "locks \<Rightarrow> engagement \<Rightarrow> bool" where
  "table_inv s engaged =
     ((\<forall>t k l. engaged t = Some (k, l) \<longrightarrow> table s k = Some l) \<and>
      (\<forall>k k' l. table s k = Some l \<longrightarrow> table s k' = Some l \<longrightarrow> k = k') \<and>
      (\<forall>k l. table s k = Some l \<longrightarrow> l < fresh s) \<and>
      (\<forall>l. (0 < references s l) = (\<exists>k. table s k = Some l)))"

definition count_inv :: "locks \<Rightarrow> engagement \<Rightarrow> (lock_id \<Rightarrow> nat) \<Rightarrow> bool" where
  "count_inv s engaged lost =
     (finite {t. engaged t \<noteq> None} \<and> (\<forall>l. references s l = card (users engaged l) + lost l))"

definition holder_inv :: "locks \<Rightarrow> engagement \<Rightarrow> (task \<Rightarrow> bool) \<Rightarrow> bool" where
  "holder_inv s engaged inside =
     (\<forall>t l. (holder s l = Some t) = (inside t \<and> (\<exists>k. engaged t = Some (k, l))))"

definition lock_inv :: "locks \<Rightarrow> engagement \<Rightarrow> (task \<Rightarrow> bool) \<Rightarrow> (lock_id \<Rightarrow> nat) \<Rightarrow> bool" where
  "lock_inv s engaged inside lost =
     (table_inv s engaged \<and> count_inv s engaged lost \<and> holder_inv s engaged inside)"

lemma users_finite: "finite {t. engaged t \<noteq> None} \<Longrightarrow> finite (users engaged l)"
  by (rule finite_subset [of _ "{t. engaged t \<noteq> None}"]) (auto simp: users_def)

lemma users_enter:
  "engaged t = None \<Longrightarrow> users (engaged(t \<mapsto> (k, l))) l' = (if l' = l then insert t (users engaged l) else users engaged l')"
  by (auto simp: users_def)

lemma users_leave: "users (engaged(t := None)) l = users engaged l - {t}"
  by (auto simp: users_def)

lemma users_finite_update: "finite {t. engaged t \<noteq> None} \<Longrightarrow> finite {t'. (engaged(t := e)) t' \<noteq> None}"
  by (rule finite_subset [of _ "insert t {t. engaged t \<noteq> None}"]) auto

lemma holder_irrelevant [simp]:
  "table_inv (s\<lparr>holder := h\<rparr>) engaged = table_inv s engaged"
  "count_inv (s\<lparr>holder := h\<rparr>) engaged lost = count_inv s engaged lost"
  by (simp_all add: table_inv_def count_inv_def)

lemma lock_inv_start: "lock_inv no_locks (\<lambda>t. None) (\<lambda>t. False) (\<lambda>l. 0)"
  by (simp add: lock_inv_def table_inv_def count_inv_def holder_inv_def no_locks_def users_def)

lemma fresh_unused: "table_inv s engaged \<Longrightarrow> users engaged (fresh s) = {}"
  by (force simp: table_inv_def users_def)

lemma fresh_unreferenced: "table_inv s engaged \<Longrightarrow> references s (fresh s) = 0"
  by (metis gr0I less_irrefl table_inv_def)

lemma table_inv_enter:
  assumes inv: "table_inv s engaged" and "engaged t = None" and enter: "lock_enter k s = (l, s')"
  shows "table_inv s' (engaged(t \<mapsto> (k, l)))"
proof (cases "table s k")
  case None
  have "l' < fresh s" if "table s k' = Some l'" for k' l' using inv that by (auto simp: table_inv_def)
  moreover have "l = fresh s" "table s' = (table s)(k \<mapsto> fresh s)" "fresh s' = fresh s + 1"
      "references s' = (references s)(fresh s := 1)"
    using None enter by (auto simp: lock_enter_def)
  moreover have "(0 < references s l') = (\<exists>k'. k' \<noteq> k \<and> table s k' = Some l')" for l'
    using inv None unfolding table_inv_def by (metis option.distinct(1))
  ultimately show ?thesis
    using inv None by (auto simp: table_inv_def less_Suc_eq)
next
  case (Some l0)
  then have "table s' = table s" "fresh s' = fresh s" "l = l0"
      "references s' = (references s)(l0 := references s l0 + 1)"
    using enter by (auto simp: lock_enter_def)
  moreover have "0 < references s l0" using inv Some unfolding table_inv_def by blast
  ultimately show ?thesis using inv Some by (simp add: table_inv_def)
qed

lemma count_inv_enter:
  assumes inv: "count_inv s engaged lost" "table_inv s engaged" and out: "engaged t = None"
    and enter: "lock_enter k s = (l, s')"
  shows "count_inv s' (engaged(t \<mapsto> (k, l))) lost"
proof -
  have fin: "finite {t. engaged t \<noteq> None}" using inv(1) by (simp add: count_inv_def)
  have new: "t \<notin> users engaged l'" for l' using out by (simp add: users_def)
  have "card (users (engaged(t \<mapsto> (k, l))) l') = card (users engaged l') + (if l' = l then 1 else 0)" for l'
    using new users_finite [OF fin] by (simp add: users_enter [where engaged = engaged, OF out])
  moreover have "references s' l' = card (users engaged l') + (if l' = l then 1 else 0) + lost l'" for l'
  proof -
    have "references s l' = card (users engaged l') + lost l'" using inv(1) by (simp add: count_inv_def)
    then show ?thesis
      using enter fresh_unreferenced [OF inv(2)]
      by (cases "table s k") (auto simp: lock_enter_def)
  qed
  ultimately show ?thesis unfolding count_inv_def using users_finite_update [OF fin] by simp
qed

lemma lock_inv_enter:
  assumes inv: "lock_inv s engaged inside lost" and out: "engaged t = None" "\<not> inside t"
    and enter: "lock_enter k s = (l, s')"
  shows "lock_inv s' (engaged(t \<mapsto> (k, l))) inside lost"
proof -
  have "holder_inv s' (engaged(t \<mapsto> (k, l))) inside"
  proof -
    have none: "holder s (fresh s) = None"
    proof (cases "holder s (fresh s)")
      case (Some u)
      then have "u \<in> users engaged (fresh s)"
        using inv by (auto simp: lock_inv_def holder_inv_def users_def)
      then show ?thesis using fresh_unused inv by (auto simp: lock_inv_def)
    qed
    have "holder s' = holder s"
      using enter none by (cases "table s k") (auto simp: lock_enter_def)
    then show ?thesis using inv out by (auto simp: lock_inv_def holder_inv_def)
  qed
  then show ?thesis
    using inv table_inv_enter [where engaged = engaged, OF _ out(1) enter]
      count_inv_enter [where engaged = engaged, OF _ _ out(1) enter]
    by (simp add: lock_inv_def)
qed

lemma lock_inv_take:
  assumes "lock_inv s engaged inside lost" and "engaged t = Some (k, l)" and "\<not> inside t"
    and "lock_take t l s = Some s'"
  shows "lock_inv s' engaged (inside(t := True)) lost"
proof -
  have s': "holder s l = None" "s' = s\<lparr>holder := (holder s)(l \<mapsto> t)\<rparr>"
    using assms(4) by (auto simp: lock_take_def split: if_splits)
  have "holder_inv s' engaged (inside(t := True))"
    unfolding holder_inv_def s'(2)
  proof (intro allI)
    fix u l'
    have "(holder s l' = Some u) = (inside u \<and> (\<exists>k. engaged u = Some (k, l')))"
      using assms(1) by (simp add: lock_inv_def holder_inv_def)
    then show "(holder (s\<lparr>holder := (holder s)(l \<mapsto> t)\<rparr>) l' = Some u) =
        ((inside(t := True)) u \<and> (\<exists>k. engaged u = Some (k, l')))"
      using assms(2,3) s'(1) by auto
  qed
  then show ?thesis using assms(1) s'(2) by (simp add: lock_inv_def)
qed

lemma lock_inv_free:
  assumes "lock_inv s engaged inside lost" and "engaged t = Some (k, l)" and "inside t"
  shows "lock_inv (lock_free l s) engaged (inside(t := False)) lost"
proof -
  have "holder_inv (lock_free l s) engaged (inside(t := False))"
    unfolding holder_inv_def
  proof (intro allI)
    fix u l'
    have h: "(holder s l' = Some u) = (inside u \<and> (\<exists>k. engaged u = Some (k, l')))" for u l'
      using assms(1) by (simp add: lock_inv_def holder_inv_def)
    have "holder s l = Some t" using h assms(2,3) by blast
    then show "(holder (lock_free l s) l' = Some u) =
        ((inside(t := False)) u \<and> (\<exists>k. engaged u = Some (k, l')))"
      using h [of l' u] h [of l u] assms(2) by (cases "l' = l") (auto simp: lock_free_def)
  qed
  then show ?thesis using assms(1) by (simp add: lock_inv_def lock_free_def)
qed

lemma users_after_leave:
  assumes inv: "count_inv s engaged lost" and t: "engaged t = Some (k, l)"
  shows "card (users engaged l') = card (users (engaged(t := None)) l') + (if l' = l then 1 else 0)"
proof -
  have fin: "finite (users engaged l)" using inv users_finite by (simp add: count_inv_def)
  have "t \<in> users engaged l" "l' \<noteq> l \<Longrightarrow> t \<notin> users engaged l'" using t by (auto simp: users_def)
  moreover have "Suc (card (users engaged l - {t})) = card (users engaged l)" if "t \<in> users engaged l"
    using fin that by (rule card_Suc_Diff1)
  ultimately show ?thesis by (cases "l' = l") (auto simp: users_leave)
qed

lemma lock_inv_leave:
  assumes inv: "lock_inv s engaged inside lost" and t: "engaged t = Some (k, l)" "\<not> inside t"
  shows "lock_inv (lock_leave k l s) (engaged(t := None)) inside lost"
proof -
  let ?e = "engaged(t := None)"
  have count: "count_inv s engaged lost" "table_inv s engaged" "holder_inv s engaged inside"
    using inv by (simp_all add: lock_inv_def)
  have fin: "finite {t'. ?e t' \<noteq> None}"
    using count(1) by (intro users_finite_update) (simp add: count_inv_def)
  have left: "references s l' = card (users ?e l') + (if l' = l then 1 else 0) + lost l'" for l'
    using users_after_leave [OF count(1) t(1)] count(1) by (simp add: count_inv_def)
  have "count_inv (lock_leave k l s) ?e lost"
    unfolding count_inv_def
  proof (intro conjI allI)
    fix l'
    show "references (lock_leave k l s) l' = card (users ?e l') + lost l'"
      using left [of l'] by (auto simp: lock_leave_def Let_def)
  qed (rule fin)
  moreover have "table_inv (lock_leave k l s) ?e"
  proof (cases "references s l - 1 = 0")
    case True
    then have "card (users ?e l) = 0" using left [of l] by simp
    then have none: "users ?e l = {}"
      using users_finite [OF fin, of l] by (metis card_0_eq)
    have key: "table s k = Some l" using count(2) t(1) unfolding table_inv_def by blast
    have same: "l' = l" if "engaged u = Some (k, l')" for u l'
      using count(2) key that unfolding table_inv_def by (metis option.inject)
    have "engaged u \<noteq> Some (k, l')" if "u \<noteq> t" for u l'
    proof
      assume "engaged u = Some (k, l')"
      then have "u \<in> users ?e l" using same that by (simp add: users_def)
      then show False using none by simp
    qed
    moreover have "(0 < references s l') = (\<exists>k'. k' \<noteq> k \<and> table s k' = Some l')" if "l' \<noteq> l" for l'
      using count(2) key that unfolding table_inv_def by (metis option.inject)
    moreover have "k' = k" if "table s k' = Some l" for k'
      using count(2) key that unfolding table_inv_def by blast
    ultimately show ?thesis
      using count(2) True by (auto simp: table_inv_def lock_leave_def Let_def)
  next
    case False
    then show ?thesis using count(2) by (auto simp: table_inv_def lock_leave_def Let_def)
  qed
  moreover have "holder_inv (lock_leave k l s) ?e inside"
    using count(3) t(2) by (auto simp: holder_inv_def lock_leave_def Let_def)
  ultimately show ?thesis by (simp add: lock_inv_def)
qed

text \<open>A task that stops waiting leaves its reference behind.\<close>

lemma lock_inv_abandon:
  assumes inv: "lock_inv s engaged inside lost" and t: "engaged t = Some (k, l)" "\<not> inside t"
  shows "lock_inv s (engaged(t := None)) inside (lost(l := lost l + 1))"
proof -
  have count: "count_inv s engaged lost" using inv by (simp add: lock_inv_def)
  have "finite {t'. (engaged(t := None)) t' \<noteq> None}"
    using count by (intro users_finite_update) (simp add: count_inv_def)
  then have "count_inv s (engaged(t := None)) (lost(l := lost l + 1))"
    using count users_after_leave [OF count t(1)] by (simp add: count_inv_def)
  then show ?thesis
    using inv t by (auto simp: lock_inv_def table_inv_def holder_inv_def)
qed

text \<open>A reference that was lost keeps the entry of its key for good.\<close>

lemma lost_entry_stays:
  assumes inv: "lock_inv s engaged inside lost" and lost: "0 < lost l" "table s k = Some l"
    and t: "engaged t = Some (k', l')"
  shows "table (lock_leave k' l' s) k = Some l"
proof -
  have count: "count_inv s engaged lost" and tab: "table_inv s engaged"
    using inv by (simp_all add: lock_inv_def)
  have "l' = l" if "k' = k" using tab t lost(2) that unfolding table_inv_def by (metis option.inject)
  moreover have "1 < references s l" if "l' = l"
    using users_after_leave [OF count t, of l] count lost(1) that by (auto simp: count_inv_def)
  ultimately show ?thesis using lost(2) by (auto simp: lock_leave_def Let_def)
qed

lemma lost_entry_enter: "table s k = Some l \<Longrightarrow> table (snd (lock_enter k' s)) k = Some l"
  by (auto simp: lock_enter_def split: option.splits)

text \<open>Two tasks inside for one key are one task.\<close>

lemma lock_exclusive:
  assumes "lock_inv s engaged inside lost" and "inside t" "engaged t = Some (k, l)"
    and "inside t'" "engaged t' = Some (k, l')"
  shows "t = t'"
proof -
  have "table s k = Some l"
    using assms(1,3) unfolding lock_inv_def table_inv_def by blast
  moreover have "table s k = Some l'"
    using assms(1,5) unfolding lock_inv_def table_inv_def by blast
  ultimately have "l = l'" by simp
  then have "holder s l = Some t" "holder s l = Some t'"
    using assms by (auto simp: lock_inv_def holder_inv_def)
  then show ?thesis by simp
qed

end
