(* ===== verification/Admission.thy ===== *)
theory Admission
  imports Machine CompileLock
begin

text \<open>
  The admission control of \<open>BacktestService\<close> (\<open>src/pineforge_data/server.py\<close>): \<open>_admit\<close>,
  the semaphore, the counters and the order in which \<open>run\<close> gives them back, for any number of
  concurrent requests.  A step is one request passing one of the suspension points; a request
  that is cancelled, or whose executor raises, leaves through the same \<open>finally\<close> blocks.
\<close>

section \<open>Counting the tasks in a phase\<close>

lemma inside_finite:
  "finite {t. P (f t)} \<Longrightarrow> finite {t'. P ((f(t := p)) t')}"
  by (rule finite_subset [of _ "insert t {t. P (f t)}"]) auto

lemma card_update:
  assumes "finite {t. P (f t)}"
  shows "int (card {t'. P ((f(t := p)) t')}) = int (card {t. P (f t)}) - of_bool (P (f t)) + of_bool (P p)"
proof -
  let ?A = "{t'. P (f t')}"
  have "{t'. P ((f(t := p)) t')} = (if P p then insert t (?A - {t}) else ?A - {t})"
    by auto
  moreover have "int (card (?A - {t})) = int (card ?A) - of_bool (P (f t))"
    using assms card_Suc_Diff1 [of ?A t] by (cases "P (f t)") auto
  moreover have "card (insert t (?A - {t})) = Suc (card (?A - {t}))"
    using assms by (intro card_insert_disjoint) auto
  ultimately show ?thesis by simp
qed

lemma card_inside_le:
  assumes "finite {t. Q (f t)}" and "\<And>p. P p \<Longrightarrow> Q p"
  shows "card {t. P (f t)} \<le> card {t. Q (f t)}"
  using assms by (intro card_mono) auto

section \<open>State and steps\<close>

text \<open>
  Where a request is: outside, queued for a slot, holding a slot, executing, after the executor
  with the slot, and with nothing but its admission.
\<close>

datatype job = Outside | Queued | Holding | Executing | Stopping | Departing

record admission =
  admitted :: int
  running :: int
  slots :: int
  job_of :: "task \<Rightarrow> job"

record limits =
  max_concurrency :: int
  max_queue :: int

definition open_service :: "limits \<Rightarrow> admission" where
  "open_service m = \<lparr>admitted = 0, running = 0, slots = max_concurrency m, job_of = (\<lambda>t. Outside)\<rparr>"

text \<open>\<open>_admit\<close>: \<open>None\<close> is the error 429.\<close>

definition admit :: "limits \<Rightarrow> admission \<Rightarrow> admission option" where
  "admit m s =
     (if max_concurrency m + max_queue m \<le> admitted s then None else Some (s\<lparr>admitted := admitted s + 1\<rparr>))"

definition release_admission :: "admission \<Rightarrow> admission" where
  "release_admission s = s\<lparr>admitted := admitted s - 1\<rparr>"

definition set_job :: "task \<Rightarrow> job \<Rightarrow> admission \<Rightarrow> admission" where
  "set_job t j s = s\<lparr>job_of := (job_of s)(t := j)\<rparr>"

datatype admission_event =
    Arrive task | Obtain task | GiveUp task | Execute task | Stop task | Abort task | Return task | Depart task

text \<open>
  \<open>GiveUp\<close> is the queue timeout, or a cancellation in the queue; \<open>Abort\<close> is a cancellation
  between the slot and the count of running requests.
\<close>

fun admission_step :: "limits \<Rightarrow> admission_event \<Rightarrow> admission \<Rightarrow> admission option" where
  "admission_step m (Arrive t) s =
     (if job_of s t = Outside then map_option (set_job t Queued) (admit m s) else None)"
| "admission_step m (Obtain t) s =
     (if job_of s t = Queued \<and> 0 < slots s then Some (set_job t Holding (s\<lparr>slots := slots s - 1\<rparr>)) else None)"
| "admission_step m (GiveUp t) s =
     (if job_of s t = Queued then Some (set_job t Departing s) else None)"
| "admission_step m (Execute t) s =
     (if job_of s t = Holding then Some (set_job t Executing (s\<lparr>running := running s + 1\<rparr>)) else None)"
| "admission_step m (Stop t) s =
     (if job_of s t = Executing then Some (set_job t Stopping (s\<lparr>running := running s - 1\<rparr>)) else None)"
| "admission_step m (Abort t) s =
     (if job_of s t = Holding then Some (set_job t Stopping s) else None)"
| "admission_step m (Return t) s =
     (if job_of s t = Stopping then Some (set_job t Departing (s\<lparr>slots := slots s + 1\<rparr>)) else None)"
| "admission_step m (Depart t) s =
     (if job_of s t = Departing then Some (set_job t Outside (release_admission s)) else None)"

record service_status =
  st_running :: int
  st_queued :: int
  st_max_concurrency :: int
  st_max_queue :: int

definition admission_status :: "limits \<Rightarrow> admission \<Rightarrow> service_status" where
  "admission_status m s =
     \<lparr>st_running = running s, st_queued = admitted s - running s,
      st_max_concurrency = max_concurrency m, st_max_queue = max_queue m\<rparr>"

section \<open>The counters count\<close>

fun holds_slot :: "job \<Rightarrow> bool" where
  "holds_slot Holding = True"
| "holds_slot Executing = True"
| "holds_slot Stopping = True"
| "holds_slot _ = False"

abbreviation jobs :: "(job \<Rightarrow> bool) \<Rightarrow> admission \<Rightarrow> int" where
  "jobs P s \<equiv> int (card {t. P (job_of s t)})"

definition admission_inv :: "limits \<Rightarrow> admission \<Rightarrow> bool" where
  "admission_inv m s =
     (finite {t. job_of s t \<noteq> Outside} \<and> admitted s = jobs (\<lambda>j. j \<noteq> Outside) s \<and>
      running s = jobs (\<lambda>j. j = Executing) s \<and> slots s = max_concurrency m - jobs holds_slot s \<and>
      0 \<le> slots s \<and> admitted s \<le> max_concurrency m + max_queue m)"

lemma set_job_simps [simp]:
  "admitted (set_job t j s) = admitted s" "running (set_job t j s) = running s"
  "slots (set_job t j s) = slots s" "job_of (set_job t j s) = (job_of s)(t := j)"
  by (simp_all add: set_job_def)

lemma finite_jobs: "finite {t. job_of s t \<noteq> Outside} \<Longrightarrow> \<not> P Outside \<Longrightarrow> finite {t. P (job_of s t)}"
  by (rule finite_subset [of _ "{t. job_of s t \<noteq> Outside}"]) auto

lemma jobs_update:
  assumes "finite {t. job_of s t \<noteq> Outside}" and "\<not> P Outside" and "job_of s' = (job_of s)(t := j)"
  shows "jobs P s' = jobs P s - of_bool (P (job_of s t)) + of_bool (P j)"
  unfolding assms(3) by (rule card_update [of P "job_of s" t j, OF finite_jobs [of s P, OF assms(1, 2)]])

lemma admission_inv_update:
  assumes "admission_inv m s" and "job_of s' = (job_of s)(t := j)"
    and "admitted s' = admitted s - of_bool (job_of s t \<noteq> Outside) + of_bool (j \<noteq> Outside)"
    and "running s' = running s - of_bool (job_of s t = Executing) + of_bool (j = Executing)"
    and "slots s' = slots s + of_bool (holds_slot (job_of s t)) - of_bool (holds_slot j)"
    and "0 \<le> slots s'" and "admitted s' \<le> max_concurrency m + max_queue m"
  shows "admission_inv m s'"
proof -
  have fin: "finite {t. job_of s t \<noteq> Outside}" using assms(1) by (simp add: admission_inv_def)
  note upd = jobs_update [OF fin _ assms(2)]
  show ?thesis
    using assms upd [of "\<lambda>j. j \<noteq> Outside"] upd [of "\<lambda>j. j = Executing"] upd [of holds_slot]
      inside_finite [of "\<lambda>j. j \<noteq> Outside" "job_of s" t j, OF fin]
    by (simp add: admission_inv_def)
qed

lemma admission_step_inv:
  assumes inv: "admission_inv m s" and step: "admission_step m e s = Some s'"
  shows "admission_inv m s'"
proof -
  have "0 \<le> slots s" "admitted s \<le> max_concurrency m + max_queue m"
    using inv by (simp_all add: admission_inv_def)
  then show ?thesis
    using step
    by (cases e)
      (auto simp: admit_def release_admission_def split: if_splits intro: admission_inv_update [OF inv])
qed

lemma admission_inv_open: "0 < max_concurrency m \<Longrightarrow> 0 \<le> max_queue m \<Longrightarrow> admission_inv m (open_service m)"
  by (simp add: admission_inv_def open_service_def)

interpretation admission: state_machine "admission_step m" "\<lambda>e. True" "admission_inv m" for m
  by unfold_locales (rule admission_step_inv)

definition served :: "limits \<Rightarrow> admission_event list \<Rightarrow> admission \<Rightarrow> bool" where
  "served m es s =
     (0 < max_concurrency m \<and> 0 \<le> max_queue m \<and> run_events (admission_step m) es (open_service m) = Some s)"

lemma served_inv: "served m es s \<Longrightarrow> admission_inv m s"
  using admission.run_inv [of m es "open_service m" s] admission_inv_open
  by (simp add: served_def list_all_iff)

section \<open>Properties\<close>

text \<open>
  C16. At every moment at most \<open>max_concurrency\<close> requests execute and at most
  \<open>max_concurrency + max_queue\<close> are inside; the counters are the numbers of requests inside and
  executing, the status never shows a negative queue, and a new request is refused exactly when
  the service is full.
\<close>

theorem admission_bounds:
  assumes "served m es s"
  shows "card {t. job_of s t = Executing} \<le> nat (max_concurrency m) \<and>
    card {t. job_of s t \<noteq> Outside} \<le> nat (max_concurrency m + max_queue m) \<and>
    admission_status m s =
      \<lparr>st_running = jobs (\<lambda>j. j = Executing) s, st_queued = jobs (\<lambda>j. j \<noteq> Outside \<and> j \<noteq> Executing) s,
       st_max_concurrency = max_concurrency m, st_max_queue = max_queue m\<rparr> \<and>
    (admit m s = None) = (jobs (\<lambda>j. j \<noteq> Outside) s = max_concurrency m + max_queue m)"
proof -
  have inv: "admission_inv m s" by (rule served_inv [OF assms])
  then have fin: "finite {t. job_of s t \<noteq> Outside}" by (simp add: admission_inv_def)
  have slot: "card {t. job_of s t = Executing} \<le> card {t. holds_slot (job_of s t)}"
    by (rule card_inside_le [of holds_slot "job_of s", OF finite_jobs [of s holds_slot, OF fin]]) auto
  have "card ({t. job_of s t \<noteq> Outside \<and> job_of s t \<noteq> Executing} \<union> {t. job_of s t = Executing}) =
      card {t. job_of s t \<noteq> Outside \<and> job_of s t \<noteq> Executing} + card {t. job_of s t = Executing}"
  proof (rule card_Un_disjoint)
    show "finite {t. job_of s t \<noteq> Outside \<and> job_of s t \<noteq> Executing}"
      by (rule finite_subset [OF _ fin]) auto
    show "finite {t. job_of s t = Executing}" by (rule finite_subset [OF _ fin]) auto
  qed auto
  also have "{t. job_of s t \<noteq> Outside \<and> job_of s t \<noteq> Executing} \<union> {t. job_of s t = Executing} =
      {t. job_of s t \<noteq> Outside}"
    by auto
  finally have inside: "card {t. job_of s t \<noteq> Outside} =
      card {t. job_of s t \<noteq> Outside \<and> job_of s t \<noteq> Executing} + card {t. job_of s t = Executing}" .
  show ?thesis
    using inv slot inside unfolding admission_inv_def admission_status_def admit_def
    by (intro conjI) (simp_all split: if_splits, linarith+)
qed

text \<open>
  No slot is lost: when every request has left, whatever happened to them, the service is
  back in its first state; and while a slot is free every queued request can obtain one.
\<close>

theorem slots_return:
  assumes "served m es s"
  shows "(if \<forall>t. job_of s t = Outside then s = open_service m
          else jobs holds_slot s = max_concurrency m \<or>
            (\<forall>t. job_of s t = Queued \<longrightarrow> admission_step m (Obtain t) s \<noteq> None))"
proof (cases "\<forall>t. job_of s t = Outside")
  case True
  then have "job_of s = (\<lambda>t. Outside)" by auto
  then show ?thesis using served_inv [OF assms] True by (cases s) (simp add: admission_inv_def open_service_def)
next
  case False
  then show ?thesis using served_inv [OF assms] by (auto simp: admission_inv_def)
qed

definition small_limits :: limits where "small_limits = \<lparr>max_concurrency = 1, max_queue = 1\<rparr>"

definition full_service :: "admission_event list" where
  "full_service = [Arrive 0, Obtain 0, Execute 0, Arrive 1]"

definition emptied_service :: "admission_event list" where
  "emptied_service = full_service @ [Stop 0, Return 0, Obtain 1, Abort 1, Depart 0, Return 1, Depart 1]"

definition service_after :: "admission_event list \<Rightarrow> admission" where
  "service_after es = the (run_events (admission_step small_limits) es (open_service small_limits))"

lemma full_service_served: "served small_limits full_service (service_after full_service)"
  by (simp add: served_def service_after_def full_service_def small_limits_def open_service_def admit_def set_job_def)

lemma emptied_service_served: "served small_limits emptied_service (service_after emptied_service)"
  by (simp add: served_def service_after_def emptied_service_def full_service_def small_limits_def
      open_service_def admit_def set_job_def release_admission_def)

lemma emptied_service_jobs: "job_of (service_after emptied_service) t = Outside"
  by (simp add: service_after_def emptied_service_def full_service_def small_limits_def
      open_service_def admit_def set_job_def release_admission_def)

lemma admission_bounds_witness:
  "card {t. job_of (service_after full_service) t = Executing} \<le> 1"
  using admission_bounds [OF full_service_served] by (simp add: small_limits_def)

lemma slots_return_witness: "service_after emptied_service = open_service small_limits"
  using slots_return [OF emptied_service_served] emptied_service_jobs by simp

end
