(* ===== verification/StrategyRun.thy ===== *)
theory StrategyRun
  imports CompileLock
begin

text \<open>
  How the server uses the compile cache: the part of \<open>BacktestService._execute_release\<close>
  (\<open>src/pineforge_data/server.py\<close>) from the compile lock to the eviction, for any number of
  concurrent requests.  A step is one request moving to its next suspension point; which request
  moves is not determined.  A request that is cancelled while it waits for the lock is a step of
  its own; cancellation inside the file operations is not modelled.
\<close>

section \<open>Requests and their steps\<close>

text \<open>
  \<open>abandoned\<close> is not state of the program: it counts, for each lock object, the requests that
  were cancelled while they waited for it.
\<close>

datatype phase =
    Idle
  | Waiting string lock_id
  | Locked string lock_id
  | Compiling string lock_id string
  | Reserved string lock_id
  | Failed string lock_id
  | Leaving string lock_id bool
  | Running string
  | Evicting

record runs =
  run_locks :: locks
  run_store :: compile_cache
  phase_of :: "task \<Rightarrow> phase"
  abandoned :: "lock_id \<Rightarrow> nat"

datatype run_event =
    Begin task string | Take task | Abandon task | Find task int string | Output task file_stat
  | Publish task | CompileFails task | Unlock task | Leave task | Finish task bool | Evict task

definition discard :: "string \<Rightarrow> compile_cache \<Rightarrow> compile_cache" where
  "discard name c = c\<lparr>files := AList.delete name (files c)\<rparr>"

definition move :: "task \<Rightarrow> phase \<Rightarrow> runs \<Rightarrow> runs" where
  "move t p s = s\<lparr>phase_of := (phase_of s)(t := p)\<rparr>"

text \<open>
  \<open>Find\<close> is \<open>cache.acquire\<close> under the lock, \<open>Output\<close> the compiler writing its file, \<open>Publish\<close>
  the commit with the \<open>finally\<close> that removes a left-over temporary file, \<open>Finish\<close> the end of the
  backtest process with the release of the reservation; only a successful backtest goes on to evict.
\<close>

fun run_step :: "run_event \<Rightarrow> runs \<Rightarrow> runs option" where
  "run_step (Begin t k) s =
     (case phase_of s t of
        Idle \<Rightarrow> (case lock_enter k (run_locks s) of (l, L) \<Rightarrow> Some (move t (Waiting k l) (s\<lparr>run_locks := L\<rparr>)))
      | _ \<Rightarrow> None)"
| "run_step (Take t) s =
     (case phase_of s t of
        Waiting k l \<Rightarrow> (case lock_take t l (run_locks s) of None \<Rightarrow> None
                       | Some L \<Rightarrow> Some (move t (Locked k l) (s\<lparr>run_locks := L\<rparr>)))
      | _ \<Rightarrow> None)"
| "run_step (Abandon t) s =
     (case phase_of s t of Waiting k l \<Rightarrow> Some (move t Idle (s\<lparr>abandoned := (abandoned s)(l := abandoned s l + 1)\<rparr>))
      | _ \<Rightarrow> None)"
| "run_step (Find t now uuid) s =
     (case phase_of s t of
        Locked k l \<Rightarrow>
          (case acquire now k (run_store s) of
             (Some path, c) \<Rightarrow> Some (move t (Reserved k l) (s\<lparr>run_store := c\<rparr>))
           | (None, c) \<Rightarrow> Some (move t (Compiling k l (temporary_path k uuid)) (s\<lparr>run_store := c\<rparr>)))
      | _ \<Rightarrow> None)"
| "run_step (Output t st) s =
     (case phase_of s t of
        Compiling k l tmp \<Rightarrow>
          Some (s\<lparr>run_store := (run_store s)\<lparr>files := AList.update tmp st (files (run_store s))\<rparr>\<rparr>)
      | _ \<Rightarrow> None)"
| "run_step (Publish t) s =
     (case phase_of s t of
        Compiling k l tmp \<Rightarrow>
          (case commit_and_acquire k tmp (run_store s) of
             Inr (path, c) \<Rightarrow> Some (move t (Reserved k l) (s\<lparr>run_store := discard tmp c\<rparr>))
           | Inl e \<Rightarrow> Some (move t (Failed k l) (s\<lparr>run_store := discard tmp (run_store s)\<rparr>)))
      | _ \<Rightarrow> None)"
| "run_step (CompileFails t) s =
     (case phase_of s t of
        Compiling k l tmp \<Rightarrow> Some (move t (Failed k l) (s\<lparr>run_store := discard tmp (run_store s)\<rparr>))
      | _ \<Rightarrow> None)"
| "run_step (Unlock t) s =
     (case phase_of s t of
        Reserved k l \<Rightarrow> Some (move t (Leaving k l True) (s\<lparr>run_locks := lock_free l (run_locks s)\<rparr>))
      | Failed k l \<Rightarrow> Some (move t (Leaving k l False) (s\<lparr>run_locks := lock_free l (run_locks s)\<rparr>))
      | _ \<Rightarrow> None)"
| "run_step (Leave t) s =
     (case phase_of s t of
        Leaving k l b \<Rightarrow>
          Some (move t (if b then Running k else Idle) (s\<lparr>run_locks := lock_leave k l (run_locks s)\<rparr>))
      | _ \<Rightarrow> None)"
| "run_step (Finish t succeeded) s =
     (case phase_of s t of
        Running k \<Rightarrow>
          Some (move t (if succeeded then Evicting else Idle) (s\<lparr>run_store := release k (run_store s)\<rparr>))
      | _ \<Rightarrow> None)"
| "run_step (Evict t) s =
     (case phase_of s t of
        Evicting \<Rightarrow> Some (move t Idle (s\<lparr>run_store := trim (run_store s)\<rparr>))
      | _ \<Rightarrow> None)"

text \<open>Cache keys are digests, never empty.\<close>

fun digest_key :: "run_event \<Rightarrow> bool" where
  "digest_key (Begin t k) = (k \<noteq> [])"
| "digest_key _ = True"

section \<open>Reservations of the tasks\<close>

fun phase_lock :: "phase \<Rightarrow> (string \<times> lock_id) option" where
  "phase_lock (Waiting k l) = Some (k, l)"
| "phase_lock (Locked k l) = Some (k, l)"
| "phase_lock (Compiling k l tmp) = Some (k, l)"
| "phase_lock (Reserved k l) = Some (k, l)"
| "phase_lock (Failed k l) = Some (k, l)"
| "phase_lock (Leaving k l b) = Some (k, l)"
| "phase_lock _ = None"

fun phase_inside :: "phase \<Rightarrow> bool" where
  "phase_inside (Locked k l) = True"
| "phase_inside (Compiling k l tmp) = True"
| "phase_inside (Reserved k l) = True"
| "phase_inside (Failed k l) = True"
| "phase_inside _ = False"

fun phase_uses :: "phase \<Rightarrow> string option" where
  "phase_uses (Reserved k l) = Some k"
| "phase_uses (Leaving k l b) = (if b then Some k else None)"
| "phase_uses (Running k) = Some k"
| "phase_uses _ = None"

definition store_inv :: "compile_cache \<Rightarrow> (task \<Rightarrow> string option) \<Rightarrow> bool" where
  "store_inv c uses =
     (wf_cache c \<and> finite {t. uses t \<noteq> None} \<and>
      (\<forall>k. active_count c k = int (card {t. uses t = Some k})) \<and>
      (\<forall>t k. uses t = Some k \<longrightarrow> on_disk c k \<and> k \<noteq> []))"

lemma uses_finite: "finite {t. uses t \<noteq> None} \<Longrightarrow> finite {t. uses t = Some k}"
  by (rule finite_subset [of _ "{t. uses t \<noteq> None}"]) auto

lemma uses_update_finite: "finite {t. uses t \<noteq> None} \<Longrightarrow> finite {t'. (uses(t := u)) t' \<noteq> None}"
  by (rule finite_subset [of _ "insert t {t. uses t \<noteq> None}"]) auto

lemma store_inv_gain:
  assumes inv: "store_inv c uses" and t: "uses t = None" and k: "k \<noteq> []"
    and c': "active_count c' = (active_count c)(k := active_count c k + 1)" "on_disk c' k"
      "\<And>k'. on_disk c k' \<Longrightarrow> on_disk c' k'" "wf_cache c'"
  shows "store_inv c' (uses(t \<mapsto> k))"
proof -
  have fin: "finite {t. uses t \<noteq> None}" using inv by (simp add: store_inv_def)
  have "{t'. (uses(t \<mapsto> k)) t' = Some k'} = (if k' = k then insert t {t'. uses t' = Some k} else {t'. uses t' = Some k'})" for k'
    using t by auto
  then have "card {t'. (uses(t \<mapsto> k)) t' = Some k'} = card {t'. uses t' = Some k'} + (if k' = k then 1 else 0)" for k'
    using uses_finite [OF fin] t by simp
  then have "active_count c' k' = int (card {t'. (uses(t \<mapsto> k)) t' = Some k'})" for k'
    using inv unfolding c'(1) store_inv_def by simp
  moreover have "on_disk c' k' \<and> k' \<noteq> []" if "(uses(t \<mapsto> k)) t' = Some k'" for t' k'
    using that inv c'(2,3) k by (auto simp: store_inv_def split: if_splits)
  ultimately show ?thesis
    using uses_update_finite [OF fin] c'(4) by (simp add: store_inv_def)
qed

lemma store_inv_drop:
  assumes inv: "store_inv c uses" and t: "uses t = Some k"
  shows "store_inv (release k c) (uses(t := None))"
proof -
  have fin: "finite {t. uses t \<noteq> None}" using inv by (simp add: store_inv_def)
  have "{t'. (uses(t := None)) t' = Some k'} = {t'. uses t' = Some k'} - {t}" for k' by auto
  moreover have "t \<in> {t'. uses t' = Some k'} \<longleftrightarrow> k' = k" for k' using t by auto
  moreover have "int (card ({t'. uses t' = Some k} - {t})) = int (card {t'. uses t' = Some k}) - 1"
    using card_Suc_Diff1 [OF uses_finite [OF fin], of t k] t by simp
  ultimately have "active_count (release k c) k' = int (card {t'. (uses(t := None)) t' = Some k'})" for k'
    using inv by (cases "k' = k") (auto simp: store_inv_def)
  then show ?thesis
    using uses_update_finite [OF fin] inv by (auto simp: store_inv_def)
qed

lemma store_inv_other:
  assumes "store_inv c uses" and "active_count c' = active_count c" "wf_cache c'"
    and "\<And>k. 0 < active_count c k \<Longrightarrow> k \<noteq> [] \<Longrightarrow> on_disk c k \<Longrightarrow> on_disk c' k"
  shows "store_inv c' uses"
proof -
  have "0 < active_count c k" if "uses t = Some k" for t k
  proof -
    have "card {t'. uses t' = Some k} \<noteq> 0"
      using assms(1) uses_finite [of uses k] that by (auto simp: store_inv_def)
    then show ?thesis using assms(1) by (simp add: store_inv_def)
  qed
  then show ?thesis using assms by (auto simp: store_inv_def)
qed

section \<open>The invariant\<close>

text \<open>Keys are not empty, and a task compiles into a temporary file.\<close>

fun phase_ok :: "phase \<Rightarrow> bool" where
  "phase_ok (Waiting k l) = (k \<noteq> [])"
| "phase_ok (Locked k l) = (k \<noteq> [])"
| "phase_ok (Compiling k l tmp) = (k \<noteq> [] \<and> \<not> is_artifact tmp)"
| "phase_ok _ = True"

definition run_inv :: "runs \<Rightarrow> bool" where
  "run_inv s =
     (lock_inv (run_locks s) (phase_lock \<circ> phase_of s) (phase_inside \<circ> phase_of s) (abandoned s) \<and>
      store_inv (run_store s) (phase_uses \<circ> phase_of s) \<and>
      (\<forall>t. phase_ok (phase_of s t)) \<and> finite {t. phase_of s t \<noteq> Idle})"

definition start_runs :: "compile_cache \<Rightarrow> runs" where
  "start_runs c = \<lparr>run_locks = no_locks, run_store = c, phase_of = (\<lambda>t. Idle), abandoned = (\<lambda>l. 0)\<rparr>"

lemma temporary_plain [simp]: "\<not> is_artifact (temporary_path k u)"
  by (simp add: is_artifact_def temporary_path_def)

lemma run_inv_start:
  assumes "wf_cache c" and "active c = []"
  shows "run_inv (start_runs c)"
  using assms lock_inv_start
  by (simp add: run_inv_def start_runs_def store_inv_def comp_def active_count_def)

lemma discard_store [simp]:
  "active_count (discard name c) = active_count c"
  "\<not> is_artifact name \<Longrightarrow> on_disk (discard name c) = on_disk c"
  "wf_cache c \<Longrightarrow> wf_cache (discard name c)"
  by (auto simp: discard_def on_disk_def delete_conv' wf_cache_def fun_eq_iff)

text \<open>Each step rewrites the phase of one task; the parts of the invariant follow.\<close>

lemma run_inv_move:
  assumes "lock_inv (run_locks s) ((phase_lock \<circ> phase_of s)(t := phase_lock p)) ((phase_inside \<circ> phase_of s)(t := phase_inside p)) (abandoned s)"
    and "store_inv (run_store s) ((phase_uses \<circ> phase_of s)(t := phase_uses p))"
    and "\<forall>t. phase_ok (phase_of s t)" and "phase_ok p" and "finite {t. phase_of s t \<noteq> Idle}"
  shows "run_inv (move t p s)"
proof -
  have "finite {u. ((phase_of s)(t := p)) u \<noteq> Idle}"
    by (rule finite_subset [OF _ finite.insertI [OF assms(5)]]) auto
  then show ?thesis using assms by (simp add: run_inv_def move_def fun_upd_comp)
qed

lemma same_update: "f t = x \<Longrightarrow> f(t := x) = f"
  by auto

lemma run_step_begin:
  assumes inv: "run_inv s" and "k \<noteq> []" and step: "run_step (Begin t k) s = Some s'"
  shows "run_inv s'"
proof -
  obtain l L where idle: "phase_of s t = Idle" and enter: "lock_enter k (run_locks s) = (l, L)"
    and s': "s' = move t (Waiting k l) (s\<lparr>run_locks := L\<rparr>)"
    using step by (auto split: phase.splits prod.splits)
  have "lock_inv L ((phase_lock \<circ> phase_of s)(t \<mapsto> (k, l))) (phase_inside \<circ> phase_of s) (abandoned s)"
    using inv idle enter by (intro lock_inv_enter) (auto simp: run_inv_def)
  then show ?thesis
    unfolding s' using inv assms(2) idle
    by (intro run_inv_move) (auto simp: run_inv_def same_update)
qed

lemma run_step_take:
  assumes inv: "run_inv s" and step: "run_step (Take t) s = Some s'"
  shows "run_inv s'"
proof -
  obtain k l L where ph: "phase_of s t = Waiting k l" and tk: "lock_take t l (run_locks s) = Some L"
    and s': "s' = move t (Locked k l) (s\<lparr>run_locks := L\<rparr>)"
    using step by (auto split: phase.splits option.splits)
  have "lock_inv L (phase_lock \<circ> phase_of s) ((phase_inside \<circ> phase_of s)(t := True)) (abandoned s)"
    using inv ph tk by (intro lock_inv_take) (auto simp: run_inv_def)
  moreover have "phase_ok (phase_of s t)" using inv by (simp add: run_inv_def)
  ultimately show ?thesis
    unfolding s' using inv ph
    by (intro run_inv_move) (auto simp: run_inv_def same_update)
qed

lemma run_step_abandon:
  assumes inv: "run_inv s" and step: "run_step (Abandon t) s = Some s'"
  shows "run_inv s'"
proof -
  obtain k l where ph: "phase_of s t = Waiting k l" and s': "s' = move t Idle (s\<lparr>abandoned := (abandoned s)(l := abandoned s l + 1)\<rparr>)"
    using step by (auto split: phase.splits)
  have "lock_inv (run_locks s) ((phase_lock \<circ> phase_of s)(t := None)) (phase_inside \<circ> phase_of s)
      ((abandoned s)(l := abandoned s l + 1))"
    using inv ph by (intro lock_inv_abandon) (auto simp: run_inv_def)
  then show ?thesis
    unfolding s' using inv ph
    by (intro run_inv_move) (auto simp: run_inv_def same_update)
qed

lemma run_step_unlock:
  assumes inv: "run_inv s" and step: "run_step (Unlock t) s = Some s'"
  shows "run_inv s'"
proof -
  obtain k l b where ph: "phase_of s t = (if b then Reserved k l else Failed k l)"
    and s': "s' = move t (Leaving k l b) (s\<lparr>run_locks := lock_free l (run_locks s)\<rparr>)"
    using step by (auto split: phase.splits) (metis, metis)
  have "lock_inv (lock_free l (run_locks s)) (phase_lock \<circ> phase_of s) ((phase_inside \<circ> phase_of s)(t := False)) (abandoned s)"
    using inv ph by (intro lock_inv_free) (auto simp: run_inv_def)
  then show ?thesis
    unfolding s' using inv ph
    by (intro run_inv_move) (auto simp: run_inv_def same_update split: if_splits)
qed

lemma run_step_leave:
  assumes inv: "run_inv s" and step: "run_step (Leave t) s = Some s'"
  shows "run_inv s'"
proof -
  obtain k l b where ph: "phase_of s t = Leaving k l b"
    and s': "s' = move t (if b then Running k else Idle) (s\<lparr>run_locks := lock_leave k l (run_locks s)\<rparr>)"
    using step by (auto split: phase.splits)
  have "lock_inv (lock_leave k l (run_locks s)) ((phase_lock \<circ> phase_of s)(t := None)) (phase_inside \<circ> phase_of s) (abandoned s)"
    using inv ph by (intro lock_inv_leave) (auto simp: run_inv_def)
  then show ?thesis
    unfolding s' using inv ph
    by (intro run_inv_move) (auto simp: run_inv_def same_update)
qed

lemma run_step_find:
  assumes inv: "run_inv s" and step: "run_step (Find t now uuid) s = Some s'"
  shows "run_inv s'"
proof -
  obtain k l where ph: "phase_of s t = Locked k l" using step by (auto split: phase.splits)
  have ok: "phase_ok (phase_of s t)" using inv by (simp add: run_inv_def)
  have k: "k \<noteq> []" and store: "store_inv (run_store s) (phase_uses \<circ> phase_of s)"
    using inv ph ok by (simp_all add: run_inv_def)
  show ?thesis
  proof (cases "on_disk (run_store s) k")
    case True
    then obtain c where c: "acquire now k (run_store s) = (Some (artifact k), c)" "on_disk c = on_disk (run_store s)"
        "active_count c = (active_count (run_store s))(k := active_count (run_store s) k + 1)"
        "wf_cache (run_store s) \<longrightarrow> wf_cache c"
      using acquire_hit by blast
    have s': "s' = move t (Reserved k l) (s\<lparr>run_store := c\<rparr>)" using step ph c(1) by simp
    have "store_inv c ((phase_uses \<circ> phase_of s)(t \<mapsto> k))"
      using store ph k c True by (intro store_inv_gain [OF store]) (auto simp: store_inv_def)
    then show ?thesis
      unfolding s' using inv ph k by (intro run_inv_move) (auto simp: run_inv_def same_update)
  next
    case False
    then have s': "s' = move t (Compiling k l (temporary_path k uuid))
        (s\<lparr>run_store := (run_store s)\<lparr>misses := misses (run_store s) + 1\<rparr>\<rparr>)"
      using step ph acquire_miss by simp
    have "store_inv ((run_store s)\<lparr>misses := misses (run_store s) + 1\<rparr>) (phase_uses \<circ> phase_of s)"
      using store by (auto simp: store_inv_def)
    then show ?thesis
      unfolding s' using inv ph k by (intro run_inv_move) (auto simp: run_inv_def same_update)
  qed
qed

lemma run_step_output:
  assumes inv: "run_inv s" and step: "run_step (Output t st) s = Some s'"
  shows "run_inv s'"
proof -
  obtain k l tmp where ph: "phase_of s t = Compiling k l tmp"
    and s': "s' = s\<lparr>run_store := (run_store s)\<lparr>files := AList.update tmp st (files (run_store s))\<rparr>\<rparr>"
    using step by (auto split: phase.splits)
  have "phase_ok (phase_of s t)" using inv by (simp add: run_inv_def)
  then have "artifact k' \<noteq> tmp" for k' using ph by auto
  then have "on_disk ((run_store s)\<lparr>files := AList.update tmp st (files (run_store s))\<rparr>) k' = on_disk (run_store s) k'" for k'
    by (simp add: on_disk_def update_conv')
  then show ?thesis
    using inv by (simp add: s' run_inv_def store_inv_def wf_cache_def)
qed

lemma run_inv_fails:
  assumes inv: "run_inv s" and ph: "phase_of s t = Compiling k l tmp"
  shows "run_inv (move t (Failed k l) (s\<lparr>run_store := discard tmp (run_store s)\<rparr>))"
proof -
  have "phase_ok (phase_of s t)" using inv by (simp add: run_inv_def)
  then have "store_inv (discard tmp (run_store s)) (phase_uses \<circ> phase_of s)"
    using inv ph by (simp add: run_inv_def store_inv_def)
  then show ?thesis
    using inv ph by (intro run_inv_move) (auto simp: run_inv_def same_update)
qed

lemma run_step_publish:
  assumes inv: "run_inv s" and step: "run_step (Publish t) s = Some s'"
  shows "run_inv s'"
proof -
  obtain k l tmp where ph: "phase_of s t = Compiling k l tmp" using step by (auto split: phase.splits)
  show ?thesis
  proof (cases "commit_and_acquire k tmp (run_store s)")
    case (Inl e)
    then show ?thesis using step ph run_inv_fails [OF inv ph] by simp
  next
    case (Inr r)
    then obtain path c where c: "commit_and_acquire k tmp (run_store s) = Inr (path, c)" by (cases r) auto
    have ok: "phase_ok (phase_of s t)" and store: "store_inv (run_store s) (phase_uses \<circ> phase_of s)"
      using inv by (simp_all add: run_inv_def)
    have plain: "\<not> is_artifact tmp" "k \<noteq> []" using ok ph by simp_all
    note published = commit_returns [OF c plain(1)]
    have "store_inv (discard tmp c) ((phase_uses \<circ> phase_of s)(t \<mapsto> k))"
      using published plain store ph
      by (intro store_inv_gain [OF store]) (auto simp: store_inv_def)
    moreover have "s' = move t (Reserved k l) (s\<lparr>run_store := discard tmp c\<rparr>)"
      using step ph c by simp
    ultimately show ?thesis
      using inv ph plain by (simp, intro run_inv_move) (auto simp: run_inv_def same_update)
  qed
qed

lemma run_step_finish:
  assumes inv: "run_inv s" and step: "run_step (Finish t b) s = Some s'"
  shows "run_inv s'"
proof -
  obtain k where ph: "phase_of s t = Running k"
    and s': "s' = move t (if b then Evicting else Idle) (s\<lparr>run_store := release k (run_store s)\<rparr>)"
    using step by (auto split: phase.splits)
  have "store_inv (release k (run_store s)) ((phase_uses \<circ> phase_of s)(t := None))"
    using inv ph by (intro store_inv_drop) (auto simp: run_inv_def)
  then show ?thesis
    unfolding s' using inv ph by (intro run_inv_move) (auto simp: run_inv_def same_update)
qed

lemma run_step_evict:
  assumes inv: "run_inv s" and step: "run_step (Evict t) s = Some s'"
  shows "run_inv s'"
proof -
  have ph: "phase_of s t = Evicting" and s': "s' = move t Idle (s\<lparr>run_store := trim (run_store s)\<rparr>)"
    using step by (auto split: phase.splits)
  have store: "store_inv (run_store s) (phase_uses \<circ> phase_of s)" using inv by (simp add: run_inv_def)
  have "store_inv (trim (run_store s)) (phase_uses \<circ> phase_of s)"
    using store trim_store by (intro store_inv_other [OF store]) (auto simp: store_inv_def)
  then show ?thesis
    unfolding s' using inv ph by (intro run_inv_move) (auto simp: run_inv_def same_update)
qed

lemma run_step_inv: "run_inv s \<Longrightarrow> digest_key e \<Longrightarrow> run_step e s = Some s' \<Longrightarrow> run_inv s'"
proof (cases e)
  case (CompileFails t)
  assume "run_inv s" "run_step e s = Some s'"
  then show ?thesis using CompileFails run_inv_fails by (auto split: phase.splits)
qed (auto simp del: run_step.simps intro: run_step_begin run_step_take run_step_abandon run_step_find
    run_step_output run_step_publish run_step_unlock run_step_leave run_step_finish run_step_evict)

interpretation strategy: state_machine run_step digest_key run_inv
  by unfold_locales (rule run_step_inv)

section \<open>Properties\<close>

text \<open>The states of a server whose cache starts with the given files.\<close>

definition reaches :: "compile_cache \<Rightarrow> run_event list \<Rightarrow> runs \<Rightarrow> bool" where
  "reaches c es s = (run_events run_step es (start_runs c) = Some s)"

lemma reaches_inv:
  "wf_cache c \<Longrightarrow> active c = [] \<Longrightarrow> list_all digest_key es \<Longrightarrow> reaches c es s \<Longrightarrow> run_inv s"
  using strategy.run_inv run_inv_start by (simp add: reaches_def)


text \<open>
  C1. A backtest process runs on an artifact that is on the disk for as long as it runs, and the
  cache counts exactly the requests that hold each artifact, so no reservation is lost or leaked.
\<close>

theorem running_artifact_present:
  assumes "wf_cache c" and "active c = []" and "list_all digest_key es" and "reaches c es s"
  shows "active_count (run_store s) k = int (card {t. phase_uses (phase_of s t) = Some k}) \<and>
    (phase_of s t = Running k \<longrightarrow> on_disk (run_store s) k)"
proof -
  have inv: "store_inv (run_store s) (phase_uses \<circ> phase_of s)"
    using reaches_inv [OF assms] by (simp add: run_inv_def)
  then have "on_disk (run_store s) k" if "phase_of s t = Running k"
    using that unfolding store_inv_def by (metis comp_apply phase_uses.simps(3))
  then show ?thesis using inv by (simp add: store_inv_def)
qed

text \<open>
  While a strategy is in use, every further request for it finds it: nothing is compiled twice.
\<close>

theorem compiled_once_while_used:
  assumes "wf_cache c" and "active c = []" and "list_all digest_key es" and "reaches c es s"
    and "phase_uses (phase_of s u) = Some k" and "phase_of s t = Locked k l"
  shows "\<exists>s'. run_step (Find t now uuid) s = Some s' \<and> phase_of s' t = Reserved k l"
proof -
  have "store_inv (run_store s) (phase_uses \<circ> phase_of s)"
    using reaches_inv [OF assms(1-4)] by (simp add: run_inv_def)
  then have "on_disk (run_store s) k" using assms(5) unfolding store_inv_def by (metis comp_apply)
  then obtain c' where "acquire now k (run_store s) = (Some (artifact k), c')" using acquire_hit by blast
  then show ?thesis using assms(6) by (simp add: move_def)
qed

section \<open>Requests finish\<close>

text \<open>The events that move a request that has begun.\<close>

fun advances :: "run_event \<Rightarrow> bool" where
  "advances (Begin t k) = False"
| "advances (Output t st) = False"
| "advances _ = True"

fun weight :: "phase \<Rightarrow> nat" where
  "weight Idle = 0"
| "weight Evicting = 1"
| "weight (Running k) = 2"
| "weight (Leaving k l b) = 3"
| "weight (Reserved k l) = 4"
| "weight (Failed k l) = 4"
| "weight (Compiling k l tmp) = 5"
| "weight (Locked k l) = 6"
| "weight (Waiting k l) = 7"

definition work_left :: "runs \<Rightarrow> nat" where
  "work_left s = sum (weight \<circ> phase_of s) {t. phase_of s t \<noteq> Idle}"

lemma work_left_move:
  assumes "finite {u. phase_of s u \<noteq> Idle}" and "phase_of s' = (phase_of s)(t := p)"
    and "weight p < weight (phase_of s t)"
  shows "work_left s' < work_left s"
proof -
  let ?B = "{u. phase_of s u \<noteq> Idle}"
  have t: "t \<in> ?B" using assms(3) by auto
  have "work_left s' = sum (weight \<circ> phase_of s') ?B"
    unfolding work_left_def using assms t
    by (intro sum.mono_neutral_left) (auto split: if_splits)
  also have "\<dots> < sum (weight \<circ> phase_of s) ?B"
    using assms t by (intro sum_strict_mono_ex1) auto
  finally show ?thesis by (simp add: work_left_def)
qed

lemma advance_phase:
  assumes "advances e" and "run_step e s = Some s'"
  obtains t p where "phase_of s' = (phase_of s)(t := p)" and "weight p < weight (phase_of s t)"
  using assms
  by (cases e) (auto simp: move_def split: phase.splits option.splits prod.splits sum.splits if_splits)

lemma advance_allowed: "advances e \<Longrightarrow> digest_key e"
  by (cases e) simp_all

lemma advance_work: "run_inv s \<Longrightarrow> advances e \<Longrightarrow> run_step e s = Some s' \<Longrightarrow> work_left s' < work_left s"
proof -
  assume "run_inv s" "advances e" "run_step e s = Some s'"
  then obtain t p where "phase_of s' = (phase_of s)(t := p)" "weight p < weight (phase_of s t)"
    using advance_phase by blast
  then show ?thesis using \<open>run_inv s\<close> work_left_move by (simp add: run_inv_def)
qed

lemma advance_bounded:
  "run_inv s \<Longrightarrow> list_all advances es \<Longrightarrow> run_events run_step es s = Some s' \<Longrightarrow>
   length es + work_left s' \<le> work_left s"
proof (induction es arbitrary: s)
  case (Cons e es)
  obtain s1 where s1: "run_step e s = Some s1" "run_events run_step es s1 = Some s'"
    using Cons.prems(3) by (auto split: option.splits)
  have "run_inv s1" using Cons.prems s1(1) advance_allowed by (auto intro: run_step_inv)
  then have "length es + work_left s' \<le> work_left s1" using Cons s1(2) by simp
  moreover have "work_left s1 < work_left s" using Cons.prems advance_work [OF _ _ s1(1)] by simp
  ultimately show ?case by simp
qed simp

text \<open>A request that waits can take the lock, or the holder of the lock can move.\<close>

lemma some_advance:
  assumes inv: "run_inv s" and "phase_of s t \<noteq> Idle"
  shows "\<exists>e s'. advances e \<and> run_step e s = Some s'"
proof -
  have mover: ?thesis if "phase_inside (phase_of s u)" for u
  proof (cases "phase_of s u")
    case (Locked k l)
    then have "\<exists>s'. run_step (Find u 0 []) s = Some s'" by (auto split: prod.splits option.splits)
    then show ?thesis by (intro exI [of _ "Find u 0 []"]) simp
  next
    case (Compiling k l tmp)
    then show ?thesis by (intro exI [of _ "CompileFails u"]) simp
  qed (use that in \<open>auto intro: exI [of _ "Unlock u"]\<close>)
  show ?thesis
  proof (cases "phase_of s t")
    case (Waiting k l)
    show ?thesis
    proof (cases "holder (run_locks s) l")
      case None
      then show ?thesis using Waiting by (intro exI [of _ "Take t"]) (simp add: lock_take_def)
    next
      case (Some u)
      then have "phase_inside (phase_of s u)"
        using inv by (auto simp: run_inv_def lock_inv_def holder_inv_def)
      then show ?thesis by (rule mover)
    qed
  next
    case (Leaving k l b)
    then show ?thesis by (intro exI [of _ "Leave t"]) simp
  next
    case (Running k)
    then show ?thesis by (intro exI [of _ "Finish t True"]) simp
  next
    case Evicting
    then show ?thesis by (intro exI [of _ "Evict t"]) simp
  qed (use assms(2) mover [of t] in simp_all)
qed

lemma drains:
  "run_inv s \<Longrightarrow> \<exists>es s'. list_all advances es \<and> run_events run_step es s = Some s' \<and> (\<forall>t. phase_of s' t = Idle)"
proof (induction "work_left s" arbitrary: s rule: less_induct)
  case less
  show ?case
  proof (cases "\<forall>t. phase_of s t = Idle")
    case True
    then show ?thesis by (intro exI [of _ "[]"]) simp
  next
    case False
    then obtain e s1 where e: "advances e" "run_step e s = Some s1" using some_advance less.prems by blast
    then have "run_inv s1" using less.prems advance_allowed run_step_inv by blast
    then obtain es s' where "list_all advances es" "run_events run_step es s1 = Some s'"
        "\<forall>t. phase_of s' t = Idle"
      using less.hyps [of s1] advance_work less.prems e by blast
    then show ?thesis using e by (intro exI [of _ "e # es"]) simp
  qed
qed


section \<open>The table of locks\<close>

lemma lost_entry_step:
  assumes inv: "run_inv s" and step: "run_step e s = Some s'"
    and lost: "table (run_locks s) k = Some l" "0 < abandoned s l"
  shows "table (run_locks s') k = Some l \<and> 0 < abandoned s' l"
proof (cases e)
  case (Begin t k')
  have "table (snd (lock_enter k' (run_locks s))) k = Some l" by (rule lost_entry_enter [OF lost(1)])
  then show ?thesis
    using step Begin lost(2) by (auto simp: move_def split: phase.splits prod.splits)
next
  case (Leave t)
  then obtain k' l' b where ph: "phase_of s t = Leaving k' l' b"
    and s': "run_locks s' = lock_leave k' l' (run_locks s)" "abandoned s' = abandoned s"
    using step by (auto simp: move_def split: phase.splits)
  have "lock_inv (run_locks s) (phase_lock \<circ> phase_of s) (phase_inside \<circ> phase_of s) (abandoned s)"
    using inv by (simp add: run_inv_def)
  then have "table (lock_leave k' l' (run_locks s)) k = Some l"
    using lost ph
    by (intro lost_entry_stays [where engaged = "phase_lock \<circ> phase_of s" and t = t and lost = "abandoned s"
          and inside = "phase_inside \<circ> phase_of s"]) auto
  then show ?thesis using s' lost(2) by simp
qed (use step lost in \<open>auto simp: move_def lock_take_def lock_free_def
    split: phase.splits option.splits prod.splits sum.splits if_splits\<close>)

lemma lost_entry_run:
  "run_inv s \<Longrightarrow> list_all digest_key es \<Longrightarrow> run_events run_step es s = Some s' \<Longrightarrow>
   table (run_locks s) k = Some l \<Longrightarrow> 0 < abandoned s l \<Longrightarrow> table (run_locks s') k = Some l"
proof (induction es arbitrary: s)
  case (Cons e es)
  obtain s1 where s1: "run_step e s = Some s1" "run_events run_step es s1 = Some s'"
    using Cons.prems(3) by (auto split: option.splits)
  have "run_inv s1" using Cons.prems s1(1) by (auto intro: run_step_inv)
  then show ?case
    using Cons.IH [OF _ _ s1(2)] Cons.prems(2) lost_entry_step [OF Cons.prems(1) s1(1) Cons.prems(4,5)] by simp
qed simp

text \<open>The events in which no waiting request is cancelled.\<close>

fun patient :: "run_event \<Rightarrow> bool" where
  "patient (Abandon t) = False"
| "patient _ = True"

lemma patient_step: "patient e \<Longrightarrow> run_step e s = Some s' \<Longrightarrow> abandoned s' = abandoned s"
  by (cases e) (auto simp: move_def split: phase.splits option.splits prod.splits sum.splits)

lemma patient_run:
  "list_all patient es \<Longrightarrow> run_events run_step es s = Some s' \<Longrightarrow> abandoned s' = abandoned s"
  by (induction es arbitrary: s) (auto split: option.splits dest: patient_step)

text \<open>
  The table of locks holds an entry exactly as long as somebody counts on it: without
  cancellation it is empty again when every request has finished.  A request that is cancelled
  while it waits, however, leaves its reference behind, because the reference is counted before
  the \<open>try\<close>; the entry of its key then stays in every later state.
\<close>

theorem lock_table_entries:
  assumes "wf_cache c" and "active c = []" and "list_all digest_key es" and "reaches c es s"
  shows "(list_all patient es \<and> (\<forall>t. phase_of s t = Idle) \<longrightarrow> table (run_locks s) = (\<lambda>k. None)) \<and>
    (\<forall>k l fs s'. table (run_locks s) k = Some l \<and> 0 < abandoned s l \<and> list_all digest_key fs \<and>
       run_events run_step fs s = Some s' \<longrightarrow> table (run_locks s') k = Some l)"
proof (intro conjI impI)
  have inv: "run_inv s" by (rule reaches_inv [OF assms])
  show "table (run_locks s) = (\<lambda>k. None)" if "list_all patient es \<and> (\<forall>t. phase_of s t = Idle)"
  proof
    fix k
    have none: "abandoned s l = 0" for l
      using that assms(4) patient_run by (fastforce simp: reaches_def start_runs_def)
    have "references (run_locks s) l = 0" for l
      using inv that none by (simp add: run_inv_def lock_inv_def count_inv_def users_def)
    then show "table (run_locks s) k = None"
      using inv unfolding run_inv_def lock_inv_def table_inv_def by (metis less_irrefl not_Some_eq)
  qed
  show "\<forall>k l fs s'. table (run_locks s) k = Some l \<and> 0 < abandoned s l \<and> list_all digest_key fs \<and>
       run_events run_step fs s = Some s' \<longrightarrow> table (run_locks s') k = Some l"
    using lost_entry_run [OF inv] by blast
qed

section \<open>A run\<close>

text \<open>
  Two requests for one strategy and a third that gives up: the first compiles, the second finds
  the artifact, and the entry of the lock stays behind.
\<close>

definition shared_run :: "run_event list" where
  "shared_run =
     [Begin 0 ''k'', Begin 1 ''k'', Begin 2 ''k'', Take 0, Abandon 2, Find 0 5 ''u'',
      Output 0 \<lparr>mtime_ns = 5, st_size = 90\<rparr>]"

definition empty_store :: compile_cache where
  "empty_store = \<lparr>root = ''/c'', max_entries = 1, max_bytes = 100, files = [], active = [],
     hits = 0, misses = 0, compiles = 0\<rparr>"

definition after_run :: "run_event list \<Rightarrow> runs" where
  "after_run es = the (run_events run_step es (start_runs empty_store))"

lemma shared_run_reaches:
  assumes "run_events run_step es (start_runs empty_store) \<noteq> None"
  shows "reaches empty_store es (after_run es)"
  using assms by (auto simp: reaches_def after_run_def)

lemma empty_store_ok: "wf_cache empty_store" "active empty_store = []"
  by (simp_all add: empty_store_def wf_cache_def)

lemma shared_run_ok: "list_all digest_key shared_run" "run_events run_step shared_run (start_runs empty_store) \<noteq> None"
  by code_simp+

definition compiled_run :: "run_event list" where
  "compiled_run = shared_run @ [Publish 0, Unlock 0, Leave 0]"

lemma compiled_run_ok:
  "list_all digest_key compiled_run" "run_events run_step compiled_run (start_runs empty_store) \<noteq> None"
  "phase_of (after_run compiled_run) 0 = Running ''k''"
  by code_simp+

lemma shared_run_phase: "phase_of (after_run shared_run) 0 = Compiling ''k'' 0 (temporary_path ''k'' ''u'')"
  by code_simp


lemma running_artifact_present_witness: "on_disk (run_store (after_run compiled_run)) ''k''"
  using running_artifact_present [OF empty_store_ok compiled_run_ok(1)
      shared_run_reaches [OF compiled_run_ok(2)]] compiled_run_ok(3) by blast

definition second_run :: "run_event list" where
  "second_run = compiled_run @ [Take 1]"

lemma second_run_ok:
  "list_all digest_key second_run" "run_events run_step second_run (start_runs empty_store) \<noteq> None"
  "phase_uses (phase_of (after_run second_run) 0) = Some ''k''"
  "phase_of (after_run second_run) 1 = Locked ''k'' 0"
  by code_simp+

lemma compiled_once_while_used_witness:
  "\<exists>s'. run_step (Find 1 9 ''v'') (after_run second_run) = Some s' \<and> phase_of s' 1 = Reserved ''k'' 0"
  by (rule compiled_once_while_used [OF empty_store_ok second_run_ok(1)
        shared_run_reaches [OF second_run_ok(2)] second_run_ok(3,4)])


definition finishing :: "run_event list" where
  "finishing = [Publish 0, Unlock 0, Take 1, Leave 0, Finish 0 True, Evict 0, Find 1 7 ''v'', Unlock 1,
     Leave 1, Finish 1 True, Evict 1]"

lemma finishing_ok:
  "list_all digest_key finishing" "run_events run_step finishing (after_run shared_run) \<noteq> None"
  "table (run_locks (after_run shared_run)) ''k'' = Some 0" "0 < abandoned (after_run shared_run) 0"
  by code_simp+

lemma lock_table_entries_witness:
  "table (run_locks (the (run_events run_step finishing (after_run shared_run)))) ''k'' = Some 0"
proof -
  obtain s' where s': "run_events run_step finishing (after_run shared_run) = Some s'"
    using finishing_ok(2) by blast
  have "table (run_locks s') ''k'' = Some 0"
    using conjunct2 [OF lock_table_entries [OF empty_store_ok shared_run_ok(1)
        shared_run_reaches [OF shared_run_ok(2)]]] finishing_ok(1,3,4) s' by blast
  then show ?thesis unfolding s' option.sel .
qed

end
