(* ===== verification/Server.thy ===== *)
theory Server
  imports ServerApi Admission StrategyRun
begin

text \<open>
  \<open>src/pineforge_data/server.py\<close>, what the service does with one request: the settings, the
  commands and how their ends become answers, the cache key, the execution in a temporary
  directory, and the handler.  The host is a parameter: its environment, clock, temporary names
  and files, the processes it starts and SHA-256.  Between two steps of a request other requests
  act on the cache; that is theory StrategyRun, and this theory follows one request alone.
\<close>

section \<open>Failures\<close>

record service_error =
  se_code :: string
  se_message :: string
  se_status :: int
  se_phase :: string

datatype failure = Service service_error | Uncaught exn

type_synonym 'a answer = "failure + 'a"

abbreviation fail :: "string \<Rightarrow> string \<Rightarrow> int \<Rightarrow> string \<Rightarrow> 'a answer" where
  "fail c msg status phase \<equiv> Inl (Service \<lparr>se_code = c, se_message = msg, se_status = status, se_phase = phase\<rparr>)"

definition uncaught :: "'a result \<Rightarrow> 'a answer" where
  "uncaught r = (case r of Inl e \<Rightarrow> Inl (Uncaught e) | Inr x \<Rightarrow> Inr x)"

text \<open>\<open>try: ... finally: f\<close>\<close>

definition sfinally :: "('x \<Rightarrow> ('e + 'a) \<times> 'x) \<Rightarrow> ('x \<Rightarrow> 'x) \<Rightarrow> 'x \<Rightarrow> ('e + 'a) \<times> 'x" where
  "sfinally act f x = (case act x of (r, x') \<Rightarrow> (r, f x'))"

section \<open>Settings\<close>

type_synonym env = "(string, string) dict"

definition env_get :: "env \<Rightarrow> string \<Rightarrow> string \<Rightarrow> string" where
  "env_get env name d = (case map_of env name of None \<Rightarrow> d | Some s \<Rightarrow> s)"

definition positive_env :: "env \<Rightarrow> string \<Rightarrow> int \<Rightarrow> int result" where
  "positive_env env name d =
     (case py_int (env_get env name (int_text d)) of
        None \<Rightarrow> raise RuntimeError (name @ '' must be an integer'')
      | Some v \<Rightarrow> if v \<le> 0 then raise RuntimeError (name @ '' must be positive'') else Inr v)"

definition non_negative_env :: "env \<Rightarrow> string \<Rightarrow> int \<Rightarrow> int result" where
  "non_negative_env env name d =
     (case py_int (env_get env name (int_text d)) of
        None \<Rightarrow> raise RuntimeError (name @ '' must be an integer'')
      | Some v \<Rightarrow> if v < 0 then raise RuntimeError (name @ '' must be non-negative'') else Inr v)"

definition float_env :: "env \<Rightarrow> string \<Rightarrow> string \<Rightarrow> pyfloat result" where
  "float_env env name d =
     (case py_float (env_get env name d) of
        None \<Rightarrow> raise ValueError ''could not convert string to float'' | Some f \<Rightarrow> Inr f)"

record service_settings = limits +
  queue_timeout_seconds :: pyfloat
  execution_timeout_seconds :: pyfloat
  release_image :: string
  entrypoint :: string
  run_json_path :: string

text \<open>The keyword arguments of the constructor, \<open>None\<close> where they are left out.\<close>

record service_arguments =
  arg_max_concurrency :: "int option"
  arg_max_queue :: "int option"
  arg_queue_timeout :: "pyfloat option"
  arg_execution_timeout :: "pyfloat option"
  arg_release_image :: "string option"
  arg_entrypoint :: "string option"
  arg_run_json_path :: "string option"
  arg_cache :: "compile_cache option"

fun given :: "'a option \<Rightarrow> 'a result \<Rightarrow> 'a result" where
  "given (Some v) d = Inr v"
| "given None d = d"

text \<open>\<open>value or default\<close>, for a text and for a path, which is never false.\<close>

fun text_or :: "string option \<Rightarrow> string \<Rightarrow> string" where
  "text_or (Some s) d = (if s = [] then d else s)"
| "text_or None d = d"

definition mk_service ::
  "int option \<Rightarrow> env \<Rightarrow> (string, file_stat) dict \<Rightarrow> service_arguments \<Rightarrow> (service_settings \<times> compile_cache) result" where
  "mk_service cpu_count env disk a =
     (let cpu_default = max 1 (min 4 (case cpu_count of None \<Rightarrow> 1 | Some n \<Rightarrow> if n = 0 then 1 else n)) in
      rbind (given (arg_max_concurrency a) (positive_env env ''PINEFORGE_SERVER_CONCURRENCY'' cpu_default)) (\<lambda>mc.
      rbind (given (arg_max_queue a) (non_negative_env env ''PINEFORGE_SERVER_MAX_QUEUE'' (mc * 2))) (\<lambda>mq.
      rbind (given (arg_queue_timeout a) (float_env env ''PINEFORGE_SERVER_QUEUE_TIMEOUT'' ''30'')) (\<lambda>qt.
      rbind (given (arg_execution_timeout a) (float_env env ''PINEFORGE_SERVER_EXECUTION_TIMEOUT'' ''300'')) (\<lambda>et.
      rbind (first_raise
        [(mc \<le> 0 \<or> mq < 0, ValueError, ''concurrency must be positive and max_queue non-negative''),
         (fle qt (Fin 0) \<or> fle et (Fin 0), ValueError, ''queue and execution timeouts must be positive'')]) (\<lambda>_.
      rbind (case arg_cache a of
          Some c \<Rightarrow> Inr c
        | None \<Rightarrow>
            rbind (positive_env env ''PINEFORGE_SERVER_CACHE_MAX_ENTRIES'' 1024) (\<lambda>entries.
            rbind (positive_env env ''PINEFORGE_SERVER_CACHE_MAX_BYTES'' (2 * 1024 * 1024 * 1024)) (\<lambda>bytes.
            mk_compile_cache (env_get env ''PINEFORGE_SERVER_CACHE_DIR'' ''/tmp/pineforge-compile-cache'')
              entries bytes disk))) (\<lambda>c.
      Inr (\<lparr>max_concurrency = mc, max_queue = mq, queue_timeout_seconds = qt, execution_timeout_seconds = et,
            release_image = text_or (arg_release_image a) (env_get env ''PINEFORGE_RELEASE_IMAGE'' default_release_image),
            entrypoint = (case arg_entrypoint a of Some p \<Rightarrow> p
                          | None \<Rightarrow> env_get env ''PINEFORGE_RELEASE_ENTRYPOINT'' release_entrypoint),
            run_json_path = (case arg_run_json_path a of Some p \<Rightarrow> p
                             | None \<Rightarrow> env_get env ''PINEFORGE_RELEASE_RUN_JSON'' ''/opt/pineforge/bin/run_json.py'')\<rparr>, c))))))))"

text \<open>A computation that raises errors of one kind only.\<close>

definition raises_only :: "('e \<Rightarrow> bool) \<Rightarrow> 'e + 'a \<Rightarrow> bool" where
  "raises_only P m = (case m of Inl e \<Rightarrow> P e | Inr x \<Rightarrow> True)"

lemma raises_only_simps [simp]: "raises_only P (Inl e) = P e" "raises_only P (Inr x)"
  by (simp_all add: raises_only_def)

lemma raises_only_bind: "raises_only P m \<Longrightarrow> (\<And>x. m = Inr x \<Longrightarrow> raises_only P (f x)) \<Longrightarrow> raises_only P (rbind m f)"
  by (cases m) auto

lemma raises_only_guards: "\<forall>(b, c, t) \<in> set gs. P (Exn c t) \<Longrightarrow> raises_only P (first_raise gs)"
  by (induction gs rule: first_raise.induct) auto

lemma raises_only_given: "raises_only P d \<Longrightarrow> raises_only P (given x d)"
  by (cases x) auto

definition settings_error :: "exn \<Rightarrow> bool" where
  "settings_error e = (exn_class e \<in> {RuntimeError, ValueError})"

lemma env_errors:
  "raises_only settings_error (positive_env env n d)"
  "raises_only settings_error (non_negative_env env n d)"
  "raises_only settings_error (float_env env n s)"
  by (auto simp: settings_error_def positive_env_def non_negative_env_def float_env_def split: option.splits)

lemma service_errors: "raises_only settings_error (mk_service cpu_count env disk a)"
  unfolding mk_service_def Let_def
  by (intro raises_only_bind raises_only_given env_errors raises_only_guards)
    (auto simp: settings_error_def mk_compile_cache_def require_def split: option.split
      intro!: raises_only_bind env_errors)

text \<open>
  The service starts with usable limits or not at all: positive concurrency, a queue that is
  not negative, timeouts that are not negative or zero, and a cache with positive limits unless
  one was passed in.  A setting that cannot be read is a \<open>RuntimeError\<close> or a \<open>ValueError\<close>.
\<close>

theorem service_settings_usable:
  "(case mk_service cpu_count env disk a of
      Inl e \<Rightarrow> exn_class e \<in> {RuntimeError, ValueError}
    | Inr (st, c) \<Rightarrow> 0 < max_concurrency st \<and> 0 \<le> max_queue st \<and>
        \<not> fle (queue_timeout_seconds st) (Fin 0) \<and> \<not> fle (execution_timeout_seconds st) (Fin 0) \<and>
        (case arg_cache a of Some c' \<Rightarrow> c = c'
         | None \<Rightarrow> 0 < max_entries c \<and> 0 < max_bytes c \<and> active c = [] \<and> files c = disk))"
proof (cases "mk_service cpu_count env disk a")
  case (Inl e)
  then show ?thesis using service_errors [of cpu_count env disk a] by (simp add: settings_error_def)
next
  case (Inr r)
  obtain st c where r: "r = (st, c)" by (cases r)
  have "0 < max_concurrency st \<and> 0 \<le> max_queue st \<and>
        \<not> fle (queue_timeout_seconds st) (Fin 0) \<and> \<not> fle (execution_timeout_seconds st) (Fin 0) \<and>
        (case arg_cache a of Some c' \<Rightarrow> c = c'
         | None \<Rightarrow> 0 < max_entries c \<and> 0 < max_bytes c \<and> active c = [] \<and> files c = disk)"
    using Inr unfolding r
    by (cases "arg_cache a")
      (auto simp: mk_service_def Let_def result_simps mk_compile_cache_def simp del: first_raise.simps)
  then show ?thesis using Inr r by simp
qed

section \<open>Commands\<close>

text \<open>How a process ends: it is not started, it exceeds its time and is killed, or it exits.\<close>

datatype outcome = NotStarted string | TimedOut | Exited int string string

text \<open>
  The host: the files of the cache directory are the part of its state that a process shares with
  the cache.  A path is its text; files are written by path.
\<close>

record 'h host =
  environ :: env
  platform :: string
  sha256 :: "string \<Rightarrow> string"
  loads :: "string \<Rightarrow> json option"
  clock :: "'h \<Rightarrow> pyfloat \<times> 'h"
  wall_ns :: "'h \<Rightarrow> int \<times> 'h"
  uuid4 :: "'h \<Rightarrow> string \<times> 'h"
  mkdtemp :: "'h \<Rightarrow> string \<times> 'h"
  rmtree :: "string \<Rightarrow> 'h \<Rightarrow> 'h"
  write_file :: "string \<Rightarrow> string \<Rightarrow> 'h \<Rightarrow> 'h"
  process :: "string list \<Rightarrow> env \<Rightarrow> pyfloat \<Rightarrow> (string, file_stat) dict \<times> 'h \<Rightarrow>
     outcome \<times> (string, file_stat) dict \<times> 'h"

fun fadd :: "pyfloat \<Rightarrow> pyfloat \<Rightarrow> pyfloat" where
  "fadd (Fin x) (Fin y) = rnd64 (x + y)"
| "fadd NaN y = NaN"
| "fadd x NaN = NaN"
| "fadd PInf y = (if y = NInf then NaN else PInf)"
| "fadd NInf y = (if y = PInf then NaN else NInf)"
| "fadd x PInf = PInf"
| "fadd x NInf = NInf"

fun fneg :: "pyfloat \<Rightarrow> pyfloat" where
  "fneg (Fin x) = Fin (- x)"
| "fneg PInf = NInf"
| "fneg NInf = PInf"
| "fneg NaN = NaN"

definition client_phases :: "string list" where
  "client_phases = [''input'', ''transpile'', ''compile'', ''backtest'']"

definition command_answer :: "string \<Rightarrow> outcome \<Rightarrow> string answer" where
  "command_answer phase out =
     (case out of
        NotStarted msg \<Rightarrow> fail ''runtime_unavailable'' (''cannot start '' @ phase @ '' process: '' @ msg) 503 phase
      | TimedOut \<Rightarrow> fail ''execution_timeout'' ''backtest exceeded its time'' 504 phase
      | Exited status stdout stderr \<Rightarrow>
          if status \<noteq> 0
          then fail (phase @ ''_failed'')
                 (case py_strip (decode_utf8 stderr) of [] \<Rightarrow> ''pineforge-release failed'' | detail \<Rightarrow> detail)
                 (if phase \<in> set client_phases then 422 else 500) phase
          else Inr stdout)"

definition run_command ::
  "'h host \<Rightarrow> string list \<Rightarrow> env \<Rightarrow> string \<Rightarrow> pyfloat \<Rightarrow> compile_cache \<times> 'h \<Rightarrow> string answer \<times> compile_cache \<times> 'h" where
  "run_command host command env phase deadline x =
     (let (c, h) = x; (now, h1) = clock host h; remaining = fadd deadline (fneg now) in
      if fle remaining (Fin 0)
      then (fail ''execution_timeout'' ''backtest exceeded its time'' 504 phase, c, h1)
      else (case process host command env remaining (files c, h1) of
              (out, disk, h2) \<Rightarrow> (command_answer phase out, c\<lparr>files := disk\<rparr>, h2)))"

section \<open>The cache key\<close>

fun nul_joined :: "string list \<Rightarrow> string" where
  "nul_joined [] = []"
| "nul_joined [s] = s"
| "nul_joined (s # t # ss) = s @ CHR 0x00 # nul_joined (t # ss)"

definition cache_identity :: "'h host \<Rightarrow> service_settings \<Rightarrow> string \<Rightarrow> string list" where
  "cache_identity host st cpp_sha256 =
     [''pineforge-compiled-strategy-v1'', cpp_sha256, release_image st,
      env_get (environ host) ''PINEFORGE_ENGINE_VERSION'' ''unknown'',
      env_get (environ host) ''PINEFORGE_CODEGEN_VERSION'' ''unknown'',
      env_get (environ host) ''PINEFORGE_RELEASE_VERSION'' ''unknown'',
      platform host, ''g++-std=c++17-O2-ffp-contract=off-fPIC-shared-whole-archive'']"

definition cache_key :: "'h host \<Rightarrow> service_settings \<Rightarrow> string \<Rightarrow> string \<times> string" where
  "cache_key host st generated_cpp =
     (let cpp_sha256 = sha256 host generated_cpp in
      (sha256 host (encode (nul_joined (cache_identity host st cpp_sha256))), cpp_sha256))"

section \<open>Execution\<close>

text \<open>
  \<open>os.environ.copy()\<close> with two more variables, and the files of a workspace.
\<close>

definition env_with :: "env \<Rightarrow> env \<Rightarrow> env" where
  "env_with env new = fold (\<lambda>(k, v). AList.update k v) new env"

definition path_join :: "string \<Rightarrow> string \<Rightarrow> string" where
  "path_join dir name = dir @ CHR ''/'' # name"

definition write_files :: "'h host \<Rightarrow> string \<Rightarrow> (string, string) dict \<Rightarrow> 'h \<Rightarrow> 'h" where
  "write_files host workspace texts = fold (\<lambda>(name, t). write_file host (path_join workspace name) t) texts"

definition invalid_request :: "'a result \<Rightarrow> 'a answer" where
  "invalid_request r =
     (case r of
        Inl e \<Rightarrow> if caught e [ReleaseContractError, ValueError]
                 then fail ''invalid_request'' (exn_text e) 400 ''input'' else Inl (Uncaught e)
      | Inr v \<Rightarrow> Inr v)"

definition prepare ::
  "'h host \<Rightarrow> string \<Rightarrow> api_request \<Rightarrow> string \<times> bar list \<times> instrument \<times> backtest_options \<Rightarrow>
   compile_cache \<times> 'h \<Rightarrow> unit answer \<times> compile_cache \<times> 'h" where
  "prepare host workspace r d =
     (case d of (pine, bars, i, q) \<Rightarrow>
        sbind (slift (invalid_request (write_release_inputs pine bars i))) (\<lambda>texts (c, h).
        (case invalid_request (release_environment workspace i q (Some (aq_strategy_params r))
                                 (Some (aq_strategy_overrides r))) of
           Inl e \<Rightarrow> Inl e | Inr env \<Rightarrow> Inr (),
         c, write_files host workspace texts h)))"

definition compile_command :: "'h host \<Rightarrow> string \<Rightarrow> string \<Rightarrow> string list" where
  "compile_command host cpp_path library_path =
     (let prefix = env_get (environ host) ''PINEFORGE_PREFIX'' ''/opt/pineforge'' in
      [''g++'', ''-std=c++17'', ''-O2'', ''-ffp-contract=off'', ''-fPIC'', ''-shared'',
       ''-I'' @ prefix @ ''/include'', ''-I/usr/include/eigen3'', cpp_path, ''-Wl,--whole-archive'',
       prefix @ ''/lib/libpineforge.a'', ''-Wl,--no-whole-archive'', ''-o'', library_path])"

text \<open>
  The part under the compile lock: the library's path and whether it was in the cache.  The
  \<open>finally\<close> removes a left-over temporary file.
\<close>

definition obtain_library ::
  "'h host \<Rightarrow> string \<Rightarrow> string \<Rightarrow> pyfloat \<Rightarrow> compile_cache \<times> 'h \<Rightarrow> (string \<times> bool) answer \<times> compile_cache \<times> 'h" where
  "obtain_library host key cpp_path deadline x =
     (let (c, h) = x; (t, h1) = wall_ns host h in
      case acquire t key c of
        (Some name, c1) \<Rightarrow> (Inr (path_join (root c) name, True), c1, h1)
      | (None, c1) \<Rightarrow>
          let (uuid, h2) = uuid4 host h1; tmp = temporary_path key uuid in
          sfinally
            (sbind (run_command host (compile_command host cpp_path (path_join (root c) tmp)) (environ host)
                      ''compile'' deadline) (\<lambda>stdout (c2, h3).
             (case commit_and_acquire key tmp c2 of
                Inl e \<Rightarrow> (Inl (Uncaught e), c2, h3)
              | Inr (name, c3) \<Rightarrow> (Inr (path_join (root c) name, False), c3, h3))))
            (\<lambda>(c4, h4). (discard tmp c4, h4)) (c1, h2))"

definition backtest_command ::
  "service_settings \<Rightarrow> string \<Rightarrow> backtest_options \<Rightarrow> string \<Rightarrow> string \<Rightarrow> string \<Rightarrow> string list" where
  "backtest_command st workspace q library inputs overrides =
     [''python3'', run_json_path st, ''--so'', library, ''--ohlcv'', path_join workspace ''ohlcv.csv'',
      ''--inputs'', inputs, ''--overrides'', overrides, ''--input-tf'', input_timeframe q,
      ''--script-tf'', script_timeframe q, ''--bar-magnifier'', if bar_magnifier q then ''true'' else ''false'',
      ''--magnifier-samples'', int_text (magnifier_samples q), ''--magnifier-dist'', magnifier_name (magnifier q),
      ''--generated-cpp'', path_join workspace ''strategy.cpp'', ''--transpiled'', ''true'',
      ''--syminfo'', path_join workspace ''syminfo.json'', ''--chart-tz'', text_or (chart_timezone q) []] @
     (case trade_start_time_ms q of None \<Rightarrow> [] | Some t \<Rightarrow> [''--trade-start-ms'', int_text t])"

record execution_result =
  er_report :: "(string, json) dict"
  er_metadata :: "(string, json) dict"

definition env_json :: "env \<Rightarrow> string \<Rightarrow> json" where
  "env_json env name = (case map_of env name of None \<Rightarrow> JNull | Some s \<Rightarrow> JStr s)"

definition release_answer ::
  "'h host \<Rightarrow> string \<Rightarrow> bool \<Rightarrow> string \<Rightarrow> string \<Rightarrow> execution_result answer" where
  "release_answer host key hit cpp_sha256 stdout =
     (case rbind (parse_release_report (loads host) (decode_utf8 stdout)) (\<lambda>report.
           rbind (normalize_release_version (env_json (environ host) ''PINEFORGE_RELEASE_VERSION'')) (\<lambda>version.
           Inr (report, version))) of
        Inl e \<Rightarrow> if caught e [ReleaseContractError]
                 then fail ''invalid_release_response'' (exn_text e) 502 ''response'' else Inl (Uncaught e)
      | Inr (report, version) \<Rightarrow>
          Inr \<lparr>er_report = report,
               er_metadata =
                 [(''release_version'', JStr version),
                  (''engine_version'', JStr (env_get (environ host) ''PINEFORGE_ENGINE_VERSION'' ''unknown'')),
                  (''codegen_version'', JStr (env_get (environ host) ''PINEFORGE_CODEGEN_VERSION'' ''unknown'')),
                  (''hub_commit'', JStr (env_get (environ host) ''PINEFORGE_HUB_COMMIT'' ''unknown'')),
                  (''compile_cache'', JDict
                     [(''key'', JStr key), (''hit'', JBool hit), (''generated_cpp_sha256'', JStr cpp_sha256)])]\<rparr>)"

text \<open>The reservation taken with the library is given back when the backtest process has ended.\<close>

definition execute_in ::
  "'h host \<Rightarrow> service_settings \<Rightarrow> api_request \<Rightarrow> string \<times> bar list \<times> instrument \<times> backtest_options \<Rightarrow>
   pyfloat \<Rightarrow> string \<Rightarrow> compile_cache \<times> 'h \<Rightarrow> execution_result answer \<times> compile_cache \<times> 'h" where
  "execute_in host st r d deadline workspace =
     (let q = snd (snd (snd d)); cpp_path = path_join workspace ''strategy.cpp'' in
      sbind (prepare host workspace r d) (\<lambda>_.
      sbind (run_command host [entrypoint st]
               (env_with (environ host) [(''PINEFORGE_IN_DIR'', workspace), (''PINEFORGE_TRANSPILE_ONLY'', ''1'')])
               ''transpile'' deadline) (\<lambda>cpp.
      sbind (\<lambda>(c, h). (Inr (), c, write_file host cpp_path cpp h)) (\<lambda>_.
      let (key, cpp_sha256) = cache_key host st cpp in
      sbind (slift (uncaught (dumps (JDict (aq_strategy_params r))))) (\<lambda>inputs.
      sbind (slift (uncaught (dumps (JDict (aq_strategy_overrides r))))) (\<lambda>overrides.
      sbind (obtain_library host key cpp_path deadline) (\<lambda>(library, hit).
      sbind (sfinally
               (run_command host (backtest_command st workspace q library inputs overrides) (environ host)
                  ''backtest'' deadline)
               (\<lambda>(c, h). (release key c, h))) (\<lambda>stdout.
      sbind (\<lambda>(c, h). (Inr (), trim c, h)) (\<lambda>_.
      slift (release_answer host key hit cpp_sha256 stdout))))))))))"

definition execute_release ::
  "'h host \<Rightarrow> service_settings \<Rightarrow> api_request \<Rightarrow> compile_cache \<times> 'h \<Rightarrow>
   execution_result answer \<times> compile_cache \<times> 'h" where
  "execute_release host st r x =
     (case domain_values r of
        Inl e \<Rightarrow> (Inl (Uncaught e), x)
      | Inr d \<Rightarrow>
          let (c, h) = x; (now, h1) = clock host h; (workspace, h2) = mkdtemp host h1 in
          sfinally (execute_in host st r d (fadd now (execution_timeout_seconds st)) workspace)
            (\<lambda>(c', h'). (c', rmtree host workspace h')) (c, h2))"

section \<open>The key identifies what was compiled\<close>

lemma decode_char: "decode_utf8 (utf8_char c @ s) = c # decode_utf8 s"
proof (cases "code c < 128")
  case True
  then show ?thesis by (cases s) (simp_all add: utf8_char_def)
next
  case False
  have lt: "code c < 256" by (simp add: code_def)
  let ?d = "code c div 64" and ?m = "code c mod 64"
  have "?d = 2 \<or> ?d = 3" and m: "?m < 64" and c: "?d * 64 + ?m = code c" using False lt by auto
  then have "code (char_of (192 + ?d) :: char) = 192 + ?d" "code (char_of (128 + ?m) :: char) = 128 + ?m"
    "192 + ?d = 194 \<or> 192 + ?d = 195"
    by auto
  moreover have "(char_of (code c) :: char) = c" by (simp add: code_def)
  ultimately show ?thesis using False m c by (simp add: utf8_char_def Let_def)
qed

lemma decode_encode [simp]: "decode_utf8 (encode s) = s"
  by (induction s) (simp_all add: encode_def decode_char)

lemma encode_inject: "encode s = encode t \<Longrightarrow> s = t"
  using decode_encode by metis

definition nul_free :: "string \<Rightarrow> bool" where
  "nul_free s = (CHR 0x00 \<notin> set s)"

lemma nul_split:
  "nul_free s \<Longrightarrow> nul_free s' \<Longrightarrow> (s @ CHR 0x00 # t = s' @ CHR 0x00 # t') = (s = s' \<and> t = t')"
proof (induction s arbitrary: s')
  case Nil
  then show ?case by (cases s') (auto simp: nul_free_def)
next
  case (Cons c s)
  then show ?case by (cases s') (auto simp: nul_free_def)
qed

lemma nul_joined_inject:
  "length ss = length ss' \<Longrightarrow> list_all nul_free ss \<Longrightarrow> list_all nul_free ss' \<Longrightarrow>
   nul_joined ss = nul_joined ss' \<Longrightarrow> ss = ss'"
proof (induction ss arbitrary: ss' rule: nul_joined.induct)
  case (2 s)
  then show ?case by (cases ss' rule: nul_joined.cases) auto
next
  case (3 s t ss)
  then obtain s' t' tl' where ss': "ss' = s' # t' # tl'" by (cases ss' rule: nul_joined.cases) auto
  have "s = s'" "nul_joined (t # ss) = nul_joined (t' # tl')"
    using 3(3-5) unfolding ss' by (simp_all add: nul_split)
  then show ?case using 3(1) [of "t' # tl'"] 3(2-4) unfolding ss' by simp
qed simp

text \<open>
  Two requests that share a cache entry compiled the same C++ for the same image, engine,
  code generator, release and machine, as long as SHA-256 does not collide on the texts at hand;
  the names and versions contain no NUL character, which the operating system guarantees for the
  environment.
\<close>

theorem cache_key_identifies:
  assumes "fst (cache_key host st cpp) = fst (cache_key host' st' cpp')"
    and "sha256 host' = sha256 host" and "inj_on (sha256 host) texts"
    and "{cpp, cpp', encode (nul_joined (cache_identity host st (sha256 host cpp))),
          encode (nul_joined (cache_identity host' st' (sha256 host cpp')))} \<subseteq> texts"
    and "list_all nul_free (cache_identity host st (sha256 host cpp))"
    and "list_all nul_free (cache_identity host' st' (sha256 host cpp'))"
  shows "cpp = cpp' \<and> cache_identity host st (sha256 host cpp) = cache_identity host' st' (sha256 host cpp')"
proof -
  have "encode (nul_joined (cache_identity host st (sha256 host cpp)))
      = encode (nul_joined (cache_identity host' st' (sha256 host cpp')))"
    using assms(1) unfolding cache_key_def Let_def fst_conv assms(2)
    by (rule inj_onD [OF assms(3)]) (use assms(4) in auto)
  then have "nul_joined (cache_identity host st (sha256 host cpp)) = nul_joined (cache_identity host' st' (sha256 host cpp'))"
    by (rule encode_inject)
  moreover have "length (cache_identity host st (sha256 host cpp)) = length (cache_identity host' st' (sha256 host cpp'))"
    by (simp add: cache_identity_def)
  ultimately have same: "cache_identity host st (sha256 host cpp) = cache_identity host' st' (sha256 host cpp')"
    using assms(5, 6) by (intro nul_joined_inject)
  then have "sha256 host cpp = sha256 host cpp'" by (simp add: cache_identity_def)
  then have "cpp = cpp'" by (rule inj_onD [OF assms(3)]) (use assms(4) in auto)
  then show ?thesis using same by simp
qed

definition plain_host :: "unit host" where
  "plain_host = \<lparr>environ = [], platform = ''x86_64'', sha256 = (\<lambda>s. s), loads = (\<lambda>s. None),
     clock = (\<lambda>h. (Fin 0, h)), wall_ns = (\<lambda>h. (0, h)), uuid4 = (\<lambda>h. (''u'', h)), mkdtemp = (\<lambda>h. (''/w'', h)),
     rmtree = (\<lambda>w h. h), write_file = (\<lambda>n t h. h), process = (\<lambda>cmd env left (d, h). (TimedOut, d, h))\<rparr>"

definition plain_settings :: service_settings where
  "plain_settings = \<lparr>max_concurrency = 1, max_queue = 1, queue_timeout_seconds = Fin 30,
     execution_timeout_seconds = Fin 300, release_image = ''image'', entrypoint = ''/e'', run_json_path = ''/r''\<rparr>"

lemma cache_key_identifies_witness:
  "fst (cache_key plain_host plain_settings ''a'') \<noteq> fst (cache_key plain_host plain_settings ''b'')"
proof
  have nul: "list_all nul_free (cache_identity plain_host plain_settings (sha256 plain_host ''a''))"
    "list_all nul_free (cache_identity plain_host plain_settings (sha256 plain_host ''b''))"
    by code_simp+
  have "inj_on (sha256 plain_host) UNIV" by (simp add: plain_host_def)
  moreover assume "fst (cache_key plain_host plain_settings ''a'') = fst (cache_key plain_host plain_settings ''b'')"
  ultimately show False
    using cache_key_identifies [OF _ refl _ subset_UNIV nul] by simp
qed

section \<open>Reservations\<close>

text \<open>An action that leaves the reservations as they were.\<close>

definition balanced :: "(compile_cache \<times> 'h \<Rightarrow> 'r \<times> compile_cache \<times> 'h) \<Rightarrow> bool" where
  "balanced act = (\<forall>x. active_count (fst (snd (act x))) = active_count (fst x))"

lemma balanced_bind: "balanced act \<Longrightarrow> (\<And>a. balanced (f a)) \<Longrightarrow> balanced (sbind act f)"
  unfolding balanced_def sbind_def
  by (auto split: prod.split sum.split) (metis fst_conv snd_conv)+

lemma balanced_pure [simp]:
  "balanced (slift r)" "balanced (\<lambda>(c, h). (r, trim c, h))" "balanced (\<lambda>(c, h). (r, c, f h))"
  by (simp_all add: balanced_def slift_def split_def)

lemma balanced_command: "balanced (run_command host command env phase deadline)"
  by (auto simp: balanced_def run_command_def Let_def split_def)

lemma balanced_prepare: "balanced (prepare host workspace r d)"
  unfolding prepare_def split_def
  by (intro balanced_bind balanced_pure(1)) (simp add: balanced_def)

lemma active_count_discard: "active_count (discard tmp c) = active_count c"
  by (simp add: discard_def)

text \<open>Obtaining the library reserves its key once, or raises without a reservation.\<close>

lemma obtain_library_counts:
  "active_count (fst (snd (obtain_library host key cpp deadline x))) =
     (case fst (obtain_library host key cpp deadline x) of
        Inl e \<Rightarrow> active_count (fst x)
      | Inr r \<Rightarrow> (active_count (fst x))(key := active_count (fst x) key + 1))"
proof -
  obtain c h where x: "x = (c, h)" by (cases x)
  obtain t h1 where t: "wall_ns host h = (t, h1)" by (cases "wall_ns host h")
  show ?thesis
  proof (cases "on_disk c key")
    case True
    then show ?thesis
      using acquire_hit [OF True, of t] by (auto simp: obtain_library_def x t)
  next
    case False
    obtain uuid h2 where u: "uuid4 host h1 = (uuid, h2)" by (cases "uuid4 host h1")
    let ?tmp = "temporary_path key uuid"
    obtain r c2 h3 where run: "run_command host (compile_command host cpp (path_join (root c) ?tmp)) (environ host)
        ''compile'' deadline (c\<lparr>misses := misses c + 1\<rparr>, h2) = (r, c2, h3)"
      by (cases "run_command host (compile_command host cpp (path_join (root c) ?tmp)) (environ host)
        ''compile'' deadline (c\<lparr>misses := misses c + 1\<rparr>, h2)")
    then have "active_count c2 = active_count c"
      using balanced_command [of host "compile_command host cpp (path_join (root c) ?tmp)" "environ host" "''compile''" deadline]
      unfolding balanced_def by (metis active_count_unchanged(2) fst_conv snd_conv)
    moreover have "obtain_library host key cpp deadline x =
      (case rbind r (\<lambda>_. uncaught (commit_and_acquire key ?tmp c2)) of
         Inl e \<Rightarrow> (Inl e, discard ?tmp c2, h3)
       | Inr (name, c3) \<Rightarrow> (Inr (path_join (root c) name, False), discard ?tmp c3, h3))"
      unfolding obtain_library_def x Let_def
      by (cases r; cases "commit_and_acquire key ?tmp c2")
        (simp_all add: t u acquire_miss [OF False] run sfinally_def sbind_def uncaught_def split_def)
    moreover have "case commit_and_acquire key ?tmp c2 of Inl e \<Rightarrow> True
      | Inr (name, c3) \<Rightarrow> active_count c3 = (active_count c2)(key := active_count c2 key + 1)"
      using commit_returns [of key ?tmp c2] by (auto split: sum.split)
    ultimately show ?thesis
      by (cases r; cases "commit_and_acquire key ?tmp c2") (auto simp: x active_count_discard uncaught_def)
  qed
qed

lemma balanced_eq: "balanced act \<Longrightarrow> act x = (r, y) \<Longrightarrow> active_count (fst y) = active_count (fst x)"
  unfolding balanced_def by (metis fst_conv snd_conv)

lemma balanced_library:
  assumes "\<And>p. balanced (act p)" and "\<And>p out. balanced (g p out)"
  shows "balanced (sbind (obtain_library host key cpp deadline) (\<lambda>p.
    sbind (sfinally (act p) (\<lambda>(c, h). (release key c, h))) (g p)))"
  unfolding balanced_def
proof
  fix x :: "compile_cache \<times> 'a"
  obtain r c h where lib: "obtain_library host key cpp deadline x = (r, c, h)" by (rule prod_cases3)
  show "active_count (fst (snd (sbind (obtain_library host key cpp deadline) (\<lambda>p.
      sbind (sfinally (act p) (\<lambda>(c, h). (release key c, h))) (g p)) x))) = active_count (fst x)"
  proof (cases r)
    case (Inl e)
    then show ?thesis using obtain_library_counts [of host key cpp deadline x] by (simp add: sbind_def lib)
  next
    case (Inr p)
    obtain out c1 h1 where act: "act p (c, h) = (out, c1, h1)" by (rule prod_cases3)
    have "active_count (release key c1) = active_count (fst x)"
      using obtain_library_counts [of host key cpp deadline x] balanced_eq [OF assms(1) act] Inr
      by (simp add: lib release_store)
    then show ?thesis
      using assms(2) by (cases out) (simp_all add: sbind_def lib Inr act sfinally_def balanced_def)
  qed
qed


section \<open>Errors\<close>

definition process_phases :: "string list" where
  "process_phases = [''transpile'', ''compile'', ''backtest'']"

text \<open>The answers an execution can fail with, as status, code and phase.\<close>

definition error_table :: "(int \<times> string \<times> string) list" where
  "error_table =
     [(400, ''invalid_request'', ''input''), (502, ''invalid_release_response'', ''response'')] @
     concat (map (\<lambda>p. [(503, ''runtime_unavailable'', p), (504, ''execution_timeout'', p), (422, p @ ''_failed'', p)])
       process_phases)"

fun expected_failure :: "failure \<Rightarrow> bool" where
  "expected_failure (Service e) = ((se_status e, se_code e, se_phase e) \<in> set error_table)"
| "expected_failure (Uncaught e) = (exn_class e = FileNotFoundError)"

lemma raises_only_sbind:
  "raises_only P (fst (act x)) \<Longrightarrow> (\<And>a y. act x = (Inr a, y) \<Longrightarrow> raises_only P (fst (f a y))) \<Longrightarrow>
   raises_only P (fst (sbind act f x))"
  by (cases "act x"; cases "fst (act x)") (auto simp: sbind_def)

lemma raises_only_slift: "raises_only P r \<Longrightarrow> raises_only P (fst (slift r x))"
  by simp

lemma raises_only_finally: "raises_only P (fst (act x)) \<Longrightarrow> raises_only P (fst (sfinally act f x))"
  by (simp add: sfinally_def split_def)

lemma command_failures:
  "phase \<in> set process_phases \<Longrightarrow> raises_only expected_failure (fst (run_command host command env phase deadline x))"
  by (cases x) (auto simp: run_command_def Let_def split_def command_answer_def process_phases_def
      error_table_def client_phases_def split: outcome.splits)

lemma contract_caught:
  "raises_only (\<lambda>e. caught e [ReleaseContractError, ValueError]) (write_release_inputs pine bars i)"
  "raises_only (\<lambda>e. caught e [ReleaseContractError, ValueError]) (release_environment workspace i q params overrides)"
  unfolding write_release_inputs_def validate_release_request_def release_environment_def params_json_def
  by (intro raises_only_bind raises_only_guards; auto simp: caught_def is_a_def dumps_def)+

lemma invalid_request_failures:
  "raises_only (\<lambda>e. caught e [ReleaseContractError, ValueError]) m \<Longrightarrow> raises_only expected_failure (invalid_request m)"
  by (cases m) (auto simp: invalid_request_def error_table_def)

lemma prepare_failures: "raises_only expected_failure (fst (prepare host workspace r d x))"
proof -
  have "raises_only expected_failure (case invalid_request m of Inl e \<Rightarrow> Inl e | Inr env \<Rightarrow> Inr ())"
    if "raises_only (\<lambda>e. caught e [ReleaseContractError, ValueError]) m" for m :: "env result"
    using invalid_request_failures [OF that] by (cases "invalid_request m") auto
  then show ?thesis
    unfolding prepare_def split_def
    by (intro raises_only_sbind raises_only_slift) (simp_all add: contract_caught invalid_request_failures)
qed

lemma prepared_parameters:
  "prepare host workspace r d x = (Inr u, y) \<Longrightarrow>
   json_finite (JDict (aq_strategy_params r)) \<and> json_finite (JDict (aq_strategy_overrides r))"
  by (auto simp: prepare_def split_def result_simps invalid_request_def release_environment_def params_json_def
      simp del: first_raise.simps json_finite.simps split: sum.splits if_splits)

lemma library_failures: "raises_only expected_failure (fst (obtain_library host key cpp deadline x))"
proof -
  have commits: "raises_only (\<lambda>e. exn_class e = FileNotFoundError) (commit_and_acquire key tmp c)" for tmp c
    by (auto simp: commit_and_acquire_def replace_file_def split: option.split)
  have "raises_only expected_failure
      (fst (case commit_and_acquire key tmp c of Inl e \<Rightarrow> (Inl (Uncaught e), f) | Inr p \<Rightarrow> (Inr (g p), k p)))"
    for tmp c f and g :: "string \<times> compile_cache \<Rightarrow> string \<times> bool" and k
    using commits [of tmp c] by (cases "commit_and_acquire key tmp c") auto
  then show ?thesis
    unfolding obtain_library_def Let_def split_def
    by (auto intro!: raises_only_finally raises_only_sbind command_failures
        simp: process_phases_def split: option.split)
qed

lemma answer_failures: "raises_only expected_failure (release_answer host key hit sha stdout)"
proof -
  have "raises_only (\<lambda>e. caught e [ReleaseContractError])
     (rbind (parse_release_report (loads host) (decode_utf8 stdout)) (\<lambda>report.
           rbind (normalize_release_version (env_json (environ host) ''PINEFORGE_RELEASE_VERSION'')) (\<lambda>version.
           Inr (report, version))))" (is "raises_only _ ?m")
    by (intro raises_only_bind)
      (auto simp: parse_release_report_def normalize_release_version_def caught_def is_a_def
        split: option.split json.split)
  then show ?thesis by (cases ?m) (auto simp: release_answer_def error_table_def)
qed

lemma answer_report: "release_answer host key hit sha stdout = Inr res \<Longrightarrow> set report_fields \<subseteq> set (dkeys (er_report res))"
  by (auto simp: release_answer_def parse_release_report_def result_simps split: sum.splits option.splits json.splits if_splits)

lemma execution_report:
  assumes "fst (execute_release host st r x) = Inr res"
  shows "set report_fields \<subseteq> set (dkeys (er_report res))"
proof -
  obtain key hit sha stdout where "release_answer host key hit sha stdout = Inr res"
    using assms
    by (auto simp: execute_release_def sfinally_def execute_in_def Let_def split_def result_simps
        split: sum.splits)
  then show ?thesis by (rule answer_report)
qed


section \<open>The endpoints\<close>

text \<open>How the admission of a request ended (theory Admission): refused, too long in the queue, or a slot.\<close>

datatype ticket = Full | Late | Slot

definition service_run ::
  "'h host \<Rightarrow> service_settings \<Rightarrow> ticket \<Rightarrow> api_request \<Rightarrow> string \<Rightarrow> compile_cache \<times> 'h \<Rightarrow>
   (string, json) dict answer \<times> compile_cache \<times> 'h" where
  "service_run host st tk r rid x =
     (case tk of
        Full \<Rightarrow> (fail ''server_overloaded'' ''backtest capacity is full; retry later'' 429 ''queue'', x)
      | Late \<Rightarrow> (fail ''queue_timeout''
                  ''backtest did not reach an execution slot before the queue timeout'' 503 ''queue'', x)
      | Slot \<Rightarrow>
          sbind (execute_release host st r) (\<lambda>res.
          slift (Inr (release_response (er_report res) (release_image st) ''fastapi-server'' (Some rid)
                        (er_metadata res)))) x)"

definition service_ready :: "bool \<Rightarrow> (string \<Rightarrow> bool) \<Rightarrow> (string \<Rightarrow> bool) \<Rightarrow> bool \<Rightarrow> service_settings \<Rightarrow> bool" where
  "service_ready requires_entrypoint regular executable compiler_found st =
     (\<not> requires_entrypoint \<or>
      regular (entrypoint st) \<and> executable (entrypoint st) \<and> regular (run_json_path st) \<and> compiler_found)"

definition readyz_status :: "bool \<Rightarrow> int" where
  "readyz_status ready = (if ready then 200 else 503)"

definition request_id_rx :: rx where
  "request_id_rx =
     RCat (RClass [(65, 90), (97, 122), (48, 57)])
       (rx_upto 127 (RClass [(65, 90), (97, 122), (48, 57), (46, 46), (95, 95), (58, 58), (45, 45)]))"

definition request_id :: "string \<Rightarrow> string option \<Rightarrow> string answer" where
  "request_id uuid value =
     (case value of
        None \<Rightarrow> Inr uuid
      | Some v \<Rightarrow> if \<not> fullmatch request_id_rx v
                  then fail ''invalid_request_id'' ''X-Request-ID must contain 1-128 safe identifier characters''
                         400 ''request''
                  else Inr v)"

text \<open>\<open>secrets.compare_digest\<close> on texts requires ASCII.\<close>

definition is_ascii :: "string \<Rightarrow> bool" where
  "is_ascii s = list_all (\<lambda>c. code c < 128) s"

definition compare_digest :: "string \<Rightarrow> string \<Rightarrow> bool result" where
  "compare_digest a b =
     (if is_ascii a \<and> is_ascii b then Inr (a = b)
      else raise TypeError ''comparing strings with non-ASCII characters is not supported'')"

definition supplied_key :: "string option \<Rightarrow> string" where
  "supplied_key authorization =
     (let s = text_or authorization []; scheme = takeWhile (\<lambda>c. c \<noteq> CHR '' '') s;
          credential = drop 1 (dropWhile (\<lambda>c. c \<noteq> CHR '' '') s)
      in if casefold scheme = ''bearer'' then credential else [])"

definition authorize :: "string \<Rightarrow> string option \<Rightarrow> unit answer" where
  "authorize expected authorization =
     (if expected = [] then Inr ()
      else rbind (uncaught (compare_digest (supplied_key authorization) expected)) (\<lambda>same.
           if same then Inr () else fail ''unauthorized'' ''a valid bearer token is required'' 401 ''authorization''))"

text \<open>The response to a request, or the exception that leaves the handler.\<close>

fun failure_response :: "string \<Rightarrow> failure \<Rightarrow> (int \<times> json) result" where
  "failure_response rid (Service e) =
     Inr (se_status e, JDict [(''error'', JDict
       [(''code'', JStr (se_code e)), (''phase'', JStr (se_phase e)), (''message'', JStr (se_message e)),
        (''request_id'', if rid = [] then JNull else JStr rid)])])"
| "failure_response rid (Uncaught e) = Inl e"

definition respond :: "string \<Rightarrow> (string, json) dict answer \<Rightarrow> (int \<times> json) result" where
  "respond rid r = (case r of Inl f \<Rightarrow> failure_response rid f | Inr result \<Rightarrow> Inr (200, JDict result))"

definition backtest_handler ::
  "string \<Rightarrow> string \<Rightarrow> string option \<Rightarrow> string option \<Rightarrow>
   (string \<Rightarrow> 'x \<Rightarrow> (string, json) dict answer \<times> 'x) \<Rightarrow> 'x \<Rightarrow> (int \<times> json) result \<times> 'x" where
  "backtest_handler expected uuid authorization x_request_id run x =
     (case request_id uuid x_request_id of
        Inl f \<Rightarrow> (failure_response [] f, x)
      | Inr rid \<Rightarrow>
          (case sbind (slift (authorize expected authorization)) (\<lambda>_. run rid) x of
             (r, x') \<Rightarrow> (respond rid r, x')))"

text \<open>What a caller has to present.\<close>

definition safe_char :: "char \<Rightarrow> bool" where
  "safe_char c = (in_ranges [(65, 90), (97, 122), (48, 57)] c \<or> c \<in> set ''._:-'')"

definition safe_id :: "string option \<Rightarrow> bool" where
  "safe_id value =
     (case value of None \<Rightarrow> True | Some [] \<Rightarrow> False
      | Some (c # s) \<Rightarrow> in_ranges [(65, 90), (97, 122), (48, 57)] c \<and> length s \<le> 127 \<and> list_all safe_char s)"

definition presents :: "string \<Rightarrow> string option \<Rightarrow> bool" where
  "presents expected authorization =
     (expected = [] \<or>
      is_ascii expected \<and>
      (\<exists>scheme. authorization = Some (scheme @ CHR '' '' # expected) \<and> casefold scheme = ''bearer''))"

lemma code_is: "code d = n \<Longrightarrow> (code c = n) = (c = d)"
  by auto

lemma request_id_safe: "(\<exists>rid. request_id uuid xid = Inr rid) = safe_id xid"
proof (cases xid)
  case (Some v)
  have "in_ranges [(65, 90), (97, 122), (48, 57), (46, 46), (95, 95), (58, 58), (45, 45)] c = safe_char c" for c
  proof -
    have codes: "code c = 46 \<longleftrightarrow> c = CHR ''.''" "code c = 95 \<longleftrightarrow> c = CHR ''_''" "code c = 58 \<longleftrightarrow> c = CHR '':''"
      "code c = 45 \<longleftrightarrow> c = CHR ''-''"
      by (rule code_is, simp add: code_def)+
    have eq: "(n \<le> code c \<and> code c \<le> n) = (code c = n)" for n by auto
    show ?thesis unfolding safe_char_def in_ranges.simps eq codes by (simp only: list.set insert_iff empty_iff) blast
  qed
  then have "fullmatch request_id_rx v = safe_id (Some v)"
    unfolding fullmatch_iff request_id_rx_def lang_class_cat
    by (cases v) (auto simp: safe_id_def lang_upto_class list_all_iff)
  then show ?thesis using Some by (simp add: request_id_def)
qed (simp add: request_id_def safe_id_def)

lemma request_id_value: "request_id uuid xid = Inr rid \<Longrightarrow> rid = (case xid of None \<Rightarrow> uuid | Some v \<Rightarrow> v)"
  by (auto simp: request_id_def split: option.splits if_splits)

lemma request_id_fails: "request_id uuid xid = Inl f \<Longrightarrow> \<exists>e. f = Service e \<and> se_status e = 400"
  by (auto simp: request_id_def split: option.splits if_splits)

lemma casefold_space: "casefold scheme = ''bearer'' \<Longrightarrow> CHR '' '' \<notin> set scheme"
proof
  assume b: "casefold scheme = ''bearer''" and "CHR '' '' \<in> set scheme"
  then obtain xs ys where "scheme = xs @ CHR '' '' # ys" by (meson split_list)
  moreover have "fold_char CHR '' '' = '' ''" by (simp add: fold_char_def code_def)
  ultimately have "CHR '' '' \<in> set (casefold scheme)" by (simp add: casefold_def)
  then show False unfolding b by simp
qed

lemma supplied_key_iff:
  assumes "key \<noteq> []"
  shows "(supplied_key auth = key) = (\<exists>scheme. auth = Some (scheme @ CHR '' '' # key) \<and> casefold scheme = ''bearer'')"
proof
  let ?s = "text_or auth []"
  assume sup: "supplied_key auth = key"
  then have b: "casefold (takeWhile (\<lambda>c. c \<noteq> CHR '' '') ?s) = ''bearer''"
    and k: "drop 1 (dropWhile (\<lambda>c. c \<noteq> CHR '' '') ?s) = key"
    using assms by (auto simp: supplied_key_def Let_def split: if_splits)
  obtain c where c: "dropWhile (\<lambda>c. c \<noteq> CHR '' '') ?s = c # key"
    using k assms by (cases "dropWhile (\<lambda>c. c \<noteq> CHR '' '') ?s") auto
  then have "c = CHR '' ''" using hd_dropWhile [of "\<lambda>c. c \<noteq> CHR '' ''" ?s] by simp
  then have "?s = takeWhile (\<lambda>c. c \<noteq> CHR '' '') ?s @ CHR '' '' # key"
    using takeWhile_dropWhile_id [of "\<lambda>c. c \<noteq> CHR '' ''" ?s] c by simp
  moreover have "auth = Some ?s" using c by (cases auth) auto
  ultimately show "\<exists>scheme. auth = Some (scheme @ CHR '' '' # key) \<and> casefold scheme = ''bearer''" using b by metis
next
  assume "\<exists>scheme. auth = Some (scheme @ CHR '' '' # key) \<and> casefold scheme = ''bearer''"
  then obtain scheme where s: "auth = Some (scheme @ CHR '' '' # key)" "casefold scheme = ''bearer''" by auto
  have "\<forall>c \<in> set scheme. c \<noteq> CHR '' ''" using casefold_space [OF s(2)] by auto
  then show "supplied_key auth = key" using s by (simp add: supplied_key_def Let_def)
qed

lemma authorize_presents: "(authorize expected auth = Inr u) = presents expected auth"
  using supplied_key_iff [of expected auth]
  by (auto simp: authorize_def presents_def compare_digest_def uncaught_def result_simps split: if_splits)

lemma authorize_fails:
  "authorize expected auth = Inl f \<Longrightarrow>
   (\<exists>e. f = Service e \<and> se_status e = 401) \<or> (\<exists>e. f = Uncaught e \<and> \<not> is_ascii (supplied_key auth @ expected))"
  by (auto simp: authorize_def compare_digest_def uncaught_def is_ascii_def result_simps split: if_splits)

text \<open>
  C15. The service runs a request only for a caller with a well-formed request identifier who
  presents the configured key as a bearer token, and then under that identifier.  Anyone else
  leaves the service untouched and gets 400 or 401, or, where the key or the credential has a
  character beyond ASCII, no answer at all: \<open>compare_digest\<close> raises.
\<close>

theorem handler_admits_authorized:
  "(if safe_id xid \<and> presents expected auth
    then backtest_handler expected uuid auth xid run x =
      (let rid = (case xid of None \<Rightarrow> uuid | Some v \<Rightarrow> v) in
       (respond rid (fst (run rid x)), snd (run rid x)))
    else snd (backtest_handler expected uuid auth xid run x) = x \<and>
      (case fst (backtest_handler expected uuid auth xid run x) of
         Inr (status, body) \<Rightarrow> status = (if safe_id xid then 401 else 400)
       | Inl e \<Rightarrow> safe_id xid \<and> \<not> is_ascii (supplied_key auth @ expected)))"
proof (cases "request_id uuid xid")
  case (Inl f)
  then have "\<not> safe_id xid" using request_id_safe [of uuid xid] by auto
  moreover obtain e where "f = Service e" "se_status e = 400" using request_id_fails [OF Inl] by auto
  ultimately show ?thesis by (simp add: backtest_handler_def Inl)
next
  case (Inr rid)
  then have safe: "safe_id xid" using request_id_safe [of uuid xid] by auto
  show ?thesis
  proof (cases "authorize expected auth")
    case (Inl f)
    then have "\<not> presents expected auth" using authorize_presents [of expected auth] by auto
    then show ?thesis
      using authorize_fails [OF Inl] safe by (auto simp: backtest_handler_def Inr Inl respond_def)
  next
    case right: (Inr u)
    then have "presents expected auth" using authorize_presents [of expected auth] by auto
    then show ?thesis
      using safe request_id_value [OF Inr]
      by (simp add: backtest_handler_def Inr right split_def Let_def)
  qed
qed

end
