(* ===== verification/Ccxt.thy ===== *)
theory Ccxt
  imports Requests PyValue
begin

text \<open>
  \<open>src/pineforge_data/providers/ccxt.py\<close>: normalization of CCXT markets, bars and trades, the
  paginated bar fetch and the polled trade stream.  The exchange client is a parameter: a record
  of its unified methods on a state \<open>'x\<close> of its own.
\<close>

section \<open>The exchange and the provider\<close>

type_synonym market_dict = "(string, json) dict"

record 'x exchange =
  ex_id :: string
  ex_has :: "string \<Rightarrow> bool"
  ex_milliseconds :: "'x \<Rightarrow> int \<times> 'x"
  ex_parse_timeframe :: "string \<Rightarrow> json result"
  ex_load_markets :: "bool \<Rightarrow> market_dict \<Rightarrow> 'x \<Rightarrow> (string, market_dict) dict result \<times> 'x"
  ex_fetch_ohlcv :: "string \<Rightarrow> string \<Rightarrow> int \<Rightarrow> int \<Rightarrow> market_dict \<Rightarrow> 'x \<Rightarrow> json list list result \<times> 'x"
  ex_fetch_trades :: "string \<Rightarrow> int \<Rightarrow> int \<Rightarrow> market_dict \<Rightarrow> 'x \<Rightarrow> market_dict list result \<times> 'x"
  ex_close :: "'x \<Rightarrow> 'x"

record ccxt_provider =
  cp_id :: string
  owns_exchange :: bool
  page_limit :: int
  poll_interval_ms :: int
  dedup_window :: int
  reload_markets :: bool
  market_params :: market_dict
  ohlcv_params :: market_dict
  trade_params :: market_dict

definition cp_name :: "ccxt_provider \<Rightarrow> string" where
  "cp_name p = ''ccxt:'' @ cp_id p"

text \<open>
  \<open>__init__\<close>: \<open>injected\<close> is the exchange argument and \<open>load\<close> builds one from the module, where the
  module and the exchange exist.
\<close>

definition mk_ccxt_provider ::
  "string \<Rightarrow> 'x exchange option \<Rightarrow> (string \<Rightarrow> 'x exchange result) \<Rightarrow> int \<Rightarrow> int \<Rightarrow> int \<Rightarrow> bool \<Rightarrow>
   market_dict \<Rightarrow> market_dict \<Rightarrow> market_dict \<Rightarrow> (ccxt_provider \<times> 'x exchange) result" where
  "mk_ccxt_provider exchange_id injected load page poll dedup reload mp op tp =
     rbind (first_raise
       [(blank exchange_id, ValueError, ''exchange_id must not be empty''),
        (page \<le> 0, ValueError, ''page_limit must be positive''),
        (poll < 0, ValueError, ''poll_interval_ms must be non-negative''),
        (dedup \<le> 0, ValueError, ''dedup_window must be positive'')]) (\<lambda>_.
     rbind (case injected of Some e \<Rightarrow> Inr e | None \<Rightarrow> load exchange_id) (\<lambda>ex.
     rbind (require (ex_id ex = exchange_id) ValueError ''injected CCXT exchange id does not match'') (\<lambda>_.
     Inr (\<lparr>cp_id = exchange_id, owns_exchange = (injected = None), page_limit = page,
           poll_interval_ms = poll, dedup_window = dedup, reload_markets = reload,
           market_params = mp, ohlcv_params = op, trade_params = tp\<rparr>, ex))))"

text \<open>\<open>_load_exchange\<close>: the installed module maps an exchange id to its class, where it has one.\<close>

definition load_exchange :: "(string \<Rightarrow> 'x exchange option) option \<Rightarrow> string \<Rightarrow> 'x exchange result" where
  "load_exchange classes_of exchange_id =
     (case classes_of of
        None \<Rightarrow> raise CcxtDependencyError ''CCXT is not installed; install pineforge-data[ccxt]''
      | Some classes \<Rightarrow>
          (case classes exchange_id of
             None \<Rightarrow> raise ValueError ''unknown CCXT exchange''
           | Some e \<Rightarrow> Inr e))"

section \<open>Field checks\<close>

definition ccxt_number :: "json \<Rightarrow> string \<Rightarrow> pyfloat result" where
  "ccxt_number v field =
     (case v of
        JInt n \<Rightarrow> float_of_int n
      | JFloat f \<Rightarrow> (if isfinite f then Inr f else raise CcxtDataError (field @ '' must be finite''))
      | _ \<Rightarrow> raise CcxtDataError (field @ '' must be numeric''))"

definition ccxt_timestamp :: "json \<Rightarrow> string \<Rightarrow> int result" where
  "ccxt_timestamp v field =
     rbind (ccxt_number v field) (\<lambda>f.
       if flt f (Fin 0) \<or> \<not> is_integer (fval f)
       then raise CcxtDataError (field @ '' must be a non-negative integer'')
       else Inr (trunc (fval f)))"

definition ccxt_optional_number :: "json \<Rightarrow> string \<Rightarrow> pyfloat option result" where
  "ccxt_optional_number v field =
     (if v = JNull then Inr None else rbind (ccxt_number v field) (\<lambda>f. Inr (Some f)))"

definition ccxt_optional_timestamp :: "json \<Rightarrow> string \<Rightarrow> int option result" where
  "ccxt_optional_timestamp v field =
     (if v = JNull then Inr None else rbind (ccxt_timestamp v field) (\<lambda>t. Inr (Some t)))"

definition ccxt_optional_bool :: "json \<Rightarrow> string \<Rightarrow> bool option result" where
  "ccxt_optional_bool v field =
     (case v of JNull \<Rightarrow> Inr None | JBool b \<Rightarrow> Inr (Some b)
      | _ \<Rightarrow> raise CcxtDataError (field @ '' must be boolean''))"

definition ccxt_text :: "json \<Rightarrow> string \<Rightarrow> string result" where
  "ccxt_text v field =
     (case v of JStr s \<Rightarrow> (if blank s then raise CcxtDataError (field @ '' must be a non-empty string'')
                           else Inr s)
      | _ \<Rightarrow> raise CcxtDataError (field @ '' must be a non-empty string''))"

definition ccxt_optional_text :: "json \<Rightarrow> string \<Rightarrow> string result" where
  "ccxt_optional_text v field = (if v = JNull then Inr [] else ccxt_text v field)"

lemma ccxt_number_finite: "ccxt_number v field = Inr f \<Longrightarrow> isfinite f"
  by (auto simp: ccxt_number_def float_of_int_finite split: json.splits if_splits)

lemma ccxt_timestamp_nonneg: "ccxt_timestamp v field = Inr t \<Longrightarrow> 0 \<le> t"
  by (auto simp: ccxt_timestamp_def result_simps trunc_def isfinite_iff dest!: ccxt_number_finite
      split: if_splits)

section \<open>Markets\<close>

definition ccxt_market_types :: "(string, market_type) dict" where
  "ccxt_market_types =
     [(''spot'', SPOT), (''margin'', SPOT), (''swap'', SWAP), (''future'', FUTURE), (''option'', OPTION)]"

definition contract_market_types :: "market_type list" where
  "contract_market_types = [SWAP, FUTURE, OPTION]"

definition ccxt_option_type :: "string \<Rightarrow> option_type option result" where
  "ccxt_option_type s =
     (if s = [] then Inr None
      else rcatch (rbind (option_type_of (casefold s)) (\<lambda>t. Inr (Some t))) [ValueError]
             (\<lambda>e. raise CcxtDataError ''unsupported market.optionType''))"

definition ccxt_contract :: "market_dict \<Rightarrow> option_type option \<Rightarrow> contract_spec result" where
  "ccxt_contract raw opt =
     rcatch
       (rbind (ccxt_optional_number (jget raw ''contractSize'') ''market.contractSize'') (\<lambda>size.
        rbind (ccxt_optional_bool (jget raw ''linear'') ''market.linear'') (\<lambda>lin.
        rbind (ccxt_optional_bool (jget raw ''inverse'') ''market.inverse'') (\<lambda>inv.
        rbind (ccxt_optional_timestamp (jget raw ''expiry'') ''market.expiry'') (\<lambda>expiry.
        rbind (ccxt_optional_number (jget raw ''strike'') ''market.strike'') (\<lambda>stk.
        mk_contract_spec
          \<lparr>contract_size = size, linear = lin, inverse = inv, expiry_ms = expiry, strike = stk,
           option_type = opt\<rparr>))))))
       [ValueError] (\<lambda>e. raise CcxtDataError ''invalid contract metadata'')"

definition normalize_market :: "ccxt_provider \<Rightarrow> market_dict \<Rightarrow> market_listing result" where
  "normalize_market p raw =
     rbind (ccxt_text (jget raw ''symbol'') ''market.symbol'') (\<lambda>name.
     rbind (ccxt_text (jget raw ''id'') ''market.id'') (\<lambda>pid.
     rbind (ccxt_optional_text (jget raw ''type'') ''market.type'') (\<lambda>raw_type.
     let mt = (case map_of ccxt_market_types (casefold raw_type) of Some t \<Rightarrow> t | None \<Rightarrow> MT_UNKNOWN) in
     rbind (ccxt_optional_bool (jget raw ''contract'') ''market.contract'') (\<lambda>declared.
     let is_contract = (declared = Some True \<or> mt \<in> set contract_market_types) in
     rbind (ccxt_optional_text (jget raw ''optionType'') ''market.optionType'') (\<lambda>raw_option.
     rbind (ccxt_option_type raw_option) (\<lambda>opt.
     rbind (if is_contract then rbind (ccxt_contract raw opt) (\<lambda>c. Inr (Some c)) else Inr None) (\<lambda>con.
     rbind (ccxt_optional_text (jget raw ''base'') ''market.base'') (\<lambda>bs.
     rbind (ccxt_optional_text (jget raw ''quote'') ''market.quote'') (\<lambda>qt.
     rbind (ccxt_optional_text (jget raw ''settle'') ''market.settle'') (\<lambda>st.
     rbind (mk_instrument
       ((instrument_of name)\<lparr>venue := cp_id p, volume_unit := (if is_contract then ''contracts'' else ''base''),
          asset_class := CRYPTO, market_type := mt, base := bs, quote := qt, settle := st,
          provider_id := pid, contract := con\<rparr>)) (\<lambda>i.
     rbind (ccxt_optional_bool (jget raw ''active'') ''market.active'') (\<lambda>act.
     rbind (ccxt_optional_bool (jget raw ''margin'') ''market.margin'') (\<lambda>mar.
     Inr \<lparr>ml_instrument = i, active = act, margin_supported = mar\<rparr>)))))))))))))"

definition ccxt_list_markets ::
  "ccxt_provider \<Rightarrow> 'x exchange \<Rightarrow> market_query option \<Rightarrow> 'x \<Rightarrow> market_listing list result \<times> 'x" where
  "ccxt_list_markets p ex query =
     sbind (ex_load_markets ex (reload_markets p) (market_params p)) (\<lambda>raw.
     sbind (slift (rmap (normalize_market p) (map snd raw))) (\<lambda>listings.
     slift (Inr (sort_key (\<lambda>l. symbol (ml_instrument l))
       (case query of None \<Rightarrow> listings | Some q \<Rightarrow> filter (matches q) listings)))))"

definition ccxt_resolve_market ::
  "ccxt_provider \<Rightarrow> 'x exchange \<Rightarrow> string \<Rightarrow> 'x \<Rightarrow> market_listing result \<times> 'x" where
  "ccxt_resolve_market p ex name =
     sbind (slift (require (\<not> blank name) ValueError ''symbol must not be empty'')) (\<lambda>_.
     sbind (ex_load_markets ex (reload_markets p) (market_params p)) (\<lambda>raw.
     slift (case map_of raw name of
              None \<Rightarrow> raise MarketNotFoundError ''no exact unified market symbol''
            | Some m \<Rightarrow> normalize_market p m)))"

section \<open>Bars\<close>

definition require_capability :: "'x exchange \<Rightarrow> string \<Rightarrow> unit result" where
  "require_capability ex name = require (ex_has ex name) CcxtCapabilityError ''exchange does not support it''"

definition validate_venue :: "ccxt_provider \<Rightarrow> instrument \<Rightarrow> unit result" where
  "validate_venue p i =
     require (\<not> (venue i \<noteq> [] \<and> venue i \<noteq> cp_id p)) ValueError
       ''instrument venue does not match provider venue''"

definition normalize_bar :: "ccxt_provider \<Rightarrow> bar_request \<Rightarrow> json list \<Rightarrow> bar result" where
  "normalize_bar p r raw =
     rbind (require (\<not> length raw < 6) CcxtDataError ''OHLCV record must contain at least six fields'') (\<lambda>_.
     rbind (ccxt_timestamp (raw ! 0) ''timestamp'') (\<lambda>t.
     rbind (ccxt_number (raw ! 1) ''open'') (\<lambda>op.
     rbind (ccxt_number (raw ! 2) ''high'') (\<lambda>hi.
     rbind (ccxt_number (raw ! 3) ''low'') (\<lambda>lo.
     rbind (ccxt_number (raw ! 4) ''close'') (\<lambda>cl.
     rbind (ccxt_number (raw ! 5) ''volume'') (\<lambda>vol.
     mk_bar \<lparr>bar_instrument = br_instrument r, bar_ms = t, bar_open = op, bar_high = hi, bar_low = lo,
             bar_close = cl, bar_volume = vol, bar_source = cp_name p\<rparr>)))))))"

text \<open>A bar that is in the request and whose period has ended.\<close>

definition confirmed :: "bar_request \<Rightarrow> int \<Rightarrow> int \<Rightarrow> bar \<Rightarrow> bool" where
  "confirmed r timeframe_ms observed b =
     (start_ms r \<le> bar_ms b \<and> bar_ms b < end_ms r \<and> bar_ms b + timeframe_ms \<le> observed)"

text \<open>One record of a page: the newest timestamp and the bars so far.\<close>

fun page_step ::
  "ccxt_provider \<Rightarrow> bar_request \<Rightarrow> int \<Rightarrow> int \<Rightarrow> int \<times> (int, bar) dict \<Rightarrow> json list \<Rightarrow>
   (int \<times> (int, bar) dict) result" where
  "page_step p r tf observed (mx, acc) raw =
     rbind (normalize_bar p r raw) (\<lambda>b.
       Inr (max mx (bar_ms b), if confirmed r tf observed b then AList.update (bar_ms b) b acc else acc))"

definition remaining_limit :: "bar_request \<Rightarrow> (int, bar) dict \<Rightarrow> int option" where
  "remaining_limit r acc = map_option (\<lambda>n. n - int (length acc)) (br_limit r)"

function fetch_loop ::
  "ccxt_provider \<Rightarrow> 'x exchange \<Rightarrow> bar_request \<Rightarrow> int \<Rightarrow> int \<Rightarrow> int \<Rightarrow> (int, bar) dict \<Rightarrow> 'x \<Rightarrow>
   (int, bar) dict result \<times> 'x" where
  "fetch_loop p ex r tf observed cursor acc x =
     (if \<not> cursor < end_ms r then (Inr acc, x)
      else if some_bad (\<lambda>k. k \<le> 0) (remaining_limit r acc) then (Inr acc, x)
      else
        (case ex_fetch_ohlcv ex (symbol (br_instrument r)) (br_timeframe r) cursor
                (case remaining_limit r acc of None \<Rightarrow> page_limit p | Some k \<Rightarrow> min (page_limit p) k)
                (ohlcv_params p) x of
           (Inl e, x') \<Rightarrow> (Inl e, x')
         | (Inr raws, x') \<Rightarrow>
             if raws = [] then (Inr acc, x')
             else (case rfold (page_step p r tf observed) (cursor - 1, acc) raws of
                     Inl e \<Rightarrow> (Inl e, x')
                   | Inr (mx, acc') \<Rightarrow>
                       if mx + 1 \<le> cursor then (Inr acc', x')
                       else fetch_loop p ex r tf observed (mx + 1) acc' x')))"
  by pat_completeness auto

termination
  by (relation "measure (\<lambda>(p, ex, r, tf, observed, cursor, acc, x). nat (end_ms r - cursor))") auto

declare fetch_loop.simps [simp del]

text \<open>\<open>int(seconds * 1_000)\<close>\<close>

definition timeframe_ms :: "'x exchange \<Rightarrow> string \<Rightarrow> int result" where
  "timeframe_ms ex tf =
     rbind (ex_parse_timeframe ex tf) (\<lambda>seconds.
     rbind (ccxt_number seconds ''timeframe seconds'') (\<lambda>f.
     rbind (case fmul f (Fin 1000) of Fin x \<Rightarrow> Inr (trunc x)
            | _ \<Rightarrow> raise OverflowError ''cannot convert float infinity to integer'') (\<lambda>ms.
     rbind (require (\<not> ms \<le> 0) CcxtDataError ''timeframe duration must be positive'') (\<lambda>_. Inr ms))))"

definition ccxt_fetch_bars ::
  "ccxt_provider \<Rightarrow> 'x exchange \<Rightarrow> bar_request \<Rightarrow> 'x \<Rightarrow> bar list result \<times> 'x" where
  "ccxt_fetch_bars p ex r =
     sbind (slift (validate_venue p (br_instrument r))) (\<lambda>_.
     sbind (slift (require_capability ex ''fetchOHLCV'')) (\<lambda>_.
     sbind (slift (timeframe_ms ex (br_timeframe r))) (\<lambda>tf.
     sbind (\<lambda>x. case ex_milliseconds ex x of (now, x') \<Rightarrow> (Inr now, x')) (\<lambda>now.
     sbind (fetch_loop p ex r tf (min (end_ms r) now) (start_ms r) []) (\<lambda>by_timestamp.
     slift (Inr (limited (br_limit r) (sort_key bar_ms (map snd by_timestamp)))))))))"

section \<open>What a fetch returns\<close>

lemma normalize_bar_returns:
  "normalize_bar p r raw = Inr b \<Longrightarrow> bar_ok b \<and> bar_instrument b = br_instrument r \<and> bar_source b = cp_name p"
  by (auto simp: normalize_bar_def result_simps mk_bar_iff)

definition collected :: "ccxt_provider \<Rightarrow> bar_request \<Rightarrow> int \<Rightarrow> int \<Rightarrow> (int, bar) dict \<Rightarrow> bool" where
  "collected p r tf observed acc =
     (wf_dict acc \<and>
      (\<forall>k b. (k, b) \<in> set acc \<longrightarrow> bar_ms b = k \<and> bar_ok b \<and> bar_instrument b = br_instrument r \<and>
         bar_source b = cp_name p \<and> confirmed r tf observed b))"

lemma collected_page:
  assumes "rfold (page_step p r tf observed) (mx, acc) raws = Inr (mx', acc')"
    and "collected p r tf observed acc"
  shows "collected p r tf observed acc'"
proof -
  let ?I = "\<lambda>s. collected p r tf observed (snd s)"
  have "?I s'" if "?I s" and "page_step p r tf observed s raw = Inr s'" for s raw s'
    using that by (cases s)
      (auto simp: result_simps collected_def mem_update dest!: normalize_bar_returns split: if_splits)
  then have "?I (mx', acc')" using assms(2) by (intro rfold_invariant [OF assms(1), of ?I]) auto
  then show ?thesis by simp
qed

lemma collected_loop:
  "fst (fetch_loop p ex r tf observed cursor acc x) = Inr acc' \<Longrightarrow> collected p r tf observed acc \<Longrightarrow>
   collected p r tf observed acc'"
proof (induction p ex r tf observed cursor acc x rule: fetch_loop.induct)
  case (1 p ex r tf observed cursor acc x)
  show ?case
    using "1.prems"
    by (subst (asm) fetch_loop.simps)
      (auto split: if_splits prod.splits sum.splits intro: collected_page "1.IH"
        simp del: rfold.simps)
qed

lemma ccxt_fetch_returns:
  assumes "ccxt_fetch_bars p ex r x = (Inr bs, y)"
  obtains tf now x1 acc where "timeframe_ms ex (br_timeframe r) = Inr tf"
    and "ex_milliseconds ex x = (now, x1)"
    and "fetch_loop p ex r tf (min (end_ms r) now) (start_ms r) [] x1 = (Inr acc, y)"
    and "bs = limited (br_limit r) (sort_key bar_ms (map snd acc))"
  using assms by (auto simp: ccxt_fetch_bars_def result_simps split: prod.splits)

lemma ccxt_fetch_serves: "fst (ccxt_fetch_bars p ex r x) = Inr bs \<Longrightarrow> serves r bs"
proof -
  assume "fst (ccxt_fetch_bars p ex r x) = Inr bs"
  then obtain y where "ccxt_fetch_bars p ex r x = (Inr bs, y)" by (metis prod.collapse)
  then obtain tf now x1 acc where loop:
      "fetch_loop p ex r tf (min (end_ms r) now) (start_ms r) [] x1 = (Inr acc, y)"
      and bs: "bs = limited (br_limit r) (sort_key bar_ms (map snd acc))"
    by (rule ccxt_fetch_returns)
  have "collected p r tf (min (end_ms r) now) acc"
    by (rule collected_loop [of p ex r tf "min (end_ms r) now" "start_ms r" "[]" x1])
      (simp_all add: loop collected_def)
  then have c: "wf_dict acc" "\<And>k b. (k, b) \<in> set acc \<Longrightarrow> bar_ms b = k"
    and ok: "\<And>k b. (k, b) \<in> set acc \<Longrightarrow> bar_ok b \<and> bar_instrument b = br_instrument r \<and>
        start_ms r \<le> bar_ms b \<and> bar_ms b < end_ms r"
    by (auto simp: collected_def confirmed_def)
  note sorted = sorted_values_strict [OF c(1), of bar_ms, OF c(2)]
  have "bar_ok b \<and> bar_instrument b = br_instrument r \<and> start_ms r \<le> bar_ms b \<and> bar_ms b < end_ms r"
    if "b \<in> set bs" for b
  proof -
    have "b \<in> snd ` set acc" using that set_limited sorted(2) unfolding bs by fastforce
    then show ?thesis using ok by auto
  qed
  then show ?thesis
    unfolding serves_def using bs strict_limited [OF sorted(1)] limited_length by metis
qed

interpretation ccxt: historical_bars "\<lambda>r. fst (ccxt_fetch_bars p ex r x)" for p ex x
  by unfold_locales (rule ccxt_fetch_serves)

section \<open>Completeness\<close>

text \<open>
  The documented behaviour of \<open>fetchOHLCV\<close>: the first \<open>limit\<close> bars from \<open>since\<close> on, oldest first,
  of a history in time order.
\<close>

definition lists_history :: "ccxt_provider \<Rightarrow> 'x exchange \<Rightarrow> bar_request \<Rightarrow> bar list \<Rightarrow> bool" where
  "lists_history p ex r hist =
     (sorted_wrt (<) (map bar_ms hist) \<and>
      (\<forall>since limit x. 0 < limit \<longrightarrow>
         (\<exists>raws x'. ex_fetch_ohlcv ex (symbol (br_instrument r)) (br_timeframe r) since limit
                      (ohlcv_params p) x = (Inr raws, x') \<and>
            rmap (normalize_bar p r) raws =
              Inr (take (nat limit) (filter (\<lambda>b. since \<le> bar_ms b) hist)))))"

lemma page_fold:
  "rmap (normalize_bar p r) raws = Inr bs \<Longrightarrow>
   rfold (page_step p r tf observed) (mx, acc) raws =
     Inr (foldl (\<lambda>m b. max m (bar_ms b)) mx bs,
          foldl (\<lambda>d b. if confirmed r tf observed b then AList.update (bar_ms b) b d else d) acc bs)"
proof (induction raws arbitrary: bs mx acc)
  case (Cons raw raws)
  from Cons.prems obtain b bs' where "normalize_bar p r raw = Inr b" "rmap (normalize_bar p r) raws = Inr bs'"
    "bs = b # bs'" by (auto simp: result_simps)
  then show ?case using Cons.IH by simp
qed simp

abbreviation stored :: "bar list \<Rightarrow> (int, bar) dict" where
  "stored bs \<equiv> map (\<lambda>b. (bar_ms b, b)) bs"

lemma fold_max_sorted:
  "sorted_wrt (<) (map bar_ms bs) \<Longrightarrow> bs \<noteq> [] \<Longrightarrow> mx < bar_ms (hd bs) \<Longrightarrow>
   foldl (\<lambda>m b. max m (bar_ms b)) mx bs = bar_ms (last bs)"
proof (induction bs arbitrary: mx)
  case (Cons b bs)
  then show ?case
    by (cases bs) (auto simp: max_def)
qed simp

lemma fold_store:
  "distinct (map bar_ms bs) \<Longrightarrow> set (map bar_ms bs) \<inter> set (dkeys d) = {} \<Longrightarrow>
   foldl (\<lambda>d b. if Q b then AList.update (bar_ms b) b d else d) d bs = d @ stored (filter Q bs)"
  by (induction bs arbitrary: d) (auto simp: dict_add)

lemma strict_split:
  "sorted_wrt (<) (map bar_ms hist) \<Longrightarrow>
   hist = filter (\<lambda>b. bar_ms b < c) hist @ filter (\<lambda>b. c \<le> bar_ms b) hist"
proof (induction hist)
  case (Cons b hist)
  show ?case
  proof (cases "bar_ms b < c")
    case False
    then have "filter (\<lambda>b. bar_ms b < c) hist = []" "filter (\<lambda>b. c \<le> bar_ms b) hist = hist"
      using Cons.prems by (auto simp: filter_empty_conv filter_id_conv)
    then show ?thesis using False by simp
  qed (use Cons in simp)
qed simp

lemma strict_last: "sorted_wrt (<) (map bar_ms bs) \<Longrightarrow> b \<in> set bs \<Longrightarrow> bar_ms b \<le> bar_ms (last bs)"
  by (induction bs) (auto simp: less_imp_le)

lemma page_extends:
  assumes "sorted_wrt (<) (map bar_ms hist)" and "0 < n"
    and "bs = take n (filter (\<lambda>b. c \<le> bar_ms b) hist)" and "bs \<noteq> []"
  shows "filter (\<lambda>b. bar_ms b < bar_ms (last bs) + 1) hist = filter (\<lambda>b. bar_ms b < c) hist @ bs"
proof -
  let ?late = "filter (\<lambda>b. c \<le> bar_ms b) hist" and ?old = "filter (\<lambda>b. bar_ms b < c) hist"
  let ?P = "\<lambda>b. bar_ms b < bar_ms (last bs) + 1"
  have split: "hist = ?old @ bs @ drop n ?late"
    using strict_split [OF assms(1), of c] assms(3) by simp
  have sorted: "sorted_wrt (<) (map bar_ms ?old @ map bar_ms bs @ map bar_ms (drop n ?late))"
    using assms(1) split by (metis map_append)
  have l: "last bs \<in> set bs" using assms(4) by simp
  then have cl: "c \<le> bar_ms (last bs)" using assms(3) by (auto dest!: in_set_takeD)
  have "filter ?P ?old = ?old" unfolding filter_id_conv using cl by auto
  moreover have "filter ?P bs = bs"
  proof -
    have "sorted_wrt (<) (map bar_ms bs)" using sorted by (auto simp: sorted_wrt_append)
    then have "\<forall>b \<in> set bs. bar_ms b \<le> bar_ms (last bs)" by (auto dest: strict_last)
    then show ?thesis unfolding filter_id_conv by auto
  qed
  moreover have "filter ?P (drop n ?late) = []"
    using sorted l by (fastforce simp: sorted_wrt_append filter_empty_conv)
  ultimately show ?thesis by (subst (1) split) simp
qed

lemma filter_comm: "filter P (filter Q xs) = filter Q (filter P xs)"
  by (induction xs) auto

lemma prefix_limited:
  assumes "sorted_wrt (<) (map bar_ms cs)"
    and "filter (\<lambda>b. bar_ms b < c) cs = cs \<or> (\<exists>n. lm = Some n \<and> n \<le> int (length (filter (\<lambda>b. bar_ms b < c) cs)))"
  shows "limited lm (filter (\<lambda>b. bar_ms b < c) cs) = limited lm cs"
proof (cases "filter (\<lambda>b. bar_ms b < c) cs = cs")
  case False
  let ?early = "filter (\<lambda>b. bar_ms b < c) cs"
  obtain n where n: "lm = Some n" "n \<le> int (length ?early)" using assms(2) False by blast
  have "take (nat n) cs = take (nat n) (?early @ filter (\<lambda>b. c \<le> bar_ms b) cs)"
    using strict_split [OF assms(1), of c] by simp
  also have "\<dots> = take (nat n) ?early" using n(2) by simp
  finally show ?thesis by (simp add: limited_def n(1))
qed simp

lemma fetch_loop_complete:
  assumes "lists_history p ex r hist" and "0 < page_limit p"
  shows "cs = filter (confirmed r tf observed) hist \<Longrightarrow>
    \<exists>acc y. fetch_loop p ex r tf observed cursor (stored (filter (\<lambda>b. bar_ms b < cursor) cs)) x = (Inr acc, y) \<and>
      limited (br_limit r) (sort_key bar_ms (map snd acc)) = limited (br_limit r) cs"
proof (induction "nat (end_ms r - cursor)" arbitrary: cursor x rule: less_induct)
  case less
  let ?acc = "stored (filter (\<lambda>b. bar_ms b < cursor) cs)"
  have hist: "sorted_wrt (<) (map bar_ms hist)" using assms(1) by (simp add: lists_history_def)
  have cs: "sorted_wrt (<) (map bar_ms cs)" unfolding less.prems by (rule strict_map_filter [OF hist])
  have early: "sorted_wrt (<) (map bar_ms (filter (\<lambda>b. bar_ms b < c) cs))" for c
    by (rule strict_map_filter [OF cs])
  have fin: "limited (br_limit r) (sort_key bar_ms (map snd (stored (filter (\<lambda>b. bar_ms b < c) cs)))) =
      limited (br_limit r) cs"
    if "filter (\<lambda>b. bar_ms b < c) cs = cs \<or>
        (\<exists>n. br_limit r = Some n \<and> n \<le> int (length (filter (\<lambda>b. bar_ms b < c) cs)))" for c
  proof -
    have "sort_key bar_ms (filter (\<lambda>b. bar_ms b < c) cs) = filter (\<lambda>b. bar_ms b < c) cs"
      using early [of c] by (intro sort_key_id_if_sorted) (simp add: strict_sorted_iff)
    then show ?thesis using prefix_limited [OF cs that] by (simp add: comp_def)
  qed
  show ?case
  proof (cases "cursor < end_ms r \<and> \<not> some_bad (\<lambda>k. k \<le> 0) (remaining_limit r ?acc)")
    case False
    have "filter (\<lambda>b. bar_ms b < cursor) cs = cs" if "\<not> cursor < end_ms r"
      unfolding filter_id_conv using that less.prems by (auto simp: confirmed_def)
    moreover have "\<exists>n. br_limit r = Some n \<and> n \<le> int (length (filter (\<lambda>b. bar_ms b < cursor) cs))"
      if "some_bad (\<lambda>k. k \<le> 0) (remaining_limit r ?acc)"
      using that by (cases "br_limit r") (auto simp: remaining_limit_def)
    ultimately have "limited (br_limit r) (sort_key bar_ms (map snd ?acc)) = limited (br_limit r) cs"
      using False by (intro fin) blast
    moreover have "fetch_loop p ex r tf observed cursor ?acc x = (Inr ?acc, x)"
      using False by (subst fetch_loop.simps) auto
    ultimately show ?thesis by blast
  next
    case True
    define n where "n = (case remaining_limit r ?acc of None \<Rightarrow> page_limit p | Some k \<Rightarrow> min (page_limit p) k)"
    have n: "0 < n" using True assms(2) by (auto simp: n_def split: option.splits)
    define bs where "bs = take (nat n) (filter (\<lambda>b. cursor \<le> bar_ms b) hist)"
    obtain raws x' where page: "ex_fetch_ohlcv ex (symbol (br_instrument r)) (br_timeframe r) cursor n
        (ohlcv_params p) x = (Inr raws, x')" and norm: "rmap (normalize_bar p r) raws = Inr bs"
      using assms(1) n unfolding lists_history_def bs_def by blast
    have step: "fetch_loop p ex r tf observed cursor ?acc x =
        (if raws = [] then (Inr ?acc, x')
         else (case rfold (page_step p r tf observed) (cursor - 1, ?acc) raws of
                 Inl e \<Rightarrow> (Inl e, x')
               | Inr (mx, acc') \<Rightarrow>
                   if mx + 1 \<le> cursor then (Inr acc', x')
                   else fetch_loop p ex r tf observed (mx + 1) acc' x'))"
      using True page by (subst fetch_loop.simps) (simp add: n_def)
    show ?thesis
    proof (cases "bs = []")
      case empty: True
      have "raws = []" using rmap_length [OF norm] empty by simp
      moreover have "filter (\<lambda>b. cursor \<le> bar_ms b) hist = []" using empty n by (simp add: bs_def)
      then have "filter (\<lambda>b. bar_ms b < cursor) cs = cs"
        unfolding filter_id_conv using less.prems by (auto simp: filter_empty_conv not_le)
      ultimately show ?thesis using step fin [of cursor] by simp
    next
      case some: False
      have raws: "raws \<noteq> []" using rmap_length [OF norm] some by auto
      have bsort: "sorted_wrt (<) (map bar_ms bs)"
        unfolding bs_def take_map [symmetric] by (intro strict_take strict_map_filter hist)
      have ge: "\<forall>b \<in> set bs. cursor \<le> bar_ms b" unfolding bs_def by (auto dest: in_set_takeD)
      let ?mx = "bar_ms (last bs)"
      have mx: "foldl (\<lambda>m b. max m (bar_ms b)) (cursor - 1) bs = ?mx"
      proof -
        have "cursor \<le> bar_ms (hd bs)" using ge some by simp
        then show ?thesis by (intro fold_max_sorted bsort some) simp
      qed
      have ext: "filter (\<lambda>b. bar_ms b < ?mx + 1) hist = filter (\<lambda>b. bar_ms b < cursor) hist @ bs"
        using n by (intro page_extends [OF hist _ bs_def some]) simp
      have ext_cs: "filter (\<lambda>b. bar_ms b < ?mx + 1) cs =
          filter (\<lambda>b. bar_ms b < cursor) cs @ filter (confirmed r tf observed) bs"
        unfolding less.prems filter_comm [of _ "confirmed r tf observed"] ext by simp
      have acc: "foldl (\<lambda>d b. if confirmed r tf observed b then AList.update (bar_ms b) b d else d) ?acc bs =
          stored (filter (\<lambda>b. bar_ms b < ?mx + 1) cs)"
      proof -
        have "distinct (map bar_ms bs)" using bsort by (simp add: strict_sorted_iff)
        moreover have "set (map bar_ms bs) \<inter> set (dkeys ?acc) = {}" using ge by fastforce
        ultimately show ?thesis unfolding ext_cs map_append by (intro fold_store)
      qed
      have lt: "cursor < ?mx + 1" using ge some by (simp add: order_le_less_trans)
      have "nat (end_ms r - (?mx + 1)) < nat (end_ms r - cursor)" using True lt by simp
      note IH = less.hyps [OF this less.prems, of x']
      have "fetch_loop p ex r tf observed cursor ?acc x =
          fetch_loop p ex r tf observed (?mx + 1) (stored (filter (\<lambda>b. bar_ms b < ?mx + 1) cs)) x'"
        unfolding step using raws lt by (simp add: page_fold [OF norm] mx acc)
      then show ?thesis using IH by simp
    qed
  qed
qed

lemma listed_fetch:
  assumes "lists_history p ex r hist" and "0 < page_limit p"
    and "venue (br_instrument r) = [] \<or> venue (br_instrument r) = cp_id p"
    and "ex_has ex ''fetchOHLCV''" and "timeframe_ms ex (br_timeframe r) = Inr tf"
    and "ex_milliseconds ex x = (now, x1)"
  shows "\<exists>y. ccxt_fetch_bars p ex r x =
    (Inr (limited (br_limit r) (filter (confirmed r tf (min (end_ms r) now)) hist)), y)"
proof -
  let ?cs = "filter (confirmed r tf (min (end_ms r) now)) hist"
  have none: "filter (\<lambda>b. bar_ms b < start_ms r) ?cs = []"
    by (auto simp: filter_empty_conv confirmed_def)
  obtain acc y where
    "fetch_loop p ex r tf (min (end_ms r) now) (start_ms r) [] x1 = (Inr acc, y)"
    "limited (br_limit r) (sort_key bar_ms (map snd acc)) = limited (br_limit r) ?cs"
    using fetch_loop_complete [OF assms(1,2) refl, of tf "min (end_ms r) now" "start_ms r" x1]
    unfolding none by auto
  moreover have "validate_venue p (br_instrument r) = Inr ()" "require_capability ex ''fetchOHLCV'' = Inr ()"
    using assms(3,4) by (auto simp: validate_venue_def require_capability_def)
  ultimately show ?thesis using assms(5,6) by (simp add: ccxt_fetch_bars_def sbind_def slift_def)
qed

text \<open>
  C2. The paginated fetch is complete: against an exchange that answers each page with the first
  bars of its history from the cursor on, the fetch returns, and returns exactly the confirmed bars
  of the request in time order (the first of them, under a limit), whatever the page size.
\<close>

theorem fetch_bars_complete:
  assumes "lists_history p ex r hist" and "0 < page_limit p"
    and "venue (br_instrument r) = [] \<or> venue (br_instrument r) = cp_id p"
    and "ex_has ex ''fetchOHLCV''" and "timeframe_ms ex (br_timeframe r) = Inr tf"
    and "fst (ex_milliseconds ex x) = now"
  shows "fst (ccxt_fetch_bars p ex r x) =
    Inr (limited (br_limit r) (filter (confirmed r tf (min (end_ms r) now)) hist))"
  using listed_fetch [OF assms(1-5), of x now "snd (ex_milliseconds ex x)"] assms(6) by auto

text \<open>An exchange with a history of one-minute bars and a page size of one.\<close>

definition minute_raw :: "int \<Rightarrow> json list" where
  "minute_raw t = [JInt t, JInt 2, JInt 4, JInt 1, JInt 3, JInt 0]"

definition minute_bar :: "int \<Rightarrow> bar" where
  "minute_bar t =
     \<lparr>bar_instrument = instrument_of ''BTC/USDT'', bar_ms = t, bar_open = Fin 2, bar_high = Fin 4,
      bar_low = Fin 1, bar_close = Fin 3, bar_volume = Fin 0, bar_source = ''ccxt:x''\<rparr>"

definition minute_times :: "int list" where
  "minute_times = [60000, 120000, 180000, 240000]"

definition minute_exchange :: "unit exchange" where
  "minute_exchange =
     \<lparr>ex_id = ''x'', ex_has = (\<lambda>m. True), ex_milliseconds = (\<lambda>x. (200000, x)),
      ex_parse_timeframe = (\<lambda>tf. Inr (JInt 60)), ex_load_markets = (\<lambda>b ps x. (Inr [], x)),
      ex_fetch_ohlcv = (\<lambda>s tf since n ps x.
        (Inr (map minute_raw (take (nat n) (filter (\<lambda>t. since \<le> t) minute_times))), x)),
      ex_fetch_trades = (\<lambda>s since n ps x. (Inr [], x)), ex_close = (\<lambda>x. x)\<rparr>"

definition minute_provider :: ccxt_provider where
  "minute_provider =
     \<lparr>cp_id = ''x'', owns_exchange = False, page_limit = 1, poll_interval_ms = 0, dedup_window = 10,
      reload_markets = False, market_params = [], ohlcv_params = [], trade_params = []\<rparr>"

definition minute_request :: bar_request where
  "minute_request =
     \<lparr>br_instrument = instrument_of ''BTC/USDT'', br_timeframe = ''1m'', start_ms = 100000,
      end_ms = 300000, br_limit = None\<rparr>"

lemma minute_normalize:
  "t \<in> set minute_times \<Longrightarrow> normalize_bar minute_provider minute_request (minute_raw t) = Inr (minute_bar t)"
proof -
  assume t: "t \<in> set minute_times"
  have n: "float_of_int k = Inr (Fin (of_int k))" if "\<bar>k\<bar> < 2 ^ 53" for k using that by (rule float_of_int_exact)
  have "0 \<le> t" "\<bar>t\<bar> < 2 ^ 53" using t by (auto simp: minute_times_def)
  then have "ccxt_timestamp (JInt t) ''timestamp'' = Inr t"
    by (simp add: ccxt_timestamp_def ccxt_number_def n)
  moreover have "ccxt_number (JInt k) f = Inr (Fin (of_int k))" if "\<bar>k\<bar> < 2 ^ 53" for k f
    using n [OF that] by (simp add: ccxt_number_def)
  moreover have "\<not> blank ''ccxt:x''" by (simp add: blank_iff py_space_def code_def)
  then have "mk_bar (minute_bar t) = Inr (minute_bar t)"
    using t by (auto simp: mk_bar_iff bar_ok_def ms_ok_def minute_bar_def minute_times_def)
  ultimately show ?thesis
    by (simp add: normalize_bar_def minute_raw_def minute_bar_def minute_request_def minute_provider_def
        cp_name_def)
qed

lemma minute_history: "lists_history minute_provider minute_exchange minute_request (map minute_bar minute_times)"
  unfolding lists_history_def
proof (intro conjI allI impI)
  show "sorted_wrt (<) (map bar_ms (map minute_bar minute_times))"
    by (simp add: minute_bar_def minute_times_def)
  fix since limit x
  let ?ts = "take (nat limit) (filter (\<lambda>t. since \<le> t) minute_times)"
  have "rmap (normalize_bar minute_provider minute_request) (map minute_raw ?ts) = Inr (map minute_bar ?ts)"
    unfolding rmap_returns list_all2_map1 list_all2_map2 list_all2_same
    using minute_normalize by (auto dest: in_set_takeD)
  moreover have "map minute_bar ?ts = take (nat limit) (filter (\<lambda>b. since \<le> bar_ms b) (map minute_bar minute_times))"
    by (simp add: take_map [symmetric] filter_map comp_def minute_bar_def)
  ultimately show "\<exists>raws x'. ex_fetch_ohlcv minute_exchange (symbol (br_instrument minute_request))
        (br_timeframe minute_request) since limit (ohlcv_params minute_provider) x = (Inr raws, x') \<and>
      rmap (normalize_bar minute_provider minute_request) raws =
        Inr (take (nat limit) (filter (\<lambda>b. since \<le> bar_ms b) (map minute_bar minute_times)))"
    by (simp add: minute_exchange_def)
qed

lemma minute_timeframe: "timeframe_ms minute_exchange ''1m'' = Inr 60000"
  using float_of_int_exact [of 60] rnd64_int [of 60000] trunc_of_int [of 60000]
  by (simp add: timeframe_ms_def minute_exchange_def ccxt_number_def)

lemmas minute_defs = minute_provider_def minute_exchange_def minute_request_def instrument_of_def
  minute_times_def minute_bar_def confirmed_def limited_def

lemma fetch_bars_complete_witness:
  "fst (ccxt_fetch_bars minute_provider minute_exchange minute_request ()) = Inr [minute_bar 120000]"
  using fetch_bars_complete [OF minute_history, of 60000 "()" 200000] minute_timeframe
  by (simp add: minute_defs)

lemma minute_fetch:
  "fst (ccxt_fetch_bars minute_provider minute_exchange minute_request ()) = Inr [minute_bar 120000]"
  using listed_fetch [OF minute_history, of 60000 "()" 200000 "()"] minute_timeframe
  by (auto simp: minute_defs)

text \<open>
  Whatever an exchange answers, the bars a fetch returns increase strictly in time, are valid,
  belong to the requested instrument, lie in the requested interval and respect the limit.
\<close>

theorem ccxt_bars_contract:
  assumes "fst (ccxt_fetch_bars p ex r x) = Inr bs"
  shows "strictly_increasing bar_ms bs \<and> (\<forall>n. br_limit r = Some n \<longrightarrow> int (length bs) \<le> max 0 n) \<and>
    (\<forall>b \<in> set bs. bar_ok b \<and> bar_instrument b = br_instrument r \<and>
       start_ms r \<le> bar_ms b \<and> bar_ms b < end_ms r)"
  using ccxt.fetch_increasing [OF assms] ccxt.fetch_one_instrument [OF assms]
    ccxt.fetch_bar_ok [OF assms] ccxt.fetch_in_range [OF assms] ccxt.fetch_serves [OF assms]
  by (auto simp: serves_def)

lemma ccxt_bars_contract_witness:
  "bar_ok (minute_bar 120000) \<and> start_ms minute_request \<le> bar_ms (minute_bar 120000)"
  using ccxt_bars_contract [OF minute_fetch] by simp

section \<open>The trade stream\<close>

datatype trade_identity = KId string | KValues int pyfloat pyfloat json

definition trade_key :: "market_dict \<Rightarrow> trade_tick \<Rightarrow> trade_identity" where
  "trade_key raw tick =
     (let trade_id = jget raw ''id'' in
      if trade_id \<noteq> JNull \<and> py_str trade_id \<noteq> [] then KId (py_str trade_id)
      else KValues (tick_ms tick) (tick_price tick) (tick_qty tick) (jget raw ''side''))"

definition normalize_trade ::
  "ccxt_provider \<Rightarrow> trade_subscription \<Rightarrow> market_dict \<Rightarrow> int \<Rightarrow> trade_tick result" where
  "normalize_trade p sub raw sequence =
     rbind (ccxt_timestamp (jget raw ''timestamp'') ''timestamp'') (\<lambda>t.
     rbind (ccxt_number (jget raw ''price'') ''price'') (\<lambda>price.
     rbind (ccxt_number (jget raw ''amount'') ''amount'') (\<lambda>qty.
     mk_trade_tick \<lparr>tick_instrument = ts_instrument sub, tick_ms = t, tick_seq = sequence,
                    tick_price = price, tick_qty = qty, tick_source = cp_name p\<rparr>)))"

text \<open>
  The generator's variables, with the ticks it has yielded.  \<open>seen\<close> is kept beside \<open>seen_order\<close> as in
  the code; a poll that raises keeps what was yielded before.
\<close>

record stream_state =
  since :: int
  sequence :: int
  seen_order :: "trade_identity list"
  seen :: "trade_identity set"
  yielded :: "trade_tick list"

definition trade_step ::
  "ccxt_provider \<Rightarrow> trade_subscription \<Rightarrow> int \<Rightarrow> stream_state \<Rightarrow> market_dict \<Rightarrow> stream_state result" where
  "trade_step p sub poll_since st raw =
     rbind (normalize_trade p sub raw (sequence st + 1)) (\<lambda>candidate.
     if tick_ms candidate < poll_since then Inr st
     else
       (let st1 = st\<lparr>since := max (since st) (tick_ms candidate)\<rparr>; key = trade_key raw candidate in
        if key \<in> seen st1 then Inr st1
        else
          rbind (mk_trade_tick (candidate\<lparr>tick_seq := sequence st + 1\<rparr>)) (\<lambda>tick.
          let order = seen_order st1 @ [key]; keys = insert key (seen st1);
              full = int (length order) > dedup_window p in
          Inr (st1\<lparr>sequence := sequence st + 1,
                   seen_order := (if full then tl order else order),
                   seen := (if full then keys - {hd order} else keys),
                   yielded := yielded st1 @ [tick]\<rparr>))))"

fun trade_steps ::
  "ccxt_provider \<Rightarrow> trade_subscription \<Rightarrow> int \<Rightarrow> stream_state \<Rightarrow> market_dict list \<Rightarrow> exn option \<times> stream_state" where
  "trade_steps p sub poll_since st [] = (None, st)"
| "trade_steps p sub poll_since st (raw # raws) =
     (case trade_step p sub poll_since st raw of
        Inl e \<Rightarrow> (Some e, st)
      | Inr st' \<Rightarrow> trade_steps p sub poll_since st' raws)"

text \<open>\<open>sorted(raw_trades, key=...)\<close>: every key is computed first, the sort is stable.\<close>

definition sort_trades :: "market_dict list \<Rightarrow> market_dict list result" where
  "sort_trades raws =
     rbind (rmap (\<lambda>raw. rbind (ccxt_timestamp (jget raw ''timestamp'') ''timestamp'') (\<lambda>t. Inr (t, raw))) raws)
       (\<lambda>keyed. Inr (map snd (sort_key fst keyed)))"

definition poll_once ::
  "ccxt_provider \<Rightarrow> 'x exchange \<Rightarrow> trade_subscription \<Rightarrow> stream_state \<Rightarrow> 'x \<Rightarrow>
   (exn option \<times> stream_state) \<times> 'x" where
  "poll_once p ex sub st x =
     (case ex_fetch_trades ex (symbol (ts_instrument sub)) (since st) (page_limit p) (trade_params p) x of
        (Inl e, x') \<Rightarrow> ((Some e, st), x')
      | (Inr raws, x') \<Rightarrow>
          (case sort_trades raws of
             Inl e \<Rightarrow> ((Some e, st), x')
           | Inr ordered \<Rightarrow> (trade_steps p sub (since st) st ordered, x')))"

definition stream_start ::
  "ccxt_provider \<Rightarrow> 'x exchange \<Rightarrow> trade_subscription \<Rightarrow> 'x \<Rightarrow> stream_state result \<times> 'x" where
  "stream_start p ex sub =
     sbind (slift (validate_venue p (ts_instrument sub))) (\<lambda>_.
     sbind (slift (require_capability ex ''fetchTrades'')) (\<lambda>_ x.
     case (case ts_start_ms sub of Some t \<Rightarrow> (t, x) | None \<Rightarrow> ex_milliseconds ex x) of (t, x') \<Rightarrow>
       (Inr \<lparr>since = t, sequence = start_sequence sub, seen_order = [], seen = {}, yielded = []\<rparr>, x')))"

text \<open>The first \<open>n\<close> turns of \<open>while True\<close>; the generator ends only by an exception.\<close>

fun polls ::
  "nat \<Rightarrow> ccxt_provider \<Rightarrow> 'x exchange \<Rightarrow> trade_subscription \<Rightarrow> stream_state \<Rightarrow> 'x \<Rightarrow>
   (exn option \<times> stream_state) \<times> 'x" where
  "polls 0 p ex sub st x = ((None, st), x)"
| "polls (Suc n) p ex sub st x =
     (case poll_once p ex sub st x of
        ((Some e, st'), x') \<Rightarrow> ((Some e, st'), x')
      | ((None, st'), x') \<Rightarrow> polls n p ex sub st' x')"

definition ccxt_close :: "ccxt_provider \<Rightarrow> 'x exchange \<Rightarrow> 'x \<Rightarrow> 'x" where
  "ccxt_close p ex x = (if owns_exchange p then ex_close ex x else x)"

text \<open>
  What the stream keeps: consecutive sequence numbers, valid ticks of the instrument in time order
  up to \<open>since\<close>, and a window of the latest keys, none of which occurs twice within the window.
\<close>

definition last_keys :: "int \<Rightarrow> trade_identity list \<Rightarrow> trade_identity list" where
  "last_keys w ks = drop (length ks - nat w) ks"

definition key_fits :: "trade_identity \<Rightarrow> trade_tick \<Rightarrow> bool" where
  "key_fits k t = (case k of KId i \<Rightarrow> i \<noteq> [] | KValues ms p q side \<Rightarrow> ms = tick_ms t \<and> p = tick_price t \<and> q = tick_qty t)"

definition window_distinct :: "int \<Rightarrow> trade_identity list \<Rightarrow> bool" where
  "window_distinct w ks = (\<forall>i j. i < j \<and> j < length ks \<and> int j - int i \<le> w \<longrightarrow> ks ! i \<noteq> ks ! j)"

definition stream_ok :: "ccxt_provider \<Rightarrow> trade_subscription \<Rightarrow> int \<Rightarrow> stream_state \<Rightarrow> bool" where
  "stream_ok p sub t0 st =
     (map tick_seq (yielded st) = [start_sequence sub + 1 .. start_sequence sub + int (length (yielded st))] \<and>
      sequence st = start_sequence sub + int (length (yielded st)) \<and>
      sorted (map tick_ms (yielded st)) \<and>
      (\<forall>t \<in> set (yielded st). tick_ok t \<and> tick_instrument t = ts_instrument sub \<and>
         t0 \<le> tick_ms t \<and> tick_ms t \<le> since st) \<and> t0 \<le> since st \<and>
      seen st = set (seen_order st) \<and>
      (\<exists>ks. list_all2 key_fits ks (yielded st) \<and> seen_order st = last_keys (dedup_window p) ks \<and>
         window_distinct (dedup_window p) ks))"

lemma last_keys_snoc:
  "0 < w \<Longrightarrow> last_keys w (ks @ [k]) =
     (if int (length (last_keys w ks @ [k])) > w then tl (last_keys w ks @ [k]) else last_keys w ks @ [k])"
proof (cases "int (length ks) < w")
  case False
  assume w: "0 < w"
  let ?o = "length ks - nat w"
  have o: "length (ks @ [k]) - nat w = Suc ?o" "Suc ?o \<le> length ks" using w False by auto
  have "drop (Suc ?o) (ks @ [k]) = tl (drop ?o ks) @ [k]" using o(2) by (simp add: drop_Suc tl_drop)
  moreover have "drop ?o ks \<noteq> []" using o(2) by simp
  ultimately show ?thesis using w False o by (simp add: last_keys_def)
qed (auto simp: last_keys_def)

lemma window_distinct_snoc:
  "window_distinct w ks \<Longrightarrow> k \<notin> set (last_keys w ks) \<Longrightarrow> window_distinct w (ks @ [k])"
proof -
  assume d: "window_distinct w ks" and k: "k \<notin> set (last_keys w ks)"
  have "ks ! i \<noteq> k" if "i < length ks" "int (length ks) - int i \<le> w" for i
  proof -
    have "length ks - nat w \<le> i" using that by linarith
    then have "last_keys w ks ! (i - (length ks - nat w)) = ks ! i"
      using that by (simp add: last_keys_def)
    moreover have "i - (length ks - nat w) < length (last_keys w ks)"
      using that by (simp add: last_keys_def)
    ultimately show ?thesis using k by (metis nth_mem)
  qed
  then show ?thesis
    using d by (auto simp: window_distinct_def nth_append less_Suc_eq)
qed

lemma window_keys_distinct: "0 < w \<Longrightarrow> window_distinct w ks \<Longrightarrow> distinct (last_keys w ks)"
proof -
  assume w: "0 < w" and d: "window_distinct w ks"
  let ?o = "length ks - nat w" and ?n = "length (last_keys w ks)"
  have lt: "last_keys w ks ! a \<noteq> last_keys w ks ! b" if "a < b" "b < ?n" for a b
  proof -
    have "last_keys w ks ! a = ks ! (?o + a)" "last_keys w ks ! b = ks ! (?o + b)"
      using that by (simp_all add: last_keys_def)
    moreover have "?o + b < length ks" "int (?o + b) - int (?o + a) \<le> w"
      using that w by (simp_all add: last_keys_def)
    moreover have "?o + a < ?o + b" using that by simp
    ultimately show ?thesis using d unfolding window_distinct_def by metis
  qed
  show ?thesis
    unfolding distinct_conv_nth
  proof (intro allI impI)
    fix i j assume "i < ?n" "j < ?n" "i \<noteq> j"
    then show "last_keys w ks ! i \<noteq> last_keys w ks ! j"
      using lt [of i j] lt [of j i] by (cases "i < j") auto
  qed
qed

lemma normalize_trade_returns:
  "normalize_trade p sub raw n = Inr t \<Longrightarrow>
   tick_ok t \<and> tick_instrument t = ts_instrument sub \<and> tick_seq t = n \<and>
   ccxt_timestamp (jget raw ''timestamp'') ''timestamp'' = Inr (tick_ms t)"
  by (auto simp: normalize_trade_def result_simps mk_trade_tick_iff)

lemma trade_key_fits: "key_fits (trade_key raw t) t"
  by (auto simp: trade_key_def key_fits_def Let_def)

lemma upto_snoc: "m \<le> n + 1 \<Longrightarrow> [m .. n + 1] = [m .. n] @ [n + 1 :: int]"
  by (simp add: upto_rec2)

text \<open>One trade no earlier than what was yielded.\<close>

lemma trade_step_ok:
  assumes "trade_step p sub poll_since st raw = Inr st'" and "stream_ok p sub t0 st"
    and "0 < dedup_window p" and "t0 \<le> poll_since"
    and "ccxt_timestamp (jget raw ''timestamp'') ''timestamp'' = Inr k"
    and "\<forall>t \<in> set (yielded st). poll_since \<le> k \<longrightarrow> tick_ms t \<le> k"
  shows "stream_ok p sub t0 st' \<and> since st \<le> since st' \<and>
    (yielded st' = yielded st \<or> (\<exists>t. yielded st' = yielded st @ [t] \<and> tick_ms t = k))"
proof -
  obtain c where c: "normalize_trade p sub raw (sequence st + 1) = Inr c"
    using assms(1) by (auto simp: trade_step_def result_simps)
  note cn = normalize_trade_returns [OF c]
  have ck: "tick_ms c = k" using cn assms(5) by simp
  have same: "c\<lparr>tick_seq := sequence st + 1\<rparr> = c" using cn by (cases c) simp
  have tick: "mk_trade_tick c = Inr c" using cn by (simp add: mk_trade_tick_iff)
  obtain ks where ks: "list_all2 key_fits ks (yielded st)" "seen_order st = last_keys (dedup_window p) ks"
      "window_distinct (dedup_window p) ks"
    using assms(2) unfolding stream_ok_def by blast
  show ?thesis
  proof (cases "k < poll_since \<or> trade_key raw c \<in> seen st")
    case True
    then have "st' = st \<or> st' = st\<lparr>since := max (since st) k\<rparr>"
      using assms(1) c ck by (auto simp: trade_step_def Let_def split: if_splits)
    then show ?thesis using assms(2) unfolding stream_ok_def by fastforce
  next
    case False
    let ?key = "trade_key raw c" and ?order = "seen_order st @ [trade_key raw c]"
    let ?full = "int (length ?order) > dedup_window p"
    have st': "st' = st\<lparr>since := max (since st) k, sequence := sequence st + 1,
        seen_order := (if ?full then tl ?order else ?order),
        seen := (if ?full then insert ?key (seen st) - {hd ?order} else insert ?key (seen st)),
        yielded := yielded st @ [c]\<rparr>"
      using assms(1) c ck False tick same by (simp add: trade_step_def Let_def)
    have keys: "seen_order st' = last_keys (dedup_window p) (ks @ [?key])"
      unfolding last_keys_snoc [OF assms(3)] st' by (simp add: ks(2))
    have new: "?key \<notin> set (last_keys (dedup_window p) ks)"
      using False assms(2) ks(2) by (simp add: stream_ok_def)
    have wd: "window_distinct (dedup_window p) (ks @ [?key])"
      by (rule window_distinct_snoc [OF ks(3) new])
    have "distinct ?order" using window_keys_distinct [OF assms(3) ks(3)] new ks(2) by simp
    then have "set (tl ?order) = set ?order - {hd ?order}" by (cases ?order) auto
    then have seen: "seen st' = set (seen_order st')"
      using assms(2) by (simp add: st' stream_ok_def)
    have fits: "list_all2 key_fits (ks @ [?key]) (yielded st')"
      unfolding st' using ks(1) trade_key_fits by (auto intro!: list_all2_appendI)
    have late: "\<forall>t \<in> set (yielded st). tick_ms t \<le> k" using assms(6) False by simp
    show ?thesis
    proof (intro conjI)
      show "stream_ok p sub t0 st'"
        unfolding stream_ok_def
      proof (intro conjI)
        let ?n = "start_sequence sub + int (length (yielded st))"
        have "map tick_seq (yielded st') = [start_sequence sub + 1 .. ?n + 1]"
          using assms(2) cn by (simp add: st' stream_ok_def upto_snoc)
        moreover have "start_sequence sub + int (length (yielded st')) = ?n + 1" by (simp add: st')
        ultimately show "map tick_seq (yielded st') =
            [start_sequence sub + 1 .. start_sequence sub + int (length (yielded st'))]" by metis
        show "sequence st' = start_sequence sub + int (length (yielded st'))"
          using assms(2) by (simp add: st' stream_ok_def)
        show "sorted (map tick_ms (yielded st'))"
          using assms(2) late ck by (auto simp: st' stream_ok_def sorted_append)
        show "\<forall>t \<in> set (yielded st'). tick_ok t \<and> tick_instrument t = ts_instrument sub \<and>
            t0 \<le> tick_ms t \<and> tick_ms t \<le> since st'"
          using assms(2,4) cn ck False by (auto simp: st' stream_ok_def)
        show "t0 \<le> since st'" using assms(2) by (auto simp: st' stream_ok_def)
        show "\<exists>ks. list_all2 key_fits ks (yielded st') \<and>
            seen_order st' = last_keys (dedup_window p) ks \<and> window_distinct (dedup_window p) ks"
          using fits keys wd by blast
      qed (rule seen)
    qed (auto simp: st' ck)
  qed
qed

definition raw_ms :: "market_dict \<Rightarrow> int result" where
  "raw_ms raw = ccxt_timestamp (jget raw ''timestamp'') ''timestamp''"

lemma trade_steps_ok:
  assumes "0 < dedup_window p" and "t0 \<le> poll_since"
  shows "trade_steps p sub poll_since st raws = (e, st') \<Longrightarrow> rmap raw_ms raws = Inr ks \<Longrightarrow> sorted ks \<Longrightarrow>
    stream_ok p sub t0 st \<Longrightarrow> \<forall>t \<in> set (yielded st). \<forall>k \<in> set ks. poll_since \<le> k \<longrightarrow> tick_ms t \<le> k \<Longrightarrow>
    stream_ok p sub t0 st' \<and> since st \<le> since st' \<and> (\<exists>new. yielded st' = yielded st @ new)"
proof (induction raws arbitrary: st ks)
  case (Cons raw raws)
  obtain k ks' where k: "raw_ms raw = Inr k" "rmap raw_ms raws = Inr ks'" "ks = k # ks'"
    using Cons.prems(2) by (auto simp: result_simps)
  show ?case
  proof (cases "trade_step p sub poll_since st raw")
    case (Inr st1)
    have one: "stream_ok p sub t0 st1 \<and> since st \<le> since st1 \<and>
        (yielded st1 = yielded st \<or> (\<exists>t. yielded st1 = yielded st @ [t] \<and> tick_ms t = k))"
      using Cons.prems(4,5) k
      by (intro trade_step_ok [OF Inr _ assms]) (simp_all add: raw_ms_def)
    then have "\<forall>t \<in> set (yielded st1). \<forall>j \<in> set ks'. poll_since \<le> j \<longrightarrow> tick_ms t \<le> j"
      using Cons.prems(3,5) k(3) by auto
    then have "stream_ok p sub t0 st' \<and> since st1 \<le> since st' \<and> (\<exists>new. yielded st' = yielded st1 @ new)"
      using one k Cons.prems(1,3) Inr by (intro Cons.IH [of st1 ks']) auto
    then show ?thesis using one by fastforce
  qed (use Cons.prems in auto)
qed simp

lemma sort_trades_sorted:
  assumes "sort_trades raws = Inr ordered"
  shows "\<exists>ks. rmap raw_ms ordered = Inr ks \<and> sorted ks"
proof -
  obtain keyed where keyed: "rmap (\<lambda>raw. rbind (raw_ms raw) (\<lambda>t. Inr (t, raw))) raws = Inr keyed"
    and ordered: "ordered = map snd (sort_key fst keyed)"
    using assms by (auto simp: sort_trades_def result_simps raw_ms_def)
  have "raw_ms (snd q) = Inr (fst q)" if "q \<in> set keyed" for q
    using rmap_set [OF keyed that] by (auto simp: result_simps)
  then have "rmap raw_ms ordered = Inr (map fst (sort_key fst keyed))"
    unfolding ordered rmap_returns by (simp add: list_all2_map1 list_all2_map2 list_all2_same)
  then show ?thesis by auto
qed

lemma poll_once_ok:
  assumes "poll_once p ex sub st x = ((e, st'), x')" and "stream_ok p sub t0 st" and "0 < dedup_window p"
  shows "stream_ok p sub t0 st' \<and> since st \<le> since st' \<and> (\<exists>new. yielded st' = yielded st @ new)"
proof (cases "\<exists>ordered. trade_steps p sub (since st) st ordered = (e, st') \<and>
    (\<exists>ks. rmap raw_ms ordered = Inr ks \<and> sorted ks)")
  case True
  then obtain ordered ks where o: "trade_steps p sub (since st) st ordered = (e, st')"
    "rmap raw_ms ordered = Inr ks" "sorted ks" by blast
  show ?thesis
    using assms(2) by (intro trade_steps_ok [OF assms(3) _ o]) (auto simp: stream_ok_def)
next
  case False
  then have "st' = st"
    using assms(1) sort_trades_sorted
    by (auto simp: poll_once_def split: prod.splits sum.splits)
  then show ?thesis using assms(2) by simp
qed

lemma polls_ok:
  "polls n p ex sub st x = ((e, st'), x') \<Longrightarrow> stream_ok p sub t0 st \<Longrightarrow> 0 < dedup_window p \<Longrightarrow>
   stream_ok p sub t0 st' \<and> (\<exists>new. yielded st' = yielded st @ new)"
proof (induction n arbitrary: st x)
  case (Suc n)
  obtain e1 st1 x1 where one: "poll_once p ex sub st x = ((e1, st1), x1)" by (metis prod.collapse)
  note ok = poll_once_ok [OF one Suc.prems(2,3)]
  show ?case
  proof (cases e1)
    case None
    then have "polls n p ex sub st1 x1 = ((e, st'), x')" using Suc.prems(1) one by simp
    then show ?thesis using Suc.IH [OF _ _ Suc.prems(3)] ok by fastforce
  next
    case (Some e2)
    then have "st' = st1" using Suc.prems(1) one by simp
    then show ?thesis using ok by simp
  qed
qed simp

lemma stream_start_ok:
  "stream_start p ex sub x = (Inr st, x') \<Longrightarrow> stream_ok p sub (since st) st \<and> yielded st = []"
  by (auto simp: stream_start_def result_simps stream_ok_def last_keys_def window_distinct_def
      split: prod.splits intro!: exI [of _ "[]"])


text \<open>An exchange that answers every poll with the same two trades, newest first.\<close>

definition raw_trade :: "rat \<Rightarrow> string \<Rightarrow> market_dict" where
  "raw_trade t i =
     [(''id'', JStr i), (''timestamp'', JFloat (Fin t)), (''price'', JFloat (Fin 2)), (''amount'', JFloat (Fin 1))]"

definition two_trades :: "unit exchange" where
  "two_trades = minute_exchange
     \<lparr>ex_fetch_trades := (\<lambda>s since n ps x. (Inr [raw_trade 7 ''b'', raw_trade 6 ''a''], x))\<rparr>"

definition trade_sub :: trade_subscription where
  "trade_sub = \<lparr>ts_instrument = instrument_of ''BTC/USDT'', ts_start_ms = Some 5, start_sequence = 7\<rparr>"

definition two_ticks :: "trade_tick list" where
  "two_ticks = map (\<lambda>(t, n). \<lparr>tick_instrument = instrument_of ''BTC/USDT'', tick_ms = t, tick_seq = n,
     tick_price = Fin 2, tick_qty = Fin 1, tick_source = ''ccxt:x''\<rparr>) [(6, 8), (7, 9)]"


end
