(* ===== verification/Registry.thy ===== *)
theory Registry
  imports TabularSources Ccxt
begin

text \<open>
  \<open>src/pineforge_data/providers/registry.py\<close>: provider factories by name, the built-in ones and
  those advertised as entry points.  The installed distributions, the environment, the files and
  the databases a factory connects to are parameters.
\<close>

section \<open>Providers as the harness uses them\<close>

text \<open>
  An object with the methods of \<open>MarketDataProvider\<close>; each acts on the state of the outside world.
  A factory may return an object that does not have these methods: \<open>None\<close>.
\<close>

type_synonym config = "(string, json) dict"

record 'w data_provider =
  dp_name :: string
  dp_venue :: string
  dp_resolve :: "string \<Rightarrow> 'w \<Rightarrow> market_listing result \<times> 'w"
  dp_fetch :: "bar_request \<Rightarrow> 'w \<Rightarrow> bar list result \<times> 'w"
  dp_close :: "'w \<Rightarrow> unit result \<times> 'w"

type_synonym 'w factory = "string \<Rightarrow> config \<Rightarrow> 'w data_provider option result"

text \<open>
  What the built-in factories reach outside the package: the zone database, the exchange classes
  of the installed module (\<open>_load_exchange\<close> with the exchange's configuration), the environment,
  the decoded text of a file, a database file, and SQLAlchemy with its \<open>create_engine\<close>.
\<close>

record 'w outside =
  zone_table :: "string \<Rightarrow> (int \<Rightarrow> int) option"
  exchange_for :: "config \<Rightarrow> string \<Rightarrow> 'w exchange result"
  variable :: "string \<Rightarrow> string option"
  csv_file :: "string \<Rightarrow> 'w \<Rightarrow> string option"
  sqlite_file :: "string \<Rightarrow> 'w \<Rightarrow> sqlite_db"
  sa_installed :: bool
  create_engine :: "string \<Rightarrow> config \<Rightarrow> ('w \<Rightarrow> sa_engine) result"
  dispose_engine :: "string \<Rightarrow> 'w \<Rightarrow> unit result \<times> 'w"

text \<open>A provider over a tabular source; closing one releases nothing but an engine.\<close>

definition tabular_data_provider ::
  "tabular_provider \<Rightarrow> ('w \<Rightarrow> row_source) \<Rightarrow> ('w \<Rightarrow> unit result \<times> 'w) \<Rightarrow> 'w data_provider" where
  "tabular_data_provider p src close =
     \<lparr>dp_name = tp_name p, dp_venue = tp_venue p,
      dp_resolve = (\<lambda>name w. (tabular_resolve_market p (src w) name, w)),
      dp_fetch = (\<lambda>r w. (tabular_fetch p (src w) r, w)),
      dp_close = close\<rparr>"

definition ccxt_data_provider :: "ccxt_provider \<Rightarrow> 'w exchange \<Rightarrow> 'w data_provider" where
  "ccxt_data_provider p ex =
     \<lparr>dp_name = cp_name p, dp_venue = cp_id p, dp_resolve = ccxt_resolve_market p ex,
      dp_fetch = ccxt_fetch_bars p ex, dp_close = (\<lambda>w. (Inr (), ccxt_close p ex w))\<rparr>"

section \<open>Configuration\<close>

definition unknown_config :: "config \<Rightarrow> string list \<Rightarrow> unit result" where
  "unknown_config config allowed =
     require (set (dkeys config) \<subseteq> set allowed) ValueError ''unknown provider configuration key(s)''"

definition config_text :: "config \<Rightarrow> string \<Rightarrow> string result" where
  "config_text config key =
     (case jget config key of
        JStr (c # s) \<Rightarrow> Inr (c # s)
      | _ \<Rightarrow> raise ValueError ''provider configuration must be a non-empty string'')"

definition config_optional_text :: "config \<Rightarrow> string \<Rightarrow> string option result" where
  "config_optional_text config key =
     (case jget config key of
        JNull \<Rightarrow> Inr None
      | JStr (c # s) \<Rightarrow> Inr (Some (c # s))
      | _ \<Rightarrow> raise ValueError ''provider configuration must be a non-empty string'')"

definition canonical_fields :: "string list" where
  "canonical_fields =
     [''timestamp'', ''open'', ''high'', ''low'', ''close'', ''volume'', ''symbol'', ''timeframe'']"

definition column_override :: "(string, string) dict \<Rightarrow> string \<times> json \<Rightarrow> (string, string) dict result" where
  "column_override overrides kv =
     (case kv of (field, JStr column) \<Rightarrow>
        rbind (first_raise
          [(field \<notin> set canonical_fields, ValueError, ''unknown canonical column field''),
           (column = [], ValueError, ''provider column mapping must not be empty'')]) (\<lambda>_.
        Inr (AList.update field column overrides))
      | _ \<Rightarrow> raise ValueError ''provider column mappings must have string keys and values'')"

definition column_overrides :: "config \<Rightarrow> (string, string) dict option result" where
  "column_overrides config =
     (case jget config ''columns'' of
        JNull \<Rightarrow> Inr None
      | JDict d \<Rightarrow> rbind (rfold column_override [] d) (\<lambda>ovr. Inr (Some ovr))
      | _ \<Rightarrow> raise ValueError ''provider configuration columns must be an object'')"

definition config_mapping :: "config \<Rightarrow> mapping_input result" where
  "config_mapping config =
     rbind (column_overrides config) (\<lambda>ovr.
     Inr (case ovr of None \<Rightarrow> NoMapping | Some d \<Rightarrow> Overrides d))"

definition config_instrument :: "string \<Rightarrow> config \<Rightarrow> instrument option result" where
  "config_instrument venue_name config =
     rbind (config_optional_text config ''symbol'') (\<lambda>s.
     case s of None \<Rightarrow> Inr None
     | Some name \<Rightarrow>
         rbind (mk_instrument ((instrument_of name)\<lparr>venue := venue_name, provider_id := name\<rparr>)) (\<lambda>i.
         Inr (Some i)))"

text \<open>\<open>_optional_text(config, key) or default\<close>; the text is not empty where there is one.\<close>

definition config_default :: "config \<Rightarrow> string \<Rightarrow> string \<Rightarrow> string result" where
  "config_default config key d =
     rbind (config_optional_text config key) (\<lambda>t. Inr (case t of None \<Rightarrow> d | Some s \<Rightarrow> s))"

definition common_tabular_keys :: "string list" where
  "common_tabular_keys = [''columns'', ''timestamp_unit'', ''timestamp_timezone'', ''symbol'', ''timeframe'']"

section \<open>Built-in factories\<close>

definition ccxt_factory :: "'w outside \<Rightarrow> 'w factory" where
  "ccxt_factory out venue_name config =
     rbind (mk_ccxt_provider venue_name None (exchange_for out config) 1000 1000 10000 False [] [] []) (\<lambda>(p, ex).
     Inr (Some (ccxt_data_provider p ex)))"

text \<open>The arguments of a constructor are evaluated in their order.\<close>

definition csv_factory :: "'w outside \<Rightarrow> 'w factory" where
  "csv_factory out venue_name config =
     rbind (unknown_config config (common_tabular_keys @ [''path'', ''encoding'', ''delimiter''])) (\<lambda>_.
     rbind (config_text config ''path'') (\<lambda>path.
     rbind (config_mapping config) (\<lambda>mapping.
     rbind (config_default config ''timestamp_unit'' ''milliseconds'') (\<lambda>unit.
     rbind (config_default config ''timestamp_timezone'' ''UTC'') (\<lambda>zone.
     rbind (config_instrument venue_name config) (\<lambda>template.
     rbind (config_optional_text config ''timeframe'') (\<lambda>timeframe.
     rbind (config_default config ''encoding'' ''utf-8-sig'') (\<lambda>encoding.
     rbind (config_default config ''delimiter'' '','') (\<lambda>delimiter.
     rbind (mk_csv_provider (zone_table out) path venue_name mapping unit zone template timeframe
              encoding delimiter) (\<lambda>p.
     Inr (Some (tabular_data_provider (csv_base p) (\<lambda>w. csv_source p (csv_file out path w))
                  (\<lambda>w. (Inr (), w))))))))))))))"

definition sqlite_factory :: "'w outside \<Rightarrow> 'w factory" where
  "sqlite_factory out venue_name config =
     rbind (unknown_config config (common_tabular_keys @ [''path'', ''table''])) (\<lambda>_.
     rbind (config_text config ''path'') (\<lambda>path.
     rbind (config_text config ''table'') (\<lambda>table.
     rbind (config_mapping config) (\<lambda>mapping.
     rbind (config_default config ''timestamp_unit'' ''milliseconds'') (\<lambda>unit.
     rbind (config_default config ''timestamp_timezone'' ''UTC'') (\<lambda>zone.
     rbind (config_instrument venue_name config) (\<lambda>template.
     rbind (config_optional_text config ''timeframe'') (\<lambda>timeframe.
     rbind (mk_sqlite_provider (zone_table out) path table venue_name mapping unit zone template timeframe) (\<lambda>p.
     Inr (Some (tabular_data_provider (sq_base p) (\<lambda>w. sqlite_source p (sqlite_file out path w))
                  (\<lambda>w. (Inr (), w)))))))))))))"

text \<open>The database URL, given directly or by the name of an environment variable.\<close>

definition database_url :: "'w outside \<Rightarrow> config \<Rightarrow> string result" where
  "database_url out config =
     rbind (config_optional_text config ''url'') (\<lambda>url.
     rbind (config_optional_text config ''url_env'') (\<lambda>url_env.
     rbind (require (url = None \<or> url_env = None) ValueError ''configure only one of url and url_env'') (\<lambda>_.
     case url_env of
       Some name \<Rightarrow>
         (case variable out name of
            Some (c # s) \<Rightarrow> Inr (c # s)
          | _ \<Rightarrow> raise ValueError ''database URL environment variable is unset'')
     | None \<Rightarrow>
         (case url of
            None \<Rightarrow> raise ValueError ''provider configuration requires url or url_env''
          | Some u \<Rightarrow> Inr u))))"

definition engine_options :: "config \<Rightarrow> config result" where
  "engine_options config =
     (case jget config ''engine_options'' of
        JNull \<Rightarrow> Inr []
      | JDict d \<Rightarrow> Inr d
      | _ \<Rightarrow> raise ValueError ''provider configuration engine_options must be an object'')"

text \<open>The constructor adds \<open>hide_parameters\<close> to the options of the engine where it is not set.\<close>

definition hidden_parameters :: "config \<Rightarrow> config" where
  "hidden_parameters opts =
     (if ''hide_parameters'' \<in> set (dkeys opts) then opts else opts @ [(''hide_parameters'', JBool True)])"

definition sqlalchemy_factory :: "'w outside \<Rightarrow> 'w factory" where
  "sqlalchemy_factory out venue_name config =
     rbind (unknown_config config
              (common_tabular_keys @ [''url'', ''url_env'', ''table'', ''schema'', ''engine_options''])) (\<lambda>_.
     rbind (database_url out config) (\<lambda>url.
     rbind (engine_options config) (\<lambda>opts.
     rbind (config_text config ''table'') (\<lambda>table.
     rbind (config_optional_text config ''schema'') (\<lambda>schema.
     rbind (config_mapping config) (\<lambda>mapping.
     rbind (config_default config ''timestamp_unit'' ''milliseconds'') (\<lambda>unit.
     rbind (config_default config ''timestamp_timezone'' ''UTC'') (\<lambda>zone.
     rbind (config_instrument venue_name config) (\<lambda>template.
     rbind (config_optional_text config ''timeframe'') (\<lambda>timeframe.
     rbind (mk_sa_provider (zone_table out) (sa_installed out) url table venue_name schema mapping unit zone
              template timeframe) (\<lambda>p.
     rbind (create_engine out url (hidden_parameters opts)) (\<lambda>engine.
     Inr (Some (tabular_data_provider (sa_base p) (\<lambda>w. sa_source (engine w) p)
                  (dispose_engine out url)))))))))))))))"

section \<open>The registry\<close>

type_synonym 'w registry = "(string, 'w factory) dict"

text \<open>An entry point: its name, the object reference, and what loading it gives; \<open>None\<close> where that is not callable.\<close>

record 'w entry_point =
  ep_name :: string
  ep_value :: string
  ep_load :: "'w factory option result"

definition normalize_name :: "string \<Rightarrow> string result" where
  "normalize_name name =
     (let normalized = casefold (py_strip name) in
      rbind (require (normalized \<noteq> []) ValueError ''provider name must not be empty'') (\<lambda>_. Inr normalized))"

definition register :: "string \<Rightarrow> 'w factory \<Rightarrow> bool \<Rightarrow> 'w registry \<Rightarrow> 'w registry result" where
  "register name f replacing reg =
     rbind (normalize_name name) (\<lambda>normalized.
     rbind (require (\<not> (normalized \<in> set (dkeys reg) \<and> \<not> replacing)) ProviderRegistryError
              ''provider already registered'') (\<lambda>_.
     Inr (AList.update normalized f reg)))"

definition builtin_factories :: "'w outside \<Rightarrow> (string \<times> 'w factory) list" where
  "builtin_factories out =
     [(''ccxt'', ccxt_factory out), (''csv'', csv_factory out), (''sqlite'', sqlite_factory out),
      (''sqlalchemy'', sqlalchemy_factory out)]"

definition new_registry :: "'w outside \<Rightarrow> bool \<Rightarrow> 'w registry result" where
  "new_registry out include_builtin =
     rfold (\<lambda>reg (name, f). register name f False reg) [] (if include_builtin then builtin_factories out else [])"

definition matching_entry_point :: "'w entry_point list \<Rightarrow> string \<Rightarrow> 'w entry_point option result" where
  "matching_entry_point eps name =
     (case filter (\<lambda>e. casefold (ep_name e) = name) eps of
        [] \<Rightarrow> Inr None
      | [e] \<Rightarrow> Inr (Some e)
      | _ \<Rightarrow> raise ProviderRegistryError ''multiple entry points registered for provider'')"

definition load_external ::
  "'w entry_point list \<Rightarrow> string \<Rightarrow> 'w registry \<Rightarrow> 'w factory option result \<times> 'w registry" where
  "load_external eps name =
     sbind (slift (matching_entry_point eps name)) (\<lambda>found.
     case found of
       None \<Rightarrow> slift (Inr None)
     | Some e \<Rightarrow>
         sbind (slift (ep_load e)) (\<lambda>candidate.
         case candidate of
           None \<Rightarrow> slift (raise ProviderRegistryError ''provider entry point is not callable'')
         | Some f \<Rightarrow> (\<lambda>reg. (Inr (Some f), AList.update name f reg))))"

definition create ::
  "'w entry_point list \<Rightarrow> string \<Rightarrow> string \<Rightarrow> config option \<Rightarrow> 'w registry \<Rightarrow>
   'w data_provider result \<times> 'w registry" where
  "create eps name venue_name config =
     sbind (slift (normalize_name name)) (\<lambda>normalized.
     sbind (\<lambda>reg. case map_of reg normalized of
                    Some f \<Rightarrow> (Inr (Some f), reg)
                  | None \<Rightarrow> load_external eps normalized reg) (\<lambda>found.
     case found of
       None \<Rightarrow> slift (raise ProviderNotFoundError ''unknown provider'')
     | Some f \<Rightarrow>
         sbind (slift (f venue_name (case config of None \<Rightarrow> [] | Some c \<Rightarrow> c))) (\<lambda>provider.
         slift (case provider of
                  None \<Rightarrow> raise ProviderRegistryError ''provider does not implement MarketDataProvider''
                | Some p \<Rightarrow> Inr p))))"

definition names :: "'w entry_point list \<Rightarrow> 'w registry \<Rightarrow> string list" where
  "names eps reg = sort (remdups (dkeys reg @ map (\<lambda>e. casefold (ep_name e)) eps))"

section \<open>Names and factories\<close>

text \<open>What a factory makes of its arguments, as \<open>create\<close> reports it.\<close>

definition made_by :: "'w factory \<Rightarrow> string \<Rightarrow> config option \<Rightarrow> 'w data_provider result" where
  "made_by f venue_name config =
     rbind (f venue_name (case config of None \<Rightarrow> [] | Some c \<Rightarrow> c)) (\<lambda>provider.
     case provider of
       None \<Rightarrow> raise ProviderRegistryError ''provider does not implement MarketDataProvider''
     | Some p \<Rightarrow> Inr p)"

abbreviation registry_key :: "string \<Rightarrow> string" where
  "registry_key name \<equiv> casefold (py_strip name)"

lemma normalize_name_iff: "(normalize_name name = Inr k) = (k = registry_key name \<and> k \<noteq> [])"
  by (auto simp: normalize_name_def Let_def result_simps)

lemma create_known:
  assumes "map_of reg (registry_key name) = Some f" and "registry_key name \<noteq> []"
  shows "create eps name v c reg = (made_by f v c, reg)"
proof -
  have "normalize_name name = Inr (registry_key name)" using assms(2) by (simp add: normalize_name_iff)
  then show ?thesis
    using assms(1) by (simp add: create_def made_by_def sbind_def slift_def rbind_def split: sum.split)
qed

lemma load_external_state:
  "load_external eps k reg = (res, reg1) \<Longrightarrow>
   (case res of Inr (Some f) \<Rightarrow> reg1 = AList.update k f reg \<and> (\<exists>e. matching_entry_point eps k = Inr (Some e) \<and> ep_load e = Inr (Some f))
    | _ \<Rightarrow> reg1 = reg)"
  by (auto simp: load_external_def sbind_def slift_def split: sum.splits option.splits prod.splits)

lemma create_unknown:
  assumes "map_of reg (registry_key name) = None" and "registry_key name \<noteq> []"
  shows "create eps name v c reg =
    (case load_external eps (registry_key name) reg of
       (Inl e, reg1) \<Rightarrow> (Inl e, reg1)
     | (Inr None, reg1) \<Rightarrow> (raise ProviderNotFoundError ''unknown provider'', reg1)
     | (Inr (Some f), reg1) \<Rightarrow> (made_by f v c, reg1))"
proof -
  have "normalize_name name = Inr (registry_key name)" using assms(2) by (simp add: normalize_name_iff)
  then show ?thesis
    using assms(1)
    by (simp add: create_def made_by_def sbind_def slift_def rbind_def split: prod.split sum.split option.split)
qed

lemma load_external_other:
  "fst (load_external eps k (AList.update k' f reg)) = fst (load_external eps k reg)"
  by (auto simp: load_external_def sbind_def slift_def split: sum.split option.split)

lemma casefold_Nil: "(casefold s = []) = (s = [])"
proof -
  have "fold_char c \<noteq> []" for c by (simp add: fold_char_def Let_def)
  then show ?thesis by (cases s) (auto simp: casefold_def)
qed

lemma registry_key_blank: "(registry_key name = []) = blank name"
  by (simp add: blank_def casefold_Nil)

lemma create_blank: "blank name \<Longrightarrow> create eps name v c reg = (raise ValueError ''provider name must not be empty'', reg)"
  by (simp add: create_def normalize_name_def Let_def registry_key_blank sbind_def slift_def)

lemma create_other_name:
  assumes "registry_key other \<noteq> k"
  shows "fst (create eps other v c (AList.update k f reg)) = fst (create eps other v c reg)"
proof (cases "blank other")
  case True
  then show ?thesis by (simp add: create_blank)
next
  case False
  then have key: "registry_key other \<noteq> []" by (simp add: registry_key_blank)
  show ?thesis
  proof (cases "map_of reg (registry_key other)")
    case None
    then show ?thesis
      using assms load_external_other [of eps "registry_key other" k f reg]
      by (auto simp: create_unknown [OF _ key] update_conv' split: prod.split sum.split option.split)
  next
    case (Some g)
    then show ?thesis using assms by (simp add: create_known [OF _ key] update_conv')
  qed
qed

text \<open>
  Names are matched after trimming and case folding: a registration is refused exactly for a
  blank name and for a name already taken that is not to be replaced, and from then on that name,
  however it is spelt, gives what the registered factory makes, while every other name gives what
  it gave before.
\<close>

theorem registered_factory_used:
  "(case register name f replacing reg of
      Inl e \<Rightarrow> exn_class e = (if blank name then ValueError else ProviderRegistryError) \<and>
        (if blank name then True else registry_key name \<in> set (dkeys reg) \<and> \<not> replacing)
    | Inr reg' \<Rightarrow> \<not> blank name \<and> \<not> (registry_key name \<in> set (dkeys reg) \<and> \<not> replacing) \<and>
        fst (create eps other v c reg') =
          (if registry_key other = registry_key name then made_by f v c else fst (create eps other v c reg)))"
proof (cases "register name f replacing reg")
  case (Inl e)
  then have "exn_class e = (if blank name then ValueError else ProviderRegistryError) \<and>
      (if blank name then True else registry_key name \<in> set (dkeys reg) \<and> \<not> replacing)"
    by (auto simp: register_def result_simps normalize_name_def Let_def registry_key_blank)
  then show ?thesis unfolding Inl sum.case .
next
  case (Inr reg')
  then have reg': "reg' = AList.update (registry_key name) f reg" "\<not> blank name"
    "\<not> (registry_key name \<in> set (dkeys reg) \<and> \<not> replacing)"
    by (auto simp: register_def result_simps normalize_name_iff registry_key_blank)
  then show ?thesis
    using create_other_name [of other "registry_key name" eps v c f reg]
    by (auto simp: Inr create_known update_conv' registry_key_blank)
qed

text \<open>
  A provider found among the entry points is looked up once: after a successful creation the
  name is bound to a factory, which was there before or was loaded from the only entry point of
  that name, and every later creation uses it whatever is installed then.
\<close>

theorem discovered_once:
  assumes "create eps name v c reg = (Inr p, reg1)"
  shows "\<exists>f. made_by f v c = Inr p \<and> (\<forall>eps' v' c'. create eps' name v' c' reg1 = (made_by f v' c', reg1)) \<and>
    (case map_of reg (registry_key name) of
       Some g \<Rightarrow> f = g \<and> reg1 = reg
     | None \<Rightarrow> reg1 = AList.update (registry_key name) f reg \<and>
         (\<exists>e. filter (\<lambda>e. casefold (ep_name e) = registry_key name) eps = [e] \<and> ep_load e = Inr (Some f)))"
proof -
  have name: "\<not> blank name" using assms by (auto simp: create_blank)
  then have key: "registry_key name \<noteq> []" by (simp add: registry_key_blank)
  have one: "filter (\<lambda>e. casefold (ep_name e) = k) eps = [e]" if "matching_entry_point eps k = Inr (Some e)" for k e
    using that by (auto simp: matching_entry_point_def split: list.splits)
  show ?thesis
  proof (cases "map_of reg (registry_key name)")
    case (Some g)
    then show ?thesis using assms key by (auto simp: create_known)
  next
    case None
    obtain res reg2 where load: "load_external eps (registry_key name) reg = (res, reg2)" by (rule prod.exhaust)
    then obtain f where f: "res = Inr (Some f)" "made_by f v c = Inr p" "reg2 = reg1"
      using assms None key by (auto simp: create_unknown split: sum.splits option.splits)
    then show ?thesis
      using load_external_state [OF load] one None key by (auto simp: create_known update_conv')
  qed
qed

section \<open>The built-in providers\<close>

lemma builtin_registry: "new_registry out True = Inr (builtin_factories out)"
  by (simp add: new_registry_def builtin_factories_def register_def normalize_name_def py_strip_def casefold_def
      fold_char_def py_space_def code_def Let_def require_def)

definition tabular_keys :: "string \<Rightarrow> string list" where
  "tabular_keys name =
     common_tabular_keys @
     (if name = ''csv'' then [''path'', ''encoding'', ''delimiter'']
      else if name = ''sqlite'' then [''path'', ''table'']
      else [''url'', ''url_env'', ''table'', ''schema'', ''engine_options''])"

text \<open>A provider whose bars keep the contract of historical bars, of the venue it was made for.\<close>

definition bar_service :: "string \<Rightarrow> 'w data_provider \<Rightarrow> bool" where
  "bar_service v p = (dp_venue p = v \<and> (\<forall>r w bs. fst (dp_fetch p r w) = Inr bs \<longrightarrow> serves r bs))"

lemma tabular_data_service: "tp_venue p = v \<Longrightarrow> bar_service v (tabular_data_provider p src close)"
  by (auto simp: bar_service_def tabular_data_provider_def intro: tabular.fetch_serves)

lemma ccxt_data_service: "cp_id p = v \<Longrightarrow> bar_service v (ccxt_data_provider p ex)"
  by (auto simp: bar_service_def ccxt_data_provider_def intro: ccxt.fetch_serves)

lemma unknown_config_returns: "(unknown_config config allowed = Inr u) = (set (dkeys config) \<subseteq> set allowed)"
  by (simp add: unknown_config_def)

lemma mk_tabular_venue: "mk_tabular_provider zones n v m u z i t = Inr p \<Longrightarrow> tp_venue p = v"
  by (auto simp: mk_tabular_provider_def result_simps)

lemma mk_provider_venue:
  "mk_csv_provider zones path v m u z i t enc dl = Inr cp \<Longrightarrow> tp_venue (csv_base cp) = v"
  "mk_sqlite_provider zones path tbl v m u z i t = Inr sp \<Longrightarrow> tp_venue (sq_base sp) = v"
  "mk_sa_provider zones inst url tbl v sch m u z i t = Inr ap \<Longrightarrow> tp_venue (sa_base ap) = v"
  "mk_ccxt_provider v ex load pg pl dd rl mp op tp = Inr (xp, e) \<Longrightarrow> cp_id xp = v"
  by (auto simp: mk_csv_provider_def mk_sqlite_provider_def mk_sa_provider_def mk_ccxt_provider_def result_simps
      dest: mk_tabular_venue)

lemma csv_factory_returns:
  "csv_factory out v config = Inr q \<Longrightarrow>
   \<exists>p. q = Some p \<and> bar_service v p \<and> set (dkeys config) \<subseteq> set (tabular_keys ''csv'')"
  unfolding csv_factory_def rbind_returns unknown_config_returns
  by (auto simp: tabular_keys_def intro!: tabular_data_service dest: mk_provider_venue)

lemma sqlite_factory_returns:
  "sqlite_factory out v config = Inr q \<Longrightarrow>
   \<exists>p. q = Some p \<and> bar_service v p \<and> set (dkeys config) \<subseteq> set (tabular_keys ''sqlite'')"
  unfolding sqlite_factory_def rbind_returns unknown_config_returns
  by (auto simp: tabular_keys_def intro!: tabular_data_service dest: mk_provider_venue)

lemma sqlalchemy_factory_returns:
  "sqlalchemy_factory out v config = Inr q \<Longrightarrow>
   \<exists>p. q = Some p \<and> bar_service v p \<and> set (dkeys config) \<subseteq> set (tabular_keys ''sqlalchemy'')"
  unfolding sqlalchemy_factory_def rbind_returns unknown_config_returns
  by (auto simp: tabular_keys_def intro!: tabular_data_service dest: mk_provider_venue)

lemma ccxt_factory_returns:
  "ccxt_factory out v config = Inr q \<Longrightarrow> \<exists>p. q = Some p \<and> bar_service v p"
  by (auto simp: ccxt_factory_def result_simps intro!: ccxt_data_service dest: mk_provider_venue)

lemma builtin_names: "map fst (builtin_factories out) = [''ccxt'', ''csv'', ''sqlite'', ''sqlalchemy'']"
  by (simp add: builtin_factories_def)

lemma builtin_made:
  assumes "map_of (builtin_factories out) k = Some f" and "made_by f v c = Inr p"
  shows "bar_service v p \<and>
    (k = ''ccxt'' \<or> set (dkeys (case c of None \<Rightarrow> [] | Some d \<Rightarrow> d)) \<subseteq> set (tabular_keys k))"
proof -
  have made: "f v (case c of None \<Rightarrow> [] | Some d \<Rightarrow> d) = Inr (Some p)"
    using assms(2) by (auto simp: made_by_def result_simps split: option.splits)
  have "k = ''ccxt'' \<and> f = ccxt_factory out \<or> k = ''csv'' \<and> f = csv_factory out \<or>
    k = ''sqlite'' \<and> f = sqlite_factory out \<or> k = ''sqlalchemy'' \<and> f = sqlalchemy_factory out"
    using assms(1) by (auto simp: builtin_factories_def split: if_splits)
  then show ?thesis
    using made ccxt_factory_returns [of out v] csv_factory_returns [of out v] sqlite_factory_returns [of out v]
      sqlalchemy_factory_returns [of out v]
    by (elim disjE conjE) fastforce+
qed

text \<open>Bars by way of the default registry, with no third-party provider installed.\<close>

definition default_fetch ::
  "'w outside \<Rightarrow> string \<Rightarrow> string \<Rightarrow> config option \<Rightarrow> 'w \<Rightarrow> bar_request \<Rightarrow> bar list result" where
  "default_fetch out name v c w r =
     rbind (fst (create [] name v c (builtin_factories out))) (\<lambda>p. fst (dp_fetch p r w))"

lemma builtin_create:
  assumes "fst (create [] name v c (builtin_factories out)) = Inr p"
  shows "\<exists>f. map_of (builtin_factories out) (registry_key name) = Some f \<and> made_by f v c = Inr p"
proof -
  have "\<not> blank name" using assms by (auto simp: create_blank)
  then have key: "registry_key name \<noteq> []" by (simp add: registry_key_blank)
  show ?thesis
  proof (cases "map_of (builtin_factories out) (registry_key name)")
    case None
    then show ?thesis
      using assms by (simp add: create_unknown [OF _ key] load_external_def matching_entry_point_def slift_def)
  next
    case (Some f)
    then show ?thesis using assms by (simp add: create_known [OF _ key])
  qed
qed

lemma default_fetch_serves: "default_fetch out name v c w r = Inr bs \<Longrightarrow> serves r bs"
  by (auto simp: default_fetch_def result_simps bar_service_def dest!: builtin_create builtin_made)

interpretation builtin: historical_bars "default_fetch out name v c w" for out name v c w
  by unfold_locales (rule default_fetch_serves)


section \<open>Examples\<close>

definition sample_outside :: "string outside" where
  "sample_outside =
     \<lparr>zone_table = (\<lambda>z. if z = ''UTC'' then Some (\<lambda>t. 0) else None),
      exchange_for = (\<lambda>c n. raise CcxtDependencyError ''CCXT is not installed; install pineforge-data[ccxt]''),
      variable = (\<lambda>n. None),
      csv_file = (\<lambda>path w. if path = ''bars.csv'' then Some w else None),
      sqlite_file = (\<lambda>path w. sample_db),
      sa_installed = False,
      create_engine = (\<lambda>url opts. raise SqlAlchemyDependencyError ''SQLAlchemy is not installed''),
      dispose_engine = (\<lambda>url w. (Inr (), w))\<rparr>"

definition sample_config :: config where
  "sample_config = [(''path'', JStr ''bars.csv''), (''symbol'', JStr ''AAPL'')]"

lemma sample_create: "\<not> isl (fst (create [] '' CSV'' ''nyse'' (Some sample_config) (builtin_factories sample_outside)))"
  by code_simp


text \<open>A third-party provider that is found by its entry point.\<close>

definition acme_provider :: "string data_provider" where
  "acme_provider =
     \<lparr>dp_name = ''acme'', dp_venue = ''nyse'', dp_resolve = (\<lambda>s w. (raise MarketNotFoundError [], w)),
      dp_fetch = (\<lambda>r w. (Inr [], w)), dp_close = (\<lambda>w. (Inr (), w))\<rparr>"

definition acme_entry :: "string entry_point" where
  "acme_entry = \<lparr>ep_name = ''Acme'', ep_value = ''acme.data:factory'', ep_load = Inr (Some (\<lambda>v c. Inr (Some acme_provider)))\<rparr>"

lemma acme_keys:
  "registry_key ''ACME'' = ''acme''" "registry_key '' acme'' = ''acme''" "casefold ''Acme'' = ''acme''"
  by code_simp+

lemma acme_created:
  "create [acme_entry] ''ACME'' ''nyse'' None [] =
     (Inr acme_provider, [(''acme'', (\<lambda>v c. Inr (Some acme_provider)))])"
  by (simp add: create_def normalize_name_def acme_keys Let_def load_external_def matching_entry_point_def
      acme_entry_def sbind_def slift_def)

lemma discovered_once_witness:
  "fst (create [] '' acme'' ''nyse'' None [(''acme'', (\<lambda>v c. Inr (Some acme_provider)))]) = Inr acme_provider \<and>
   fst (create [] ''ACME'' ''nyse'' None (snd (create [acme_entry] ''ACME'' ''nyse'' None []))) = Inr acme_provider"
proof -
  obtain f where f: "made_by f ''nyse'' None = Inr acme_provider"
    and later: "\<And>eps' v' c'. create eps' ''ACME'' v' c' [(''acme'', (\<lambda>v c. Inr (Some acme_provider)))] =
      (made_by f v' c', [(''acme'', (\<lambda>v c. Inr (Some acme_provider)))])"
    using discovered_once [OF acme_created] by blast
  have "fst (create [] '' acme'' ''nyse'' None [(''acme'', (\<lambda>v c. Inr (Some acme_provider)))]) = Inr acme_provider"
    by (simp add: create_def normalize_name_def acme_keys Let_def sbind_def slift_def)
  then show ?thesis using f later by (simp add: acme_created)
qed

end
