(* ===== verification/Client.thy ===== *)
theory Client
  imports ServerApi
begin

text \<open>
  \<open>src/pineforge_data/server_client.py\<close>: the client of the backtest service.  The network is a
  parameter with a state of its own, and so is \<open>json.loads\<close>, which raises \<open>JSONDecodeError\<close> on
  a text that is not JSON and \<open>UnicodeDecodeError\<close>, another \<open>ValueError\<close>, on bytes that are
  not a text.
\<close>

section \<open>The client\<close>

definition scalar_inputs :: "(string, json) dict option \<Rightarrow> string \<Rightarrow> (string, json) dict result" where
  "scalar_inputs inputs field =
     rmap (\<lambda>(k, v).
         case v of
           JStr s \<Rightarrow> Inr (k, v) | JInt n \<Rightarrow> Inr (k, v) | JFloat f \<Rightarrow> Inr (k, v) | JBool b \<Rightarrow> Inr (k, v)
         | _ \<Rightarrow> raise ValueError (field @ CHR ''.'' # k @ '' must be a scalar value''))
       (case inputs of None \<Rightarrow> [] | Some d \<Rightarrow> d)"

record client =
  base_url :: string
  timeout_seconds :: pyfloat
  api_key :: "string option"
  max_response_bytes :: int

text \<open>
  \<open>urlsplit\<close>, its scheme and its authority; an address between brackets is taken as it is.
\<close>

definition scheme_char :: "char \<Rightarrow> bool" where
  "scheme_char c = in_ranges [(97, 122), (65, 90), (48, 57), (43, 43), (45, 46)] c"

definition urlsplit :: "string \<Rightarrow> (string \<times> string) result" where
  "urlsplit url =
     (let u = filter (\<lambda>c. code c \<notin> {9, 10, 13}) (dropWhile (\<lambda>c. code c \<le> 32) url);
          pre = takeWhile (\<lambda>c. c \<noteq> CHR '':'') u; post = dropWhile (\<lambda>c. c \<noteq> CHR '':'') u;
          (scheme, tail) =
            (if post \<noteq> [] \<and> pre \<noteq> [] \<and> in_ranges [(65, 90), (97, 122)] (hd pre) \<and> list_all scheme_char pre
             then (map ascii_lower pre, tl post) else ([], u));
          netloc = (if take 2 tail = ''//'' then takeWhile (\<lambda>c. c \<notin> set ''/?#'') (drop 2 tail) else [])
      in if (CHR ''['' \<in> set netloc) \<noteq> (CHR '']'' \<in> set netloc) then raise ValueError ''Invalid IPv6 URL''
         else Inr (scheme, netloc))"

definition mk_client :: "client \<Rightarrow> client result" where
  "mk_client c =
     rbind (urlsplit (base_url c)) (\<lambda>(scheme, netloc).
     rbind (first_raise
       [(scheme \<notin> {''http'', ''https''} \<or> netloc = [], ValueError,
           ''server URL must be an absolute http:// or https:// URL''),
        (fle (timeout_seconds c) (Fin 0) \<or> max_response_bytes c \<le> 0, ValueError,
           ''client timeout and response limit must be positive'')]) (\<lambda>_. Inr c))"

section \<open>The request\<close>

fun json_option :: "('a \<Rightarrow> json) \<Rightarrow> 'a option \<Rightarrow> json" where
  "json_option f None = JNull"
| "json_option f (Some x) = f x"

definition client_payload ::
  "string \<Rightarrow> bar list \<Rightarrow> instrument \<Rightarrow> string \<Rightarrow> backtest_options \<Rightarrow> (string, json) dict option \<Rightarrow>
   (string, json) dict option \<Rightarrow> json result" where
  "client_payload pine bars i src q params overrides =
     rbind (scalar_inputs params ''strategy_params'') (\<lambda>ps.
     rbind (scalar_inputs overrides ''strategy_overrides'') (\<lambda>os.
     Inr (JDict
       [(''pine_source'', JStr pine),
        (''bars'', JList (map (\<lambda>b. JDict
          [(''timestamp_ms'', JInt (bar_ms b)), (''open'', JFloat (bar_open b)), (''high'', JFloat (bar_high b)),
           (''low'', JFloat (bar_low b)), (''close'', JFloat (bar_close b)), (''volume'', JFloat (bar_volume b))]) bars)),
        (''instrument'', JDict
          [(''symbol'', JStr (symbol i)), (''venue'', JStr (venue i)), (''timezone'', JStr (timezone i)),
           (''session'', JStr (session i)), (''volume_unit'', JStr (volume_unit i))]),
        (''source'', JStr src),
        (''options'', JDict
          [(''input_timeframe'', JStr (input_timeframe q)), (''script_timeframe'', JStr (script_timeframe q)),
           (''bar_magnifier'', JBool (bar_magnifier q)), (''magnifier_samples'', JInt (magnifier_samples q)),
           (''magnifier_distribution'', JStr (magnifier_name (magnifier q))),
           (''trace_enabled'', JBool (trace_enabled q)),
           (''chart_timezone'', json_option JStr (chart_timezone q)),
           (''trade_start_time_ms'', json_option JInt (trade_start_time_ms q))]),
        (''strategy_params'', JDict ps), (''strategy_overrides'', JDict os)])))"

record http_request =
  hr_url :: string
  hr_headers :: "(string, string) dict"
  hr_body :: string

definition client_request :: "client \<Rightarrow> string \<Rightarrow> json \<Rightarrow> http_request result" where
  "client_request c uuid payload =
     rbind (dumps payload) (\<lambda>body.
     Inr \<lparr>hr_url = rev (dropWhile (\<lambda>c. c = CHR ''/'') (rev (base_url c))) @ ''/v1/backtests'',
          hr_headers = [(''Content-Type'', ''application/json''), (''Accept'', ''application/json''),
                        (''X-Request-ID'', uuid)] @
                       (case api_key c of None \<Rightarrow> []
                        | Some k \<Rightarrow> if k = [] then [] else [(''Authorization'', ''Bearer '' @ k)]),
          hr_body = encode body\<rparr>)"

section \<open>The answer\<close>

datatype reply = Body string | HttpError int string | UrlError string | Broken exn

definition client_error_message :: "(string \<Rightarrow> json result) \<Rightarrow> string \<Rightarrow> string result" where
  "client_error_message loads body =
     (case loads body of
        Inl e \<Rightarrow> if caught e [JSONDecodeError] then Inr (py_strip (decode_utf8 body)) else Inl e
      | Inr v \<Rightarrow>
          (case v of
             JDict d \<Rightarrow>
               (case jget d ''error'' of
                  JDict error \<Rightarrow>
                    let rid = jget error ''request_id'' in
                    Inr (py_str (jget_default error ''phase'' (JStr ''server'')) @ '': ''
                         @ py_str (jget_default error ''message'' (JStr ''request failed''))
                         @ (if truthy rid then '' (request '' @ py_str rid @ '')'' else []))
                | _ \<Rightarrow> Inr (py_str v))
           | _ \<Rightarrow> Inr (py_str v)))"

definition is_dict :: "json \<Rightarrow> bool" where
  "is_dict v = (case v of JDict d \<Rightarrow> True | _ \<Rightarrow> False)"

definition client_body :: "(string \<Rightarrow> json result) \<Rightarrow> client \<Rightarrow> string \<Rightarrow> (string, json) dict result" where
  "client_body loads c body =
     (if max_response_bytes c < int (length body)
      then raise BacktestServerError ''backtest server response exceeded the configured limit''
      else rbind (rcatch (loads body) [JSONDecodeError]
                    (\<lambda>e. raise BacktestServerError ''backtest server returned invalid JSON'')) (\<lambda>v.
        case v of
          JDict d \<Rightarrow>
            rbind (first_raise
              [(as_number (jget d ''schema_version'') \<noteq> Some (Fin 1), BacktestServerError,
                  ''unsupported backtest server response schema''),
               (\<not> is_dict (jget d ''runtime'') \<or> \<not> is_dict (jget d ''backtest''), BacktestServerError,
                  ''backtest server response is missing runtime data'')]) (\<lambda>_. Inr d)
        | _ \<Rightarrow> raise BacktestServerError ''backtest server response must be a JSON object''))"

text \<open>\<open>response.read(self.max_response_bytes + 1)\<close>\<close>

definition read_limited :: "client \<Rightarrow> string \<Rightarrow> string" where
  "read_limited c body = take (nat (max_response_bytes c + 1)) body"

definition client_answer :: "(string \<Rightarrow> json result) \<Rightarrow> client \<Rightarrow> reply \<Rightarrow> (string, json) dict result" where
  "client_answer loads c reply =
     (case reply of
        Body body \<Rightarrow> client_body loads c (read_limited c body)
      | HttpError status body \<Rightarrow>
          rbind (client_error_message loads (read_limited c body)) (\<lambda>detail.
          raise BacktestServerError (if detail = [] then ''HTTP '' @ int_text status else detail))
      | UrlError reason \<Rightarrow> raise BacktestServerError (''backtest server is unavailable: '' @ reason)
      | Broken e \<Rightarrow> Inl e)"

definition client_run ::
  "(string \<Rightarrow> json result) \<Rightarrow> (http_request \<Rightarrow> pyfloat \<Rightarrow> 'n \<Rightarrow> reply \<times> 'n) \<Rightarrow> client \<Rightarrow> string \<Rightarrow> string \<Rightarrow>
   bar list \<Rightarrow> instrument \<Rightarrow> string \<Rightarrow> backtest_options \<Rightarrow> (string, json) dict option \<Rightarrow>
   (string, json) dict option \<Rightarrow> 'n \<Rightarrow> (string, json) dict result \<times> 'n" where
  "client_run loads send c uuid pine bars i src q params overrides =
     sbind (slift (rbind (client_payload pine bars i src q params overrides) (client_request c uuid))) (\<lambda>req n.
     case send req (timeout_seconds c) n of (reply, n') \<Rightarrow> (client_answer loads c reply, n'))"

section \<open>Client and server\<close>

text \<open>The request the server decodes, and the JSON form of a request: its models field by field.\<close>

definition client_api_request ::
  "string \<Rightarrow> bar list \<Rightarrow> instrument \<Rightarrow> string \<Rightarrow> backtest_options \<Rightarrow> (string, json) dict \<Rightarrow> (string, json) dict \<Rightarrow>
   api_request" where
  "client_api_request pine bars i src q ps os =
     \<lparr>aq_pine_source = pine,
      aq_bars = map (\<lambda>b. \<lparr>ab_timestamp_ms = bar_ms b, ab_open = bar_open b, ab_high = bar_high b,
                          ab_low = bar_low b, ab_close = bar_close b, ab_volume = bar_volume b\<rparr>) bars,
      aq_instrument = \<lparr>ai_symbol = symbol i, ai_venue = venue i, ai_timezone = timezone i,
                       ai_session = session i, ai_volume_unit = volume_unit i\<rparr>,
      aq_source = src,
      aq_options = \<lparr>ao_input_timeframe = input_timeframe q, ao_script_timeframe = script_timeframe q,
        ao_bar_magnifier = bar_magnifier q, ao_magnifier_samples = magnifier_samples q,
        ao_magnifier_distribution = magnifier q, ao_trace_enabled = trace_enabled q,
        ao_chart_timezone = chart_timezone q, ao_trade_start_time_ms = trade_start_time_ms q\<rparr>,
      aq_strategy_params = ps, aq_strategy_overrides = os\<rparr>"

definition request_json :: "api_request \<Rightarrow> json" where
  "request_json r =
     (let i = aq_instrument r; q = aq_options r in
      JDict
       [(''pine_source'', JStr (aq_pine_source r)),
        (''bars'', JList (map (\<lambda>b. JDict
          [(''timestamp_ms'', JInt (ab_timestamp_ms b)), (''open'', JFloat (ab_open b)), (''high'', JFloat (ab_high b)),
           (''low'', JFloat (ab_low b)), (''close'', JFloat (ab_close b)), (''volume'', JFloat (ab_volume b))])
          (aq_bars r))),
        (''instrument'', JDict
          [(''symbol'', JStr (ai_symbol i)), (''venue'', JStr (ai_venue i)), (''timezone'', JStr (ai_timezone i)),
           (''session'', JStr (ai_session i)), (''volume_unit'', JStr (ai_volume_unit i))]),
        (''source'', JStr (aq_source r)),
        (''options'', JDict
          [(''input_timeframe'', JStr (ao_input_timeframe q)), (''script_timeframe'', JStr (ao_script_timeframe q)),
           (''bar_magnifier'', JBool (ao_bar_magnifier q)), (''magnifier_samples'', JInt (ao_magnifier_samples q)),
           (''magnifier_distribution'', JStr (magnifier_name (ao_magnifier_distribution q))),
           (''trace_enabled'', JBool (ao_trace_enabled q)),
           (''chart_timezone'', json_option JStr (ao_chart_timezone q)),
           (''trade_start_time_ms'', json_option JInt (ao_trade_start_time_ms q))]),
        (''strategy_params'', JDict (aq_strategy_params r)),
        (''strategy_overrides'', JDict (aq_strategy_overrides r))])"

definition remote_instrument :: "instrument \<Rightarrow> instrument" where
  "remote_instrument i =
     (instrument_of (symbol i))\<lparr>venue := venue i, timezone := timezone i, session := session i,
       volume_unit := volume_unit i\<rparr>"

lemma scalar_inputs_same: "scalar_inputs inputs field = Inr d \<Longrightarrow> d = (case inputs of None \<Rightarrow> [] | Some e \<Rightarrow> e)"
proof -
  have "rmap (\<lambda>(k, v). case v of JStr s \<Rightarrow> Inr (k, v) | JInt n \<Rightarrow> Inr (k, v) | JFloat f \<Rightarrow> Inr (k, v)
      | JBool b \<Rightarrow> Inr (k, v) | _ \<Rightarrow> raise ValueError (field @ CHR ''.'' # k @ '' must be a scalar value'')) e = Inr d
      \<Longrightarrow> d = e" for e d
    by (induction e arbitrary: d) (auto simp: result_simps split: json.splits)
  then show "scalar_inputs inputs field = Inr d \<Longrightarrow> ?thesis"
    unfolding scalar_inputs_def by (cases inputs) blast+
qed

text \<open>
  C31. What the client sends is what the server runs: the payload is the JSON form of a request
  with the submitted script, bars, options and parameters, and where the server accepts it, it
  passes exactly these bars and options on, under an instrument with the submitted names.
\<close>

theorem client_request_reaches_server:
  assumes "client_payload pine bars i src q params overrides = Inr payload"
    and "mk_instrument i = Inr i" and "mk_backtest_options q = Inr q" and "\<not> blank src"
    and "mk_api_request (client_api_request pine bars i src q ps os) = Inr r"
    and "ps = (case params of None \<Rightarrow> [] | Some d \<Rightarrow> d)" and "os = (case overrides of None \<Rightarrow> [] | Some d \<Rightarrow> d)"
  shows "payload = request_json r \<and>
    domain_values r =
      Inr (pine, map (\<lambda>b. b\<lparr>bar_instrument := remote_instrument i, bar_source := src\<rparr>) bars, remote_instrument i, q)"
proof
  have r: "r = client_api_request pine bars i src q ps os" using accepted_request(1) [OF assms(5)] .
  show "payload = request_json r"
    using assms(1,6,7) unfolding r
    by (auto simp: client_payload_def result_simps request_json_def client_api_request_def Let_def
        dest!: scalar_inputs_same)
  have "texts_written r"
    using assms(2-4) unfolding r
    by (auto simp: texts_written_def client_api_request_def mk_instrument_iff instrument_ok_def
        mk_backtest_options_def text_ok_def result_simps simp del: first_raise.simps)
  moreover have "domain_options (aq_options r) = q" "domain_instrument (aq_instrument r) = remote_instrument i"
      "map (domain_bar (remote_instrument i) (aq_source r)) (aq_bars r) =
       map (\<lambda>b. b\<lparr>bar_instrument := remote_instrument i, bar_source := src\<rparr>) bars"
    unfolding r
    by (simp_all add: client_api_request_def domain_options_def domain_instrument_def remote_instrument_def domain_bar_def)
  moreover have "aq_pine_source r = pine" unfolding r by (simp add: client_api_request_def)
  ultimately show "domain_values r =
      Inr (pine, map (\<lambda>b. b\<lparr>bar_instrument := remote_instrument i, bar_source := src\<rparr>) bars, remote_instrument i, q)"
    using request_domain [OF assms(5) [folded r]] by (simp add: Let_def)
qed

lemma error_message_raises:
  "client_error_message loads body = Inl e \<Longrightarrow> loads body = Inl e \<and> \<not> caught e [JSONDecodeError]"
  by (auto simp: client_error_message_def Let_def split: sum.splits json.splits if_splits)

lemma body_raises:
  "client_body loads c body = Inl e \<Longrightarrow>
   exn_class e = BacktestServerError \<or> (loads body = Inl e \<and> \<not> caught e [JSONDecodeError])"
proof (cases "loads body")
  case (Inr v)
  then show "client_body loads c body = Inl e \<Longrightarrow> ?thesis"
    by (cases v)
      (auto simp: client_body_def result_simps simp del: first_raise.simps dest!: first_raise_raises split: if_splits)
qed (auto simp: client_body_def rcatch_def split: if_splits)

lemma body_returns:
  "client_body loads c body = Inr d \<Longrightarrow>
   int (length body) \<le> max_response_bytes c \<and> loads body = Inr (JDict d) \<and>
   as_number (jget d ''schema_version'') = Some (Fin 1) \<and> is_dict (jget d ''runtime'') \<and> is_dict (jget d ''backtest'')"
proof (cases "loads body")
  case (Inr v)
  then show "client_body loads c body = Inr d \<Longrightarrow> ?thesis"
    by (cases v) (auto simp: client_body_def result_simps simp del: first_raise.simps split: if_splits)
qed (auto simp: client_body_def rcatch_def split: if_splits)

text \<open>
  C32. An answer the client returns was complete, within the limit and of the known schema; every
  reply it does not return is a \<open>BacktestServerError\<close>, except that the network may fail otherwise
  and that a body which is not a text raises \<open>UnicodeDecodeError\<close> itself.
\<close>

theorem client_answers_checked:
  "(case client_answer loads c reply of
      Inr d \<Rightarrow> (\<exists>body. reply = Body body \<and> int (length body) \<le> max 0 (max_response_bytes c) \<and>
        loads body = Inr (JDict d) \<and> as_number (jget d ''schema_version'') = Some (Fin 1) \<and>
        is_dict (jget d ''runtime'') \<and> is_dict (jget d ''backtest''))
    | Inl e \<Rightarrow> exn_class e = BacktestServerError \<or> reply = Broken e \<or>
        (\<exists>body. loads body = Inl e \<and> \<not> caught e [JSONDecodeError]))"
proof (cases "client_answer loads c reply")
  case (Inl e)
  then have "exn_class e = BacktestServerError \<or> reply = Broken e \<or>
      (\<exists>body. loads body = Inl e \<and> \<not> caught e [JSONDecodeError])"
    by (cases reply) (auto simp: client_answer_def result_simps dest!: error_message_raises body_raises)
  then show ?thesis unfolding Inl sum.case .
next
  case (Inr d)
  then obtain body where body: "reply = Body body" by (cases reply) (auto simp: client_answer_def result_simps)
  then have read: "client_body loads c (read_limited c body) = Inr d" using Inr by (simp add: client_answer_def)
  have "length body \<le> nat (max_response_bytes c + 1) - 1 \<or> nat (max_response_bytes c + 1) = 0"
    using body_returns [OF read] by (auto simp: read_limited_def)
  then have "int (length body) \<le> max 0 (max_response_bytes c)" "read_limited c body = body"
    using body_returns [OF read] by (auto simp: read_limited_def)
  then show ?thesis using Inr body_returns [OF read] body by simp
qed

definition submitted_bar :: bar where
  "submitted_bar = \<lparr>bar_instrument = instrument_of ''BTC/USD'', bar_ms = 1000, bar_open = Fin 10, bar_high = Fin 12,
     bar_low = Fin 9, bar_close = Fin 11, bar_volume = Fin 5, bar_source = ''csv''\<rparr>"

lemma submitted_accepted:
  "\<exists>payload. client_payload ''x'' [submitted_bar] (instrument_of ''BTC/USD'') ''ccxt'' default_options None None = Inr payload"
  "mk_instrument (instrument_of ''BTC/USD'') = Inr (instrument_of ''BTC/USD'')"
  "mk_backtest_options default_options = Inr default_options" "\<not> blank ''ccxt''"
  "mk_api_request (client_api_request ''x'' [submitted_bar] (instrument_of ''BTC/USD'') ''ccxt'' default_options [] []) =
     Inr (client_api_request ''x'' [submitted_bar] (instrument_of ''BTC/USD'') ''ccxt'' default_options [] [])"
  by (simp add: client_payload_def scalar_inputs_def) code_simp+

lemma client_request_reaches_server_witness:
  "domain_values (client_api_request ''x'' [submitted_bar] (instrument_of ''BTC/USD'') ''ccxt'' default_options [] []) =
     Inr (''x'', [submitted_bar\<lparr>bar_instrument := remote_instrument (instrument_of ''BTC/USD''), bar_source := ''ccxt''\<rparr>],
       remote_instrument (instrument_of ''BTC/USD''), default_options)"
proof -
  obtain payload where
    p: "client_payload ''x'' [submitted_bar] (instrument_of ''BTC/USD'') ''ccxt'' default_options None None = Inr payload"
    using submitted_accepted(1) by blast
  show ?thesis
    using client_request_reaches_server [OF p submitted_accepted(2-5)] by simp
qed

end
