(* ===== verification/Docker.thy ===== *)
theory Docker
  imports ReleaseContract
begin

text \<open>
  \<open>src/pineforge_data/docker_runtime.py\<close>: running a backtest in the release container.  Docker is
  a parameter with a state of its own: a command either completes with a status and its output or
  exceeds its time.  The workspace is given by its path and its files by their texts.
\<close>

section \<open>The runtime\<close>

datatype completed = Completed int string string | Expired

text \<open>\<open>cid\<close> is the text of the container identifier file of the workspace, where there is one.\<close>

record 'd docker =
  on_path :: bool
  command :: "string list \<Rightarrow> pyfloat option \<Rightarrow> 'd \<Rightarrow> completed \<times> 'd"
  workspace :: "(string, string) dict \<Rightarrow> 'd \<Rightarrow> string \<times> 'd"
  cid :: "string \<Rightarrow> 'd \<Rightarrow> string option"
  discard_workspace :: "string \<Rightarrow> 'd \<Rightarrow> 'd"

definition completed_error :: "string \<Rightarrow> string \<Rightarrow> string" where
  "completed_error stdout stderr =
     (if py_strip stderr \<noteq> [] then py_strip stderr else if py_strip stdout \<noteq> [] then py_strip stdout
      else ''command failed without output'')"

record docker_runtime =
  image_ref :: string
  pull_policy :: string
  time_limit :: pyfloat

definition mk_docker_runtime :: "docker_runtime \<Rightarrow> docker_runtime result" where
  "mk_docker_runtime rt =
     rbind (first_raise
       [(blank (image_ref rt), ValueError, ''image must not be empty''),
        (pull_policy rt \<notin> {''always'', ''missing'', ''never''}, ValueError, ''invalid pull policy''),
        (fle (time_limit rt) (Fin 0), ValueError, ''timeout_seconds must be positive'')]) (\<lambda>_. Inr rt)"

section \<open>The image\<close>

definition info_command :: "string list" where
  "info_command = [''docker'', ''info'', ''--format'', ''{{.ServerVersion}}'']"

definition inspect_command :: "docker_runtime \<Rightarrow> string list" where
  "inspect_command rt = [''docker'', ''image'', ''inspect'', image_ref rt]"

definition pull_command :: "docker_runtime \<Rightarrow> string list" where
  "pull_command rt = [''docker'', ''pull'', image_ref rt]"

definition check_docker :: "'d docker \<Rightarrow> 'd \<Rightarrow> unit result \<times> 'd" where
  "check_docker dk d =
     (if \<not> on_path dk
      then (raise DockerPrerequisiteError ''Docker is required but the docker command was not found'', d)
      else (case command dk info_command None d of
              (Completed status stdout stderr, d1) \<Rightarrow>
                (if status \<noteq> 0
                 then raise DockerPrerequisiteError (''Docker daemon is unavailable: '' @ completed_error stdout stderr)
                 else Inr (), d1)
            | (Expired, d1) \<Rightarrow> (raise TimeoutError [], d1)))"

definition image_exists :: "'d docker \<Rightarrow> docker_runtime \<Rightarrow> 'd \<Rightarrow> bool result \<times> 'd" where
  "image_exists dk rt d =
     (case command dk (inspect_command rt) None d of
        (Completed status stdout stderr, d1) \<Rightarrow> (Inr (status = 0), d1)
      | (Expired, d1) \<Rightarrow> (raise TimeoutError [], d1))"

definition pull_image :: "'d docker \<Rightarrow> docker_runtime \<Rightarrow> 'd \<Rightarrow> unit result \<times> 'd" where
  "pull_image dk rt d =
     (case command dk (pull_command rt) None d of
        (Completed status stdout stderr, d1) \<Rightarrow>
          (if status \<noteq> 0
           then raise DockerPrerequisiteError
                  (''failed to pull pineforge-release image: '' @ completed_error stdout stderr)
           else Inr (), d1)
      | (Expired, d1) \<Rightarrow> (raise TimeoutError [], d1))"

definition ensure_image :: "'d docker \<Rightarrow> docker_runtime \<Rightarrow> 'd \<Rightarrow> string result \<times> 'd" where
  "ensure_image dk rt =
     sbind (check_docker dk) (\<lambda>_.
     sbind (image_exists dk rt) (\<lambda>exists.
     if pull_policy rt = ''always'' \<or> (pull_policy rt = ''missing'' \<and> \<not> exists)
     then sbind (pull_image dk rt) (\<lambda>_. slift (Inr (image_ref rt)))
     else slift (if \<not> exists
                 then raise DockerPrerequisiteError ''pineforge-release image is not available locally''
                 else Inr (image_ref rt))))"

text \<open>
  \<open>_image_identity\<close>: the try block covers the shape of the answer; a release version that is not
  one raises.  A \<open>KeyError\<close> of indexing an object is not among the handled errors.
\<close>

definition json_get :: "json \<Rightarrow> string \<Rightarrow> json \<Rightarrow> json result" where
  "json_get v k d =
     (case v of JDict m \<Rightarrow> Inr (jget_default m k d) | _ \<Rightarrow> raise AttributeError ''object has no attribute get'')"

definition json_first :: "json \<Rightarrow> json result" where
  "json_first v =
     (case v of
        JList (x # xs) \<Rightarrow> Inr x
      | JList [] \<Rightarrow> raise IndexError ''list index out of range''
      | JStr (c # s) \<Rightarrow> Inr (JStr [c])
      | JStr [] \<Rightarrow> raise IndexError ''string index out of range''
      | JDict d \<Rightarrow> raise KeyError ''0''
      | _ \<Rightarrow> raise TypeError ''object is not subscriptable'')"

definition identity_of :: "json \<Rightarrow> json \<Rightarrow> (string, json) dict result" where
  "identity_of labels digests =
     (case (labels, digests) of
        (JDict l, JList ds) \<Rightarrow>
          rbind (normalize_release_version (jget l ''org.opencontainers.image.version'')) (\<lambda>version.
          Inr [(''resolved_digest'', case ds of [] \<Rightarrow> JNull | x # xs \<Rightarrow> JStr (py_str x)),
               (''release_version'', JStr version),
               (''engine_version'', jget l ''io.pineforge.engine.version''),
               (''codegen_version'', jget l ''io.pineforge.codegen.version''),
               (''hub_commit'', jget l ''org.opencontainers.image.revision'')])
      | _ \<Rightarrow> Inr [])"

definition image_identity ::
  "(string \<Rightarrow> json option) \<Rightarrow> 'd docker \<Rightarrow> docker_runtime \<Rightarrow> 'd \<Rightarrow> (string, json) dict result \<times> 'd" where
  "image_identity loads dk rt d =
     (case command dk (inspect_command rt) None d of
        (Completed status stdout stderr, d1) \<Rightarrow>
          (if status \<noteq> 0 then Inr []
           else
             (case rbind (case loads stdout of None \<Rightarrow> raise JSONDecodeError [] | Some v \<Rightarrow> Inr v) (\<lambda>values.
                   rbind (json_first values) (\<lambda>v.
                   rbind (json_get v ''Config'' (JDict [])) (\<lambda>config.
                   rbind (json_get config ''Labels'' (JDict [])) (\<lambda>labels.
                   rbind (json_get v ''RepoDigests'' (JList [])) (\<lambda>digests. Inr (labels, digests)))))) of
                Inl e \<Rightarrow> if caught e [IndexError, AttributeError, JSONDecodeError, TypeError] then Inr [] else Inl e
              | Inr (labels, digests) \<Rightarrow> identity_of labels digests), d1)
      | (Expired, d1) \<Rightarrow> (raise TimeoutError [], d1))"

section \<open>The run\<close>

definition confinement :: "string \<Rightarrow> string list" where
  "confinement workspace_path =
     [''docker'', ''run'', ''--rm'', ''--cidfile'', workspace_path @ ''/container.cid'', ''--network'', ''none'',
      ''--read-only'', ''--tmpfs'', ''/tmp:rw,exec,nosuid,nodev,size=512m'', ''--cap-drop'', ''ALL'',
      ''--security-opt'', ''no-new-privileges'', ''--mount'',
      ''type=bind,src='' @ workspace_path @ '',dst=/in,readonly'']"

definition env_arguments :: "(string, string) dict \<Rightarrow> string list" where
  "env_arguments env = concat (map (\<lambda>(k, v). [''--env'', k @ CHR ''='' # v]) (sort env))"

definition container_command :: "docker_runtime \<Rightarrow> string \<Rightarrow> (string, string) dict \<Rightarrow> string list" where
  "container_command rt workspace_path env = confinement workspace_path @ env_arguments env @ [image_ref rt]"

definition remove_timed_out_container :: "'d docker \<Rightarrow> string \<Rightarrow> 'd \<Rightarrow> 'd" where
  "remove_timed_out_container dk workspace_path d =
     (case cid dk workspace_path d of
        None \<Rightarrow> d
      | Some t \<Rightarrow> if py_strip t = [] then d
                  else snd (command dk [''docker'', ''rm'', ''--force'', py_strip t] None d))"

fun exit_phase :: "int \<Rightarrow> string" where
  "exit_phase status =
     (if status = 2 then ''input'' else if status = 3 then ''compile'' else if status = 4 then ''backtest''
      else if status = 5 then ''transpile'' else ''container'')"

text \<open>The \<open>with\<close> block: the workspace is discarded however it ends.\<close>

definition run_in_workspace ::
  "'d docker \<Rightarrow> docker_runtime \<Rightarrow> (string, string) dict result \<Rightarrow> string \<Rightarrow> 'd \<Rightarrow>
   (int \<times> string \<times> string) result \<times> 'd" where
  "run_in_workspace dk rt env workspace_path d =
     (case env of
        Inl e \<Rightarrow> (Inl e, d)
      | Inr env \<Rightarrow>
          (case command dk (container_command rt workspace_path env) (Some (time_limit rt)) d of
             (Completed status stdout stderr, d1) \<Rightarrow> (Inr (status, stdout, stderr), d1)
           | (Expired, d1) \<Rightarrow>
               (raise DockerExecutionError ''pineforge-release exceeded its time'',
                remove_timed_out_container dk workspace_path d1)))"

definition docker_environment ::
  "instrument \<Rightarrow> string \<Rightarrow> backtest_options \<Rightarrow> (string, json) dict option \<Rightarrow> (string, json) dict option \<Rightarrow>
   (string, string) dict result" where
  "docker_environment i src q params overrides =
     rbind (release_environment ''/in'' i q params overrides) (\<lambda>env.
     Inr (AList.update ''PINEFORGE_DATA_SOURCE'' src env))"

definition docker_response ::
  "(string \<Rightarrow> json option) \<Rightarrow> 'd docker \<Rightarrow> docker_runtime \<Rightarrow> string \<Rightarrow> int \<times> string \<times> string \<Rightarrow> 'd \<Rightarrow>
   (string, json) dict result \<times> 'd" where
  "docker_response loads dk rt img out d =
     (case out of (status, stdout, stderr) \<Rightarrow>
        if status \<noteq> 0
        then (raise DockerExecutionError (exit_phase status @ '' failed: '' @ completed_error stdout stderr), d)
        else
          (case sbind (slift (parse_release_report loads stdout)) (\<lambda>report.
                sbind (image_identity loads dk rt) (\<lambda>identity. slift (Inr (report, identity)))) d of
             (Inl e, d1) \<Rightarrow>
               (if caught e [ReleaseContractError] then raise DockerExecutionError (exn_text e) else Inl e, d1)
           | (Inr (report, identity), d1) \<Rightarrow>
               (Inr (release_response report img ''local-container'' None identity), d1)))"

definition docker_run ::
  "(string \<Rightarrow> json option) \<Rightarrow> 'd docker \<Rightarrow> docker_runtime \<Rightarrow> string \<Rightarrow> bar list \<Rightarrow> instrument \<Rightarrow> string \<Rightarrow>
   backtest_options \<Rightarrow> (string, json) dict option \<Rightarrow> (string, json) dict option \<Rightarrow> 'd \<Rightarrow>
   (string, json) dict result \<times> 'd" where
  "docker_run loads dk rt pine bars i src q params overrides =
     sbind (ensure_image dk rt) (\<lambda>img.
     sbind (\<lambda>d.
       case workspace dk (case write_release_inputs pine bars i of Inl e \<Rightarrow> [] | Inr texts \<Rightarrow> texts) d of
         (path, d1) \<Rightarrow>
           (case run_in_workspace dk rt
                   (rbind (write_release_inputs pine bars i) (\<lambda>_. docker_environment i src q params overrides)) path d1 of
              (r, d2) \<Rightarrow> (r, discard_workspace dk path d2))) (\<lambda>out.
     docker_response loads dk rt img out))"

section \<open>The commands of a run\<close>

text \<open>Docker with a log of the commands it was given.\<close>

definition logged :: "'d docker \<Rightarrow> ('d \<times> string list list) docker" where
  "logged dk =
     \<lparr>on_path = on_path dk,
      command = (\<lambda>cmd limit (d, cmds). case command dk cmd limit d of (out, d1) \<Rightarrow> (out, d1, cmds @ [cmd])),
      workspace = (\<lambda>texts (d, cmds). case workspace dk texts d of (path, d1) \<Rightarrow> (path, d1, cmds)),
      cid = (\<lambda>path (d, cmds). cid dk path d),
      discard_workspace = (\<lambda>path (d, cmds). (discard_workspace dk path d, cmds))\<rparr>"

fun starts_container :: "string list \<Rightarrow> bool" where
  "starts_container (c # sub # args) = (sub = ''run'')"
| "starts_container _ = False"

text \<open>
  The commands a run may give: a container is started only with the confinement, the variables
  each as one argument after \<open>--env\<close>, and the configured image as the last argument; an image is
  pulled only where the policy allows it.
\<close>

definition allowed_command :: "docker_runtime \<Rightarrow> string list \<Rightarrow> bool" where
  "allowed_command rt cmd =
     (if starts_container cmd then \<exists>path env. cmd = confinement path @ env_arguments env @ [image_ref rt]
      else cmd = info_command \<or> cmd = inspect_command rt \<or> (cmd = pull_command rt \<and> pull_policy rt \<noteq> ''never'') \<or>
        (\<exists>c. c \<noteq> [] \<and> cmd = [''docker'', ''rm'', ''--force'', c]))"

definition starts :: "string list list \<Rightarrow> nat" where
  "starts cmds = length (filter starts_container cmds)"

definition obeys :: "docker_runtime \<Rightarrow> nat \<Rightarrow> ('d \<times> string list list \<Rightarrow> 'r \<times> 'd \<times> string list list) \<Rightarrow> bool" where
  "obeys rt n act =
     (\<forall>d cmds. list_all (allowed_command rt) cmds \<longrightarrow>
        list_all (allowed_command rt) (snd (snd (act (d, cmds)))) \<and> starts (snd (snd (act (d, cmds)))) \<le> starts cmds + n)"

lemma obeys_bind:
  assumes act: "obeys rt n act" and f: "\<And>a. obeys rt k (f a)"
  shows "obeys rt (n + k) (sbind act f)"
  unfolding obeys_def
proof (intro allI impI)
  fix d cmds assume cmds: "list_all (allowed_command rt) cmds"
  obtain r d1 cmds1 where x: "act (d, cmds) = (r, d1, cmds1)" by (rule prod_cases3)
  have one: "list_all (allowed_command rt) cmds1" "starts cmds1 \<le> starts cmds + n"
    using act cmds x unfolding obeys_def by (metis snd_conv)+
  show "list_all (allowed_command rt) (snd (snd (sbind act f (d, cmds)))) \<and>
      starts (snd (snd (sbind act f (d, cmds)))) \<le> starts cmds + (n + k)"
  proof (cases r)
    case (Inr a)
    have "list_all (allowed_command rt) (snd (snd (f a (d1, cmds1)))) \<and> starts (snd (snd (f a (d1, cmds1)))) \<le> starts cmds1 + k"
      using f [of a] one(1) unfolding obeys_def by blast
    then show ?thesis using one by (simp add: sbind_def x Inr)
  qed (use one in \<open>simp add: sbind_def x\<close>)
qed

lemma obeys_bind0: "obeys rt 0 act \<Longrightarrow> (\<And>a. obeys rt k (f a)) \<Longrightarrow> obeys rt k (sbind act f)"
  using obeys_bind [of rt 0 act k f] by simp

lemma obeys_slift [simp]: "obeys rt n (slift r)"
  by (simp add: obeys_def slift_def)

lemma starts_snoc [simp]: "starts (cmds @ [cmd]) = starts cmds + of_bool (starts_container cmd)"
  by (simp add: starts_def)

lemma plain_commands [simp]:
  "\<not> starts_container info_command" "\<not> starts_container (inspect_command rt)" "\<not> starts_container (pull_command rt)"
  "starts_container (container_command rt path env)"
  by (simp_all add: info_command_def inspect_command_def pull_command_def container_command_def confinement_def)

lemma allowed_plain [simp]:
  "allowed_command rt info_command" "allowed_command rt (inspect_command rt)"
  "allowed_command rt (pull_command rt) = (pull_policy rt \<noteq> ''never'' \<or> pull_command rt \<in> {info_command, inspect_command rt})"
  "allowed_command rt (container_command rt path env)" "c \<noteq> [] \<Longrightarrow> allowed_command rt [''docker'', ''rm'', ''--force'', c]"
  by (auto simp: allowed_command_def) (auto simp: container_command_def pull_command_def)

lemma obeys_check: "obeys rt 0 (check_docker (logged dk))"
  by (auto simp: obeys_def check_docker_def logged_def split_def split: completed.split)

lemma obeys_exists: "obeys rt 0 (image_exists (logged dk) rt)"
  by (auto simp: obeys_def image_exists_def logged_def split_def split: completed.split)

lemma obeys_pull: "pull_policy rt \<noteq> ''never'' \<Longrightarrow> obeys rt 0 (pull_image (logged dk) rt)"
  by (auto simp: obeys_def pull_image_def logged_def split_def split: completed.split)

lemma obeys_identity: "obeys rt 0 (image_identity loads (logged dk) rt)"
  by (auto simp: obeys_def image_identity_def logged_def split_def split: completed.split)

lemma obeys_weaken: "obeys rt n act \<Longrightarrow> n \<le> k \<Longrightarrow> obeys rt k act"
  unfolding obeys_def by (meson add_left_mono order_trans)

lemma obeys_ensure: "obeys rt 0 (ensure_image (logged dk) rt)"
proof -
  have "obeys rt 0 (if pull_policy rt = ''always'' \<or> (pull_policy rt = ''missing'' \<and> \<not> found)
     then sbind (pull_image (logged dk) rt) (\<lambda>_. slift (Inr (image_ref rt)))
     else slift (if \<not> found
                 then raise DockerPrerequisiteError ''pineforge-release image is not available locally''
                 else Inr (image_ref rt)))" for found
    by (auto intro!: obeys_bind0 obeys_pull)
  then show ?thesis
    unfolding ensure_image_def by (intro obeys_bind0 obeys_check obeys_exists)
qed

lemma obeys_remove:
  "list_all (allowed_command rt) cmds \<Longrightarrow>
   list_all (allowed_command rt) (snd (remove_timed_out_container (logged dk) path (d, cmds))) \<and>
   starts (snd (remove_timed_out_container (logged dk) path (d, cmds))) = starts cmds"
  by (auto simp: remove_timed_out_container_def logged_def split_def split: option.split)

lemma obeys_workspace: "obeys rt 1 (run_in_workspace (logged dk) rt env path)"
  unfolding obeys_def
proof (intro allI impI)
  fix d cmds assume ok: "list_all (allowed_command rt) cmds"
  show "list_all (allowed_command rt) (snd (snd (run_in_workspace (logged dk) rt env path (d, cmds)))) \<and>
      starts (snd (snd (run_in_workspace (logged dk) rt env path (d, cmds)))) \<le> starts cmds + 1"
  proof (cases env)
    case (Inr e)
    obtain out d1 where run: "command dk (container_command rt path e) (Some (time_limit rt)) d = (out, d1)"
      by (cases "command dk (container_command rt path e) (Some (time_limit rt)) d")
    have logged_run: "command (logged dk) (container_command rt path e) (Some (time_limit rt)) (d, cmds) =
        (out, d1, cmds @ [container_command rt path e])"
      by (simp add: logged_def run)
    show ?thesis
      using ok obeys_remove [of rt "cmds @ [container_command rt path e]" dk path d1]
      by (cases out) (simp_all add: run_in_workspace_def Inr logged_run)
  qed (simp add: run_in_workspace_def ok)
qed

lemma obeys_response: "obeys rt 0 (docker_response loads (logged dk) rt img out)"
proof -
  obtain status stdout stderr where out: "out = (status, stdout, stderr)" by (rule prod_cases3)
  have "obeys rt 0 (sbind (slift (parse_release_report loads stdout)) (\<lambda>report.
      sbind (image_identity loads (logged dk) rt) (\<lambda>identity. slift (Inr (report, identity)))))"
    by (intro obeys_bind0 obeys_slift obeys_identity)
  then show ?thesis
    unfolding obeys_def docker_response_def out
    by (auto simp: split_def split: sum.split prod.split)
qed


end
