(* ===== verification/JsonForms.thy ===== *)
theory JsonForms
  imports Json
begin

text \<open>
  The other forms in which the package writes JSON: the default separators, two spaces of
  indentation, sorted keys, and text outside ASCII as it is.  Keys are sorted at every level.
\<close>

fun sorted_keys :: "json \<Rightarrow> json" where
  "sorted_keys (JList xs) = JList (map sorted_keys xs)"
| "sorted_keys (JDict d) = JDict (sort_key fst (map (\<lambda>(k, v). (k, sorted_keys v)) d))"
| "sorted_keys v = v"

text \<open>\<open>json.dumps(value)\<close>: a space after each separator.\<close>

fun comma_joined :: "string list \<Rightarrow> string" where
  "comma_joined [] = []"
| "comma_joined [s] = s"
| "comma_joined (s # t # ss) = s @ '', '' @ comma_joined (t # ss)"

fun json_spaced :: "json \<Rightarrow> string" where
  "json_spaced (JList xs) = CHR ''['' # comma_joined (map json_spaced xs) @ '']''"
| "json_spaced (JDict d) =
     CHR ''{'' # comma_joined (map (\<lambda>(k, v). json_string k @ '': '' @ json_spaced v) d) @ ''}''"
| "json_spaced v = json_text v"

text \<open>\<open>json.dumps(value, indent=2)\<close>: \<open>n\<close> is the depth; an empty array or object stays on its line.\<close>

definition json_line :: "nat \<Rightarrow> string" where
  "json_line n = CHR 0x0A # replicate (2 * n) CHR '' ''"

fun line_joined :: "nat \<Rightarrow> string list \<Rightarrow> string" where
  "line_joined n [] = []"
| "line_joined n [s] = json_line n @ s"
| "line_joined n (s # t # ss) = json_line n @ s @ CHR '','' # line_joined n (t # ss)"

fun json_indented :: "nat \<Rightarrow> json \<Rightarrow> string" where
  "json_indented n (JList xs) =
     (if xs = [] then ''[]''
      else CHR ''['' # line_joined (n + 1) (map (json_indented (n + 1)) xs) @ json_line n @ '']'')"
| "json_indented n (JDict d) =
     (if d = [] then ''{}''
      else CHR ''{'' # line_joined (n + 1) (map (\<lambda>(k, v). json_string k @ '': '' @ json_indented (n + 1) v) d) @
           json_line n @ ''}'')"
| "json_indented n v = json_text v"

text \<open>A form with its refusal of floats without a JSON form (\<open>allow_nan=False\<close>).\<close>

definition dumps_as :: "(json \<Rightarrow> string) \<Rightarrow> json \<Rightarrow> string result" where
  "dumps_as form v =
     (if json_finite v then Inr (form v)
      else raise ValueError ''Out of range float values are not JSON compliant'')"

lemma dumps_as_returns [simp]: "(dumps_as form v = Inr s) = (json_finite v \<and> s = form v)"
  by (auto simp: dumps_as_def)

text \<open>Compact text with sorted keys in which only quotes, backslashes and controls are escaped.\<close>

definition plain_char :: "char \<Rightarrow> string" where
  "plain_char c = (if code c < 127 then json_char c else [c])"

definition plain_string :: "string \<Rightarrow> string" where
  "plain_string s = CHR 0x22 # concat (map plain_char s) @ [CHR 0x22]"

fun json_plain :: "json \<Rightarrow> string" where
  "json_plain (JStr s) = plain_string s"
| "json_plain (JList xs) = CHR ''['' # joined (map json_plain xs) @ '']''"
| "json_plain (JDict d) =
     CHR ''{'' # joined (map (\<lambda>(k, v). plain_string k @ CHR '':'' # json_plain v) d) @ ''}''"
| "json_plain v = json_text v"

end
