(* ===== verification/Harness.thy ===== *)
theory Harness
  imports Registry Client Docker JsonForms
begin

text \<open>
  \<open>src/pineforge_data/cli/backtest.py\<close>: from the parsed arguments to the report, by way of a
  provider, the choice of the bars, and the server client or the Docker runtime.  \<open>argparse\<close> itself
  is not modelled; the arguments are a record.
\<close>

section \<open>Arguments\<close>

definition parse_timestamp :: "string \<Rightarrow> int result" where
  "parse_timestamp s =
     rbind (case py_int s of
              Some n \<Rightarrow> Inr n
            | None \<Rightarrow>
                (case from_iso (replace_Z s) of
                   None \<Rightarrow> raise ArgumentTypeError ''invalid timestamp''
                 | Some (Naive us) \<Rightarrow> raise ArgumentTypeError ''ISO timestamps must include a timezone''
                 | Some (Aware us) \<Rightarrow> Inr (float_ms us))) (\<lambda>t.
     rbind (require (0 \<le> t) ArgumentTypeError ''timestamps must be non-negative'') (\<lambda>_. Inr t))"

text \<open>\<open>([1-9][0-9]*)([smhdwM])\<close>: the count and the unit of a compact timeframe.\<close>

definition compact_timeframe_rx :: rx where
  "compact_timeframe_rx =
     rx_seq [rx_digit1, RMany rx_digit,
       RClass [(115, 115), (109, 109), (104, 104), (100, 100), (119, 119), (77, 77)]]"

definition compact_timeframe :: "string \<Rightarrow> (int \<times> char) option" where
  "compact_timeframe t =
     (if fullmatch compact_timeframe_rx t then Some (int (digits_val (butlast t)), last t) else None)"

definition source_timeframe_to_pine :: "string \<Rightarrow> string result" where
  "source_timeframe_to_pine t =
     (case compact_timeframe t of
        None \<Rightarrow> raise ValueError ''cannot translate source timeframe to PineForge''
      | Some (n, u) \<Rightarrow>
          Inr (if u = CHR ''s'' then int_text n @ ''S''
               else if u = CHR ''m'' then int_text n
               else if u = CHR ''h'' then int_text (n * 60)
               else int_text n @ [if u = CHR ''M'' then u else ascii_upper u]))"

definition unit_length_ms :: "char \<Rightarrow> int" where
  "unit_length_ms u =
     (if u = CHR ''s'' then 1000 else if u = CHR ''m'' then 60000 else if u = CHR ''h'' then 3600000
      else if u = CHR ''d'' then 86400000 else if u = CHR ''w'' then 604800000 else 2678400000)"

definition warmup_request_start_ms :: "int \<Rightarrow> string \<Rightarrow> int \<Rightarrow> int result" where
  "warmup_request_start_ms start t warmup =
     rbind (require (0 \<le> warmup) ValueError ''warmup_bars must be non-negative'') (\<lambda>_.
     if warmup = 0 then Inr start
     else
       (case compact_timeframe t of
          None \<Rightarrow> raise ValueError ''cannot calculate warmup for source timeframe''
        | Some (n, u) \<Rightarrow> Inr (max 0 (start - n * unit_length_ms u * warmup))))"

record harness_args =
  ha_pine :: string
  ha_provider :: string
  ha_venue :: string
  ha_symbol :: string
  ha_timeframe :: string
  ha_start :: int
  ha_end :: int
  ha_limit :: "int option"
  ha_warmup :: int
  ha_timezone :: string
  ha_session :: string
  ha_engine_timeframe :: "string option"
  ha_script_timeframe :: string
  ha_provider_config :: "string option"
  ha_params :: "string option"
  ha_overrides :: "string option"
  ha_magnifier :: bool
  ha_samples :: int
  ha_trace :: bool
  ha_image :: string
  ha_pull :: string
  ha_timeout :: pyfloat
  ha_server_url :: "string option"
  ha_key_env :: string
  ha_output :: "string option"
  ha_pretty :: bool

text \<open>\<open>build_parser\<close>: the required arguments and the defaults of the others.\<close>

definition default_args ::
  "string \<Rightarrow> string \<Rightarrow> string \<Rightarrow> string \<Rightarrow> int \<Rightarrow> int \<Rightarrow> harness_args" where
  "default_args pine venue_name symbol_name t start stop =
     \<lparr>ha_pine = pine, ha_provider = ''ccxt'', ha_venue = venue_name, ha_symbol = symbol_name, ha_timeframe = t,
      ha_start = start, ha_end = stop, ha_limit = None, ha_warmup = 0, ha_timezone = ''UTC'', ha_session = ''24x7'',
      ha_engine_timeframe = None, ha_script_timeframe = [], ha_provider_config = None, ha_params = None,
      ha_overrides = None, ha_magnifier = False, ha_samples = 4, ha_trace = False, ha_image = default_release_image,
      ha_pull = ''missing'', ha_timeout = Fin 300, ha_server_url = None, ha_key_env = ''PINEFORGE_SERVER_API_KEY'',
      ha_output = None, ha_pretty = False\<rparr>"

text \<open>
  The outside of a run: the texts of regular files, \<open>json.loads\<close>, the distributions and services the
  providers reach, the resolution of a path, the network and Docker, which share one state.
\<close>

record 'w harness_host =
  hh_file :: "string \<Rightarrow> string option"
  hh_loads :: "string \<Rightarrow> json option"
  hh_outside :: "'w outside"
  hh_entry_points :: "'w entry_point list"
  hh_resolve_path :: "string \<Rightarrow> string"
  hh_uuid :: string
  hh_send :: "http_request \<Rightarrow> pyfloat \<Rightarrow> 'w \<Rightarrow> reply \<times> 'w"
  hh_docker :: "'w docker"

definition read_text :: "'w harness_host \<Rightarrow> string \<Rightarrow> string result" where
  "read_text host path =
     (case hh_file host path of None \<Rightarrow> raise FileNotFoundError path | Some t \<Rightarrow> Inr t)"

definition loads_result :: "(string \<Rightarrow> json option) \<Rightarrow> string \<Rightarrow> json result" where
  "loads_result loads t = (case loads t of None \<Rightarrow> raise JSONDecodeError [] | Some v \<Rightarrow> Inr v)"

definition load_json_object :: "'w harness_host \<Rightarrow> string option \<Rightarrow> config result" where
  "load_json_object host path =
     (case path of
        None \<Rightarrow> Inr []
      | Some p \<Rightarrow>
          rbind (read_text host p) (\<lambda>t.
          rbind (loads_result (hh_loads host) t) (\<lambda>v.
          case v of JDict d \<Rightarrow> Inr d | _ \<Rightarrow> raise ValueError ''JSON file must contain an object'')))"

section \<open>The provider phase\<close>

text \<open>\<open>try: ... finally: await provider.close()\<close>: an error of the closing replaces the outcome.\<close>

definition closing :: "('w \<Rightarrow> unit result \<times> 'w) \<Rightarrow> ('w \<Rightarrow> 'a result \<times> 'w) \<Rightarrow> 'w \<Rightarrow> 'a result \<times> 'w" where
  "closing close act w =
     (case act w of (res, w1) \<Rightarrow>
        (case close w1 of (Inl e, w2) \<Rightarrow> (Inl e, w2) | (Inr _, w2) \<Rightarrow> (res, w2)))"

record provider_answer =
  pa_listing :: market_listing
  pa_instrument :: instrument
  pa_start :: int
  pa_bars :: "bar list"
  pa_name :: string

definition provider_phase :: "harness_args \<Rightarrow> 'w data_provider \<Rightarrow> 'w \<Rightarrow> provider_answer result \<times> 'w" where
  "provider_phase a p =
     closing (dp_close p)
       (sbind (dp_resolve p (ha_symbol a)) (\<lambda>listing.
        sbind (slift (mk_instrument ((ml_instrument listing)\<lparr>timezone := ha_timezone a, session := ha_session a\<rparr>))) (\<lambda>i.
        sbind (slift (warmup_request_start_ms (ha_start a) (ha_timeframe a) (ha_warmup a))) (\<lambda>start.
        sbind (slift (mk_bar_request
           \<lparr>br_instrument = i, br_timeframe = ha_timeframe a, start_ms = start, end_ms = ha_end a,
            br_limit = map_option (\<lambda>n. n + ha_warmup a) (ha_limit a)\<rparr>)) (\<lambda>r.
        sbind (dp_fetch p r) (\<lambda>bars.
        slift (Inr \<lparr>pa_listing = listing, pa_instrument = i, pa_start = start, pa_bars = bars,
                    pa_name = dp_name p\<rparr>)))))))"

section \<open>The bars of the run\<close>

text \<open>\<open>xs[-k:] if k else []\<close>\<close>

definition last_items :: "int \<Rightarrow> 'a list \<Rightarrow> 'a list" where
  "last_items k xs = (if k = 0 then [] else drop (length xs - nat k) xs)"

definition choose_bars :: "harness_args \<Rightarrow> bar list \<Rightarrow> (bar list \<times> bar list) result" where
  "choose_bars a fetched =
     rbind (require (fetched \<noteq> []) RuntimeError
              ''provider returned no confirmed bars for the requested interval'') (\<lambda>_.
     let requested = filter (\<lambda>b. ha_start a \<le> bar_ms b) fetched in
     rbind (require (requested \<noteq> []) RuntimeError ''provider returned no confirmed bars at or after --start'') (\<lambda>_.
     Inr (last_items (ha_warmup a) (filter (\<lambda>b. bar_ms b < ha_start a) fetched), requested)))"

section \<open>Execution\<close>

definition engine_timeframe :: "harness_args \<Rightarrow> string result" where
  "engine_timeframe a =
     (case ha_engine_timeframe a of
        Some (c # t) \<Rightarrow> Inr (c # t)
      | _ \<Rightarrow> source_timeframe_to_pine (ha_timeframe a))"

definition harness_options :: "harness_args \<Rightarrow> backtest_options result" where
  "harness_options a =
     rbind (engine_timeframe a) (\<lambda>tf.
     mk_backtest_options
       (default_options\<lparr>input_timeframe := tf,
          script_timeframe := default_to (ha_script_timeframe a) tf,
          bar_magnifier := ha_magnifier a, magnifier_samples := ha_samples a, trace_enabled := ha_trace a,
          chart_timezone := Some (ha_timezone a),
          trade_start_time_ms := (if ha_warmup a \<noteq> 0 then Some (ha_start a) else None)\<rparr>))"

fun plus_seconds :: "rat \<Rightarrow> pyfloat \<Rightarrow> pyfloat" where
  "plus_seconds s (Fin x) = rnd64 (x + s)"
| "plus_seconds s f = f"

definition server_address :: "'w harness_host \<Rightarrow> harness_args \<Rightarrow> string" where
  "server_address host a =
     (case ha_server_url a of
        Some (c # s) \<Rightarrow> c # s
      | _ \<Rightarrow> (case variable (hh_outside host) ''PINEFORGE_SERVER_URL'' of None \<Rightarrow> [] | Some u \<Rightarrow> u))"

definition execute_backtest ::
  "'w harness_host \<Rightarrow> harness_args \<Rightarrow> string \<Rightarrow> bar list \<Rightarrow> instrument \<Rightarrow> string \<Rightarrow> backtest_options \<Rightarrow>
   config \<Rightarrow> config \<Rightarrow> 'w \<Rightarrow> config result \<times> 'w" where
  "execute_backtest host a pine bars i src q params overrides =
     (let url = server_address host a in
      if url \<noteq> []
      then sbind (slift (mk_client
             \<lparr>base_url = url, timeout_seconds = plus_seconds 30 (ha_timeout a),
              api_key = (if ha_key_env a = [] then None else variable (hh_outside host) (ha_key_env a)),
              max_response_bytes = 134217728\<rparr>)) (\<lambda>c.
           client_run (loads_result (hh_loads host)) (hh_send host) c (hh_uuid host) pine bars i src q
             (Some params) (Some overrides))
      else sbind (slift (mk_docker_runtime
             \<lparr>image_ref = ha_image a, pull_policy = ha_pull a, time_limit = ha_timeout a\<rparr>)) (\<lambda>rt.
           docker_run (hh_loads host) (hh_docker host) rt pine bars i src q (Some params) (Some overrides)))"

section \<open>The report\<close>

definition market_payload :: "market_listing \<Rightarrow> json" where
  "market_payload l =
     (let i = ml_instrument l in
      JDict
       [(''symbol'', JStr (symbol i)), (''provider_id'', JStr (provider_id i)),
        (''asset_class'', JStr (asset_class_value (asset_class i))),
        (''market_type'', JStr (market_type_value (market_type i))),
        (''base'', JStr (base i)), (''quote'', JStr (quote i)), (''settle'', JStr (settle i)),
        (''volume_unit'', JStr (volume_unit i)), (''active'', json_option JBool (active l)),
        (''margin_supported'', json_option JBool (margin_supported l)),
        (''contract'', json_option (\<lambda>c. JDict
          [(''contract_size'', json_option JFloat (contract_size c)), (''linear'', json_option JBool (linear c)),
           (''inverse'', json_option JBool (inverse c)), (''expiry_ms'', json_option JInt (expiry_ms c)),
           (''strike'', json_option JFloat (strike c)),
           (''option_type'', json_option (\<lambda>t. JStr (option_type_value t)) (option_type c))]) (contract i))])"

definition report_data ::
  "harness_args \<Rightarrow> int \<Rightarrow> bar list \<Rightarrow> bar list \<Rightarrow> backtest_options \<Rightarrow> json" where
  "report_data a start warmup requested q =
     (let bars = warmup @ requested in
      JDict
       [(''requested_start_ms'', JInt (ha_start a)), (''requested_end_ms'', JInt (ha_end a)),
        (''provider_start_ms'', JInt start), (''first_bar_ms'', JInt (bar_ms (hd bars))),
        (''last_bar_ms'', JInt (bar_ms (last bars))), (''bars'', JInt (int (length bars))),
        (''requested_bars'', JInt (int (length requested))), (''warmup_bars_requested'', JInt (ha_warmup a)),
        (''warmup_bars_loaded'', JInt (int (length warmup))),
        (''trade_start_time_ms'', json_option JInt (trade_start_time_ms q))])"

definition harness_report ::
  "harness_args \<Rightarrow> provider_answer \<Rightarrow> bar list \<Rightarrow> bar list \<Rightarrow> backtest_options \<Rightarrow> string \<Rightarrow> config \<Rightarrow> config result" where
  "harness_report a ans warmup requested q pine_path container =
     (rbind (require (\<not> (\<exists>s \<in> {''runtime'', ''backtest''}. s \<notin> set (dkeys container))) RuntimeError
               ''Docker report is missing a required section'') (\<lambda>_.
      rbind (jitem container ''runtime'') (\<lambda>runtime.
      rbind (jitem container ''backtest'') (\<lambda>backtest.
      Inr
       [(''schema_version'', JInt 1), (''request_id'', jget container ''request_id''),
        (''provider'', JDict
          [(''name'', JStr (pa_name ans)), (''adapter'', JStr (ha_provider a)), (''venue'', JStr (ha_venue a)),
           (''source_timeframe'', JStr (ha_timeframe a)), (''market'', market_payload (pa_listing ans))]),
        (''data'', report_data a (pa_start ans) warmup requested q),
        (''strategy'', JDict
          [(''pine'', JStr pine_path), (''input_timeframe'', JStr (input_timeframe q)),
           (''script_timeframe'', JStr (script_timeframe q))]),
        (''runtime'', runtime), (''backtest'', backtest)]))))"

definition check_args :: "harness_args \<Rightarrow> unit result" where
  "check_args a =
     first_raise
       [(ha_warmup a < 0, ValueError, ''--warmup-bars must be non-negative''),
        (ha_end a \<le> ha_start a, ValueError, ''--end must be later than --start''),
        (some_bad (\<lambda>n. n \<le> 0) (ha_limit a), ValueError, ''--limit must be positive'')]"

text \<open>What follows the provider phase.\<close>

definition run_phase ::
  "'w harness_host \<Rightarrow> harness_args \<Rightarrow> config \<Rightarrow> config \<Rightarrow> provider_answer \<Rightarrow> 'w \<Rightarrow> config result \<times> 'w" where
  "run_phase host a params overrides ans =
     sbind (slift (choose_bars a (pa_bars ans))) (\<lambda>(warmup, requested).
     sbind (slift (harness_options a)) (\<lambda>q.
     let pine_path = hh_resolve_path host (ha_pine a) in
     sbind (slift (read_text host pine_path)) (\<lambda>pine.
     sbind (execute_backtest host a pine (warmup @ requested) (pa_instrument ans) (pa_name ans) q params overrides)
       (\<lambda>container.
     slift (harness_report a ans warmup requested q pine_path container)))))"

definition run_harness :: "'w harness_host \<Rightarrow> harness_args \<Rightarrow> 'w \<Rightarrow> config result \<times> 'w" where
  "run_harness host a =
     sbind (slift (check_args a)) (\<lambda>_.
     sbind (slift (load_json_object host (ha_provider_config a))) (\<lambda>config.
     sbind (slift (load_json_object host (ha_params a))) (\<lambda>params.
     sbind (slift (load_json_object host (ha_overrides a))) (\<lambda>overrides.
     sbind (slift (fst (create (hh_entry_points host) (ha_provider a) (ha_venue a) (Some config)
                          (builtin_factories (hh_outside host))))) (\<lambda>provider.
     sbind (provider_phase a provider) (\<lambda>ans.
     run_phase host a params overrides ans))))))"

text \<open>
  \<open>main\<close>: the status, and the text that is printed or, with its path, written with a line feed.
\<close>

datatype harness_output = Printed string | Written string string | Failed exn

definition harness_main :: "'w harness_host \<Rightarrow> harness_args \<Rightarrow> 'w \<Rightarrow> (int \<times> harness_output) \<times> 'w" where
  "harness_main host a w =
     (case run_harness host a w of (res, w1) \<Rightarrow>
        (case rbind res (\<lambda>payload. if ha_pretty a then dumps_as (\<lambda>v. json_indented 0 (sorted_keys v)) (JDict payload)
                                   else dumps_as json_spaced (JDict payload)) of
           Inl e \<Rightarrow> ((1, Failed e), w1)
         | Inr t \<Rightarrow> ((0, case ha_output a of None \<Rightarrow> Printed t | Some path \<Rightarrow> Written path (t @ [CHR 0x0A])), w1)))"

section \<open>Timeframes\<close>

text \<open>
  How PineForge reads a timeframe: seconds with an \<open>S\<close>, minutes as a bare number, days, weeks and
  months with their letter; the length in milliseconds, with a month of 31 days.
\<close>

definition pine_length_ms :: "string \<Rightarrow> int option" where
  "pine_length_ms t =
     (let n = int (digits_val (butlast t)) in
      if t \<noteq> [] \<and> list_all ascii_digit t then Some (int (digits_val t) * 60000)
      else if t = [] \<or> \<not> list_all ascii_digit (butlast t) then None
      else if last t = CHR ''S'' then Some (n * 1000)
      else if last t = CHR ''D'' then Some (n * 86400000)
      else if last t = CHR ''W'' then Some (n * 604800000)
      else if last t = CHR ''M'' then Some (n * 2678400000)
      else None)"

lemma char_of_code: "code c = n \<Longrightarrow> c = char_of n"
  by (auto simp: code_def)

lemma compact_timeframe_returns:
  assumes "compact_timeframe t = Some (n, u)"
  shows "0 \<le> n \<and> u \<in> {CHR ''s'', CHR ''m'', CHR ''h'', CHR ''d'', CHR ''w'', CHR ''M''}"
proof -
  let ?units = "[(115, 115), (109, 109), (104, 104), (100, 100), (119, 119), (77, 77)]"
  have t: "t \<in> rx_lang compact_timeframe_rx" "u = last t" "n = int (digits_val (butlast t))"
    using assms by (auto simp: compact_timeframe_def fullmatch_iff split: if_splits)
  then obtain a b c where "t = a @ b @ [c]" and c: "in_ranges ?units c"
    by (auto simp: compact_timeframe_rx_def)
  then have "u = c" using t(2) by simp
  have "code c \<in> {115, 109, 104, 100, 119, 77}" using c by auto
  then have "c \<in> {char_of (115 :: nat), char_of (109 :: nat), char_of (104 :: nat), char_of (100 :: nat),
      char_of (119 :: nat), char_of (77 :: nat)}"
    using char_of_code by blast
  also have "\<dots> = {CHR ''s'', CHR ''m'', CHR ''h'', CHR ''d'', CHR ''w'', CHR ''M''}" by code_simp
  finally show ?thesis using t(3) \<open>u = c\<close> by simp
qed

lemma int_text_digits: "0 \<le> n \<Longrightarrow> list_all ascii_digit (int_text n) \<and> int (digits_val (int_text n)) = n \<and> int_text n \<noteq> []"
  using nat_text_digits [of _ "nat n"] by (auto simp: int_text_def list_all_iff)

lemma unit_letters: "\<not> ascii_digit CHR ''S''" "\<not> ascii_digit CHR ''D''" "\<not> ascii_digit CHR ''W''" "\<not> ascii_digit CHR ''M''"
    "ascii_upper CHR ''d'' = CHR ''D''" "ascii_upper CHR ''w'' = CHR ''W''"
  by code_simp+

text \<open>
  A translated timeframe has the length of the source timeframe (a month counting 31 days), and
  the warmup request starts that length times the number of warmup bars before the start, but not
  before the epoch; both are refused for the same timeframes.
\<close>

theorem timeframe_translation_exact:
  "(case source_timeframe_to_pine t of
      Inr pine \<Rightarrow> (\<exists>ms. pine_length_ms pine = Some ms \<and>
        (\<forall>start k. 0 < k \<longrightarrow> warmup_request_start_ms start t k = Inr (max 0 (start - ms * k))))
    | Inl e \<Rightarrow> exn_class e = ValueError \<and>
        (\<forall>start k. 0 < k \<longrightarrow> (\<exists>m. warmup_request_start_ms start t k = raise ValueError m)))"
proof (cases "compact_timeframe t")
  case None
  then show ?thesis by (simp add: source_timeframe_to_pine_def warmup_request_start_ms_def)
next
  case (Some nu)
  obtain n u where nu: "nu = (n, u)" by (rule prod.exhaust)
  have u: "0 \<le> n" "u \<in> {CHR ''s'', CHR ''m'', CHR ''h'', CHR ''d'', CHR ''w'', CHR ''M''}"
    using compact_timeframe_returns Some nu by blast+
  let ?pine = "if u = CHR ''s'' then int_text n @ ''S'' else if u = CHR ''m'' then int_text n
    else if u = CHR ''h'' then int_text (n * 60) else int_text n @ [if u = CHR ''M'' then u else ascii_upper u]"
  have "pine_length_ms ?pine = Some (n * unit_length_ms u)"
    using u int_text_digits [of n] int_text_digits [of "n * 60"]
    by (auto simp: pine_length_ms_def unit_length_ms_def unit_letters Let_def)
  then show ?thesis
    using Some nu by (auto simp: source_timeframe_to_pine_def warmup_request_start_ms_def)
qed

section \<open>The provider is closed\<close>

datatype provider_call = CallResolve string | CallFetch bar_request | CallClose

text \<open>A provider that records the calls it is given.\<close>

definition watched :: "'w data_provider \<Rightarrow> ('w \<times> provider_call list) data_provider" where
  "watched p =
     \<lparr>dp_name = dp_name p, dp_venue = dp_venue p,
      dp_resolve = (\<lambda>s (w, cs). case dp_resolve p s w of (res, w1) \<Rightarrow> (res, w1, cs @ [CallResolve s])),
      dp_fetch = (\<lambda>r (w, cs). case dp_fetch p r w of (res, w1) \<Rightarrow> (res, w1, cs @ [CallFetch r])),
      dp_close = (\<lambda>(w, cs). case dp_close p w of (res, w1) \<Rightarrow> (res, w1, cs @ [CallClose]))\<rparr>"

text \<open>The request of a run, once the market is known.\<close>

definition run_request :: "harness_args \<Rightarrow> market_listing \<Rightarrow> bar_request result" where
  "run_request a listing =
     rbind (mk_instrument ((ml_instrument listing)\<lparr>timezone := ha_timezone a, session := ha_session a\<rparr>)) (\<lambda>i.
     rbind (warmup_request_start_ms (ha_start a) (ha_timeframe a) (ha_warmup a)) (\<lambda>start.
     mk_bar_request
       \<lparr>br_instrument = i, br_timeframe = ha_timeframe a, start_ms = start, end_ms = ha_end a,
        br_limit = map_option (\<lambda>n. n + ha_warmup a) (ha_limit a)\<rparr>))"

lemma mk_bar_request_same: "mk_bar_request r = Inr q \<Longrightarrow> q = r"
  by (simp add: mk_bar_request_iff)

lemma provider_phase_cases:
  "provider_phase a p w =
    closing (dp_close p) (\<lambda>w.
      case dp_resolve p (ha_symbol a) w of
        (Inl e, w1) \<Rightarrow> (Inl e, w1)
      | (Inr listing, w1) \<Rightarrow>
          (case run_request a listing of
             Inl e \<Rightarrow> (Inl e, w1)
           | Inr r \<Rightarrow>
               (case dp_fetch p r w1 of
                  (Inl e, w2) \<Rightarrow> (Inl e, w2)
                | (Inr bars, w2) \<Rightarrow>
                    (Inr \<lparr>pa_listing = listing, pa_instrument = br_instrument r, pa_start = start_ms r,
                          pa_bars = bars, pa_name = dp_name p\<rparr>, w2)))) w"
  unfolding provider_phase_def run_request_def
  by (rule arg_cong [where f = "\<lambda>act. closing (dp_close p) act w"], rule ext)
    (auto simp: sbind_def slift_def rbind_def split: sum.split prod.split dest!: mk_bar_request_same)

text \<open>
  C17. The provider is asked for the market first, for bars at most once and only with a valid
  request that ends at the requested end, and it is closed exactly once, as the last call,
  whatever fails before.
\<close>

theorem provider_closed_once:
  "let calls = snd (snd (provider_phase a (watched p) (w, []))) in
     calls = [CallResolve (ha_symbol a), CallClose] \<or>
     (\<exists>r. calls = [CallResolve (ha_symbol a), CallFetch r, CallClose] \<and> bar_request_ok r \<and>
        end_ms r = ha_end a \<and> start_ms r \<le> max 0 (ha_start a) \<and> br_timeframe r = ha_timeframe a \<and>
        br_limit r = map_option (\<lambda>n. n + ha_warmup a) (ha_limit a))"
proof -
  have request: "bar_request_ok r \<and> end_ms r = ha_end a \<and> start_ms r \<le> max 0 (ha_start a) \<and>
      br_timeframe r = ha_timeframe a \<and> br_limit r = map_option (\<lambda>n. n + ha_warmup a) (ha_limit a)"
    if run: "run_request a listing = Inr r" for listing r
  proof -
    obtain start where start: "warmup_request_start_ms (ha_start a) (ha_timeframe a) (ha_warmup a) = Inr start"
      "start_ms r = start" "bar_request_ok r" "end_ms r = ha_end a" "br_timeframe r = ha_timeframe a"
      "br_limit r = map_option (\<lambda>n. n + ha_warmup a) (ha_limit a)"
      using run by (auto simp: run_request_def result_simps mk_bar_request_iff)
    have "0 \<le> n * unit_length_ms u * ha_warmup a" if "compact_timeframe (ha_timeframe a) = Some (n, u)" "0 \<le> ha_warmup a" for n u
      using compact_timeframe_returns [OF that(1)] that(2) by (auto simp: unit_length_ms_def)
    then have "start \<le> max 0 (ha_start a)"
      using start(1) by (auto simp: warmup_request_start_ms_def result_simps split: if_splits option.splits)
    then show ?thesis using start by simp
  qed
  show ?thesis
    unfolding Let_def provider_phase_cases closing_def
    using request
    by (auto simp: watched_def split: prod.split sum.split)
qed

section \<open>The bars a strategy sees\<close>

lemma sorted_filter_split:
  fixes xs :: "bar list"
  assumes "sorted_wrt (<) (map bar_ms xs)"
  shows "xs = filter (\<lambda>b. bar_ms b < t) xs @ filter (\<lambda>b. t \<le> bar_ms b) xs"
  using assms
proof (induction xs)
  case (Cons x xs)
  show ?case
  proof (cases "bar_ms x < t")
    case False
    then have "\<forall>b \<in> set xs. \<not> bar_ms b < t" "\<forall>b \<in> set xs. t \<le> bar_ms b" using Cons.prems by auto
    then show ?thesis using False by (simp add: filter_empty_conv)
  qed (use Cons in simp)
qed simp

lemma last_items_suffix: "\<exists>ys. xs = ys @ last_items k xs \<and> (ys = [] \<or> int (length (last_items k xs)) = max 0 k)"
proof (cases "k = 0")
  case False
  have "xs = take (length xs - nat k) xs @ drop (length xs - nat k) xs" by simp
  then show ?thesis using False by (intro exI [of _ "take (length xs - nat k) xs"]) (auto simp: last_items_def max_def)
qed (simp add: last_items_def)

lemma last_items_length: "int (length (last_items k xs)) \<le> max 0 k"
  by (auto simp: last_items_def)

context historical_bars
begin

text \<open>The bars chosen from a fetch are its end: everything from the start on, and the warmup.\<close>

lemma chosen_bars:
  assumes "fetch r = Inr fetched" and "choose_bars a fetched = Inr (warmup, requested)"
  shows "\<exists>dropped. fetched = dropped @ warmup @ requested \<and>
    (dropped = [] \<or> int (length warmup) = max 0 (ha_warmup a)) \<and> int (length warmup) \<le> max 0 (ha_warmup a) \<and>
    requested \<noteq> [] \<and> requested = filter (\<lambda>b. ha_start a \<le> bar_ms b) fetched \<and>
    (\<forall>b \<in> set warmup. bar_ms b < ha_start a) \<and> strictly_increasing bar_ms (warmup @ requested)"
proof -
  let ?before = "filter (\<lambda>b. bar_ms b < ha_start a) fetched"
  have chosen: "warmup = last_items (ha_warmup a) ?before" "requested = filter (\<lambda>b. ha_start a \<le> bar_ms b) fetched"
      "requested \<noteq> []"
    using assms(2) by (auto simp: choose_bars_def Let_def result_simps)
  have sorted: "sorted_wrt (<) (map bar_ms fetched)"
    using fetch_serves [OF assms(1)] by (simp add: serves_def)
  obtain ys where ys: "?before = ys @ warmup" "ys = [] \<or> int (length warmup) = max 0 (ha_warmup a)"
    using last_items_suffix [of ?before "ha_warmup a"] chosen(1) by auto
  have all: "fetched = ys @ warmup @ requested"
    using sorted_filter_split [OF sorted, of "ha_start a"] ys(1) chosen(2) by simp
  have "sorted_wrt (<) (map bar_ms (ys @ warmup @ requested))" using sorted all by (rule subst [rotated])
  then have "strictly_increasing bar_ms (warmup @ requested)"
    unfolding strictly_increasing_iff by (simp add: sorted_wrt_append)
  moreover have "\<forall>b \<in> set warmup. bar_ms b < ha_start a"
  proof
    fix b assume "b \<in> set warmup"
    then have "b \<in> set ?before" unfolding ys(1) by simp
    then show "bar_ms b < ha_start a" by simp
  qed
  moreover have "int (length warmup) \<le> max 0 (ha_warmup a)"
    unfolding chosen(1) by (rule last_items_length)
  ultimately show ?thesis
    using all ys(2) chosen(2,3) by blast
qed

end

section \<open>The run\<close>

lemma closing_returns: "fst (closing close act w) = Inr x \<Longrightarrow> fst (act w) = Inr x"
  by (auto simp: closing_def split: prod.splits sum.splits)

lemma provider_phase_returns:
  assumes "provider_phase a p w = (Inr ans, w1)"
  shows "\<exists>listing r w2. run_request a listing = Inr r \<and> fst (dp_fetch p r w2) = Inr (pa_bars ans) \<and>
    pa_listing ans = listing \<and> pa_instrument ans = br_instrument r \<and> pa_start ans = start_ms r \<and> pa_name ans = dp_name p"
proof -
  have "fst (provider_phase a p w) = Inr ans" using assms by simp
  from closing_returns [OF this [unfolded provider_phase_cases]]
  show ?thesis by (auto split: prod.splits sum.splits) (metis fst_conv)+
qed

lemma harness_options_start: "harness_options a = Inr q \<Longrightarrow>
    trade_start_time_ms q = (if ha_warmup a = 0 then None else Some (ha_start a))"
  by (auto simp: harness_options_def mk_backtest_options_def result_simps default_options_def simp del: first_raise.simps)


section \<open>A limit on monthly bars\<close>

text \<open>First of January to first of April 2025.\<close>

definition month_starts :: "int list" where
  "month_starts = [1735689600000, 1738368000000, 1740787200000, 1743465600000]"

definition month_bar :: "int \<Rightarrow> bar" where
  "month_bar t =
     \<lparr>bar_instrument = instrument_of ''X'', bar_ms = t, bar_open = Fin 1, bar_high = Fin 2, bar_low = Fin 1,
      bar_close = Fin 2, bar_volume = Fin 5, bar_source = ''csv:x''\<rparr>"

definition month_args :: "harness_args \<Rightarrow> harness_args" where
  "month_args a = a\<lparr>ha_timeframe := ''1M'', ha_start := 1740787200001, ha_end := 1746057600000,
     ha_limit := Some 1, ha_warmup := 1\<rparr>"


section \<open>Examples\<close>

definition run_row :: "int \<Rightarrow> row" where
  "run_row t =
     [(''timestamp'', CInt t), (''open'', CFloat (Fin 1)), (''high'', CFloat (Fin 2)), (''low'', CFloat (Fin 1)),
      (''close'', CFloat (Fin 2)), (''volume'', CFloat (Fin 5))]"

definition run_db :: sqlite_db where
  "run_db =
     \<lparr>db_is_file = True, db_has_table = (\<lambda>t. True),
      db_table_info = (\<lambda>s. Inr (map (\<lambda>n. (n, [], False, False)) [''timestamp'', ''open'', ''high'', ''low'', ''close'', ''volume''])),
      db_query = (\<lambda>s ps. Inr [run_row 1, run_row 2, run_row 3])\<rparr>"

definition run_config :: config where
  "run_config = [(''path'', JStr ''f''), (''table'', JStr ''bars''), (''columns'', JDict (map (\<lambda>c. (c, JStr c)) required_fields))]"

definition sample_args :: harness_args where
  "sample_args =
     \<lparr>ha_pine = ''s.pine'', ha_provider = '' SQLite'', ha_venue = ''nyse'', ha_symbol = ''AAPL'', ha_timeframe = ''1s'',
      ha_start = 2, ha_end = 9, ha_limit = None, ha_warmup = 1, ha_timezone = ''UTC'', ha_session = ''24x7'',
      ha_engine_timeframe = None, ha_script_timeframe = [], ha_provider_config = Some ''config.json'', ha_params = None,
      ha_overrides = None, ha_magnifier = False, ha_samples = 4, ha_trace = False, ha_image = ''release:1.0.0'',
      ha_pull = ''missing'', ha_timeout = Fin 300, ha_server_url = None, ha_key_env = [], ha_output = None,
      ha_pretty = False\<rparr>"

definition sample_host :: "string harness_host" where
  "sample_host =
     \<lparr>hh_file = (\<lambda>path. if path = ''config.json'' then Some ''config'' else if path = ''s.pine'' then Some ''strategy'' else None),
      hh_loads = (\<lambda>t. if t = ''config'' then Some (JDict run_config)
                      else if t = ''report'' then Some (JDict (map (\<lambda>k. (k, JNull)) report_fields)) else None),
      hh_outside = sample_outside\<lparr>sqlite_file := \<lambda>path w. run_db\<rparr>, hh_entry_points = [], hh_resolve_path = (\<lambda>p. p), hh_uuid = ''1'',
      hh_send = (\<lambda>req limit w. (UrlError ''refused'', w)),
      hh_docker = \<lparr>on_path = True,
        command = (\<lambda>cmd limit w. (Completed 0 (if take 2 cmd = [''docker'', ''run''] then ''report'' else []) [], w)),
        workspace = (\<lambda>texts w. (''/tmp/run'', w)), cid = (\<lambda>path w. None), discard_workspace = (\<lambda>path w. w)\<rparr>\<rparr>"


definition run_base :: tabular_provider where
  "run_base = \<lparr>tp_name = ''sqlite:nyse'', tp_venue = ''nyse'', tp_unit = MILLISECONDS, tp_zone = (\<lambda>t. 0),
     tp_template = None, tp_timeframe = None, tp_explicit = None,
     tp_overrides = map (\<lambda>c. (c, c)) required_fields\<rparr>"

definition run_sqlite :: sqlite_provider where
  "run_sqlite = \<lparr>sq_base = run_base, sq_path = ''f'', sq_table = ''bars''\<rparr>"

definition run_mapping :: bar_columns where
  "run_mapping =
     \<lparr>c_timestamp = ''timestamp'', c_open = ''open'', c_high = ''high'', c_low = ''low'', c_close = ''close'',
      c_volume = ''volume'', c_symbol = None, c_timeframe = None\<rparr>"

lemma run_key: "registry_key '' SQLite'' = ''sqlite''" "parse_unit ''milliseconds'' = Inr MILLISECONDS" "\<not> blank ''nyse''"
  by code_simp+

lemma run_created:
  "fst (create eps '' SQLite'' ''nyse'' (Some run_config) (builtin_factories (hh_outside sample_host))) =
     Inr (tabular_data_provider run_base (\<lambda>w. sqlite_source run_sqlite run_db) (\<lambda>w. (Inr (), w)))"
proof -
  have "fst (create eps '' SQLite'' ''nyse'' (Some run_config) (builtin_factories (hh_outside sample_host))) =
      made_by (sqlite_factory (hh_outside sample_host)) ''nyse'' (Some run_config)"
    by (subst create_known) (simp_all add: run_key builtin_factories_def)
  then show ?thesis
    by (simp add: made_by_def sqlite_factory_def unknown_config_def run_config_def common_tabular_keys_def config_text_def
        config_mapping_def column_overrides_def config_default_def config_optional_text_def config_instrument_def
        jget_def mk_sqlite_provider_def mk_tabular_provider_def run_key sample_host_def sample_outside_def run_sqlite_def
        run_base_def required_fields_def column_override_def canonical_fields_def validate_overrides_def mapping_fields_def)
qed

lemma run_resolved: "resolved_mapping run_base (sqlite_source run_sqlite run_db) = Inr run_mapping"
  by (simp add: resolved_mapping_def sqlite_source_def sqlite_inspect_def sqlite_connect_def require_table_def run_db_def
      mk_source_column_def mk_schema_def column_names_def run_base_def run_sqlite_def run_mapping_def infer_def
      validate_overrides_def required_fields_def mapping_fields_def optional_fields_def mk_bar_columns_def mapped_columns_def)

definition run_market :: instrument where
  "run_market = (instrument_of ''AAPL'')\<lparr>venue := ''nyse'', provider_id := ''AAPL''\<rparr>"

definition the_request :: bar_request where
  "the_request =
     \<lparr>br_instrument = run_market, br_timeframe = ''1s'', start_ms = 0, end_ms = 9, br_limit = None\<rparr>"

definition run_bar :: "int \<Rightarrow> bar" where
  "run_bar t =
     \<lparr>bar_instrument = run_market, bar_ms = t, bar_open = Fin 1, bar_high = Fin 2, bar_low = Fin 1,
      bar_close = Fin 2, bar_volume = Fin 5, bar_source = ''sqlite:nyse''\<rparr>"

lemma run_row_bar:
  assumes "0 \<le> t" "t < 9"
  shows "row_result run_base run_mapping the_request (run_row t) = Inr (Some (run_bar t))"
proof -
  have "\<not> blank ''sqlite:nyse''" by (simp add: blank_iff py_space_def code_def)
  then have "mk_bar (run_bar t) = Inr (run_bar t)"
    using assms by (simp add: mk_bar_iff bar_ok_def ms_ok_def run_bar_def)
  then show ?thesis
    using assms by (simp add: row_result_def row_time_def row_bar_def column_is_def row_number_def row_item_def
        cell_number_def run_base_def run_mapping_def the_request_def run_row_def run_bar_def)
qed

lemma run_fetched:
  "tabular_fetch run_base (sqlite_source run_sqlite run_db) the_request = Inr [run_bar 1, run_bar 2, run_bar 3]"
  unfolding tabular_fetch_iff
proof (intro conjI exI)
  let ?rows = "[run_row 1, run_row 2, run_row 3]"
  show "request_fits run_base the_request"
    by (simp add: request_fits_def run_base_def the_request_def run_market_def instrument_of_def)
  show "resolved_mapping run_base (sqlite_source run_sqlite run_db) = Inr run_mapping" by (rule run_resolved)
  show "read_rows (sqlite_source run_sqlite run_db) run_mapping the_request = Inr ?rows"
    by (simp add: sqlite_source_def sqlite_read_rows_def run_db_def sqlite_connect_def require_table_def
        pushdown_predicates_def numeric_source_bounds_def run_mapping_def the_request_def run_sqlite_def run_base_def
        bind_parameter_def Let_def)
  have bars: "row_bars run_base run_mapping the_request ?rows = [run_bar 1, run_bar 2, run_bar 3]"
    by (simp add: row_bars_def run_row_bar)
  show "\<forall>row \<in> set ?rows. \<exists>x. row_result run_base run_mapping the_request row = Inr x"
    by (simp add: run_row_bar)
  show "distinct (map bar_ms (row_bars run_base run_mapping the_request ?rows))"
    unfolding bars by (simp add: run_bar_def)
  show "[run_bar 1, run_bar 2, run_bar 3] =
      limited (br_limit the_request) (sort_key bar_ms (row_bars run_base run_mapping the_request ?rows))"
    unfolding bars by (simp add: the_request_def limited_def run_bar_def)
qed

lemma run_texts: "\<not> blank ''AAPL''" "\<not> blank ''UTC''" "\<not> blank ''24x7''" "\<not> blank ''base''" "\<not> blank ''1s''" "\<not> blank ''1S''"
    "\<not> blank ''strategy''" "\<not> blank ''release:1.0.0''" "compact_timeframe ''1s'' = Some (1, CHR ''s'')"
    "int_text 1 @ ''S'' = ''1S''"
  by code_simp+

lemma run_market_ok: "mk_instrument run_market = Inr run_market"
  by (simp add: mk_instrument_iff instrument_ok_def run_market_def instrument_of_def run_texts run_key text_ok_def)

definition run_provider :: "string data_provider" where
  "run_provider = tabular_data_provider run_base (\<lambda>w. sqlite_source run_sqlite run_db) (\<lambda>w. (Inr (), w))"

definition run_answer :: provider_answer where
  "run_answer = \<lparr>pa_listing = listing_of run_market, pa_instrument = run_market, pa_start = 0,
     pa_bars = [run_bar 1, run_bar 2, run_bar 3], pa_name = ''sqlite:nyse''\<rparr>"

lemma run_base_parts [simp]:
  "tp_template run_base = None" "tp_venue run_base = ''nyse''" "tp_name run_base = ''sqlite:nyse''"
  by (simp_all add: run_base_def)

lemma run_provider_phase: "provider_phase sample_args run_provider w = (Inr run_answer, w)"
proof -
  have "tabular_resolve_market run_base (sqlite_source run_sqlite run_db) ''AAPL'' = Inr (listing_of run_market)"
    using run_market_ok
    by (simp add: tabular_resolve_market_def run_resolved run_texts run_mapping_def provider_instrument_def
        run_market_def)
  moreover have "run_request sample_args (listing_of run_market) = Inr the_request"
    using run_market_ok
    by (simp add: run_request_def sample_args_def listing_of_def run_market_def instrument_of_def
        warmup_request_start_ms_def run_texts unit_length_ms_def the_request_def mk_bar_request_def)
  ultimately show ?thesis
    using run_fetched
    by (simp add: provider_phase_cases closing_def run_provider_def tabular_data_provider_def sample_args_def
        run_answer_def the_request_def)
qed

definition run_options :: backtest_options where
  "run_options = default_options\<lparr>input_timeframe := ''1S'', script_timeframe := ''1S'',
     chart_timezone := Some ''UTC'', trade_start_time_ms := Some 2\<rparr>"

lemma run_options_ok: "harness_options sample_args = Inr run_options"
  by (simp add: harness_options_def engine_timeframe_def source_timeframe_to_pine_def sample_args_def run_texts
      default_to_def mk_backtest_options_def default_options_def run_options_def)

definition run_report :: config where
  "run_report = map (\<lambda>k. (k, JNull)) report_fields"

lemma run_docker:
  "fst (execute_backtest sample_host sample_args ''strategy'' [run_bar 1, run_bar 2, run_bar 3] run_market
      ''sqlite:nyse'' run_options [] [] w) =
   Inr (release_response run_report ''release:1.0.0'' ''local-container'' None [])"
  "snd (execute_backtest sample_host sample_args ''strategy'' [run_bar 1, run_bar 2, run_bar 3] run_market
      ''sqlite:nyse'' run_options [] [] w) = w"
proof -
  obtain texts where inputs: "write_release_inputs ''strategy'' [run_bar 1, run_bar 2, run_bar 3] run_market = Inr texts"
    by (simp add: write_release_inputs_def validate_release_request_def run_texts run_bar_def)
  obtain env where env: "docker_environment run_market ''sqlite:nyse'' run_options (Some []) (Some []) = Inr env"
    by (simp add: docker_environment_def release_environment_def run_options_def default_options_def params_json_def
        dumps_def)
  have loads: "hh_loads sample_host ''report'' = Some (JDict run_report)" "hh_loads sample_host [] = None"
    by (simp_all add: sample_host_def run_report_def)
  have report: "parse_release_report (hh_loads sample_host) ''report'' = Inr run_report"
    by (simp add: parse_release_report_def loads) (simp add: run_report_def report_fields_def)
  have "server_address sample_host sample_args = []"
    by (simp add: server_address_def sample_args_def sample_host_def sample_outside_def)
  then show
    "fst (execute_backtest sample_host sample_args ''strategy'' [run_bar 1, run_bar 2, run_bar 3] run_market
      ''sqlite:nyse'' run_options [] [] w) =
     Inr (release_response run_report ''release:1.0.0'' ''local-container'' None [])"
    "snd (execute_backtest sample_host sample_args ''strategy'' [run_bar 1, run_bar 2, run_bar 3] run_market
      ''sqlite:nyse'' run_options [] [] w) = w"
    using inputs env report loads
    by (simp_all add: execute_backtest_def sample_args_def mk_docker_runtime_def run_texts docker_run_def ensure_image_def
        check_docker_def image_exists_def run_in_workspace_def container_command_def confinement_def docker_response_def
        image_identity_def sbind_def sample_host_def slift_def inspect_command_def caught_def is_a_def)
qed


end
