(* ===== verification/Versions.thy ===== *)
theory Versions
  imports ReleaseContract "HOL-Library.Product_Lexorder"
begin

text \<open>
  Versions in the release scripts: \<open>scripts/bump_version.py\<close>, \<open>scripts/verify_release.py\<close> and the
  version part of \<open>scripts/release_chain/contract.py\<close>.  A version is its text; the order of
  versions is that of semantic versioning.
\<close>

section \<open>Splitting text\<close>

text \<open>\<open>s.split(c)\<close> for one character.\<close>

fun split_char :: "char \<Rightarrow> string \<Rightarrow> string list" where
  "split_char c [] = [[]]"
| "split_char c (x # s) =
     (if x = c then [] # split_char c s
      else (case split_char c s of [] \<Rightarrow> [[x]] | p # ps \<Rightarrow> (x # p) # ps))"

definition until :: "char \<Rightarrow> string \<Rightarrow> string" where
  "until c s = takeWhile (\<lambda>x. x \<noteq> c) s"

definition beyond :: "char \<Rightarrow> string \<Rightarrow> string" where
  "beyond c s = tl (dropWhile (\<lambda>x. x \<noteq> c) s)"

section \<open>Version keys\<close>

text \<open>\<open>SEMVER\<close> of the release chain (no build metadata) and of the version editor (plain).\<close>

definition plain_semver_rx :: rx where
  "plain_semver_rx = rx_seq [rx_numeric, rx_str ''.'', rx_numeric, rx_str ''.'', rx_numeric]"

definition semver_rx :: rx where
  "semver_rx =
     rx_seq [plain_semver_rx, rx_opt (rx_seq [rx_str ''-'', rx_prerelease, RMany (RCat (rx_str ''.'') rx_prerelease)])]"

type_synonym version_core = "int \<times> int \<times> int"

definition core_of :: "string \<Rightarrow> version_core" where
  "core_of v =
     (case map (\<lambda>p. int (digits_val p)) (split_char CHR ''.'' (until CHR ''-'' v)) of
        [a, b, c] \<Rightarrow> (a, b, c) | _ \<Rightarrow> (0, 0, 0))"

definition version_key :: "string \<Rightarrow> version_core result" where
  "version_key v =
     rbind (require (fullmatch semver_rx v) ValueError ''invalid release semver'') (\<lambda>_. Inr (core_of v))"

text \<open>
  A prerelease identifier, as the tuple \<open>(0, number)\<close> or \<open>(1, text)\<close>: numbers come before words,
  and Python never compares a number with a word.
\<close>

datatype pre_id = Number int | Word string

instantiation pre_id :: linorder
begin

fun less_eq_pre_id :: "pre_id \<Rightarrow> pre_id \<Rightarrow> bool" where
  "less_eq_pre_id (Number m) (Number n) = (m \<le> n)"
| "less_eq_pre_id (Number m) (Word t) = True"
| "less_eq_pre_id (Word s) (Number n) = False"
| "less_eq_pre_id (Word s) (Word t) = (s \<le> t)"

definition less_pre_id :: "pre_id \<Rightarrow> pre_id \<Rightarrow> bool" where
  "less_pre_id x y = (x \<le> y \<and> \<not> y \<le> x)"

instance
proof
  fix x y z :: pre_id
  show "x < y \<longleftrightarrow> x \<le> y \<and> \<not> y \<le> x" by (rule less_pre_id_def)
  show "x \<le> x" by (cases x) auto
  show "x \<le> y \<Longrightarrow> y \<le> z \<Longrightarrow> x \<le> z" by (cases x; cases y; cases z) auto
  show "x \<le> y \<Longrightarrow> y \<le> x \<Longrightarrow> x = y" by (cases x; cases y) auto
  show "x \<le> y \<or> y \<le> x" by (cases x; cases y) auto
qed

end

definition pre_id_of :: "string \<Rightarrow> pre_id" where
  "pre_id_of p = (if p \<noteq> [] \<and> list_all ascii_digit p then Number (int (digits_val p)) else Word p)"

definition prerelease_of :: "string \<Rightarrow> string option" where
  "prerelease_of v = (if CHR ''-'' \<in> set v then Some (beyond CHR ''-'' v) else None)"

type_synonym version_rank = "version_core \<times> bool \<times> pre_id list"

definition rank_of :: "string \<Rightarrow> version_rank" where
  "rank_of v =
     (core_of v, prerelease_of v = None,
      case prerelease_of v of
        None \<Rightarrow> []
      | Some p \<Rightarrow> if p = [] then [] else map pre_id_of (split_char CHR ''.'' p))"

definition version_order :: "string \<Rightarrow> version_rank result" where
  "version_order v = rbind (version_key v) (\<lambda>k. Inr (rank_of v))"

text \<open>
  The package version of a release in the two spellings in use: a semantic version, or the PEP 440
  form of a prerelease, which is turned into the semantic one.
\<close>

definition pep440_rx :: rx where
  "pep440_rx =
     rx_seq [rx_plus rx_digit, rx_str ''.'', rx_plus rx_digit, rx_str ''.'', rx_plus rx_digit,
       rx_choice [rx_str ''a'', rx_str ''b'', rx_str ''rc''], rx_numeric]"

definition normalized_package :: "json \<Rightarrow> string result" where
  "normalized_package value =
     (case value of
        JStr v \<Rightarrow>
          (if fullmatch semver_rx v then Inr v
           else rbind (require (fullmatch pep440_rx v) ValueError ''malformed package version'') (\<lambda>_.
             let base = takeWhile (\<lambda>c. ascii_digit c \<or> c = CHR ''.'') v; stage = takeWhile (\<lambda>c. \<not> ascii_digit c) (drop (length base) v);
                 number = drop (length base + length stage) v
             in Inr (base @ ''-'' @ (if stage = ''a'' then ''alpha'' else if stage = ''b'' then ''beta'' else ''rc'') @
                     ''.'' @ number)))
      | _ \<Rightarrow> raise ValueError ''package version must be a string'')"

section \<open>Bumping\<close>

datatype bump_part = PATCH | MINOR | MAJOR

definition version_text :: "version_core \<Rightarrow> string" where
  "version_text k = (case k of (a, b, c) \<Rightarrow> int_text a @ ''.'' @ int_text b @ ''.'' @ int_text c)"

definition bumped_version :: "string \<Rightarrow> bump_part \<Rightarrow> string result" where
  "bumped_version v part =
     rbind (require (fullmatch plain_semver_rx v) ValueError
              ''project version is not plain MAJOR.MINOR.PATCH semantic versioning'') (\<lambda>_.
     case core_of v of (major, minor, patch) \<Rightarrow>
       Inr (version_text (case part of
              PATCH \<Rightarrow> (major, minor, patch + 1)
            | MINOR \<Rightarrow> (major, minor + 1, 0)
            | MAJOR \<Rightarrow> (major + 1, 0, 0))))"

text \<open>\<open>project_version\<close>, for the parsed file (\<open>tomllib\<close>).\<close>

definition project_version :: "(string, json) dict \<Rightarrow> string result" where
  "project_version toml =
     (case jget toml ''project'' of
        JDict table \<Rightarrow>
          (case jget table ''version'' of
             JStr v \<Rightarrow> if blank v then raise ValueError ''project.version must be a non-empty string'' else Inr v
           | _ \<Rightarrow> raise ValueError ''project.version must be a non-empty string'')
      | _ \<Rightarrow> raise ValueError ''missing [project] table'')"

definition verify_release_tag :: "string \<Rightarrow> string \<Rightarrow> unit result" where
  "verify_release_tag tag v =
     require (tag = CHR ''v'' # v) ValueError ''release tag does not match project version''"

section \<open>The shape of a version\<close>

lemma split_char_none: "c \<notin> set p \<Longrightarrow> split_char c p = [p]"
  by (induction p) auto

lemma split_char_step: "c \<notin> set p \<Longrightarrow> split_char c (p @ c # s) = p # split_char c s"
  by (induction p) auto

definition numeral_text :: "string \<Rightarrow> bool" where
  "numeral_text s = (s \<noteq> [] \<and> list_all ascii_digit s \<and> (hd s = CHR ''0'' \<longrightarrow> tl s = []))"

lemma numeric_language: "(s \<in> rx_lang rx_numeric) = numeral_text s"
  by (auto simp: lang_numeric numeral_text_def list_all_iff)

lemma numeral_nat_text: "numeral_text (nat_text n)"
proof -
  have "nat_text n = [CHR ''0'']" if "hd (nat_text n) = CHR ''0''"
  proof -
    have "n = 0" using nat_text_hd0 [of n] that by (cases "n = 0") (auto simp: code_def)
    moreover have "char_of (48 :: nat) = CHR ''0''" by code_simp
    ultimately show ?thesis by (simp add: nat_text.simps)
  qed
  then show ?thesis using nat_text_digits [of _ n] by (auto simp: numeral_text_def list_all_iff)
qed

lemma digit_value: "ascii_digit c \<Longrightarrow> char_of (48 + (code c - 48)) = c"
  by (simp add: ascii_digit_def) (simp add: code_def)

lemma digits_val_pos: "s \<noteq> [] \<Longrightarrow> list_all ascii_digit s \<Longrightarrow> hd s \<noteq> CHR ''0'' \<Longrightarrow> 0 < digits_val s"
proof (induction s rule: rev_induct)
  case (snoc c s)
  show ?case
  proof (cases "s = []")
    case True
    have "code c \<noteq> 48" using snoc.prems True code_zero [of c] by simp
    then show ?thesis using snoc.prems True by (simp add: digits_val_def ascii_digit_def)
  qed (use snoc in simp)
qed simp

lemma nat_text_digits_val: "numeral_text s \<Longrightarrow> nat_text (digits_val s) = s"
proof (induction s rule: rev_induct)
  case Nil
  then show ?case by (simp add: numeral_text_def)
next
  case (snoc c s)
  have c: "code c - 48 < 10" "ascii_digit c" using snoc.prems by (auto simp: numeral_text_def ascii_digit_def)
  show ?case
  proof (cases "s = []")
    case True
    then show ?thesis using c by (simp add: digits_val_def nat_text.simps digit_value)
  next
    case False
    then have s: "list_all ascii_digit s" "hd s \<noteq> CHR ''0''" "numeral_text s"
      using snoc.prems by (auto simp: numeral_text_def)
    have "0 < digits_val s" using digits_val_pos [OF False s(1,2)] .
    moreover have "(digits_val s * 10 + (code c - 48)) div 10 = digits_val s"
      "(digits_val s * 10 + (code c - 48)) mod 10 = code c - 48"
      using c(1) by simp_all
    ultimately show ?thesis
      using snoc.IH [OF s(3)] c
      by (subst nat_text.simps) (simp add: digit_value)
  qed
qed

lemma digit_plain: "list_all ascii_digit s \<Longrightarrow> CHR ''.'' \<notin> set s \<and> CHR ''-'' \<notin> set s"
  by (auto simp: list_all_iff ascii_digit_def code_def)

lemma numeral_plain: "numeral_text s \<Longrightarrow> CHR ''.'' \<notin> set s \<and> CHR ''-'' \<notin> set s"
  by (simp add: numeral_text_def digit_plain)

lemma one_char: "in_ranges [(code c, code c)] d = (d = c)"
proof
  assume "in_ranges [(code c, code c)] d"
  then have "code d \<le> code c \<and> code c \<le> code d" by (simp only: in_ranges.simps simp_thms)
  then have "code d = code c" by linarith
  then show "d = c" by simp
qed simp

lemma lang_str: "rx_lang (rx_str t) = {t}"
proof (induction t)
  case (Cons c t)
  then show ?case by (simp add: one_char del: in_ranges.simps)
qed simp

lemma plain_semver_language:
  "(v \<in> rx_lang plain_semver_rx) =
     (\<exists>a b c. numeral_text a \<and> numeral_text b \<and> numeral_text c \<and> v = a @ ''.'' @ b @ ''.'' @ c)"
proof -
  have "rx_lang plain_semver_rx =
      {a @ ''.'' @ b @ ''.'' @ c |a b c. a \<in> rx_lang rx_numeric \<and> b \<in> rx_lang rx_numeric \<and> c \<in> rx_lang rx_numeric}"
    unfolding plain_semver_rx_def rx_seq.simps rx_lang.simps lang_str by blast
  then show ?thesis unfolding numeric_language by blast
qed

lemma core_of_plain:
  assumes "numeral_text a" "numeral_text b" "numeral_text c"
  shows "core_of (a @ ''.'' @ b @ ''.'' @ c) = (int (digits_val a), int (digits_val b), int (digits_val c))"
    and "core_of (a @ ''.'' @ b @ ''.'' @ c @ ''-'' @ r) = (int (digits_val a), int (digits_val b), int (digits_val c))"
proof -
  let ?v = "a @ ''.'' @ b @ ''.'' @ c"
  have plain: "\<forall>x \<in> set ?v. x \<noteq> CHR ''-''" using numeral_plain assms by auto
  have "until CHR ''-'' ?v = ?v" using plain unfolding until_def by (subst takeWhile_eq_all_conv) blast
  moreover have "until CHR ''-'' (?v @ ''-'' @ r) = ?v"
    using plain unfolding until_def by (subst takeWhile_append2) auto
  moreover have "split_char CHR ''.'' ?v = [a, b, c]"
    using numeral_plain assms by (simp add: split_char_step split_char_none)
  ultimately show "core_of ?v = (int (digits_val a), int (digits_val b), int (digits_val c))"
    "core_of (a @ ''.'' @ b @ ''.'' @ c @ ''-'' @ r) = (int (digits_val a), int (digits_val b), int (digits_val c))"
    by (simp_all add: core_of_def)
qed

section \<open>Prerelease identifiers\<close>

definition tag_char :: "char \<Rightarrow> bool" where
  "tag_char c = in_ranges [(48, 57), (65, 90), (97, 122), (45, 45)] c"

definition id_text :: "string \<Rightarrow> bool" where
  "id_text p = (numeral_text p \<or> (list_all tag_char p \<and> \<not> list_all ascii_digit p))"

lemma tag_char_digit: "ascii_digit c \<Longrightarrow> tag_char c"
  by (simp add: ascii_digit_def tag_char_def)

lemma prerelease_language: "(p \<in> rx_lang rx_prerelease) = id_text p"
proof -
  have digits: "(ds \<in> many {[c] |c. in_ranges [(48, 57)] c}) = list_all ascii_digit ds" for ds
    by (simp add: lang_many_class list_all_iff ascii_digit_def)
  have tags: "(t \<in> many {[c] |c. in_ranges [(48, 57), (65, 90), (97, 122), (45, 45)] c}) = list_all tag_char t" for t
    by (simp add: lang_many_class list_all_iff tag_char_def)
  have lang: "rx_lang rx_prerelease = rx_lang rx_numeric \<union>
      {ds @ [c] @ t |ds c t. list_all ascii_digit ds \<and> in_ranges [(65, 90), (97, 122), (45, 45)] c \<and> list_all tag_char t}"
    unfolding rx_prerelease_def rx_tag_char_def rx_lang.simps digits tags by blast
  have other: "in_ranges [(65, 90), (97, 122), (45, 45)] c = (tag_char c \<and> \<not> ascii_digit c)" for c
    by (auto simp: tag_char_def ascii_digit_def)
  have "(\<exists>ds c t. p = ds @ [c] @ t \<and> list_all ascii_digit ds \<and> (tag_char c \<and> \<not> ascii_digit c) \<and> list_all tag_char t) =
      (list_all tag_char p \<and> \<not> list_all ascii_digit p)"
  proof
    assume p: "list_all tag_char p \<and> \<not> list_all ascii_digit p"
    then have "dropWhile ascii_digit p \<noteq> []" by (auto simp: dropWhile_eq_Nil_conv list_all_iff)
    then obtain c t where ct: "dropWhile ascii_digit p = c # t" by (cases "dropWhile ascii_digit p") auto
    then have "p = takeWhile ascii_digit p @ [c] @ t" "\<not> ascii_digit c"
      using takeWhile_dropWhile_id [of ascii_digit p] hd_dropWhile [of ascii_digit p] by auto
    moreover have "tag_char c" "list_all tag_char t"
      using conjunct1 [OF p] by (subst (asm) \<open>p = takeWhile ascii_digit p @ [c] @ t\<close>, simp)+
    moreover have "list_all ascii_digit (takeWhile ascii_digit p)" by (auto simp: list_all_iff dest: set_takeWhileD)
    ultimately show "\<exists>ds c t. p = ds @ [c] @ t \<and> list_all ascii_digit ds \<and> (tag_char c \<and> \<not> ascii_digit c) \<and> list_all tag_char t"
      by blast
  qed (auto simp: list_all_iff tag_char_digit)
  then show ?thesis unfolding lang other id_text_def Un_iff mem_Collect_eq numeric_language by blast
qed

lemma id_plain: "id_text p \<Longrightarrow> p \<noteq> [] \<and> CHR ''.'' \<notin> set p"
  using numeral_plain [of p] by (auto simp: id_text_def numeral_text_def list_all_iff tag_char_def code_def)

definition dotted :: "string list \<Rightarrow> string" where
  "dotted ps = (case ps of [] \<Rightarrow> [] | q # qs \<Rightarrow> q @ concat (map ((#) CHR ''.'') qs))"

lemma split_dotted: "ps \<noteq> [] \<Longrightarrow> \<forall>p \<in> set ps. id_text p \<Longrightarrow> split_char CHR ''.'' (dotted ps) = ps"
proof (induction ps)
  case (Cons p ps)
  then show ?case
    using id_plain [of p]
    by (cases ps) (simp_all add: dotted_def split_char_none split_char_step)
qed simp

lemma many_dotted:
  "(s \<in> many {CHR ''.'' # p |p. id_text p}) = (\<exists>ps. (\<forall>p \<in> set ps. id_text p) \<and> s = concat (map ((#) CHR ''.'') ps))"
proof
  assume "s \<in> many {CHR ''.'' # p |p. id_text p}"
  then show "\<exists>ps. (\<forall>p \<in> set ps. id_text p) \<and> s = concat (map ((#) CHR ''.'') ps)"
  proof (induction rule: many.induct)
    case many_nil
    then show ?case by (intro exI [of _ "[]"]) simp
  next
    case (many_step u v)
    then obtain p ps where "id_text p" "u = CHR ''.'' # p" "\<forall>p \<in> set ps. id_text p" "v = concat (map ((#) CHR ''.'') ps)"
      by blast
    then show ?case by (intro exI [of _ "p # ps"]) simp
  qed
next
  assume "\<exists>ps. (\<forall>p \<in> set ps. id_text p) \<and> s = concat (map ((#) CHR ''.'') ps)"
  then obtain ps where "\<forall>p \<in> set ps. id_text p" "s = concat (map ((#) CHR ''.'') ps)" by blast
  then show "s \<in> many {CHR ''.'' # p |p. id_text p}"
  proof (induction ps arbitrary: s)
    case (Cons p ps)
    then have "CHR ''.'' # p \<in> {CHR ''.'' # p |p. id_text p}" "concat (map ((#) CHR ''.'') ps) \<in> many {CHR ''.'' # p |p. id_text p}"
      by auto
    from many.many_step [OF this] show ?case using Cons.prems(2) by simp
  qed (simp add: many_nil)
qed

text \<open>A version from its parts: the core numbers and the prerelease identifiers, if there are any.\<close>

definition version_from :: "nat \<Rightarrow> nat \<Rightarrow> nat \<Rightarrow> string list \<Rightarrow> string" where
  "version_from a b c ps =
     nat_text a @ ''.'' @ nat_text b @ ''.'' @ nat_text c @ (if ps = [] then [] else ''-'' @ dotted ps)"

lemma semver_language:
  "fullmatch semver_rx v = (\<exists>a b c ps. (\<forall>p \<in> set ps. id_text p) \<and> v = version_from a b c ps)"
proof -
  have tail: "rx_lang (RMany (RCat (rx_str ''.'') rx_prerelease)) = many {CHR ''.'' # p |p. id_text p}"
    unfolding rx_lang.simps lang_str by (rule arg_cong [where f = many]) (auto simp: prerelease_language)
  have opt: "(u \<in> rx_lang (rx_opt (rx_seq [rx_str ''-'', rx_prerelease, RMany (RCat (rx_str ''.'') rx_prerelease)]))) =
      (u = [] \<or> (\<exists>p t. id_text p \<and> t \<in> many {CHR ''.'' # p |p. id_text p} \<and> u = ''-'' @ p @ t))" for u
    unfolding rx_seq.simps rx_opt_def rx_lang.simps(2,4,5) tail lang_str
    by (auto simp: prerelease_language)
  have "rx_lang semver_rx = {v @ u |v u. v \<in> rx_lang plain_semver_rx \<and>
      (u = [] \<or> (\<exists>p t. id_text p \<and> t \<in> many {CHR ''.'' # p |p. id_text p} \<and> u = ''-'' @ p @ t))}"
    unfolding semver_rx_def rx_seq.simps(2,3) [of plain_semver_rx] rx_seq.simps(2) [of "rx_opt _"] rx_lang.simps(4) opt by (rule refl)
  also have "\<dots> = {version_from a b c ps |a b c ps. \<forall>p \<in> set ps. id_text p}" (is "?L = ?R")
  proof
    show "?L \<subseteq> ?R"
    proof
      fix w assume "w \<in> ?L"
      then obtain core u where w: "w = core @ u" "core \<in> rx_lang plain_semver_rx"
        and u: "u = [] \<or> (\<exists>p t. id_text p \<and> t \<in> many {CHR ''.'' # p |p. id_text p} \<and> u = ''-'' @ p @ t)"
        by blast
      obtain a b c where abc: "numeral_text a" "numeral_text b" "numeral_text c" "core = a @ ''.'' @ b @ ''.'' @ c"
        using w(2) [unfolded plain_semver_language] by (elim exE conjE)
      have "\<exists>ps. (\<forall>p \<in> set ps. id_text p) \<and> u = (if ps = [] then [] else ''-'' @ dotted ps)"
      proof (cases "u = []")
        case False
        then obtain p ps where "id_text p" "\<forall>p \<in> set ps. id_text p" "u = ''-'' @ p @ concat (map ((#) CHR ''.'') ps)"
          using u by (auto simp: many_dotted)
        then show ?thesis by (intro exI [of _ "p # ps"]) (simp add: dotted_def)
      qed (intro exI [of _ "[]"], simp)
      then obtain ps where ps: "\<forall>p \<in> set ps. id_text p" "u = (if ps = [] then [] else ''-'' @ dotted ps)" by blast
      have "w = version_from (digits_val a) (digits_val b) (digits_val c) ps"
        using w(1) abc ps(2) by (simp add: version_from_def nat_text_digits_val)
      then show "w \<in> ?R" using ps(1) by blast
    qed
    show "?R \<subseteq> ?L"
    proof
      fix w assume "w \<in> ?R"
      then obtain a b c ps where w: "\<forall>p \<in> set ps. id_text p" "w = version_from a b c ps" by blast
      have core: "nat_text a @ ''.'' @ nat_text b @ ''.'' @ nat_text c \<in> rx_lang plain_semver_rx"
        unfolding plain_semver_language using numeral_nat_text by blast
      show "w \<in> ?L"
      proof (cases ps)
        case Nil
        then have "w = (nat_text a @ ''.'' @ nat_text b @ ''.'' @ nat_text c) @ []" using w(2) by (simp add: version_from_def)
        then show ?thesis using core by blast
      next
        case (Cons p qs)
        have "concat (map ((#) CHR ''.'') qs) \<in> many {CHR ''.'' # p |p. id_text p}"
          unfolding many_dotted using w(1) Cons by (intro exI [of _ qs]) simp
        moreover have "w = (nat_text a @ ''.'' @ nat_text b @ ''.'' @ nat_text c) @ (''-'' @ p @ concat (map ((#) CHR ''.'') qs))"
          using w(2) Cons by (simp add: version_from_def dotted_def)
        moreover have "id_text p" using w(1) Cons by simp
        ultimately show ?thesis using core by blast
      qed
    qed
  qed
  finally show ?thesis unfolding fullmatch_iff by auto
qed

lemma core_of_version: "core_of (version_from a b c ps) = (int a, int b, int c)"
  using core_of_plain [OF numeral_nat_text numeral_nat_text numeral_nat_text, of a b c]
  by (simp add: version_from_def)

lemma prerelease_of_version: "prerelease_of (version_from a b c ps) = (if ps = [] then None else Some (dotted ps))"
proof -
  let ?core = "nat_text a @ ''.'' @ nat_text b @ ''.'' @ nat_text c"
  have none: "\<forall>x \<in> set ?core. x \<noteq> CHR ''-''" using numeral_plain [OF numeral_nat_text] by auto
  then have "dropWhile (\<lambda>x. x \<noteq> CHR ''-'') (?core @ CHR ''-'' # dotted ps) = CHR ''-'' # dotted ps"
    by (subst dropWhile_append2) auto
  then show ?thesis using none by (auto simp: prerelease_of_def version_from_def beyond_def)
qed

lemma rank_of_version:
  assumes "\<forall>p \<in> set ps. id_text p"
  shows "rank_of (version_from a b c ps) = ((int a, int b, int c), ps = [], map pre_id_of ps)"
proof (cases "ps = []")
  case False
  then have "dotted ps \<noteq> []"
    using assms by (cases ps) (auto simp: dotted_def dest: id_plain)
  then show ?thesis
    using False assms by (simp add: rank_of_def core_of_version prerelease_of_version split_dotted)
qed (simp add: rank_of_def core_of_version prerelease_of_version)

lemma pre_id_inj:
  assumes "id_text p" "id_text q" "pre_id_of p = pre_id_of q"
  shows "p = q"
proof (cases "list_all ascii_digit p")
  case True
  then have "numeral_text p" "numeral_text q" "digits_val p = digits_val q"
    using assms by (auto simp: pre_id_of_def id_text_def numeral_text_def split: if_splits)
  then show ?thesis using nat_text_digits_val by metis
next
  case False
  then show ?thesis using assms by (auto simp: pre_id_of_def split: if_splits)
qed

lemma pre_ids_inj:
  "map pre_id_of ps = map pre_id_of qs \<Longrightarrow> \<forall>p \<in> set ps. id_text p \<Longrightarrow> \<forall>q \<in> set qs. id_text q \<Longrightarrow> ps = qs"
proof (induction ps arbitrary: qs)
  case (Cons p ps)
  then obtain q qs' where "qs = q # qs'" by (cases qs) auto
  then show ?case using Cons pre_id_inj [of p q] by simp
qed simp

section \<open>Semantic version precedence\<close>

text \<open>
  The precedence rules of semantic versioning on the texts themselves: the three numbers first, a
  prerelease before its release, then identifier by identifier, numbers by value and before
  words, words in ASCII order, and a shorter list before its extensions.
\<close>

definition id_before :: "string \<Rightarrow> string \<Rightarrow> bool" where
  "id_before p q =
     (if list_all ascii_digit p then list_all ascii_digit q \<longrightarrow> digits_val p < digits_val q
      else \<not> list_all ascii_digit q \<and> p < q)"

fun ids_before :: "string list \<Rightarrow> string list \<Rightarrow> bool" where
  "ids_before ps [] = False"
| "ids_before [] (q # qs) = True"
| "ids_before (p # ps) (q # qs) = (id_before p q \<or> (p = q \<and> ids_before ps qs))"

definition precedes :: "string \<Rightarrow> string \<Rightarrow> bool" where
  "precedes v w =
     (case (core_of v, core_of w) of ((a, b, c), (a', b', c')) \<Rightarrow>
        a < a' \<or> (a = a' \<and> (b < b' \<or> (b = b' \<and> (c < c' \<or> (c = c' \<and>
          (case (prerelease_of v, prerelease_of w) of
             (Some p, Some q) \<Rightarrow> ids_before (split_char CHR ''.'' p) (split_char CHR ''.'' q)
           | (Some p, None) \<Rightarrow> True
           | _ \<Rightarrow> False)))))))"

lemma id_before_rank: "id_text p \<Longrightarrow> id_text q \<Longrightarrow> (pre_id_of p < pre_id_of q) = id_before p q"
  by (auto simp: pre_id_of_def id_before_def less_pre_id_def dest: id_plain)

lemma ids_before_rank:
  "\<forall>p \<in> set ps. id_text p \<Longrightarrow> \<forall>q \<in> set qs. id_text q \<Longrightarrow> (map pre_id_of ps < map pre_id_of qs) = ids_before ps qs"
proof (induction ps qs rule: ids_before.induct)
  case (3 p ps q qs)
  then have "(pre_id_of p = pre_id_of q) = (p = q)" using pre_id_inj [of p q] by auto
  then show ?case using 3 id_before_rank [of p q] by simp
qed simp_all

lemma rank_precedes:
  assumes "fullmatch semver_rx v" and "fullmatch semver_rx w"
  shows "(rank_of v < rank_of w) = precedes v w" and "(rank_of v = rank_of w) = (v = w)"
proof -
  obtain a b c ps where p: "\<forall>p \<in> set ps. id_text p" "v = version_from a b c ps"
    using assms(1) semver_language by blast
  obtain a' b' c' qs where q: "\<forall>p \<in> set qs. id_text p" "w = version_from a' b' c' qs"
    using assms(2) semver_language by blast
  have r: "rank_of v = ((int a, int b, int c), ps = [], map pre_id_of ps)"
      "rank_of w = ((int a', int b', int c'), qs = [], map pre_id_of qs)"
    using p q rank_of_version by simp_all
  show "(rank_of v < rank_of w) = precedes v w"
    unfolding r using ids_before_rank [OF p(1) q(1)] p q
    by (auto simp: precedes_def core_of_version prerelease_of_version split_dotted less_prod_def)
  have "ps = qs" if "map pre_id_of ps = map pre_id_of qs"
    using that pre_ids_inj [OF _ p(1) q(1)] by simp
  then have "v = w" if "rank_of v = rank_of w"
    using that unfolding r by (simp add: p(2) q(2))
  then show "(rank_of v = rank_of w) = (v = w)" by blast
qed

lemma version_order_returns: "(version_order v = Inr r) = (fullmatch semver_rx v \<and> r = rank_of v)"
  by (cases "core_of v") (auto simp: version_order_def version_key_def result_simps)

text \<open>
  C20. The order by which releases are compared is the precedence of semantic versions, and two
  different versions are never ranked equal.
\<close>

theorem version_order_semver:
  assumes "version_order v = Inr r" and "version_order w = Inr q"
  shows "(r < q) = precedes v w \<and> (r = q) = (v = w)"
proof -
  have v: "fullmatch semver_rx v" "r = rank_of v" and w: "fullmatch semver_rx w" "q = rank_of w"
    using assms by (simp_all add: version_order_returns)
  show ?thesis unfolding v(2) w(2) using rank_precedes [OF v(1) w(1)] by blast
qed

lemma version_order_semver_witness:
  "rank_of ''1.6.0-rc.1'' < rank_of ''1.6.0'' \<and> precedes ''1.6.0-rc.1'' ''1.6.0''"
proof -
  have "id_text ''rc''" "id_text ''1''"
    by (simp_all add: id_text_def numeral_text_def tag_char_def ascii_digit_def code_def)
  moreover have "version_from 1 6 0 [''rc'', ''1''] = ''1.6.0-rc.1''" "version_from 1 6 0 [] = ''1.6.0''"
    by code_simp+
  ultimately have "fullmatch semver_rx ''1.6.0-rc.1''" "fullmatch semver_rx ''1.6.0''"
    unfolding semver_language by (metis empty_iff empty_set insert_iff list.simps(15))+
  then have ranks: "version_order ''1.6.0-rc.1'' = Inr (rank_of ''1.6.0-rc.1'')" "version_order ''1.6.0'' = Inr (rank_of ''1.6.0'')"
    by (simp_all add: version_order_def version_key_def require_def)
  have "precedes ''1.6.0-rc.1'' ''1.6.0''"
    by (simp add: precedes_def core_of_def prerelease_of_def until_def beyond_def digits_val_def ascii_digit_def code_def)
  then show ?thesis using version_order_semver [OF ranks] by simp
qed

section \<open>The next version\<close>

lemma plain_semver_iff: "fullmatch plain_semver_rx v = (\<exists>a b c. v = version_from a b c [])"
proof -
  have "(\<exists>a b c. numeral_text a \<and> numeral_text b \<and> numeral_text c \<and> v = a @ ''.'' @ b @ ''.'' @ c) =
      (\<exists>a b c. v = version_from a b c [])"
    unfolding version_from_def using nat_text_digits_val numeral_nat_text
    by simp metis
  then show ?thesis by (simp add: fullmatch_iff plain_semver_language)
qed

lemma version_text_from: "version_text (int a, int b, int c) = version_from a b c []"
  by (simp add: version_text_def version_from_def int_text_def)

text \<open>
  Exactly the plain versions can be bumped; the result is again a plain version, the next one
  in the chosen part with the parts after it at zero, and it comes after the old one.
\<close>

theorem bumped_version_next:
  "(case bumped_version v part of
      Inl e \<Rightarrow> exn_class e = ValueError \<and> \<not> fullmatch plain_semver_rx v
    | Inr w \<Rightarrow> fullmatch plain_semver_rx w \<and> precedes v w \<and>
        (\<exists>a b c. v = version_from a b c [] \<and>
           w = (case part of PATCH \<Rightarrow> version_from a b (c + 1) [] | MINOR \<Rightarrow> version_from a (b + 1) 0 []
                | MAJOR \<Rightarrow> version_from (a + 1) 0 0 [])))"
proof (cases "fullmatch plain_semver_rx v")
  case True
  then obtain a b c where v: "v = version_from a b c []" using plain_semver_iff by blast
  define w where "w = (case part of PATCH \<Rightarrow> version_from a b (c + 1) [] | MINOR \<Rightarrow> version_from a (b + 1) 0 []
                | MAJOR \<Rightarrow> version_from (a + 1) 0 0 [])"
  have succ: "version_text (int a, int b, int c + 1) = version_from a b (Suc c) []"
    "version_text (int a, int b + 1, 0) = version_from a (Suc b) 0 []"
    "version_text (int a + 1, 0, 0) = version_from (Suc a) 0 0 []"
    using version_text_from [of a b "Suc c"] version_text_from [of a "Suc b" 0] version_text_from [of "Suc a" 0 0]
    by (simp_all only: of_nat_Suc semiring_1_class.of_nat_0 add.commute [of 1])
  have "bumped_version v part = Inr w"
    using True succ by (cases part) (simp_all add: bumped_version_def v core_of_version w_def)
  moreover have "fullmatch plain_semver_rx w"
    unfolding plain_semver_iff w_def by (cases part) auto
  moreover have "precedes v w"
    unfolding w_def v by (cases part) (simp_all add: precedes_def core_of_version)
  ultimately show ?thesis using v w_def by auto
qed (simp add: bumped_version_def require_def)

section \<open>The project file\<close>

text \<open>\<open>text.splitlines(keepends=True)\<close>: the breaks are those of \<open>str\<close>, and CR LF is one.\<close>

definition line_break :: "char \<Rightarrow> bool" where
  "line_break c = (code c \<in> {10, 11, 12, 13, 28, 29, 30, 133})"

fun begins_lf :: "string \<Rightarrow> bool" where
  "begins_lf [] = False"
| "begins_lf (c # s) = (code c = 10)"

fun split_lines :: "string \<Rightarrow> string list" where
  "split_lines [] = []"
| "split_lines (c # s) =
     (if line_break c \<and> \<not> (code c = 13 \<and> begins_lf s) then [c] # split_lines s
      else (case split_lines s of [] \<Rightarrow> [[c]] | l # ls \<Rightarrow> (c # l) # ls))"

definition line_end :: "char \<Rightarrow> bool" where
  "line_end c = (code c \<in> {10, 13})"

definition line_body :: "string \<Rightarrow> string" where
  "line_body l = rev (dropWhile line_end (rev l))"

text \<open>\<open>^\s*\[([^]]+)]\s*$\<close>: the name of a table.\<close>

definition table_header :: "string \<Rightarrow> string option" where
  "table_header body =
     (case dropWhile py_space body of
        [] \<Rightarrow> None
      | c # t \<Rightarrow>
          (let name = until CHR '']'' t; after = drop (length name) t in
           if c = CHR ''['' \<and> name \<noteq> [] \<and> after \<noteq> [] \<and> list_all py_space (tl after) then Some name else None))"

text \<open>\<open>^(\s*version\s*=\s*")([^"]+)(".*)$\<close>: the three groups; the body has no line feed.\<close>

definition version_line :: "string \<Rightarrow> (string \<times> string \<times> string) option" where
  "version_line body =
     (let t1 = dropWhile py_space body; t2 = dropWhile py_space (drop 7 t1);
          t3 = dropWhile py_space (drop 1 t2); t4 = drop 1 t3;
          v = takeWhile (\<lambda>c. c \<noteq> CHR 0x22) t4; rest = drop (length v) t4 in
      if take 7 t1 = ''version'' \<and> take 1 t2 = ''='' \<and> take 1 t3 = [CHR 0x22] \<and> v \<noteq> [] \<and> rest \<noteq> []
      then Some (take (length body - length t4) body, v, rest) else None)"

text \<open>The loop over the lines: whether it is inside the project table, and the replacements made.\<close>

fun edit_lines :: "string \<Rightarrow> string \<Rightarrow> bool \<Rightarrow> string list \<Rightarrow> (nat \<times> string list) result" where
  "edit_lines cur new inside [] = Inr (0, [])"
| "edit_lines cur new inside (l # ls) =
     (let body = line_body l; ending = drop (length body) l in
      case table_header body of
        Some name \<Rightarrow>
          rbind (edit_lines cur new (py_strip name = ''project'') ls) (\<lambda>(n, out). Inr (n, l # out))
      | None \<Rightarrow>
          (case (if inside then version_line body else None) of
             None \<Rightarrow> rbind (edit_lines cur new inside ls) (\<lambda>(n, out). Inr (n, l # out))
           | Some (pre, v, post) \<Rightarrow>
               if v \<noteq> cur then raise ValueError ''project.version changed while editing''
               else rbind (edit_lines cur new inside ls) (\<lambda>(n, out). Inr (n + 1, (pre @ new @ post @ ending) # out))))"

definition replace_project_version :: "string \<Rightarrow> string \<Rightarrow> string \<Rightarrow> string result" where
  "replace_project_version t cur new =
     rbind (edit_lines cur new False (split_lines t)) (\<lambda>(n, out).
     rbind (require (n = 1) ValueError ''expected exactly one project.version assignment'') (\<lambda>_.
     Inr (concat out)))"

text \<open>
  The command.  The text of the file and its parsed form (\<open>toml\<close>) come from outside; the outcome is
  the exit code, what is printed and the text of the file after it.
\<close>

definition bump_main ::
    "(string \<Rightarrow> (string, json) dict result) \<Rightarrow> bump_part option \<Rightarrow> bool \<Rightarrow> string \<Rightarrow> (nat \<times> string option \<times> string) result" where
  "bump_main toml part write file =
     (let run = rbind (toml file) (\<lambda>table. rbind (project_version table) (\<lambda>current.
            case part of
              None \<Rightarrow> if write then raise ValueError ''--write requires patch, minor, or major'' else Inr (current, file)
            | Some p \<Rightarrow> rbind (bumped_version current p) (\<lambda>new.
                if write then rbind (replace_project_version file current new) (\<lambda>updated. Inr (new, updated))
                else Inr (new, file))))
      in case run of
           Inr (printed, after_file) \<Rightarrow> Inr (0, Some printed, after_file)
         | Inl e \<Rightarrow> if caught e [OSError, ValueError] then Inr (1, None, file) else Inl e)"

section \<open>Editing and editing back\<close>

text \<open>
  What \<open>split_lines\<close> gives: a line without breaks but for its ending, which only the last line may
  lack, and no CR that is followed by the LF of the next line.
\<close>

fun starts_lf :: "string list \<Rightarrow> bool" where
  "starts_lf ((c # l) # ls) = (code c = 10)"
| "starts_lf _ = False"

definition proper_end :: "string \<Rightarrow> string list \<Rightarrow> bool" where
  "proper_end e ls =
     ((e = [] \<and> ls = []) \<or> (\<exists>c. e = [c] \<and> line_break c \<and> \<not> (code c = 13 \<and> starts_lf ls)) \<or>
      (\<exists>c d. e = [c, d] \<and> code c = 13 \<and> code d = 10))"

fun proper_lines :: "string list \<Rightarrow> bool" where
  "proper_lines [] = True"
| "proper_lines (l # ls) =
     ((\<exists>u e. l = u @ e \<and> l \<noteq> [] \<and> list_all (\<lambda>c. \<not> line_break c) u \<and> proper_end e ls) \<and> proper_lines ls)"

lemma proper_end_Nil [simp]: "proper_end [] ls = (ls = [])"
  by (simp add: proper_end_def)

lemma concat_split_lines [simp]: "concat (split_lines t) = t"
  by (induction t) (auto split: list.split)

lemma split_lines_Nil [simp]: "(split_lines t = []) = (t = [])"
  by (cases t) (auto split: list.split)

lemma starts_lf_split: "starts_lf (split_lines t) = begins_lf t"
  by (cases t) (auto split: list.split)

lemma split_lines_proper: "proper_lines (split_lines t)"
proof (induction t)
  case (Cons c s)
  have lf: "starts_lf (split_lines s) = begins_lf s" by (rule starts_lf_split)
  show ?case
  proof (cases "line_break c \<and> \<not> (code c = 13 \<and> begins_lf s)")
    case True
    then have "proper_end [c] (split_lines s)" by (auto simp: proper_end_def lf)
    then have "\<exists>u e. [c] = u @ e \<and> [c] \<noteq> [] \<and> list_all (\<lambda>c. \<not> line_break c) u \<and> proper_end e (split_lines s)"
      by (intro exI [of _ "[]"] exI [of _ "[c]"]) simp
    then show ?thesis using True Cons by simp
  next
    case False
    show ?thesis
    proof (cases "split_lines s")
      case Nil
      then have "s = []" by simp
      then have "\<not> line_break c" using False by auto
      then have "\<exists>u e. [c] = u @ e \<and> [c] \<noteq> [] \<and> list_all (\<lambda>c. \<not> line_break c) u \<and> proper_end e []"
        by (intro exI [of _ "[c]"] exI [of _ "[]"]) simp
      then show ?thesis using \<open>s = []\<close> \<open>\<not> line_break c\<close> by simp
    next
      case (Cons l ls)
      then obtain u e where l: "l = u @ e" "l \<noteq> []" "list_all (\<lambda>c. \<not> line_break c) u" "proper_end e ls" "proper_lines ls"
        using Cons.IH by auto
      have "\<exists>u' e'. c # l = u' @ e' \<and> list_all (\<lambda>c. \<not> line_break c) u' \<and> proper_end e' ls"
      proof (cases "line_break c")
        case True
        then have cr: "code c = 13" "starts_lf (l # ls)" using False lf Cons by auto
        then obtain d l' where d: "l = d # l'" "code d = 10" by (cases l) auto
        then have "u = []" using l(1,3) by (cases u) (auto simp: line_break_def)
        then have "e = [d]" using l(1,4) d by (auto simp: proper_end_def)
        then show ?thesis
          using \<open>u = []\<close> l(1) d(2) cr(1) by (intro exI [of _ "[]"] exI [of _ "[c, d]"]) (simp add: proper_end_def)
      next
        case no_break: False
        then show ?thesis using l by (intro exI [of _ "c # u"] exI [of _ e]) simp
      qed
      moreover have "split_lines (c # s) = (c # l) # ls" using False Cons by auto
      ultimately show ?thesis using l(5) by simp
    qed
  qed
qed simp

lemma split_plain_prefix:
  "list_all (\<lambda>c. \<not> line_break c) u \<Longrightarrow>
   split_lines (u @ s) = (if u = [] then split_lines s else case split_lines s of [] \<Rightarrow> [u] | l # ls \<Rightarrow> (u @ l) # ls)"
  by (induction u) (auto split: list.split)

lemma split_proper: "proper_lines ls \<Longrightarrow> split_lines (concat ls) = ls"
proof (induction ls)
  case (Cons l ls)
  then obtain u e where l: "l = u @ e" "l \<noteq> []" "list_all (\<lambda>c. \<not> line_break c) u" "proper_end e ls" by auto
  have IH: "split_lines (concat ls) = ls" using Cons by simp
  have first: "starts_lf ls = begins_lf (concat ls)"
    using starts_lf_split [of "concat ls"] by (simp add: IH)
  have "split_lines (e @ concat ls) = (if e = [] then [] else e # ls)"
    using l(4) IH first
    by (auto simp: proper_end_def line_break_def split: list.split)
  then show ?case using l by (auto simp: split_plain_prefix)
qed simp

text \<open>What the pattern of a version line matches.\<close>

lemma drop_spaces: "list_all py_space a \<Longrightarrow> \<not> py_space x \<Longrightarrow> dropWhile py_space (a @ x # s) = x # s"
  by (induction a) auto

lemma version_pieces:
  "list_all py_space a \<Longrightarrow> list_all py_space b \<Longrightarrow> list_all py_space c \<Longrightarrow> CHR 0x22 \<notin> set v \<Longrightarrow> v \<noteq> [] \<Longrightarrow>
     version_line (a @ ''version'' @ b @ ''='' @ c @ CHR 0x22 # v @ CHR 0x22 # r) =
       Some (a @ ''version'' @ b @ ''='' @ c @ [CHR 0x22], v, CHR 0x22 # r)"
proof -
  assume spaces: "list_all py_space a" "list_all py_space b" "list_all py_space c" and v: "CHR 0x22 \<notin> set v" "v \<noteq> []"
  have plain: "\<not> py_space CHR ''v''" "\<not> py_space CHR ''=''" "\<not> py_space CHR 0x22" by code_simp+
  let ?body = "a @ ''version'' @ b @ ''='' @ c @ CHR 0x22 # v @ CHR 0x22 # r"
  have t1: "dropWhile py_space ?body = ''version'' @ b @ ''='' @ c @ CHR 0x22 # v @ CHR 0x22 # r"
    using drop_spaces [OF spaces(1) plain(1)] by simp
  have t2: "dropWhile py_space (drop 7 (''version'' @ b @ ''='' @ c @ CHR 0x22 # v @ CHR 0x22 # r)) = ''='' @ c @ CHR 0x22 # v @ CHR 0x22 # r"
    using drop_spaces [OF spaces(2) plain(2)] by simp
  have t3: "dropWhile py_space (drop 1 (''='' @ c @ CHR 0x22 # v @ CHR 0x22 # r)) = CHR 0x22 # v @ CHR 0x22 # r"
    using drop_spaces [OF spaces(3) plain(3)] by simp
  have t4: "takeWhile (\<lambda>c. c \<noteq> CHR 0x22) (v @ CHR 0x22 # r) = v"
    using v(1) by (subst takeWhile_append2) auto
  have body: "?body = (a @ ''version'' @ b @ ''='' @ c @ [CHR 0x22]) @ v @ CHR 0x22 # r" by simp
  have t5: "take (length (p @ q) - length q) (p @ q) = p" for p q :: string by simp
  show ?thesis
    unfolding version_line_def Let_def t1 t2 t3 using v(2) t5 [of "a @ ''version'' @ b @ ''='' @ c @ [CHR 0x22]" "v @ CHR 0x22 # r"]
    unfolding body [symmetric] by (simp add: t4 del: length_append)
qed

lemma version_line_cases:
  assumes line: "version_line body = Some (pre, v, post)"
  obtains a b c r where "list_all py_space a" "list_all py_space b" "list_all py_space c" "CHR 0x22 \<notin> set v" "v \<noteq> []"
    "body = a @ ''version'' @ b @ ''='' @ c @ CHR 0x22 # v @ CHR 0x22 # r"
    "pre = a @ ''version'' @ b @ ''='' @ c @ [CHR 0x22]" "post = CHR 0x22 # r"
proof -
  define a where "a = takeWhile py_space body"
  define t1 where "t1 = dropWhile py_space body"
  define b where "b = takeWhile py_space (drop 7 t1)"
  define t2 where "t2 = dropWhile py_space (drop 7 t1)"
  define c where "c = takeWhile py_space (drop 1 t2)"
  define t3 where "t3 = dropWhile py_space (drop 1 t2)"
  define t4 where "t4 = drop 1 t3"
  have m: "take 7 t1 = ''version''" "take 1 t2 = ''=''" "take 1 t3 = [CHR 0x22]" "v = takeWhile (\<lambda>c. c \<noteq> CHR 0x22) t4"
      "post = drop (length v) t4" "v \<noteq> []" "post \<noteq> []"
    using line unfolding version_line_def Let_def t1_def [symmetric] t2_def [symmetric] t3_def [symmetric] t4_def [symmetric]
    by (auto split: if_splits)
  have post: "post = dropWhile (\<lambda>c. c \<noteq> CHR 0x22) t4" using m(4,5) by (simp add: dropWhile_eq_drop)
  have "hd post = CHR 0x22" using m(7) hd_dropWhile [of "\<lambda>c. c \<noteq> CHR 0x22" t4] unfolding post by simp
  then obtain r where r: "post = CHR 0x22 # r" using m(7) by (cases post) auto
  have t4: "t4 = v @ CHR 0x22 # r" using r unfolding m(4) post by (metis takeWhile_dropWhile_id)
  have t3: "t3 = CHR 0x22 # t4" using m(3) unfolding t4_def by (metis append_Cons append_Nil append_take_drop_id)
  have t2: "t2 = ''='' @ c @ t3" using m(2) unfolding c_def t3_def by (metis append_take_drop_id takeWhile_dropWhile_id)
  have t1: "t1 = ''version'' @ b @ t2" using m(1) unfolding b_def t2_def by (metis append_take_drop_id takeWhile_dropWhile_id)
  have body: "body = a @ t1" unfolding a_def t1_def by simp
  have spaces: "list_all py_space a" "list_all py_space b" "list_all py_space c"
    unfolding a_def b_def c_def list_all_iff by (auto dest: set_takeWhileD)
  have quote: "CHR 0x22 \<notin> set v" unfolding m(4) by (auto dest: set_takeWhileD)
  have "body = a @ ''version'' @ b @ ''='' @ c @ CHR 0x22 # v @ CHR 0x22 # r"
    unfolding body t1 t2 t3 t4 by simp
  moreover from this have "pre = a @ ''version'' @ b @ ''='' @ c @ [CHR 0x22]"
    using line version_pieces [OF spaces quote m(6), of r] by simp
  ultimately show thesis using that spaces quote m(6) r by blast
qed

definition version_value :: "string \<Rightarrow> bool" where
  "version_value v = (v \<noteq> [] \<and> list_all (\<lambda>c. c \<noteq> CHR 0x22 \<and> \<not> line_break c) v)"

lemma line_body_split: "\<exists>ending. l = line_body l @ ending \<and> list_all line_end ending"
proof (intro exI conjI)
  show "l = line_body l @ rev (takeWhile line_end (rev l))"
    unfolding line_body_def by (metis rev_append rev_rev_ident takeWhile_dropWhile_id)
  show "list_all line_end (rev (takeWhile line_end (rev l)))"
    by (auto simp: list_all_iff dest: set_takeWhileD)
qed

lemma line_body_ends: "line_body l = p @ [c] \<Longrightarrow> \<not> line_end c"
  using hd_dropWhile [of line_end "rev l"] unfolding line_body_def
  by (metis append_is_Nil_conv hd_rev last_snoc list.discI rev_is_Nil_conv rev_rev_ident)

lemma line_body_app: "list_all line_end e \<Longrightarrow> s \<noteq> [] \<Longrightarrow> \<not> line_end (last s) \<Longrightarrow> line_body (s @ e) = s"
proof -
  assume e: "list_all line_end e" and s: "s \<noteq> []" "\<not> line_end (last s)"
  have "dropWhile line_end (rev e @ rev s) = dropWhile line_end (rev s)"
    using e by (subst dropWhile_append2) (auto simp: list_all_iff)
  moreover have "dropWhile line_end (rev s) = rev s"
    using s by (cases s rule: rev_cases) auto
  ultimately show ?thesis by (simp add: line_body_def)
qed

lemma version_no_header: "list_all py_space a \<Longrightarrow> table_header (a @ ''version'' @ s) = None"
proof -
  assume a: "list_all py_space a"
  have "\<not> py_space CHR ''v''" by code_simp
  from drop_spaces [OF a this] have "dropWhile py_space (a @ ''version'' @ s) = ''version'' @ s" by simp
  then show ?thesis by (simp add: table_header_def Let_def)
qed

text \<open>An edited line: what is found in it, and what is found after the edit.\<close>

lemma edited_line:
  assumes line: "version_line (line_body l) = Some (pre, v, post)" and new: "version_value new"
  defines "l' \<equiv> pre @ new @ post @ drop (length (line_body l)) l"
  shows "l = pre @ v @ post @ drop (length (line_body l)) l"
    and "line_body l' = pre @ new @ post"
    and "table_header (line_body l') = None"
    and "version_line (line_body l') = Some (pre, new, post)"
    and "drop (length (line_body l')) l' = drop (length (line_body l)) l"
    and "\<exists>x r. l = x # tl l \<and> l' = x # tl l' \<and> post = CHR 0x22 # r"
proof -
  obtain ending where e: "l = line_body l @ ending" "list_all line_end ending" using line_body_split by blast
  then have drop: "drop (length (line_body l)) l = ending" by (metis append_eq_conv_conj)
  obtain a b c r where p: "list_all py_space a" "list_all py_space b" "list_all py_space c" "CHR 0x22 \<notin> set v" "v \<noteq> []"
      "line_body l = a @ ''version'' @ b @ ''='' @ c @ CHR 0x22 # v @ CHR 0x22 # r"
      "pre = a @ ''version'' @ b @ ''='' @ c @ [CHR 0x22]" "post = CHR 0x22 # r"
    using version_line_cases [OF line] by metis
  have body: "line_body l = pre @ v @ post" using p(6-8) by simp
  show "l = pre @ v @ post @ drop (length (line_body l)) l" using e(1) unfolding drop body by simp
  have new_text: "CHR 0x22 \<notin> set new" "new \<noteq> []" using new by (auto simp: version_value_def list_all_iff)
  have l': "l' = (pre @ new @ post) @ ending" unfolding l'_def drop by simp
  have "\<not> line_end (last post)"
    using line_body_ends [of l "pre @ v @ butlast post" "last post"] body p(8) by simp
  then show bl: "line_body l' = pre @ new @ post"
    unfolding l' using e(2) p(8) by (intro line_body_app) auto
  show "table_header (line_body l') = None"
    unfolding bl p(7,8) using version_no_header [OF p(1)] by simp
  show "version_line (line_body l') = Some (pre, new, post)"
    unfolding bl using version_pieces [OF p(1-3) new_text, of r] p(7,8) by simp
  show "drop (length (line_body l')) l' = drop (length (line_body l)) l"
    unfolding bl drop unfolding l' by simp
  have "pre \<noteq> []" using p(7) by simp
  then obtain x y where xy: "pre = x # y" by (cases pre) auto
  have "l = x # tl l" using e(1) unfolding body xy by (metis append_Cons list.sel(3))
  moreover have "l' = x # tl l'" unfolding l' xy by simp
  ultimately show "\<exists>x r. l = x # tl l \<and> l' = x # tl l' \<and> post = CHR 0x22 # r" using p(8) by blast
qed

lemma break_split:
  "u @ e = x @ c # y \<Longrightarrow> list_all line_break e \<Longrightarrow> \<not> line_break c \<Longrightarrow> \<exists>w. u = x @ c # w \<and> y = w @ e"
proof (induction x arbitrary: u)
  case Nil
  then show ?case by (cases u) auto
next
  case (Cons d x)
  then show ?case
  proof (cases u)
    case Nil
    then have "line_break c" using Cons.prems(1,2) by auto
    then show ?thesis using Cons.prems(3) by simp
  next
    case (Cons d' u')
    then have "u' @ e = x @ c # y" using Cons.prems(1) by simp
    then show ?thesis using Cons.IH Cons.prems(1-3) Cons by auto
  qed
qed

lemma proper_end_breaks: "proper_end e ls \<Longrightarrow> list_all line_break e"
  by (auto simp: proper_end_def line_break_def)

lemma proper_end_cong: "(ls = []) = (ms = []) \<Longrightarrow> starts_lf ls = starts_lf ms \<Longrightarrow> proper_end e ls = proper_end e ms"
  by (simp add: proper_end_def)

lemma edited_proper:
  assumes l: "l = pre @ v @ CHR 0x22 # r" and new: "version_value new"
    and proper: "\<exists>u e. l = u @ e \<and> l \<noteq> [] \<and> list_all (\<lambda>c. \<not> line_break c) u \<and> proper_end e ls"
  shows "\<exists>u e. pre @ new @ CHR 0x22 # r = u @ e \<and> list_all (\<lambda>c. \<not> line_break c) u \<and> proper_end e ls"
proof -
  obtain u e where u: "l = u @ e" "list_all (\<lambda>c. \<not> line_break c) u" "proper_end e ls" using proper by blast
  have "\<not> line_break CHR 0x22" by code_simp
  moreover have "u @ e = (pre @ v) @ CHR 0x22 # r" using l u(1) by simp
  ultimately obtain w where w: "u = (pre @ v) @ CHR 0x22 # w" "r = w @ e"
    using break_split proper_end_breaks [OF u(3)] by blast
  then have "list_all (\<lambda>c. \<not> line_break c) (pre @ new @ CHR 0x22 # w)"
    using u(2) new by (auto simp: version_value_def list_all_iff)
  then show ?thesis using w(2) u(3) by (intro exI [of _ "pre @ new @ CHR 0x22 # w"] exI [of _ e]) simp
qed

lemma edit_lines_back:
  "edit_lines cur new inside ls = Inr (n, out) \<Longrightarrow> version_value new \<Longrightarrow> proper_lines ls \<Longrightarrow>
     edit_lines new cur inside out = Inr (n, ls) \<and> proper_lines out \<and> (out = []) = (ls = []) \<and>
     starts_lf out = starts_lf ls \<and> (n = 0 \<longrightarrow> out = ls) \<and>
     (n = 1 \<longrightarrow> (\<exists>p q. concat ls = p @ cur @ q \<and> concat out = p @ new @ q))"
proof (induction ls arbitrary: inside n out)
  case (Cons l ls)
  have proper: "\<exists>u e. l = u @ e \<and> l \<noteq> [] \<and> list_all (\<lambda>c. \<not> line_break c) u \<and> proper_end e ls" "proper_lines ls"
    using Cons.prems(3) by auto
  show ?case
  proof (cases "\<exists>pre v post. table_header (line_body l) = None \<and> inside \<and> version_line (line_body l) = Some (pre, v, post)")
    case True
    then obtain pre v post where e: "table_header (line_body l) = None" "inside" "version_line (line_body l) = Some (pre, v, post)"
      by blast
    let ?l' = "pre @ new @ post @ drop (length (line_body l)) l"
    note edited = edited_line [OF e(3) Cons.prems(2)]
    obtain m rest where rest: "v = cur" "edit_lines cur new True ls = Inr (m, rest)" "n = Suc m" "out = ?l' # rest"
      using Cons.prems(1) e by (auto simp: Let_def rbind_returns split: if_splits)
    note IH = Cons.IH [OF rest(2) Cons.prems(2) proper(2)]
    obtain x r where x: "l = x # tl l" "?l' = x # tl ?l'" "post = CHR 0x22 # r" using edited(6) by blast
    have l: "l = pre @ v @ CHR 0x22 # r @ drop (length (line_body l)) l" using edited(1) x(3) by simp
    have "\<exists>u e. ?l' = u @ e \<and> list_all (\<lambda>c. \<not> line_break c) u \<and> proper_end e ls"
      using edited_proper [OF l Cons.prems(2) proper(1)] x(3) by simp
    then have "\<exists>u e. ?l' = u @ e \<and> list_all (\<lambda>c. \<not> line_break c) u \<and> proper_end e rest"
      using IH proper_end_cong [of rest ls] by blast
    moreover have "?l' \<noteq> []" using x(2) by (metis list.distinct(1))
    ultimately have "proper_lines out" using IH rest(4) by simp
    moreover have "edit_lines new cur inside out = Inr (n, l # ls)"
      using IH edited(1,3-5) rest e(2) by (simp add: Let_def)
    moreover have "starts_lf out = starts_lf (l # ls)"
      unfolding rest(4) by (subst x(2), subst x(1)) simp
    moreover have "n = 1 \<longrightarrow> (\<exists>p q. concat (l # ls) = p @ cur @ q \<and> concat out = p @ new @ q)"
    proof
      assume "n = 1"
      then have "rest = ls" using IH rest(3) by simp
      then show "\<exists>p q. concat (l # ls) = p @ cur @ q \<and> concat out = p @ new @ q"
        using edited(1) rest(1,4) by (intro exI [of _ pre] exI [of _ "post @ drop (length (line_body l)) l @ concat ls"]) simp
    qed
    ultimately show ?thesis using rest(3,4) by simp
  next
    case False
    then obtain inside' rest where rest: "edit_lines cur new inside' ls = Inr (n, rest)" "out = l # rest"
        "\<And>out'. edit_lines new cur inside (l # out') = rbind (edit_lines new cur inside' out') (\<lambda>(n, out). Inr (n, l # out))"
      using Cons.prems(1)
      by (cases "table_header (line_body l)"; cases inside; cases "version_line (line_body l)") (auto simp: Let_def rbind_returns)
    note IH = Cons.IH [OF rest(1) Cons.prems(2) proper(2)]
    have "\<exists>u e. l = u @ e \<and> l \<noteq> [] \<and> list_all (\<lambda>c. \<not> line_break c) u \<and> proper_end e rest"
      using IH proper(1) proper_end_cong [of rest ls] by blast
    then have "proper_lines out" using IH rest(2) by simp
    moreover have "starts_lf out = starts_lf (l # ls)" unfolding rest(2) by (cases l) auto
    moreover have "n = 1 \<longrightarrow> (\<exists>p q. concat (l # ls) = p @ cur @ q \<and> concat out = p @ new @ q)"
    proof
      assume "n = 1"
      then obtain p q where "concat ls = p @ cur @ q" "concat rest = p @ new @ q" using IH by auto
      then show "\<exists>p q. concat (l # ls) = p @ cur @ q \<and> concat out = p @ new @ q"
        using rest(2) by (intro exI [of _ "l @ p"] exI [of _ q]) simp
    qed
    ultimately show ?thesis using IH rest(2,3) by simp
  qed
qed simp

text \<open>
  An edit of the project's version changes nothing but that version (one occurrence of the old
  text becomes the new one), and editing back restores the text exactly.
\<close>

theorem project_version_edit:
  assumes "replace_project_version t cur new = Inr out" and "version_value new"
  shows "(\<exists>p q. t = p @ cur @ q \<and> out = p @ new @ q) \<and> replace_project_version out new cur = Inr t"
proof -
  obtain ls where ls: "edit_lines cur new False (split_lines t) = Inr (1, ls)" "out = concat ls"
    using assms(1) by (auto simp: replace_project_version_def result_simps)
  note restored = edit_lines_back [OF ls(1) assms(2) split_lines_proper]
  then have "split_lines out = ls" using split_proper ls(2) by simp
  then show ?thesis using restored ls(2) by (simp add: replace_project_version_def)
qed


lemma project_version_edit_witness:
  "replace_project_version (''[project]'' @ [CHR 0x0A] @ ''version='' @ [CHR 0x22, CHR ''2'', CHR 0x22, CHR 0x0A]) ''2'' ''1'' =
     Inr (''[project]'' @ [CHR 0x0A] @ ''version='' @ [CHR 0x22, CHR ''1'', CHR 0x22, CHR 0x0A])"
proof -
  have lines: "split_lines (''[project]'' @ [CHR 0x0A] @ ''version='' @ [CHR 0x22, CHR ''1'', CHR 0x22, CHR 0x0A]) =
      [''[project]'' @ [CHR 0x0A], ''version='' @ [CHR 0x22, CHR ''1'', CHR 0x22, CHR 0x0A]]"
    by (simp add: line_break_def code_def)
  have first: "line_body (''[project]'' @ [CHR 0x0A]) = ''[project]''" "table_header ''[project]'' = Some ''project''"
      "py_strip ''project'' = ''project''"
    by (simp_all add: line_body_def line_end_def table_header_def until_def py_strip_def py_space_def Let_def code_def)
  have second: "line_body (''version='' @ [CHR 0x22, CHR ''1'', CHR 0x22, CHR 0x0A]) = ''version='' @ [CHR 0x22, CHR ''1'', CHR 0x22]"
      "table_header (''version='' @ [CHR 0x22, CHR ''1'', CHR 0x22]) = None"
      "version_line (''version='' @ [CHR 0x22, CHR ''1'', CHR 0x22]) = Some (''version='' @ [CHR 0x22], ''1'', [CHR 0x22])"
    by (simp_all add: line_body_def line_end_def table_header_def version_line_def py_space_def Let_def code_def)
  have "replace_project_version (''[project]'' @ [CHR 0x0A] @ ''version='' @ [CHR 0x22, CHR ''1'', CHR 0x22, CHR 0x0A]) ''1'' ''2'' =
     Inr (''[project]'' @ [CHR 0x0A] @ ''version='' @ [CHR 0x22, CHR ''2'', CHR 0x22, CHR 0x0A])"
    unfolding replace_project_version_def lines using first second by (simp add: Let_def require_def)
  moreover have "version_value ''2''" by (simp add: version_value_def line_break_def code_def)
  ultimately show ?thesis using project_version_edit by blast
qed

end
