(* ===== verification/ReleaseEvent.thy ===== *)
theory ReleaseEvent
  imports Versions JsonForms "HOL-Library.Sublist"
begin

text \<open>
  The release-ready event of \<open>scripts/release_chain/contract.py\<close>: its validation, the manifest it
  points to, and the event made from a manifest.  JSON objects are lists of pairs in parse order;
  \<open>json.loads\<close> and SHA-256 are parameters.  Bytes and text are both strings.
\<close>

section \<open>JSON objects\<close>

lemma size_pair_less: "(k, x) \<in> set d \<Longrightarrow> size x < Suc (size_list (size_prod (\<lambda>_. 0) size) d)"
  by (induction d) auto

lemma size_zip_less: "(x, y) \<in> set (zip xs ys) \<Longrightarrow> size x < Suc (size_list size xs)"
proof -
  assume "(x, y) \<in> set (zip xs ys)"
  then have "x \<in> set xs" by (rule set_zip_leftD)
  then show ?thesis by (induction xs) auto
qed

text \<open>Python's \<open>==\<close> between JSON values: numbers by value, objects without regard to order.\<close>

function json_eq :: "json \<Rightarrow> json \<Rightarrow> bool" where
  "json_eq v w =
     (case v of
        JNull \<Rightarrow> w = JNull
      | JStr s \<Rightarrow> w = JStr s
      | JList xs \<Rightarrow>
          (case w of JList ys \<Rightarrow> length xs = length ys \<and> (\<forall>(x, y) \<in> set (zip xs ys). json_eq x y) | _ \<Rightarrow> False)
      | JDict d \<Rightarrow>
          (case w of
             JDict e \<Rightarrow> length d = length e \<and>
               (\<forall>(k, x) \<in> set d. case map_of e k of None \<Rightarrow> False | Some y \<Rightarrow> json_eq x y)
           | _ \<Rightarrow> False)
      | _ \<Rightarrow>
          (case (as_number v, as_number w) of (Some x, Some y) \<Rightarrow> x \<noteq> NaN \<and> x = y | _ \<Rightarrow> False))"
  by pat_completeness auto

termination
  by (relation "measure (size \<circ> fst)") (auto intro: size_pair_less size_zip_less)

declare json_eq.simps [simp del]

text \<open>\<open>object_json\<close> refuses a key that occurs twice in any object.\<close>

fun unique_keys :: "json \<Rightarrow> bool" where
  "unique_keys (JList xs) = list_all unique_keys xs"
| "unique_keys (JDict d) = (distinct (dkeys d) \<and> list_all (\<lambda>(k, v). unique_keys v) d)"
| "unique_keys _ = True"

definition object_json :: "(string \<Rightarrow> json option) \<Rightarrow> string \<Rightarrow> (string, json) dict result" where
  "object_json loads data =
     (case loads data of
        None \<Rightarrow> raise JSONDecodeError []
      | Some v \<Rightarrow>
          rbind (require (unique_keys v) ValueError ''duplicate JSON key'') (\<lambda>_.
          case v of JDict d \<Rightarrow> Inr d | _ \<Rightarrow> raise ValueError ''expected a JSON object''))"

definition json_bytes :: "json \<Rightarrow> string result" where
  "json_bytes v = rbind (dumps_as (\<lambda>v. json_indented 0 (sorted_keys v)) v) (\<lambda>t. Inr (t @ [CHR 0x0A]))"

fun text_of :: "json \<Rightarrow> string" where
  "text_of (JStr s) = s"
| "text_of _ = []"

fun fields_of :: "json \<Rightarrow> (string, json) dict" where
  "fields_of (JDict d) = d"
| "fields_of _ = []"

definition demand :: "bool \<Rightarrow> string \<Rightarrow> unit result" where
  "demand b message = require b ValueError message"

text \<open>\<open>isinstance(value, str) and pattern.fullmatch(value)\<close>, and an object with exactly these keys.\<close>

fun fits :: "rx \<Rightarrow> json \<Rightarrow> bool" where
  "fits r (JStr s) = fullmatch r s"
| "fits r _ = False"

fun has_fields :: "string list \<Rightarrow> json \<Rightarrow> bool" where
  "has_fields ks (JDict d) = (set (dkeys d) = set ks)"
| "has_fields ks _ = False"

section \<open>Identities\<close>

definition hex40_rx :: rx where "hex40_rx = rx_times 40 rx_hex"
definition hex64_rx :: rx where "hex64_rx = rx_times 64 rx_hex"
definition digest_rx :: rx where "digest_rx = RCat (rx_str ''sha256:'') hex64_rx"

definition image_old :: string where "image_old = ''ghcr.io/pineforge-4pass/pineforge-release''"
definition image_new :: string where "image_new = ''ghcr.io/tunaxis/pineforge-release''"
definition event_schema :: string where "event_schema = ''pineforge/release-ready/v1''"

definition identity_fields :: "string list" where
  "identity_fields =
     [''schema'', ''release_version'', ''prerelease'', ''hub_commit'', ''versions'', ''image'', ''facts'', ''run_id'']"

definition component_fields :: "string \<Rightarrow> string list" where
  "component_fields name =
     (if name = ''engine'' then [''version'', ''tag'', ''commit'']
      else if name = ''codegen''
        then [''version'', ''pypi_version'', ''commit'', ''sdist_sha256'', ''npm_version'', ''npm_integrity'']
      else [''version'', ''package_version'', ''tag'', ''commit'', ''wheel_sha256'', ''sdist_sha256''])"

text \<open>
  \<open>base64.b64decode(text, validate=True)\<close>: the length of the result.  Padding completes the last
  group of four and nothing follows it (releases before 3.13 also take padding after a full group).
\<close>

definition base64_char :: "char \<Rightarrow> bool" where
  "base64_char c = in_ranges [(65, 90), (97, 122), (48, 57), (43, 43), (47, 47)] c"

definition base64_length :: "string \<Rightarrow> int result" where
  "base64_length s =
     (let body = takeWhile base64_char s; pad = drop (length body) s; n = length body mod 4 in
      if (n = 0 \<and> pad = []) \<or> (n = 2 \<and> pad = ''=='') \<or> (n = 3 \<and> pad = ''='')
      then Inr (int (length body * 3 div 4))
      else raise ValueError ''Incorrect padding'')"

definition integrity_rx :: rx where
  "integrity_rx =
     rx_seq [rx_str ''sha'', rx_choice [rx_str ''256'', rx_str ''384'', rx_str ''512''], rx_str ''-'',
       rx_plus (RClass [(65, 90), (97, 122), (48, 57), (43, 43), (47, 47)]), rx_upto 2 (rx_str ''='')]"

definition check_integrity :: "string \<Rightarrow> unit result" where
  "check_integrity integrity =
     rbind (base64_length (beyond CHR ''-'' integrity)) (\<lambda>n.
     demand (n = int (digits_val (drop 3 (until CHR ''-'' integrity))) div 8) ''invalid npm integrity length'')"

section \<open>Validation\<close>

text \<open>The guards common to the producers, in the order of the code; absent fields are skipped.\<close>

definition check_component :: "string \<Rightarrow> string \<Rightarrow> json \<Rightarrow> unit result" where
  "check_component version name component =
     (let c = fields_of component; has = (\<lambda>k. k \<in> set (dkeys c)) in
      rbind (demand (has_fields (component_fields name) component) ''invalid identity'') (\<lambda>_.
      rbind (demand (jget c ''version'' = JStr version) ''violates release lockstep'') (\<lambda>_.
      rbind (demand (fits hex40_rx (jget c ''commit'')) ''invalid commit'') (\<lambda>_.
      rbind (demand (has ''tag'' \<longrightarrow>
               jget c ''tag'' = JStr (CHR ''v'' # py_str (jget_default c ''package_version'' (JStr version))))
               ''invalid tag'') (\<lambda>_.
      rbind (demand (has ''sdist_sha256'' \<longrightarrow> fits hex64_rx (jget c ''sdist_sha256'')) ''invalid sdist_sha256'') (\<lambda>_.
      rbind (demand (has ''wheel_sha256'' \<longrightarrow> fits hex64_rx (jget c ''wheel_sha256'')) ''invalid wheel_sha256'') (\<lambda>_.
      rbind (rmap (\<lambda>k. if has k
                        then rbind (normalized_package (jget c k)) (\<lambda>v. demand (v = version) ''contradictory version'')
                        else Inr ()) [''pypi_version'', ''package_version'']) (\<lambda>_.
      if name = ''codegen''
      then rbind (demand (fits integrity_rx (jget c ''npm_integrity'')) ''invalid npm integrity'') (\<lambda>_.
           rbind (demand (jget c ''npm_version'' = JStr version) ''contradictory codegen.npm_version'') (\<lambda>_.
           check_integrity (text_of (jget c ''npm_integrity''))))
      else Inr ()))))))))"

text \<open>The HPO producer is null before its cutoff and required from there on.\<close>

definition hpo_cutoff :: string where "hpo_cutoff = ''1.6.0-rc.1''"

definition check_producer :: "string \<Rightarrow> (string, json) dict \<Rightarrow> string \<Rightarrow> unit result" where
  "check_producer version versions name =
     (let component = jget versions name in
      if name = ''hpo''
      then rbind (version_order version) (\<lambda>r.
           rbind (version_order hpo_cutoff) (\<lambda>cutoff.
           if r < cutoff then demand (component = JNull) ''HPO must be explicitly null before its cutoff''
           else rbind (demand (component \<noteq> JNull) ''HPO is required from 1.6.0-rc.1'') (\<lambda>_.
                check_component version name component)))
      else check_component version name component)"

definition check_image :: "json \<Rightarrow> unit result" where
  "check_image img =
     (let i = fields_of img in
      first_raise
       [(\<not> has_fields [''repository'', ''digest'', ''amd64_digest'', ''arm64_digest''] img, ValueError, ''invalid image fields''),
        (jget i ''repository'' \<notin> {JStr image_old, JStr image_new}, ValueError, ''unexpected image repository''),
        (\<not> fits digest_rx (jget i ''digest''), ValueError, ''invalid image.digest''),
        (\<not> fits digest_rx (jget i ''amd64_digest''), ValueError, ''invalid image.amd64_digest''),
        (\<not> fits digest_rx (jget i ''arm64_digest''), ValueError, ''invalid image.arm64_digest'')])"

definition check_facts :: "string \<Rightarrow> json \<Rightarrow> unit result" where
  "check_facts version facts =
     (let f = fields_of facts in
      first_raise
       [(\<not> has_fields [''commit'', ''path'', ''sha256'', ''release_key''] facts, ValueError, ''invalid facts fields''),
        (jget f ''path'' \<noteq> JStr ''facts/facts.json'', ValueError, ''unexpected facts source''),
        (jget f ''release_key'' \<noteq> JStr version, ValueError, ''facts release_key disagrees''),
        (\<not> fits hex40_rx (jget f ''commit''), ValueError, ''invalid facts.commit''),
        (\<not> fits hex64_rx (jget f ''sha256''), ValueError, ''invalid facts.sha256'')])"

definition check_pointer :: "(string, json) dict \<Rightarrow> unit result" where
  "check_pointer event =
     (let m = fields_of (jget event ''manifest'') in
      first_raise
       [(\<not> has_fields [''asset'', ''sha256''] (jget event ''manifest''), ValueError, ''invalid manifest fields''),
        (jget m ''asset'' \<noteq> JStr ''release-manifest.json'', ValueError, ''unexpected manifest asset''),
        (\<not> fits hex64_rx (jget m ''sha256''), ValueError, ''invalid manifest.sha256''),
        (jget event ''event_id'' \<noteq> JStr (''sha256:'' @ text_of (jget m ''sha256'')), ValueError, ''event_id disagrees'')])"

fun positive_int :: "json \<Rightarrow> bool" where
  "positive_int (JInt n) = (0 < n)"
| "positive_int _ = False"

definition check_head :: "(string, json) dict \<Rightarrow> unit result" where
  "check_head event =
     (let version = text_of (jget event ''release_version'') in
      first_raise
       [(set (dkeys event) \<noteq> set (identity_fields @ [''event_id'', ''manifest'']), ValueError,
           ''release-ready/v1 fields differ from section 3.2''),
        (jget event ''schema'' \<noteq> JStr event_schema, ValueError, ''unsupported release-ready schema''),
        (\<not> fits semver_rx (jget event ''release_version''), ValueError, ''invalid release_version''),
        (jget event ''prerelease'' \<notin> {JBool True, JBool False}, ValueError, ''prerelease must be boolean''),
        (jget event ''prerelease'' \<noteq> JBool (CHR ''-'' \<in> set version), ValueError, ''contradictory prerelease flag''),
        (\<not> fits hex40_rx (jget event ''hub_commit''), ValueError, ''invalid hub_commit''),
        (\<not> positive_int (jget event ''run_id''), ValueError, ''invalid run_id''),
        (\<not> has_fields [''engine'', ''codegen'', ''hpo''] (jget event ''versions''), ValueError,
           ''unexpected producer identities'')])"

definition validate_event :: "(string, json) dict \<Rightarrow> unit result" where
  "validate_event event =
     rbind (check_head event) (\<lambda>_.
     let version = text_of (jget event ''release_version'') in
     rbind (rmap (check_producer version (fields_of (jget event ''versions''))) [''engine'', ''codegen'', ''hpo'']) (\<lambda>_.
     rbind (check_image (jget event ''image'')) (\<lambda>_.
     rbind (check_facts version (jget event ''facts'')) (\<lambda>_.
     check_pointer event))))"

section \<open>Manifests\<close>

text \<open>\<open>"sha256" not in manifest.get("manifest", {})\<close>: membership in an object, a list or a text.\<close>

fun contains_text :: "string \<Rightarrow> json \<Rightarrow> bool result" where
  "contains_text k (JDict d) = Inr (k \<in> set (dkeys d))"
| "contains_text k (JList xs) = Inr (JStr k \<in> set xs)"
| "contains_text k (JStr s) = Inr (sublist k s)"
| "contains_text k _ = raise TypeError ''argument is not iterable''"

definition manifest_digest :: "(string, json) dict \<Rightarrow> string" where
  "manifest_digest event = text_of (jget (fields_of (jget event ''manifest'')) ''sha256'')"

definition verify_manifest ::
  "(string \<Rightarrow> string) \<Rightarrow> (string \<Rightarrow> json option) \<Rightarrow> (string, json) dict \<Rightarrow> string \<Rightarrow> unit result" where
  "verify_manifest sha loads event data =
     rbind (validate_event event) (\<lambda>_.
     rbind (demand (sha data = manifest_digest event) ''manifest digest mismatch'') (\<lambda>_.
     rbind (object_json loads data) (\<lambda>manifest.
     rbind (if ''event_id'' \<in> set (dkeys manifest) then Inr True
            else contains_text ''sha256'' (jget_default manifest ''manifest'' (JDict []))) (\<lambda>circular.
     rbind (demand (\<not> circular) ''manifest contains a circular self hash'') (\<lambda>_.
     rbind (rmap (\<lambda>f. demand (json_eq (jget manifest f) (jget event f)) ''manifest disagrees'') identity_fields) (\<lambda>_.
     Inr ()))))))"

definition event_from_manifest ::
  "(string \<Rightarrow> string) \<Rightarrow> (string \<Rightarrow> json option) \<Rightarrow> string \<Rightarrow> (string, json) dict result" where
  "event_from_manifest sha loads data =
     rbind (object_json loads data) (\<lambda>manifest.
     rbind (rmap (\<lambda>f. rbind (jitem manifest f) (\<lambda>v. Inr (f, v))) identity_fields) (\<lambda>fields.
     let event = fields @
       [(''event_id'', JStr (''sha256:'' @ sha data)),
        (''manifest'', JDict [(''asset'', JStr ''release-manifest.json''), (''sha256'', JStr (sha data))])] in
     rbind (verify_manifest sha loads event data) (\<lambda>_. Inr event)))"

definition image_of :: "(string, json) dict \<Rightarrow> string" where
  "image_of event =
     (let i = fields_of (jget event ''image'') in
      py_str (jget i ''repository'') @ '':'' @ py_str (jget event ''release_version'') @ ''@'' @ py_str (jget i ''digest''))"

section \<open>What validation guarantees\<close>

lemma fits_str: "fits r v = (\<exists>s. v = JStr s \<and> fullmatch r s)"
  by (cases v) auto

lemma has_fields_dict: "has_fields ks v = (\<exists>d. v = JDict d \<and> set (dkeys d) = set ks)"
  by (cases v) auto

lemma demand_returns [simp]: "(demand b m = Inr u) = b"
  by (simp add: demand_def)

lemma head_checked:
  assumes "check_head event = Inr u"
  shows "\<exists>v. jget event ''release_version'' = JStr v \<and> fullmatch semver_rx v \<and>
     jget event ''prerelease'' = JBool (CHR ''-'' \<in> set v) \<and> fits hex40_rx (jget event ''hub_commit'')"
  using assms by (auto simp: check_head_def fits_str Let_def split: if_splits)

lemma component_checked:
  assumes "check_component v name c = Inr u"
  shows "c \<noteq> JNull \<and> jget (fields_of c) ''version'' = JStr v"
  using assms by (auto simp: check_component_def has_fields_dict Let_def result_simps)

lemma producer_checked:
  assumes "check_producer v versions name = Inr u" and "fullmatch semver_rx v" and "fullmatch semver_rx hpo_cutoff"
  shows "(jget versions name = JNull \<longrightarrow> name = ''hpo'') \<and>
     (name = ''hpo'' \<longrightarrow> (jget versions name = JNull) = precedes v hpo_cutoff) \<and>
     (jget versions name \<noteq> JNull \<longrightarrow> jget (fields_of (jget versions name)) ''version'' = JStr v)"
  using assms rank_precedes(1) [OF assms(2,3)]
  by (auto simp: check_producer_def version_order_returns Let_def result_simps dest!: component_checked split: if_splits)

lemma cutoff_version: "fullmatch semver_rx hpo_cutoff"
proof -
  have "\<forall>p \<in> set [''rc'', ''1'']. id_text p"
    by (simp add: id_text_def numeral_text_def tag_char_def ascii_digit_def code_def)
  moreover have "hpo_cutoff = version_from 1 6 0 [''rc'', ''1'']" by code_simp
  ultimately show ?thesis unfolding semver_language by blast
qed

definition component_of :: "(string, json) dict \<Rightarrow> string \<Rightarrow> json" where
  "component_of event name = jget (fields_of (jget event ''versions'')) name"

lemma validated_parts:
  assumes "validate_event event = Inr u"
  obtains v where "jget event ''release_version'' = JStr v" "fullmatch semver_rx v"
    "jget event ''prerelease'' = JBool (CHR ''-'' \<in> set v)" "check_image (jget event ''image'') = Inr ()"
    "check_facts v (jget event ''facts'') = Inr ()" "check_pointer event = Inr ()"
    "\<forall>name \<in> {''engine'', ''codegen'', ''hpo''}. check_producer v (fields_of (jget event ''versions'')) name = Inr ()"
proof -
  have "check_head event = Inr ()" using assms by (auto simp: validate_event_def result_simps)
  from head_checked [OF this] obtain v where v: "jget event ''release_version'' = JStr v" "fullmatch semver_rx v"
      "jget event ''prerelease'' = JBool (CHR ''-'' \<in> set v)" by blast
  then show thesis using assms that by (simp add: validate_event_def result_simps Let_def)
qed

text \<open>
  C19. A validated event is in lockstep: its prerelease flag is that of its version, every producer
  it names carries that version, only the HPO producer may be null, and it is null exactly for the
  versions that come before 1.6.0-rc.1; the facts are those of the version.
\<close>

theorem validated_event_lockstep:
  assumes "validate_event event = Inr u"
  shows "\<exists>v. jget event ''release_version'' = JStr v \<and> fullmatch semver_rx v \<and>
     jget event ''prerelease'' = JBool (CHR ''-'' \<in> set v) \<and>
     (\<forall>name \<in> {''engine'', ''codegen'', ''hpo''}.
        (component_of event name = JNull) = (name = ''hpo'' \<and> precedes v hpo_cutoff) \<and>
        (component_of event name \<noteq> JNull \<longrightarrow> jget (fields_of (component_of event name)) ''version'' = JStr v)) \<and>
     jget (fields_of (jget event ''facts'')) ''release_key'' = JStr v \<and>
     jget event ''event_id'' = JStr (''sha256:'' @ manifest_digest event)"
proof -
  obtain v where v: "jget event ''release_version'' = JStr v" "fullmatch semver_rx v"
    "jget event ''prerelease'' = JBool (CHR ''-'' \<in> set v)" "check_image (jget event ''image'') = Inr ()"
    "check_facts v (jget event ''facts'') = Inr ()" "check_pointer event = Inr ()"
    "\<forall>name \<in> {''engine'', ''codegen'', ''hpo''}. check_producer v (fields_of (jget event ''versions'')) name = Inr ()"
    using validated_parts [OF assms] .
  have names: "(component_of event name = JNull) = (name = ''hpo'' \<and> precedes v hpo_cutoff) \<and>
        (component_of event name \<noteq> JNull \<longrightarrow> jget (fields_of (component_of event name)) ''version'' = JStr v)"
    if "name \<in> {''engine'', ''codegen'', ''hpo''}" for name
  proof -
    have "check_producer v (fields_of (jget event ''versions'')) name = Inr ()" using v(7) that by blast
    from producer_checked [OF this v(2) cutoff_version] show ?thesis unfolding component_of_def by blast
  qed
  have facts: "jget (fields_of (jget event ''facts'')) ''release_key'' = JStr v"
    using v(5) by (auto simp: check_facts_def Let_def split: if_splits)
  have pointer: "jget event ''event_id'' = JStr (''sha256:'' @ manifest_digest event)"
    using v(6) by (auto simp: check_pointer_def Let_def manifest_digest_def split: if_splits)
  show ?thesis using v(1-3) names facts pointer by blast
qed

section \<open>What the manifest determines\<close>

lemma json_eq_str [simp]: "json_eq v (JStr s) = (v = JStr s)"
  by (subst json_eq.simps) (cases v, auto)

lemma json_eq_dict:
  assumes "json_eq v (JDict e)" and "unique_keys v"
  obtains d where "v = JDict d" "set (dkeys d) = set (dkeys e)"
    "\<And>k x. map_of d k = Some x \<Longrightarrow> json_eq x (jget e k)"
proof -
  obtain d where d: "v = JDict d" "length d = length e"
      "\<forall>(k, x) \<in> set d. case map_of e k of None \<Rightarrow> False | Some y \<Rightarrow> json_eq x y"
    using assms(1) by (subst (asm) json_eq.simps) (cases v, auto)
  have sub: "set (dkeys d) \<subseteq> set (dkeys e)"
  proof
    fix k
    assume "k \<in> set (dkeys d)"
    then obtain x where "(k, x) \<in> set d" by auto
    then have "map_of e k \<noteq> None" using d(3) by (auto split: option.splits)
    then show "k \<in> set (dkeys e)" by (simp add: map_of_eq_None_iff)
  qed
  have "card (set (dkeys d)) = length d" using assms(2) d(1) distinct_card [of "dkeys d"] by simp
  moreover have "card (set (dkeys e)) \<le> length e" using card_length [of "dkeys e"] by simp
  ultimately have "set (dkeys d) = set (dkeys e)" using sub d(2) by (metis card_seteq finite_set)
  moreover have "json_eq x (jget e k)" if "map_of d k = Some x" for k x
    using d(3) map_of_SomeD [OF that] by (auto simp: jget_def split: option.splits)
  ultimately show thesis using that d(1) by blast
qed

lemma object_json_unique: "object_json loads data = Inr m \<Longrightarrow> unique_keys (JDict m)"
  by (auto simp: object_json_def result_simps split: option.splits json.splits)

lemma unique_jget: "unique_keys (JDict m) \<Longrightarrow> unique_keys (jget m k)"
  by (auto simp: jget_def list_all_iff split: option.splits dest!: map_of_SomeD)

lemma jget_eq: "json_eq (jget d k) (JStr s) \<Longrightarrow> jget d k = JStr s"
  by simp

text \<open>The image of a verified event is the one its manifest names.\<close>

definition manifest_image :: "(string, json) dict \<Rightarrow> string" where
  "manifest_image m =
     (let i = fields_of (jget m ''image'') in
      text_of (jget i ''repository'') @ '':'' @ text_of (jget m ''release_version'') @ ''@'' @ text_of (jget i ''digest''))"

lemma verified_image:
  assumes "verify_manifest sha loads event data = Inr u"
  shows "\<exists>m. object_json loads data = Inr m \<and> image_of event = manifest_image m \<and>
     jget event ''event_id'' = JStr (''sha256:'' @ sha data) \<and>
     jget event ''release_version'' = jget m ''release_version''"
proof -
  have valid: "validate_event event = Inr ()" and digest: "sha data = manifest_digest event"
    using assms by (auto simp: verify_manifest_def result_simps)
  obtain m us where m: "object_json loads data = Inr m"
      "rmap (\<lambda>f. demand (json_eq (jget m f) (jget event f)) ''manifest disagrees'') identity_fields = Inr us"
    using assms by (auto simp: verify_manifest_def result_simps)
  have same: "json_eq (jget m f) (jget event f)" if "f \<in> set identity_fields" for f
    using m(2) that rmap_returns_iff [of "\<lambda>f. demand (json_eq (jget m f) (jget event f)) ''manifest disagrees''" identity_fields]
    by auto
  obtain v where v: "jget event ''release_version'' = JStr v" "check_image (jget event ''image'') = Inr ()"
      "check_pointer event = Inr ()"
    using validated_parts [OF valid] by metis
  obtain i where i: "jget event ''image'' = JDict i" "set (dkeys i) = {''repository'', ''digest'', ''amd64_digest'', ''arm64_digest''}"
      "fits digest_rx (jget i ''digest'')" "jget i ''repository'' \<in> {JStr image_old, JStr image_new}"
    using v(2) by (auto simp: check_image_def has_fields_dict Let_def split: if_splits)
  have "json_eq (jget m ''image'') (JDict i)" using same [of "''image''"] i(1) by (simp add: identity_fields_def)
  then obtain d where d: "jget m ''image'' = JDict d" "set (dkeys d) = set (dkeys i)"
      "\<And>k x. map_of d k = Some x \<Longrightarrow> json_eq x (jget i k)"
    using json_eq_dict unique_jget [OF object_json_unique [OF m(1)]] by metis
  have field: "json_eq (jget d k) (jget i k)" if "k \<in> set (dkeys i)" for k
  proof -
    have "map_of d k \<noteq> None" unfolding map_of_eq_None_iff using that d(2) by simp
    then obtain x where "map_of d k = Some x" by blast
    then show ?thesis using d(3) by (simp add: jget_def)
  qed
  obtain g where g: "jget i ''digest'' = JStr g" using i(3) unfolding fits_str by blast
  have dg: "jget d ''digest'' = JStr g" using field [of "''digest''"] i(2) g by simp
  obtain r where r: "jget i ''repository'' = JStr r" using i(4) by blast
  have dr: "jget d ''repository'' = JStr r" using field [of "''repository''"] i(2) r by simp
  have version: "jget m ''release_version'' = JStr v"
    using same [of "''release_version''"] v(1) by (simp add: identity_fields_def)
  have "image_of event = manifest_image m"
    unfolding image_of_def manifest_image_def Let_def i(1) d(1) v(1) version fields_of.simps g dg r dr
    by (simp add: py_str_def)
  moreover have "jget event ''event_id'' = JStr (''sha256:'' @ sha data)"
    using v(3) unfolding digest by (auto simp: check_pointer_def Let_def manifest_digest_def split: if_splits)
  ultimately show ?thesis using m(1) v(1) version by auto
qed

lemma made_verified: "event_from_manifest sha loads data = Inr event \<Longrightarrow> verify_manifest sha loads event data = Inr ()"
  by (auto simp: event_from_manifest_def result_simps Let_def)

text \<open>
  C37. The bytes of a manifest determine the release: two events verified against the same bytes,
  one of them made from it, have the same identity, version and image reference.
\<close>

theorem manifest_pins_release:
  assumes "event_from_manifest sha loads data = Inr event" and "verify_manifest sha loads other data = Inr u"
  shows "image_of other = image_of event \<and> jget other ''event_id'' = jget event ''event_id'' \<and>
     jget other ''release_version'' = jget event ''release_version''"
proof -
  have "verify_manifest sha loads event data = Inr ()"
    using assms(1) by (rule made_verified)
  from verified_image [OF this] verified_image [OF assms(2)] show ?thesis by auto
qed

section \<open>A release\<close>

lemma json_eq_refl: "unique_keys v \<Longrightarrow> json_finite v \<Longrightarrow> json_eq v v"
proof (induction v rule: unique_keys.induct)
  case (1 xs)
  then have "json_eq x x" if "x \<in> set xs" for x using that by (auto simp: list_all_iff)
  then show ?case by (subst json_eq.simps) (auto simp: zip_same)
next
  case (2 d)
  then have "map_of d k = Some x \<and> json_eq x x" if "(k, x) \<in> set d" for k x
    using that "2.IH" [OF that] by (fastforce simp: list_all_iff)
  then show ?case by (subst json_eq.simps) auto
qed (subst json_eq.simps, auto split: pyfloat.splits)+

definition sample_hash :: string where "sample_hash = replicate 64 CHR ''a''"
definition sample_commit :: string where "sample_commit = replicate 40 CHR ''b''"

definition sample_fields :: "(string, json) dict" where
  "sample_fields =
     [(''schema'', JStr event_schema), (''release_version'', JStr ''1.1.0''), (''prerelease'', JBool False),
      (''hub_commit'', JStr sample_commit),
      (''versions'', JDict
        [(''engine'', JDict [(''version'', JStr ''1.1.0''), (''tag'', JStr ''v1.1.0''), (''commit'', JStr sample_commit)]),
         (''codegen'', JDict
            [(''version'', JStr ''1.1.0''), (''pypi_version'', JStr ''1.1.0''), (''commit'', JStr sample_commit),
             (''sdist_sha256'', JStr sample_hash), (''npm_version'', JStr ''1.1.0''),
             (''npm_integrity'', JStr (''sha256-'' @ replicate 43 CHR ''A'' @ ''=''))]),
         (''hpo'', JNull)]),
      (''image'', JDict
        [(''repository'', JStr image_old), (''digest'', JStr (''sha256:'' @ sample_hash)),
         (''amd64_digest'', JStr (''sha256:'' @ sample_hash)), (''arm64_digest'', JStr (''sha256:'' @ sample_hash))]),
      (''facts'', JDict
        [(''commit'', JStr sample_commit), (''path'', JStr ''facts/facts.json''), (''sha256'', JStr sample_hash),
         (''release_key'', JStr ''1.1.0'')]),
      (''run_id'', JInt 7)]"

definition sample_event :: "(string, json) dict" where
  "sample_event = sample_fields @
     [(''event_id'', JStr (''sha256:'' @ sample_hash)),
      (''manifest'', JDict [(''asset'', JStr ''release-manifest.json''), (''sha256'', JStr sample_hash)])]"

lemma hex_texts: "fullmatch hex40_rx sample_commit" "fullmatch hex64_rx sample_hash"
  by (simp_all only: fullmatch_iff hex40_rx_def hex64_rx_def lang_times_class sample_commit_def sample_hash_def)
    (simp_all add: code_def)

lemma digest_text: "fullmatch digest_rx (''sha256:'' @ sample_hash)"
  using hex_texts(2) unfolding fullmatch_iff digest_rx_def rx_lang.simps lang_str by blast

lemma sample_version: "fullmatch semver_rx ''1.1.0''"
proof -
  have "''1.1.0'' = version_from 1 1 0 []" by code_simp
  then show ?thesis unfolding semver_language by (metis empty_iff empty_set)
qed

lemma sample_rank: "rank_of ''1.1.0'' < rank_of hpo_cutoff"
  unfolding rank_precedes(1) [OF sample_version cutoff_version]
  by (simp add: hpo_cutoff_def precedes_def core_of_def prerelease_of_def until_def digits_val_def code_def)

lemma cat_texts: "u \<in> rx_lang a \<Longrightarrow> v \<in> rx_lang b \<Longrightarrow> u @ v \<in> rx_lang (RCat a b)"
  by auto

lemma integrity_text: "fullmatch integrity_rx (''sha256-'' @ replicate 43 CHR ''A'' @ ''='')"
proof -
  let ?base = "RClass [(65, 90), (97, 122), (48, 57), (43, 43), (47, 47)]"
  have "[CHR ''A''] @ replicate 42 CHR ''A'' \<in> rx_lang (rx_plus ?base)"
    unfolding rx_plus_def
  proof (rule cat_texts)
    show "replicate 42 CHR ''A'' \<in> rx_lang (RMany ?base)"
      unfolding rx_lang.simps by (subst lang_many_class) (simp add: code_def)
  qed (simp add: code_def)
  moreover have "[CHR ''A''] @ replicate 42 CHR ''A'' = replicate 43 CHR ''A''"
    by (simp add: eval_nat_numeral)
  ultimately have body: "replicate 43 CHR ''A'' \<in> rx_lang (rx_plus ?base)" by simp
  have "''='' \<in> rx_lang (rx_upto 2 (rx_str ''=''))"
    unfolding numeral_2_eq_2 rx_upto.simps rx_opt_def rx_lang.simps lang_str by auto
  then have "''sha'' @ ''256'' @ ''-'' @ replicate 43 CHR ''A'' @ ''='' \<in> rx_lang integrity_rx"
    unfolding integrity_rx_def rx_seq.simps using body
    by (intro cat_texts) (simp_all add: lang_str del: rx_str.simps)
  then show ?thesis unfolding fullmatch_iff by simp
qed

lemma demand_True: "demand True m = Inr ()"
  by (simp add: demand_def require_def)

lemma sample_base64: "check_integrity (''sha256-'' @ replicate 43 CHR ''A'' @ ''='') = Inr ()"
proof -
  have a: "base64_char CHR ''A''" "\<not> base64_char CHR ''=''" by (simp_all add: base64_char_def code_def)
  have "takeWhile base64_char (replicate 43 CHR ''A'' @ ''='') = replicate 43 CHR ''A''"
    by (subst takeWhile_append2) (simp_all add: a)
  then have "base64_length (replicate 43 CHR ''A'' @ ''='') = Inr 32"
    unfolding base64_length_def Let_def by simp
  then show ?thesis
    by (simp add: check_integrity_def beyond_def until_def digits_val_def code_def)
qed

lemma sample_head: "check_head sample_event = Inr ()"
  by (simp add: check_head_def sample_event_def sample_fields_def jget_def identity_fields_def sample_version hex_texts
      insert_commute del: fullmatch.simps)

lemma sample_component: "name \<in> {''engine'', ''codegen''} \<Longrightarrow>
    check_component ''1.1.0'' name (component_of sample_event name) = Inr ()"
  by (elim insertE emptyE)
    (simp_all add: check_component_def component_of_def component_fields_def sample_event_def sample_fields_def jget_def
      jget_default_def py_str_def hex_texts integrity_text normalized_package_def sample_version
      sample_base64 [simplified] demand_True integrity_text [unfolded append_Cons append_Nil] insert_commute del: fullmatch.simps)

lemma sample_valid: "validate_event sample_event = Inr ()"
proof -
  have orders: "version_order ''1.1.0'' = Inr (rank_of ''1.1.0'')" "version_order hpo_cutoff = Inr (rank_of hpo_cutoff)"
    by (simp_all only: version_order_returns sample_version cutoff_version simp_thms)
  have "check_producer ''1.1.0'' (fields_of (jget sample_event ''versions'')) name = Inr ()"
    if "name \<in> {''engine'', ''codegen'', ''hpo''}" for name
  proof (cases "name = ''hpo''")
    case True
    have "jget (fields_of (jget sample_event ''versions'')) ''hpo'' = JNull"
      by (simp add: sample_event_def sample_fields_def jget_def)
    then show ?thesis using True orders sample_rank by (simp add: check_producer_def)
  next
    case False
    then show ?thesis using that sample_component [of name] by (simp add: check_producer_def component_of_def)
  qed
  then have producers: "rmap (check_producer ''1.1.0'' (fields_of (jget sample_event ''versions''))) [''engine'', ''codegen'', ''hpo''] =
      Inr [(), (), ()]" by simp
  have v: "jget sample_event ''release_version'' = JStr ''1.1.0''"
    by (simp add: sample_event_def sample_fields_def jget_def)
  have img: "check_image (jget sample_event ''image'') = Inr ()"
    using digest_text by (simp add: sample_event_def sample_fields_def jget_def check_image_def insert_commute del: fullmatch.simps)
  have facts: "check_facts ''1.1.0'' (jget sample_event ''facts'') = Inr ()"
    using hex_texts by (simp add: sample_event_def sample_fields_def jget_def check_facts_def insert_commute del: fullmatch.simps)
  have pointer: "check_pointer sample_event = Inr ()"
    using hex_texts by (simp add: sample_event_def sample_fields_def jget_def check_pointer_def insert_commute del: fullmatch.simps)
  show ?thesis
    unfolding validate_event_def sample_head v text_of.simps Let_def rbind_Inr producers img facts by (rule pointer)
qed

lemma validated_event_lockstep_witness:
  "\<exists>v. jget sample_event ''release_version'' = JStr v \<and> (component_of sample_event ''hpo'' = JNull) = precedes v hpo_cutoff"
  using validated_event_lockstep [OF sample_valid] by auto

lemma sample_made:
  "event_from_manifest (\<lambda>_. sample_hash) (\<lambda>_. Some (JDict sample_fields)) data = Inr sample_event"
proof -
  have unique: "unique_keys (JDict sample_fields)" and finite: "json_finite (JDict sample_fields)"
    by (simp_all add: sample_fields_def)
  have parsed: "object_json (\<lambda>_. Some (JDict sample_fields)) data = Inr sample_fields"
    using unique by (simp add: object_json_def demand_True require_def del: unique_keys.simps)
  have field: "\<exists>v. map_of sample_fields f = Some v \<and> jget sample_event f = v \<and> json_eq v v" if "f \<in> set identity_fields" for f
  proof -
    have "f \<in> set (dkeys sample_fields)" using that by (auto simp: identity_fields_def sample_fields_def)
    then have "map_of sample_fields f \<noteq> None" unfolding map_of_eq_None_iff by simp
    then obtain v where v: "map_of sample_fields f = Some v" by blast
    then have "(f, v) \<in> set sample_fields" by (rule map_of_SomeD)
    then have "unique_keys v" "json_finite v" using unique finite by (auto simp: list_all_iff)
    then show ?thesis using v json_eq_refl by (simp add: sample_event_def jget_def)
  qed
  have made: "rmap (\<lambda>f. rbind (jitem sample_fields f) (\<lambda>v. Inr (f, v))) identity_fields = Inr sample_fields"
    by (simp add: identity_fields_def sample_fields_def jitem_def)
  have "rmap (\<lambda>f. demand (json_eq (jget sample_fields f) (jget sample_event f)) ''manifest disagrees'') identity_fields =
      Inr (map (\<lambda>_. ()) identity_fields)"
  proof (rule rmap_map)
    fix f
    assume "f \<in> set identity_fields"
    from field [OF this] show "demand (json_eq (jget sample_fields f) (jget sample_event f)) ''manifest disagrees'' = Inr ()"
      by (auto simp: jget_def demand_True)
  qed
  then have "verify_manifest (\<lambda>_. sample_hash) (\<lambda>_. Some (JDict sample_fields)) sample_event data = Inr ()"
    unfolding verify_manifest_def sample_valid rbind_Inr parsed
    by (simp add: manifest_digest_def demand_True jget_default_def) (simp add: sample_event_def sample_fields_def jget_def demand_True)
  then show ?thesis
    unfolding event_from_manifest_def parsed rbind_Inr made Let_def sample_event_def by simp
qed

lemma manifest_pins_release_witness:
  "\<exists>event. event_from_manifest (\<lambda>_. sample_hash) (\<lambda>_. Some (JDict sample_fields)) [] = Inr event \<and>
     image_of sample_event = image_of event"
proof -
  have "verify_manifest (\<lambda>_. sample_hash) (\<lambda>_. Some (JDict sample_fields)) sample_event [] = Inr ()"
    using sample_made [of "[]"] by (rule made_verified)
  from manifest_pins_release [OF sample_made this] show ?thesis using sample_made by blast
qed

end
