(* ===== verification/ReleasePin.thy ===== *)
theory ReleasePin
  imports ReleaseEvent
begin

text \<open>
  The pinned release of the checkout, \<open>scripts/release_chain/contract.py\<close>: reading the runtime pin,
  the verification of the checked-out files, and the files of an update.  The files are those the
  update may touch; a text is read with universal newlines, its bytes are its characters.  The
  parsers of the standard library (\<open>json\<close>, \<open>tomllib\<close>, \<open>ast\<close>) and SHA-256 are parameters.
\<close>

section \<open>Files\<close>

record release_tree =
  runtime_source :: string
  server_dockerfile :: string
  project_file :: string
  lock_file :: "string option"
  manifest_file :: "string option"

text \<open>
  \<open>python_assignments\<close>: for each assignment statement of a module, in order, the names among its
  targets and the outcome of \<open>ast.literal_eval\<close> on its value.
\<close>

record readers =
  sha256_of :: "string \<Rightarrow> string"
  json_loads :: "string \<Rightarrow> json option"
  toml_loads :: "string \<Rightarrow> (string, json) dict result"
  python_assignments :: "string \<Rightarrow> (string list \<times> json result) list result"

fun unify_newlines :: "string \<Rightarrow> string" where
  "unify_newlines [] = []"
| "unify_newlines (c # s) =
     (if code c = 13 then (if begins_lf s then unify_newlines s else CHR 0x0A # unify_newlines s)
      else c # unify_newlines s)"

fun subscript :: "json \<Rightarrow> string \<Rightarrow> json result" where
  "subscript (JDict d) k = jitem d k"
| "subscript _ k = raise TypeError ''indices must be integers''"

section \<open>Reading the pins\<close>

definition runtime_pin :: "readers \<Rightarrow> release_tree \<Rightarrow> string result" where
  "runtime_pin R t =
     rbind (python_assignments R (unify_newlines (runtime_source t))) (\<lambda>body.
     case find (\<lambda>(names, v). ''DEFAULT_RELEASE_IMAGE'' \<in> set names) body of
       None \<Rightarrow> raise ValueError ''runtime default is missing''
     | Some (names, v) \<Rightarrow> rbind v (\<lambda>x.
         case x of JStr s \<Rightarrow> Inr s | _ \<Rightarrow> raise ValueError ''runtime pin is not literal''))"

definition package_version :: "readers \<Rightarrow> release_tree \<Rightarrow> json result" where
  "package_version R t =
     rbind (toml_loads R (unify_newlines (project_file t))) (\<lambda>toml.
     rbind (jitem toml ''project'') (\<lambda>project_table. subscript project_table ''version''))"

definition load_lock :: "readers \<Rightarrow> release_tree \<Rightarrow> (string, json) dict option result" where
  "load_lock R t =
     (case lock_file t of None \<Rightarrow> Inr None
      | Some data \<Rightarrow> rbind (object_json (json_loads R) data) (\<lambda>d. Inr (Some d)))"

definition baseline_pin :: string where
  "baseline_pin = image_old @ '':1.0.0@sha256:'' @ ''b271873d0e91a9eeeb4595daaded9bdfbdbcd3925d3ec1300a833395e2004c86''"

text \<open>
  \<open>set(event) == {...}\<close> and the subscriptions after it, for an \<open>event\<close> that need not be an object.
\<close>

definition container :: "json \<Rightarrow> bool" where
  "container v = (case v of JList _ \<Rightarrow> True | JDict _ \<Rightarrow> True | _ \<Rightarrow> False)"

fun as_event :: "json \<Rightarrow> (string, json) dict result" where
  "as_event (JDict d) = Inr d"
| "as_event (JStr s) = raise ValueError ''release-ready/v1 fields differ from section 3.2''"
| "as_event (JList xs) =
     (if list_ex container xs then raise TypeError ''unhashable type''
      else if set xs = JStr ` set (identity_fields @ [''event_id'', ''manifest'']) then raise TypeError ''indices must be integers''
      else raise ValueError ''release-ready/v1 fields differ from section 3.2'')"
| "as_event _ = raise TypeError ''object is not iterable''"

fun rejected_ids :: "json \<Rightarrow> string list result" where
  "rejected_ids (JList xs) =
     (if list_all (fits digest_rx) xs then Inr (map text_of xs) else raise ValueError ''invalid rejected release identities'')"
| "rejected_ids _ = raise ValueError ''invalid rejected release identities''"

text \<open>The checks of a checkout that has a lock, in the order of the code.\<close>

definition verify_lock :: "readers \<Rightarrow> release_tree \<Rightarrow> string \<Rightarrow> string \<Rightarrow> (string, json) dict \<Rightarrow> unit result" where
  "verify_lock R t pin docker lock =
     rbind (jitem lock ''event'') (\<lambda>ev.
     rbind (case manifest_file t of None \<Rightarrow> raise FileNotFoundError [] | Some m \<Rightarrow> Inr m) (\<lambda>m.
     rbind (as_event ev) (\<lambda>event.
     rbind (verify_manifest (sha256_of R) (json_loads R) event m) (\<lambda>_.
     rbind (demand (\<not> truthy (jget event ''prerelease'')) ''prerelease cannot become the production default'') (\<lambda>_.
     rbind (demand (pin = image_of event) ''defaults disagree with manifest'') (\<lambda>_.
     rbind (demand (sublist (''ARG PINEFORGE_HUB_COMMIT='' @ py_str (jget event ''hub_commit'') @ [CHR 0x0A]) docker)
              ''server source pin disagrees with manifest'') (\<lambda>_.
     rbind (jitem lock ''package_version'') (\<lambda>v.
     rbind (package_version R t) (\<lambda>current.
     rbind (demand (json_eq v current) ''package bump disagrees with lock'') (\<lambda>_.
     rbind (rejected_ids (jget_default lock ''rejected_event_ids'' (JList []))) (\<lambda>rejected.
     demand (text_of (jget event ''event_id'') \<notin> set rejected) ''installed release was explicitly rejected'')))))))))))"

definition verify_local :: "readers \<Rightarrow> release_tree \<Rightarrow> (string, json) dict option result" where
  "verify_local R t =
     rbind (runtime_pin R t) (\<lambda>pin.
     let docker = unify_newlines (server_dockerfile t) in
     rbind (demand (sublist (''ARG PINEFORGE_RELEASE_IMAGE='' @ pin @ [CHR 0x0A]) docker) ''runtime/server pin mismatch'') (\<lambda>_.
     rbind (load_lock R t) (\<lambda>lock.
     case lock of
       None \<Rightarrow>
         rbind (demand (manifest_file t = None) ''manifest exists without a lock'') (\<lambda>_.
         rbind (demand (pin = baseline_pin) ''a new runtime pin requires a verified manifest'') (\<lambda>_. Inr None))
     | Some d \<Rightarrow> rbind (verify_lock R t pin docker d) (\<lambda>_. Inr (Some d)))))"

section \<open>The update\<close>

text \<open>\<open>bytes.replace\<close>, and a text split at the first occurrence of a pattern.\<close>

fun cut_at :: "string \<Rightarrow> string \<Rightarrow> (string \<times> string) option" where
  "cut_at p [] = (if p = [] then Some ([], []) else None)"
| "cut_at p (c # s) =
     (if prefix p (c # s) then Some ([], drop (length p) (c # s))
      else map_option (\<lambda>(a, b). (c # a, b)) (cut_at p s))"

fun replace_from :: "string \<Rightarrow> string \<Rightarrow> nat \<Rightarrow> string \<Rightarrow> string" where
  "replace_from old new n [] = []"
| "replace_from old new n (c # s) =
     (if 0 < n then replace_from old new (n - 1) s
      else if prefix old (c # s) then new @ replace_from old new (length old - 1) s
      else c # replace_from old new 0 s)"

definition replace_all :: "string \<Rightarrow> string \<Rightarrow> string \<Rightarrow> string" where
  "replace_all old new s =
     (if old = [] then new @ concat (map (\<lambda>c. c # new) s) else replace_from old new 0 s)"

text \<open>The two substitutions: the assignment of the default, and the first \<open>ARG\<close> line of the commit.\<close>

definition default_text :: "(string, json) dict \<Rightarrow> string" where
  "default_text event =
     (let i = fields_of (jget event ''image'') in
      ''DEFAULT_RELEASE_IMAGE = ('' @ [CHR 0x0A] @ ''    '' @
      CHR 0x22 # py_str (jget i ''repository'') @ '':'' @ py_str (jget event ''release_version'') @ ''@'' @ [CHR 0x22, CHR 0x0A] @
      ''    '' @ CHR 0x22 # py_str (jget i ''digest'') @ [CHR 0x22, CHR 0x0A, CHR '')''])"

definition replace_default :: "string \<Rightarrow> string \<Rightarrow> string" where
  "replace_default new s =
     (case cut_at ''DEFAULT_RELEASE_IMAGE = ('' s of
        None \<Rightarrow> s
      | Some (before_text, r) \<Rightarrow>
          (case cut_at [CHR 0x0A, CHR '')''] r of None \<Rightarrow> s | Some (_, after_text) \<Rightarrow> before_text @ new @ after_text))"

definition commit_arg :: string where "commit_arg = ''ARG PINEFORGE_HUB_COMMIT=''"

fun replace_commit :: "string \<Rightarrow> bool \<Rightarrow> string \<Rightarrow> string" where
  "replace_commit new start [] = []"
| "replace_commit new start (c # s) =
     (let r = drop (length commit_arg) (c # s) in
      if start \<and> prefix commit_arg (c # s) \<and> r \<noteq> [] \<and> code (hd r) \<noteq> 10
      then commit_arg @ new @ dropWhile (\<lambda>x. code x \<noteq> 10) r
      else c # replace_commit new (code c = 10) s)"

text \<open>The version in a pin, \<open>old_pin.split(":")[-2].split("@", 1)[0]\<close>.\<close>

definition pin_version :: "string \<Rightarrow> string result" where
  "pin_version pin =
     (let ps = split_char CHR '':'' pin in
      if length ps < 2 then raise IndexError ''list index out of range''
      else Inr (until CHR ''@'' (ps ! (length ps - 2))))"

definition key_of_json :: "json \<Rightarrow> version_core result" where
  "key_of_json v = (case v of JStr s \<Rightarrow> version_key s | _ \<Rightarrow> raise TypeError ''expected string or bytes-like object'')"

text \<open>The lock of the update, from the lock it replaces; \<open>rollback\<close> records why an older release returns.\<close>

definition update_lock ::
  "(string, json) dict option \<Rightarrow> (string, json) dict \<Rightarrow> (string, json) dict option \<Rightarrow> string \<Rightarrow> json \<Rightarrow> string \<Rightarrow> json result" where
  "update_lock previous event rollback replacement current old_pin =
     (let old_event = (\<lambda>lock. fields_of (jget lock ''event''));
          old_id = (case previous of None \<Rightarrow> JNull | Some lock \<Rightarrow> jget (old_event lock) ''event_id'');
          rejected = (case previous of None \<Rightarrow> []
            | Some lock \<Rightarrow> (case jget lock ''rejected_event_ids'' of JList xs \<Rightarrow> xs | _ \<Rightarrow> []));
          base = [(''event'', JDict event), (''package_version'', JStr replacement),
            (''previous'', JDict [(''package_version'', current), (''image'', JStr old_pin), (''event_id'', old_id)])] in
      rbind (demand (jget event ''event_id'' \<notin> set rejected) ''release was explicitly rejected by rollback'') (\<lambda>_.
      rbind (case rollback of
          None \<Rightarrow> Inr (base, rejected)
        | Some [] \<Rightarrow> Inr (base, rejected)
        | Some r \<Rightarrow>
            rbind (case previous of None \<Rightarrow> Inr False
                   | Some lock \<Rightarrow> rbind (jitem r ''rejected_event_id'') (\<lambda>x. Inr (json_eq x old_id))) (\<lambda>ok.
            rbind (demand ok ''rollback must identify the rejected default'') (\<lambda>_.
            Inr (base @ [(''rollback'', JDict r)], rejected @ [jget r ''rejected_event_id''])))) (\<lambda>(lock, rejected).
      Inr (JDict (lock @ (if rejected = [] then [] else [(''rejected_event_ids'', JList rejected)]))))))"

definition update_files ::
  "readers \<Rightarrow> release_tree \<Rightarrow> (string, json) dict \<Rightarrow> string \<Rightarrow> (string, json) dict option \<Rightarrow> release_tree result" where
  "update_files R t event manifest rollback =
     rbind (verify_manifest (sha256_of R) (json_loads R) event manifest) (\<lambda>_.
     rbind (demand (\<not> truthy (jget event ''prerelease'')) ''prerelease is skipped by production policy'') (\<lambda>_.
     rbind (verify_local R t) (\<lambda>previous.
     rbind (runtime_pin R t) (\<lambda>old_pin.
     rbind (pin_version old_pin) (\<lambda>old_version.
     rbind (key_of_json (jget event ''release_version'')) (\<lambda>new_key.
     rbind (version_key old_version) (\<lambda>old_key.
     rbind (demand (old_key < new_key \<or> (rollback \<noteq> None \<and> new_key < old_key))
              ''duplicate, older or conflicting release identity'') (\<lambda>_.
     rbind (package_version R t) (\<lambda>current.
     rbind (key_of_json current) (\<lambda>(major, minor, patch).
     let replacement = version_text (major, minor, patch + 1) in
     rbind (update_lock previous event rollback replacement current old_pin) (\<lambda>lock.
     rbind (replace_project_version (unify_newlines (project_file t)) (text_of current) replacement) (\<lambda>project_text.
     rbind (json_bytes lock) (\<lambda>lock_text.
     Inr (t\<lparr>runtime_source := replace_default (default_text event) (runtime_source t),
            server_dockerfile := replace_commit (py_str (jget event ''hub_commit'')) True
              (replace_all old_pin (image_of event) (server_dockerfile t)),
            project_file := project_text,
            lock_file := Some lock_text,
            manifest_file := Some manifest\<rparr>))))))))))))))"

section \<open>Editing texts line by line\<close>

lemma code_line_feed: "(code c = 10) = (c = CHR 0x0A)"
  using code_inj [of c "CHR 0x0A"] by (simp add: code_def)

lemma code_carriage: "(code c = 13) = (c = CHR 0x0D)"
  using code_inj [of c "CHR 0x0D"] by (simp add: code_def)

lemma replace_from_skip: "length p = n \<Longrightarrow> replace_from old new n (p @ s) = replace_from old new 0 s"
  by (induction p arbitrary: n) auto

lemma prefix_before:
  assumes "c \<notin> set old" and "prefix old (x @ c # y)"
  shows "prefix old x"
proof -
  have "prefix old x \<or> (\<exists>zs. old = x @ zs \<and> prefix zs (c # y))"
    using assms(2) by (simp add: prefix_append)
  then show ?thesis
  proof
    assume "\<exists>zs. old = x @ zs \<and> prefix zs (c # y)"
    then obtain zs where zs: "old = x @ zs" "prefix zs (c # y)" by blast
    then have "zs = []" using assms(1) by (cases zs) auto
    then show ?thesis using zs(1) by simp
  qed
qed

lemma replace_from_parts:
  "c \<notin> set old \<Longrightarrow> n \<le> length x \<Longrightarrow> old \<noteq> [] \<Longrightarrow>
     replace_from old new n (x @ c # y) = replace_from old new n x @ c # replace_from old new 0 y"
proof (induction x arbitrary: n)
  case Nil
  then show ?case by (auto simp: prefix_def Cons_eq_append_conv)
next
  case (Cons d x)
  have eq: "prefix old (d # x @ c # y) = prefix old (d # x)"
    using prefix_before [OF Cons.prems(1), of "d # x" y] prefix_prefix [of old "d # x" "c # y"] by auto
  have "length old - 1 \<le> length x" if "prefix old (d # x)"
    using prefix_length_le [OF that] by simp
  then show ?case using Cons eq by (cases n) auto
qed

lemma replace_all_parts:
  assumes "c \<notin> set old" and "old \<noteq> []"
  shows "replace_all old new (x @ c # y) = replace_all old new x @ c # replace_all old new y"
  using replace_from_parts [OF assms(1), of 0 x] assms(2)  by (simp add: replace_all_def)

lemma replace_all_absent:
  assumes "c \<in> set old" and "c \<notin> set s"
  shows "replace_all old new s = s"
proof -
  have "\<not> prefix old s'" if "set s' \<subseteq> set s" for s'
    using assms that by (auto simp: prefix_def)
  then have "replace_from old new 0 s' = s'" if "set s' \<subseteq> set s" for s'
    using that by (induction s') auto
  then show ?thesis using assms by (auto simp: replace_all_def)
qed

lemma replace_all_self: "old \<noteq> [] \<Longrightarrow> replace_all old new old = new"
proof -
  assume "old \<noteq> []"
  then obtain c s where s: "old = c # s" by (cases old) auto
  then show ?thesis using replace_from_skip [of s "length s" old new "[]"] by (simp add: replace_all_def)
qed

lemma replace_from_chars: "set (replace_from old new n s) \<subseteq> set s \<union> set new"
  by (induction s arbitrary: n) (auto split: if_splits)

text \<open>A line of a file: between line feeds, or at the start of the file.\<close>

definition lines_text :: "string list \<Rightarrow> string" where
  "lines_text ls = concat (map (\<lambda>l. l @ [CHR 0x0A]) ls)"

definition has_line :: "string \<Rightarrow> string \<Rightarrow> bool" where
  "has_line l d = (CHR 0x0A \<notin> set l \<and>
     (\<exists>us w. list_all (\<lambda>u. CHR 0x0A \<notin> set u) us \<and> d = lines_text us @ l @ CHR 0x0A # w))"

lemma lines_text_simps [simp]: "lines_text [] = []" "lines_text (u # us) = u @ CHR 0x0A # lines_text us"
  by (simp_all add: lines_text_def)

lemma has_line_sublist: "has_line l d \<Longrightarrow> sublist (l @ [CHR 0x0A]) d"
proof -
  assume "has_line l d"
  then obtain us w where "d = lines_text us @ (l @ [CHR 0x0A]) @ w" by (auto simp: has_line_def)
  then show ?thesis unfolding sublist_def by blast
qed

lemma has_line_replace_all:
  assumes "has_line l d" and "CHR 0x0A \<notin> set old" "CHR 0x0A \<notin> set new" "old \<noteq> []"
  shows "has_line (replace_all old new l) (replace_all old new d)"
proof -
  obtain us w where d: "list_all (\<lambda>u. CHR 0x0A \<notin> set u) us" "d = lines_text us @ l @ CHR 0x0A # w" "CHR 0x0A \<notin> set l"
    using assms(1) by (auto simp: has_line_def)
  have one: "CHR 0x0A \<notin> set (replace_all old new u)" if "CHR 0x0A \<notin> set u" for u
    using replace_from_chars [of old new 0 u] that assms(3,4) by (auto simp: replace_all_def)
  have "replace_all old new (lines_text us @ l @ CHR 0x0A # w) =
      lines_text (map (replace_all old new) us) @ replace_all old new l @ CHR 0x0A # replace_all old new w"
    by (induction us) (simp_all add: replace_all_parts [OF assms(2,4)])
  moreover have "list_all (\<lambda>u. CHR 0x0A \<notin> set u) (map (replace_all old new) us)"
    using d(1) one by (simp add: list_all_iff)
  ultimately show ?thesis using one [OF d(3)] unfolding has_line_def d(2) by blast
qed

text \<open>The substitution of the commit, seen on lines.\<close>

lemma replace_commit_inside: "CHR 0x0A \<notin> set u \<Longrightarrow>
    replace_commit new False (u @ CHR 0x0A # w) = u @ CHR 0x0A # replace_commit new True w"
  by (induction u) (auto simp: code_line_feed)

lemma replace_commit_line:
  assumes u: "CHR 0x0A \<notin> set u"
  shows "replace_commit new True (u @ CHR 0x0A # w) =
     (if prefix commit_arg u \<and> u \<noteq> commit_arg then commit_arg @ new @ CHR 0x0A # w
      else u @ CHR 0x0A # replace_commit new True w)"
proof -
  have lf: "CHR 0x0A \<notin> set commit_arg" "commit_arg \<noteq> []" by (simp_all add: commit_arg_def)
  show ?thesis
  proof (cases "prefix commit_arg u")
    case True
    then obtain x where x: "u = commit_arg @ x" by (auto simp: prefix_def)
    have whole: "u @ CHR 0x0A # w = commit_arg @ x @ CHR 0x0A # w" using x by simp
    obtain c s where c: "u @ CHR 0x0A # w = c # s" by (cases "u @ CHR 0x0A # w") auto
    have step: "replace_commit new True (u @ CHR 0x0A # w) =
        (let r = x @ CHR 0x0A # w in
         if r \<noteq> [] \<and> code (hd r) \<noteq> 10 then commit_arg @ new @ dropWhile (\<lambda>x. code x \<noteq> 10) r
         else c # replace_commit new (code c = 10) s)"
      unfolding c replace_commit.simps unfolding c [symmetric] whole by (simp add: Let_def)
    show ?thesis
    proof (cases x)
      case Nil
      have "u \<noteq> []" using x lf(2) Nil by simp
      then obtain s' where s': "u = c # s'" "s = s' @ CHR 0x0A # w"
        using c by (cases u) auto
      then have "code c \<noteq> 10" "CHR 0x0A \<notin> set s'" using u by (auto simp: code_line_feed)
      then show ?thesis
        using step Nil x s' replace_commit_inside [of s' new w] by (simp add: code_line_feed)
    next
      case (Cons d y)
      have x_plain: "CHR 0x0A \<notin> set x" using u x by simp
      then have "dropWhile (\<lambda>x. code x \<noteq> 10) (x @ CHR 0x0A # w) = CHR 0x0A # w"
        by (subst dropWhile_append2) (auto simp: code_line_feed)
      moreover have "code d \<noteq> 10" using x_plain Cons by (auto simp: code_line_feed)
      ultimately show ?thesis using step Cons x True by (simp add: Let_def)
    qed
  next
    case False
    have no: "\<not> prefix commit_arg (u @ CHR 0x0A # w)"
      using False prefix_before [OF lf(1)] by blast
    show ?thesis
    proof (cases u)
      case Nil
      then show ?thesis using no False by (simp add: code_line_feed)
    next
      case (Cons c s)
      then have "code c \<noteq> 10" "CHR 0x0A \<notin> set s" using u by (auto simp: code_line_feed)
      then show ?thesis using no False Cons replace_commit_inside [of s new w] by simp
    qed
  qed
qed

lemma replace_commit_keeps:
  assumes "has_line l d" and "\<not> prefix commit_arg l" and "CHR 0x0A \<notin> set new"
  shows "has_line l (replace_commit new True d)"
proof -
  obtain us w where d: "list_all (\<lambda>u. CHR 0x0A \<notin> set u) us" "d = lines_text us @ l @ CHR 0x0A # w" "CHR 0x0A \<notin> set l"
    using assms(1) by (auto simp: has_line_def)
  have new: "CHR 0x0A \<notin> set (commit_arg @ new)" using assms(3) by (simp add: commit_arg_def)
  have "\<exists>vs w'. list_all (\<lambda>u. CHR 0x0A \<notin> set u) vs \<and>
      replace_commit new True (lines_text us @ l @ CHR 0x0A # w) = lines_text vs @ l @ CHR 0x0A # w'"
    using d(1)
  proof (induction us)
    case Nil
    then show ?case
      using replace_commit_line [OF d(3), of new w] assms(2)
      by (intro exI [of _ "[]"] exI [of _ "replace_commit new True w"]) auto
  next
    case (Cons u us)
    then obtain vs w' where vs: "list_all (\<lambda>u. CHR 0x0A \<notin> set u) vs"
        "replace_commit new True (lines_text us @ l @ CHR 0x0A # w) = lines_text vs @ l @ CHR 0x0A # w'" by auto
    have u: "CHR 0x0A \<notin> set u" using Cons.prems by simp
    show ?case
    proof (cases "prefix commit_arg u \<and> u \<noteq> commit_arg")
      case True
      then show ?thesis
        using replace_commit_line [OF u, of new "lines_text us @ l @ CHR 0x0A # w"] Cons.prems new
        by (intro exI [of _ "(commit_arg @ new) # us"] exI [of _ w]) simp
    next
      case False
      then show ?thesis
        using replace_commit_line [OF u, of new "lines_text us @ l @ CHR 0x0A # w"] vs u
        by (intro exI [of _ "u # vs"] exI [of _ w']) auto
    qed
  qed
  then show ?thesis unfolding has_line_def d(2) using d(3) by blast
qed

lemma replace_commit_writes:
  assumes "has_line (commit_arg @ x) d" and "x \<noteq> []" and "CHR 0x0A \<notin> set new"
  shows "has_line (commit_arg @ new) (replace_commit new True d)"
proof -
  obtain us w where d: "list_all (\<lambda>u. CHR 0x0A \<notin> set u) us" "d = lines_text us @ (commit_arg @ x) @ CHR 0x0A # w"
      "CHR 0x0A \<notin> set (commit_arg @ x)"
    using assms(1) by (auto simp: has_line_def)
  have new: "CHR 0x0A \<notin> set (commit_arg @ new)" using assms(3) by (simp add: commit_arg_def)
  have "\<exists>vs w'. list_all (\<lambda>u. CHR 0x0A \<notin> set u) vs \<and>
      replace_commit new True (lines_text us @ (commit_arg @ x) @ CHR 0x0A # w) = lines_text vs @ (commit_arg @ new) @ CHR 0x0A # w'"
    using d(1)
  proof (induction us)
    case Nil
    then show ?case
      using replace_commit_line [OF d(3), of new w] assms(2) by (intro exI [of _ "[]"] exI [of _ w]) simp
  next
    case (Cons u us)
    then obtain vs w' where vs: "list_all (\<lambda>u. CHR 0x0A \<notin> set u) vs"
        "replace_commit new True (lines_text us @ (commit_arg @ x) @ CHR 0x0A # w) = lines_text vs @ (commit_arg @ new) @ CHR 0x0A # w'"
      by auto
    have u: "CHR 0x0A \<notin> set u" using Cons.prems by simp
    show ?case
    proof (cases "prefix commit_arg u \<and> u \<noteq> commit_arg")
      case True
      then show ?thesis
        using replace_commit_line [OF u, of new "lines_text us @ (commit_arg @ x) @ CHR 0x0A # w"]
        by (intro exI [of _ "[]"] exI [of _ "lines_text us @ (commit_arg @ x) @ CHR 0x0A # w"]) simp
    next
      case False
      then show ?thesis
        using replace_commit_line [OF u, of new "lines_text us @ (commit_arg @ x) @ CHR 0x0A # w"] vs u
        by (intro exI [of _ "u # vs"] exI [of _ w']) auto
    qed
  qed
  then show ?thesis unfolding has_line_def d(2) using new by blast
qed

lemma replace_commit_chars: "set (replace_commit new start s) \<subseteq> set s \<union> set commit_arg \<union> set new"
proof (induction new start s rule: replace_commit.induct)
  case (2 new start c s)
  have "set (dropWhile P r) \<subseteq> set r" for P :: "char \<Rightarrow> bool" and r by (auto dest: set_dropWhileD)
  moreover have "set (drop n r) \<subseteq> set r" for n and r :: string by (rule set_drop_subset)
  ultimately have "set (dropWhile (\<lambda>x. code x \<noteq> 10) (drop (length commit_arg) (c # s))) \<subseteq> set (c # s)"
    by (meson subset_trans)
  then show ?case using 2 by (auto simp: Let_def simp del: drop_Cons')
qed simp

lemma unify_plain: "CHR 0x0D \<notin> set s \<Longrightarrow> unify_newlines s = s"
  by (induction s) (auto simp: code_carriage)

section \<open>Sorting the keys of an event\<close>

definition sorted_fields :: "(string, json) dict \<Rightarrow> (string, json) dict" where
  "sorted_fields d = sort_key fst (map (\<lambda>(k, v). (k, sorted_keys v)) d)"

lemma map_of_first: "map_of d k = (case filter (\<lambda>p. fst p = k) d of [] \<Rightarrow> None | p # _ \<Rightarrow> Some (snd p))"
  by (induction d) auto

lemma map_of_sort: "map_of (sort_key fst d) k = map_of d k"
  unfolding map_of_first by (simp add: sort_key_stable)

lemma map_of_sorted: "map_of (sorted_fields d) k = map_option sorted_keys (map_of d k)"
proof -
  have "map_of (map (\<lambda>(k, v). (k, sorted_keys v)) d) k = map_option sorted_keys (map_of d k)"
    by (induction d) auto
  then show ?thesis by (simp add: sorted_fields_def map_of_sort)
qed

lemma sorted_dict: "sorted_keys (JDict d) = JDict (sorted_fields d)"
  by (simp add: sorted_fields_def)

lemma keys_sorted [simp]: "fst ` set (sorted_fields d) = fst ` set d" "length (sorted_fields d) = length d"
  by (force simp: sorted_fields_def)+

lemma sorted_atoms [simp]:
  "(sorted_keys v = JStr s) = (v = JStr s)" "(sorted_keys v = JNull) = (v = JNull)"
  "(sorted_keys v = JBool b) = (v = JBool b)" "(sorted_keys v = JInt n) = (v = JInt n)"
  by (cases v, auto)+

lemma jget_sorted [simp]: "jget (sorted_fields d) k = sorted_keys (jget d k)"
  by (auto simp: jget_def map_of_sorted split: option.splits)

lemma readings_sorted [simp]:
  "fits r (sorted_keys v) = fits r v" "has_fields ks (sorted_keys v) = has_fields ks v"
  "positive_int (sorted_keys v) = positive_int v" "text_of (sorted_keys v) = text_of v"
  "fields_of (sorted_keys v) = sorted_fields (fields_of v)" "truthy (sorted_keys v) = truthy v"
  using keys_sorted [of "fields_of v"]
  by (cases v; auto simp: sorted_dict simp del: sorted_keys.simps(2); simp add: sorted_fields_def)+

lemma head_sorted: "check_head (sorted_fields d) = check_head d"
  by (simp add: check_head_def Let_def)

lemma image_sorted: "check_image (sorted_keys v) = check_image v"
  by (simp add: check_image_def Let_def)

lemma facts_sorted: "check_facts version (sorted_keys v) = check_facts version v"
  by (simp add: check_facts_def Let_def)

lemma pointer_sorted: "check_pointer (sorted_fields d) = check_pointer d"
  by (simp add: check_pointer_def Let_def)

lemma normalized_is_text: "normalized_package v = Inr s \<Longrightarrow> \<exists>t. v = JStr t"
  by (cases v) (auto simp: normalized_package_def)

lemma normalized_sorted: "normalized_package (sorted_keys v) = normalized_package v"
  by (cases v) (simp_all add: normalized_package_def)

lemma component_sorted:
  assumes "check_component version name c = Inr u"
  shows "check_component version name (sorted_keys c) = Inr ()"
proof -
  let ?c = "fields_of c"
  obtain us where us: "rmap (\<lambda>k. if k \<in> set (dkeys ?c)
        then rbind (normalized_package (jget ?c k)) (\<lambda>v. demand (v = version) ''contradictory version'')
        else Inr ()) [''pypi_version'', ''package_version''] = Inr us"
    using assms unfolding check_component_def Let_def rbind_returns by blast
  have text_version: "\<exists>t. jget ?c k = JStr t" if "k \<in> fst ` set ?c" "k = ''pypi_version'' \<or> k = ''package_version''" for k
  proof -
    have "\<exists>y. normalized_package (jget ?c k) = Inr y"
      using that(2) us that(1) by (elim disjE) (simp_all add: rbind_returns)
    then show ?thesis using normalized_is_text by blast
  qed
  have given: "jget_default (sorted_fields ?c) ''package_version'' (JStr version) = jget_default ?c ''package_version'' (JStr version)"
  proof (cases "map_of ?c ''package_version''")
    case (Some v)
    then have "''package_version'' \<in> fst ` set ?c" by (metis map_of_eq_None_iff option.distinct(1))
    from text_version [OF this] Some show ?thesis by (auto simp add: jget_default_def jget_def map_of_sorted)
  qed (simp add: jget_default_def map_of_sorted)
  have "check_component version name (sorted_keys c) = check_component version name c"
    unfolding check_component_def Let_def readings_sorted list.set_map keys_sorted jget_sorted given normalized_sorted sorted_atoms
    by (rule refl)
  then show ?thesis using assms by simp
qed

lemma producer_sorted:
  assumes "check_producer version versions name = Inr u"
  shows "check_producer version (sorted_fields versions) name = Inr ()"
proof (cases "name = ''hpo''")
  case True
  then have "fullmatch semver_rx version" "fullmatch semver_rx hpo_cutoff"
    using assms by (auto simp: check_producer_def Let_def version_order_returns rbind_returns)
  then have orders: "version_order version = Inr (rank_of version)" "version_order hpo_cutoff = Inr (rank_of hpo_cutoff)"
    by (simp_all only: version_order_returns simp_thms)
  show ?thesis
  proof (cases "rank_of version < rank_of hpo_cutoff")
    case early: True
    then show ?thesis using assms True orders by (simp add: check_producer_def)
  next
    case False
    then have "jget versions ''hpo'' \<noteq> JNull" "check_component version ''hpo'' (jget versions ''hpo'') = Inr ()"
      using assms True orders by (simp_all add: check_producer_def rbind_returns Let_def)
    then show ?thesis using False True orders component_sorted by (simp add: check_producer_def demand_True)
  qed
next
  case False
  then show ?thesis using assms component_sorted by (simp add: check_producer_def)
qed

lemma validate_sorted:
  assumes "validate_event event = Inr u"
  shows "validate_event (sorted_fields event) = Inr ()"
proof -
  let ?v = "text_of (jget event ''release_version'')" and ?p = "fields_of (jget event ''versions'')"
  have parts: "check_head event = Inr ()" "check_image (jget event ''image'') = Inr ()"
      "check_facts ?v (jget event ''facts'') = Inr ()" "check_pointer event = Inr ()"
      "\<forall>name \<in> {''engine'', ''codegen'', ''hpo''}. check_producer ?v ?p name = Inr ()"
    using assms by (auto simp: validate_event_def result_simps Let_def)
  have "\<forall>name \<in> {''engine'', ''codegen'', ''hpo''}. check_producer ?v (sorted_fields ?p) name = Inr ()"
    using parts(5) producer_sorted by blast
  then show ?thesis
    using parts(1-4) by (simp add: validate_event_def head_sorted image_sorted facts_sorted pointer_sorted Let_def)
qed

lemma as_number_sorted: "as_number (sorted_keys v) = as_number v"
  by (cases v) auto

lemma json_eq_sorted: "json_eq v (sorted_keys w) = json_eq v w"
proof (induction v arbitrary: w rule: unique_keys.induct)
  case (1 xs)
  show ?case
  proof (cases w)
    case (JList ys)
    have "(\<forall>(x, y) \<in> set (zip xs (map sorted_keys ys)). json_eq x y) = (\<forall>(x, y) \<in> set (zip xs ys). json_eq x y)"
      using "1.IH" by (fastforce simp: zip_map2 dest: set_zip_leftD)
    then show ?thesis using JList by (simp add: json_eq.simps [of "JList _"])
  qed (simp_all add: json_eq.simps [of "JList _"])
next
  case (2 d)
  show ?case
  proof (cases w)
    case (JDict e)
    have "(case map_of (sorted_fields e) k of None \<Rightarrow> False | Some y \<Rightarrow> json_eq x y) =
        (case map_of e k of None \<Rightarrow> False | Some y \<Rightarrow> json_eq x y)" if "(k, x) \<in> set d" for k x
      using "2.IH" [OF that] by (auto simp: map_of_sorted split: option.splits)
    then have "(\<forall>(k, x) \<in> set d. case map_of (sorted_fields e) k of None \<Rightarrow> False | Some y \<Rightarrow> json_eq x y) =
        (\<forall>(k, x) \<in> set d. case map_of e k of None \<Rightarrow> False | Some y \<Rightarrow> json_eq x y)"
      by blast
    then show ?thesis using JDict by (simp add: json_eq.simps [of "JDict _"] sorted_dict del: sorted_keys.simps(2))
  qed (simp_all add: json_eq.simps [of "JDict _"])
qed (subst (1 2) json_eq.simps, simp add: as_number_sorted)+

section \<open>What a verified release looks like\<close>

lemma semver_chars: "fullmatch semver_rx v \<Longrightarrow> c \<in> set v \<Longrightarrow> tag_char c \<or> c = CHR ''.''"
proof -
  assume "fullmatch semver_rx v" and c: "c \<in> set v"
  then obtain a b d ps where v: "\<forall>p \<in> set ps. id_text p" "v = version_from a b d ps"
    using semver_language by blast
  have digits: "tag_char x" if "x \<in> set (nat_text n)" for x n
    using that nat_text_digits tag_char_digit by blast
  have tags: "tag_char x" if "p \<in> set ps" "x \<in> set p" for p x
    using v(1) that by (auto simp: id_text_def numeral_text_def list_all_iff tag_char_digit)
  have "x \<in> set (dotted ps) \<Longrightarrow> x = CHR ''.'' \<or> (\<exists>p \<in> set ps. x \<in> set p)" for x
    by (cases ps) (auto simp: dotted_def split: if_splits)
  then have "x \<in> set (dotted ps) \<Longrightarrow> tag_char x \<or> x = CHR ''.''" for x using tags by blast
  moreover have "tag_char CHR ''-''" by (simp add: tag_char_def code_def)
  ultimately show ?thesis
    using c digits unfolding v(2) version_from_def by (auto split: if_splits)
qed

lemma hex_chars: "fullmatch hex64_rx h \<or> fullmatch hex40_rx h \<Longrightarrow> c \<in> set h \<Longrightarrow> tag_char c"
  unfolding fullmatch_iff hex64_rx_def hex40_rx_def lang_times_class
  by (auto simp: tag_char_def)

lemma tag_char_plain: "tag_char c \<or> c = CHR ''.'' \<Longrightarrow> c \<notin> {CHR ''='', CHR 0x0A, CHR 0x0D}"
  by (auto simp: tag_char_def code_def)

definition pin_text :: "string \<Rightarrow> bool" where
  "pin_text p = (set p \<inter> {CHR ''='', CHR 0x0A, CHR 0x0D} = {} \<and> CHR '':'' \<in> set p)"

lemma digest_language: "fullmatch digest_rx d = (\<exists>h. fullmatch hex64_rx h \<and> d = ''sha256:'' @ h)"
  unfolding fullmatch_iff digest_rx_def rx_lang.simps lang_str by blast

lemma validated_image:
  assumes "validate_event event = Inr u"
  obtains r v h c where "image_of event = r @ '':'' @ v @ ''@sha256:'' @ h" "r \<in> {image_old, image_new}"
    "fullmatch semver_rx v" "fullmatch hex64_rx h" "jget event ''hub_commit'' = JStr c" "fullmatch hex40_rx c"
    "jget event ''release_version'' = JStr v" "image_of (sorted_fields event) = image_of event"
proof -
  obtain v where v: "jget event ''release_version'' = JStr v" "fullmatch semver_rx v"
      "check_image (jget event ''image'') = Inr ()" using validated_parts [OF assms] by metis
  have "check_head event = Inr ()" using assms by (auto simp: validate_event_def result_simps)
  then obtain c where c: "jget event ''hub_commit'' = JStr c" "fullmatch hex40_rx c"
    using head_checked unfolding fits_str by blast
  obtain i where i: "jget event ''image'' = JDict i" "fits digest_rx (jget i ''digest'')"
      "jget i ''repository'' \<in> {JStr image_old, JStr image_new}"
    using v(3) by (auto simp: check_image_def has_fields_dict Let_def split: if_splits)
  obtain h where h: "jget i ''digest'' = JStr (''sha256:'' @ h)" "fullmatch hex64_rx h"
    using i(2) unfolding fits_str digest_language by blast
  obtain r where r: "jget i ''repository'' = JStr r" "r \<in> {image_old, image_new}" using i(3) by blast
  have "image_of event = r @ '':'' @ v @ ''@sha256:'' @ h"
    by (simp add: image_of_def i(1) h(1) r(1) v(1) py_str_def)
  moreover have "image_of (sorted_fields event) = image_of event"
    unfolding image_of_def Let_def jget_sorted readings_sorted i(1) fields_of.simps h(1) r(1) v(1) by simp
  ultimately show thesis using that r(2) v(2) h(2) c v(1) by blast
qed

lemma pin_text_image: "validate_event event = Inr u \<Longrightarrow> pin_text (image_of event)"
proof -
  assume "validate_event event = Inr u"
  from validated_image [OF this] obtain r v h where i: "image_of event = r @ '':'' @ v @ ''@sha256:'' @ h"
      "r \<in> {image_old, image_new}" "fullmatch semver_rx v" "fullmatch hex64_rx h" by metis
  have "c \<notin> {CHR ''='', CHR 0x0A, CHR 0x0D}" if "c \<in> set v \<union> set h" for c
    using that semver_chars [OF i(3)] hex_chars [of h] i(4) tag_char_plain by blast
  moreover have "set r \<inter> {CHR ''='', CHR 0x0A, CHR 0x0D} = {}"
    using i(2) by (auto simp: image_old_def image_new_def)
  ultimately show ?thesis by (auto simp: i(1) pin_text_def)
qed

lemma verify_sorted:
  assumes "verify_manifest sha loads event data = Inr u"
  shows "verify_manifest sha loads (sorted_fields event) data = Inr ()"
proof -
  have valid: "validate_event event = Inr ()" using assms by (auto simp: verify_manifest_def result_simps)
  have "manifest_digest (sorted_fields event) = manifest_digest event" by (simp add: manifest_digest_def)
  then have "verify_manifest sha loads (sorted_fields event) data = verify_manifest sha loads event data"
    unfolding verify_manifest_def valid validate_sorted [OF valid] jget_sorted json_eq_sorted by simp
  then show ?thesis using assms by simp
qed

lemma rejected_sorted: "rejected_ids (sorted_keys v) = rejected_ids v"
  by (cases v) (auto simp: list_all_iff)

lemma rejected_returns: "(rejected_ids v = Inr ids) = (\<exists>xs. v = JList xs \<and> list_all (fits digest_rx) xs \<and> ids = map text_of xs)"
  by (cases v) auto

text \<open>A verified checkout: its pin, and the lock it may have.\<close>

lemma verify_local_pin:
  assumes "verify_local R t = Inr previous" and "runtime_pin R t = Inr pin"
  shows "pin_text pin"
proof -
  have "previous = None \<and> pin = baseline_pin \<or> (\<exists>event u. validate_event event = Inr u \<and> pin = image_of event)"
    using assms by (auto simp: verify_local_def verify_lock_def verify_manifest_def result_simps Let_def split: option.splits)
  moreover have "pin_text baseline_pin" by (simp add: pin_text_def baseline_pin_def image_old_def)
  ultimately show ?thesis using pin_text_image by blast
qed

lemma verify_local_lock:
  assumes "verify_local R t = Inr (Some d)"
  obtains event xs where "jget d ''event'' = JDict event" "jget event ''event_id'' = JStr (''sha256:'' @ manifest_digest event)"
    "fullmatch hex64_rx (manifest_digest event)" "jget_default d ''rejected_event_ids'' (JList []) = JList xs"
    "list_all (fits digest_rx) xs"
proof -
  obtain pin docker where "verify_lock R t pin docker d = Inr ()"
    using assms by (auto simp: verify_local_def result_simps Let_def split: option.splits)
  then obtain ev event m ids where l: "jitem d ''event'' = Inr ev" "as_event ev = Inr event"
      "verify_manifest (sha256_of R) (json_loads R) event m = Inr ()"
      "rejected_ids (jget_default d ''rejected_event_ids'' (JList [])) = Inr ids"
    unfolding verify_lock_def rbind_returns by auto
  have ev: "jget d ''event'' = JDict event"
    using l(1,2) by (cases ev) (auto simp: jitem_def jget_def split: option.splits if_splits)
  have "check_pointer event = Inr ()"
    using l(3) by (auto simp: verify_manifest_def validate_event_def result_simps Let_def)
  then have "jget event ''event_id'' = JStr (''sha256:'' @ manifest_digest event)" "fullmatch hex64_rx (manifest_digest event)"
    by (auto simp: check_pointer_def Let_def manifest_digest_def fits_str split: if_splits)
  then show thesis using that ev l(4) unfolding rejected_returns by blast
qed

section \<open>An update verifies\<close>

lemma replace_all_nonempty: "s \<noteq> [] \<Longrightarrow> new \<noteq> [] \<Longrightarrow> replace_all old new s \<noteq> []"
  by (cases s) (auto simp: replace_all_def)

lemma argument_line:
  assumes "pin_text old" and "CHR '':'' \<notin> set name"
  shows "replace_all old new (name @ CHR ''='' # s) = name @ CHR ''='' # replace_all old new s"
proof -
  have "CHR ''='' \<notin> set old" "old \<noteq> []" "CHR '':'' \<in> set old" using assms(1) by (auto simp: pin_text_def)
  then show ?thesis using assms(2) by (simp add: replace_all_parts replace_all_absent)
qed

text \<open>The Dockerfile after the two substitutions names the new image and the new commit.\<close>

lemma dockerfile_updated:
  assumes "has_line (''ARG PINEFORGE_RELEASE_IMAGE='' @ old) d" and "has_line (commit_arg @ x) d" and "x \<noteq> []"
    and "pin_text old" "pin_text new" and "CHR 0x0D \<notin> set d" and "CHR 0x0A \<notin> set c" "CHR 0x0D \<notin> set c"
  defines "d' \<equiv> replace_commit c True (replace_all old new d)"
  shows "sublist (''ARG PINEFORGE_RELEASE_IMAGE='' @ new @ [CHR 0x0A]) (unify_newlines d')"
    and "sublist (commit_arg @ c @ [CHR 0x0A]) (unify_newlines d')"
proof -
  have lf: "CHR 0x0A \<notin> set old" "CHR 0x0A \<notin> set new" "old \<noteq> []" "new \<noteq> []"
    using assms(4,5) by (auto simp: pin_text_def)
  have "has_line (replace_all old new (''ARG PINEFORGE_RELEASE_IMAGE'' @ CHR ''='' # old)) (replace_all old new d)"
    using has_line_replace_all [OF assms(1) lf(1-3)] by simp
  then have "has_line (''ARG PINEFORGE_RELEASE_IMAGE'' @ CHR ''='' # new) (replace_all old new d)"
    using argument_line [OF assms(4), of "''ARG PINEFORGE_RELEASE_IMAGE''" new old] replace_all_self [OF lf(3), of new] by simp
  then have first: "has_line (''ARG PINEFORGE_RELEASE_IMAGE'' @ CHR ''='' # new) d'"
    unfolding d'_def by (rule replace_commit_keeps) (use assms(7) in \<open>simp_all add: commit_arg_def\<close>)
  have "has_line (replace_all old new (''ARG PINEFORGE_HUB_COMMIT'' @ CHR ''='' # x)) (replace_all old new d)"
    using has_line_replace_all [OF assms(2) lf(1-3)] by (simp add: commit_arg_def)
  then have "has_line (commit_arg @ replace_all old new x) (replace_all old new d)"
    using argument_line [OF assms(4), of "''ARG PINEFORGE_HUB_COMMIT''" new x] by (simp add: commit_arg_def)
  then have second: "has_line (commit_arg @ c) d'"
    unfolding d'_def using replace_commit_writes replace_all_nonempty [OF assms(3) lf(4)] assms(7) by blast
  have "CHR 0x0D \<notin> set (replace_all old new d)"
    using replace_from_chars [of old new 0 d] assms(5,6) lf(3) by (auto simp: replace_all_def pin_text_def)
  then have "CHR 0x0D \<notin> set d'"
    unfolding d'_def using replace_commit_chars [of c True "replace_all old new d"] assms(8) by (auto simp: commit_arg_def)
  then have "unify_newlines d' = d'" by (rule unify_plain)
  then show "sublist (''ARG PINEFORGE_RELEASE_IMAGE='' @ new @ [CHR 0x0A]) (unify_newlines d')"
      "sublist (commit_arg @ c @ [CHR 0x0A]) (unify_newlines d')"
    using has_line_sublist [OF first] has_line_sublist [OF second] by simp_all
qed

text \<open>What a lock made by the update contains.\<close>

lemma update_lock_parts:
  assumes made: "update_lock previous event rollback replacement current pin = Inr lock"
    and previous: "verify_local R t = Inr previous" and valid: "validate_event event = Inr u"
    and fresh: "\<And>d. previous = Some d \<Longrightarrow> rollback \<noteq> None \<Longrightarrow> jget event ''event_id'' \<noteq> jget (fields_of (jget d ''event'')) ''event_id''"
  obtains d where "lock = JDict d" "jget d ''event'' = JDict event" "jget d ''package_version'' = JStr replacement"
    "\<exists>ids. rejected_ids (jget_default d ''rejected_event_ids'' (JList [])) = Inr ids \<and>
       text_of (jget event ''event_id'') \<notin> set ids"
proof -
  note result = that
  obtain i where i: "jget event ''event_id'' = JStr i"
    using valid by (auto simp: validate_event_def check_pointer_def result_simps Let_def split: if_splits)
  define rejected where "rejected = (case previous of None \<Rightarrow> []
            | Some lock \<Rightarrow> (case jget lock ''rejected_event_ids'' of JList xs \<Rightarrow> xs | _ \<Rightarrow> []))"
  define old_id where "old_id = (case previous of None \<Rightarrow> JNull | Some lock \<Rightarrow> jget (fields_of (jget lock ''event'')) ''event_id'')"
  have old: "list_all (fits digest_rx) rejected"
  proof (cases previous)
    case (Some d)
    then obtain xs where "jget_default d ''rejected_event_ids'' (JList []) = JList xs" "list_all (fits digest_rx) xs"
      using verify_local_lock previous by metis
    then show ?thesis
      using Some by (auto simp: rejected_def jget_default_def jget_def split: option.splits json.splits)
  qed (simp add: rejected_def)
  have not_old: "jget event ''event_id'' \<notin> set rejected"
    using made by (auto simp: update_lock_def Let_def result_simps rejected_def)
  have finish: thesis
    if d: "lock = JDict (base @ extra @ (if rej = [] then [] else [(''rejected_event_ids'', JList rej)]))"
      "base = [(''event'', JDict event), (''package_version'', JStr replacement), (''previous'', x)]"
      "dkeys extra = [] \<or> dkeys extra = [''rollback'']" "list_all (fits digest_rx) rej" "JStr i \<notin> set rej" for base extra rej x
  proof (rule result)
    have "i \<notin> set (map text_of rej)"
      using d(4,5) by (auto simp: list_all_iff fits_str)
    moreover have "map_of extra ''rejected_event_ids'' = None"
      using d(3) by (auto simp: map_of_eq_None_iff)
    ultimately show "\<exists>ids. rejected_ids (jget_default (base @ extra @ (if rej = [] then [] else [(''rejected_event_ids'', JList rej)]))
        ''rejected_event_ids'' (JList [])) = Inr ids \<and> text_of (jget event ''event_id'') \<notin> set ids"
      using d(2,4) i by (auto simp: jget_default_def map_add_def split: option.splits)
  qed (use d in \<open>auto simp: jget_def\<close>)
  show thesis
  proof (cases "rollback = None \<or> rollback = Some []")
    case True
    then have "lock = JDict ([(''event'', JDict event), (''package_version'', JStr replacement),
          (''previous'', JDict [(''package_version'', current), (''image'', JStr pin), (''event_id'', old_id)])] @ [] @
        (if rejected = [] then [] else [(''rejected_event_ids'', JList rejected)]))"
      using made by (auto simp: update_lock_def Let_def result_simps rejected_def old_id_def)
    then show thesis by (rule finish [OF _ refl]) (use old not_old i in auto)
  next
    case False
    then obtain r where r: "rollback = Some r" "r \<noteq> []" by auto
    obtain p ps where ps: "r = p # ps" using r(2) by (cases r) auto
    obtain d y where y: "previous = Some d" "jitem r ''rejected_event_id'' = Inr y" "json_eq y old_id"
        "lock = JDict ([(''event'', JDict event), (''package_version'', JStr replacement),
          (''previous'', JDict [(''package_version'', current), (''image'', JStr pin), (''event_id'', old_id)])] @
          [(''rollback'', JDict r)] @
          (if rejected @ [jget r ''rejected_event_id''] = [] then []
           else [(''rejected_event_ids'', JList (rejected @ [jget r ''rejected_event_id'']))]))"
      using made unfolding r(1) ps
      by (auto simp: update_lock_def Let_def result_simps rejected_def old_id_def split: option.splits)
    obtain e where e: "jget d ''event'' = JDict e" "jget e ''event_id'' = JStr (''sha256:'' @ manifest_digest e)"
        "fullmatch hex64_rx (manifest_digest e)"
      using verify_local_lock previous y(1) by metis
    have "old_id = JStr (''sha256:'' @ manifest_digest e)" by (simp add: old_id_def y(1) e(1,2))
    then have id: "jget r ''rejected_event_id'' = JStr (''sha256:'' @ manifest_digest e)"
      using y(2,3) by (auto simp: jitem_def jget_def split: option.splits)
    have "fits digest_rx (jget r ''rejected_event_id'')"
      unfolding id fits.simps digest_language using e(3) by blast
    moreover have "JStr i \<noteq> jget r ''rejected_event_id''"
      using fresh [OF y(1)] r(1) e(1,2) i id by simp
    ultimately show thesis by (intro finish [OF y(4) refl]) (use old not_old i in auto)
  qed
qed

lemma unique_sorted: "unique_keys v \<Longrightarrow> unique_keys (sorted_keys v)"
proof (induction v rule: unique_keys.induct)
  case (2 d)
  have "distinct (dkeys (sorted_fields d))"
    using "2.prems" keys_sorted [of d] by (intro card_distinct) (auto simp: distinct_card dest: distinct_card)
  moreover have "unique_keys v" if "(k, v) \<in> set (sorted_fields d)" for k v
    using that "2.IH" "2.prems" by (auto simp: sorted_fields_def list_all_iff)
  ultimately show ?case by (auto simp: sorted_dict list_all_iff simp del: sorted_keys.simps(2))
qed (auto simp: list_all_iff)

lemma update_parts:
  assumes "update_files R t event manifest rollback = Inr t'"
    and "verify_local R t = Inr previous" and "runtime_pin R t = Inr pin"
    and "package_version R t = Inr (JStr current)" and "version_key current = Inr (major, minor, patch)"
    and "update_lock previous event rollback (version_text (major, minor, patch + 1)) (JStr current) pin = Inr lock"
  shows "verify_manifest (sha256_of R) (json_loads R) event manifest = Inr ()" and "\<not> truthy (jget event ''prerelease'')"
    and "json_bytes lock = Inr (the (lock_file t'))" and "lock_file t' \<noteq> None" and "manifest_file t' = Some manifest"
    and "server_dockerfile t' = replace_commit (py_str (jget event ''hub_commit'')) True
              (replace_all pin (image_of event) (server_dockerfile t))"
  using assms by (auto simp: update_files_def key_of_json_def Let_def rbind_returns)



section \<open>An update of the checkout\<close>

definition sample_source :: string where
  "sample_source = ''DEFAULT_RELEASE_IMAGE = ('' @ [CHR 0x0A] @ '')''"

definition sample_project :: string where
  "sample_project = ''[project]'' @ [CHR 0x0A] @ ''version='' @ [CHR 0x22] @ ''2.0.0'' @ [CHR 0x22, CHR 0x0A]"

definition sample_docker :: string where
  "sample_docker = lines_text [''ARG PINEFORGE_RELEASE_IMAGE='' @ baseline_pin, commit_arg @ ''x'']"

definition sample_lock :: "(string, json) dict" where
  "sample_lock =
     [(''event'', JDict sample_event), (''package_version'', JStr ''2.0.1''),
      (''previous'', JDict [(''package_version'', JStr ''2.0.0''), (''image'', JStr baseline_pin), (''event_id'', JNull)])]"

definition sample_readers :: readers where
  "sample_readers =
     \<lparr>sha256_of = \<lambda>_. sample_hash,
      json_loads = \<lambda>s. Some (if s = [] then JDict sample_fields else sorted_keys (JDict sample_lock)),
      toml_loads = \<lambda>s. Inr [(''project'', JDict [(''version'', JStr (if s = sample_project then ''2.0.0'' else ''2.0.1''))])],
      python_assignments = \<lambda>s. Inr [([''DEFAULT_RELEASE_IMAGE''],
        Inr (JStr (if s = sample_source then baseline_pin else image_of sample_event)))]\<rparr>"

definition sample_tree :: release_tree where
  "sample_tree =
     \<lparr>runtime_source = sample_source, server_dockerfile = sample_docker, project_file = sample_project,
      lock_file = None, manifest_file = None\<rparr>"

lemma sample_plain:
  "CHR 0x0D \<notin> set sample_docker" "CHR 0x0D \<notin> set sample_project" "CHR 0x0D \<notin> set sample_source"
  by (simp_all add: sample_docker_def sample_project_def sample_source_def commit_arg_def baseline_pin_def image_old_def)

lemma sample_lines:
  "has_line (''ARG PINEFORGE_RELEASE_IMAGE='' @ baseline_pin) sample_docker" "has_line (commit_arg @ ''x'') sample_docker"
proof -
  have lf: "CHR 0x0A \<notin> set (''ARG PINEFORGE_RELEASE_IMAGE='' @ baseline_pin)" "CHR 0x0A \<notin> set (commit_arg @ ''x'')"
    by (simp_all add: commit_arg_def baseline_pin_def image_old_def)
  show "has_line (''ARG PINEFORGE_RELEASE_IMAGE='' @ baseline_pin) sample_docker"
    unfolding has_line_def
    by (intro conjI lf exI [of _ "[]"] exI [of _ "lines_text [commit_arg @ ''x'']"]) (simp_all add: sample_docker_def)
  show "has_line (commit_arg @ ''x'') sample_docker"
    unfolding has_line_def
    by (intro conjI lf exI [of _ "[''ARG PINEFORGE_RELEASE_IMAGE='' @ baseline_pin]"] exI [of _ "[]"])
      (use lf in \<open>simp_all add: sample_docker_def\<close>)
qed

lemma sample_pin: "runtime_pin sample_readers sample_tree = Inr baseline_pin"
  using sample_plain(3) by (simp add: runtime_pin_def sample_readers_def sample_tree_def unify_plain)

lemma sample_package: "package_version sample_readers sample_tree = Inr (JStr ''2.0.0'')"
  using sample_plain(2) by (simp add: package_version_def sample_readers_def sample_tree_def unify_plain jitem_def)

lemma sample_local: "verify_local sample_readers sample_tree = Inr None"
  unfolding verify_local_def sample_pin rbind_Inr Let_def
  using has_line_sublist [OF sample_lines(1)] sample_plain(1)
  by (simp add: sample_tree_def load_lock_def unify_plain demand_True)

lemma sample_keys:
  "version_key ''1.1.0'' = Inr (1, 1, 0)" "version_key ''1.0.0'' = Inr (1, 0, 0)" "version_key ''2.0.0'' = Inr (2, 0, 0)"
proof -
  have "''1.0.0'' = version_from 1 0 0 []" "''2.0.0'' = version_from 2 0 0 []" by code_simp+
  then have "fullmatch semver_rx ''1.0.0''" "fullmatch semver_rx ''2.0.0''"
    unfolding semver_language by (metis empty_iff empty_set)+
  then show "version_key ''1.1.0'' = Inr (1, 1, 0)" "version_key ''1.0.0'' = Inr (1, 0, 0)" "version_key ''2.0.0'' = Inr (2, 0, 0)"
    using sample_version
    by (simp_all add: version_key_def require_def core_of_def until_def digits_val_def code_def del: fullmatch.simps)
qed

lemma sample_pin_version: "pin_version baseline_pin = Inr ''1.0.0''"
  by (simp add: pin_version_def baseline_pin_def image_old_def until_def)

lemma sample_next: "version_text (2, 0, 0 + 1) = ''2.0.1''"
  by (simp add: version_text_def int_text_def nat_text.simps) code_simp

lemma sample_made_lock:
  "update_lock None sample_event None ''2.0.1'' (JStr ''2.0.0'') baseline_pin = Inr (JDict sample_lock)"
  by (simp add: update_lock_def sample_lock_def demand_True)

lemma sample_lock_wf: "unique_keys (JDict sample_lock)" "json_finite (JDict sample_lock)"
  by (simp_all add: sample_lock_def sample_event_def sample_fields_def)

lemma sample_edit:
  "replace_project_version sample_project ''2.0.0'' ''2.0.1'' =
     Inr (''[project]'' @ [CHR 0x0A] @ ''version='' @ [CHR 0x22] @ ''2.0.1'' @ [CHR 0x22, CHR 0x0A])"
proof -
  have lines: "split_lines sample_project =
      [''[project]'' @ [CHR 0x0A], ''version='' @ [CHR 0x22] @ ''2.0.0'' @ [CHR 0x22, CHR 0x0A]]"
    by (simp add: sample_project_def line_break_def code_def)
  have first: "line_body (''[project]'' @ [CHR 0x0A]) = ''[project]''" "table_header ''[project]'' = Some ''project''"
      "py_strip ''project'' = ''project''"
    by (simp_all add: line_body_def line_end_def table_header_def until_def py_strip_def py_space_def Let_def code_def)
  have second: "line_body (''version='' @ [CHR 0x22] @ ''2.0.0'' @ [CHR 0x22, CHR 0x0A]) = ''version='' @ [CHR 0x22] @ ''2.0.0'' @ [CHR 0x22]"
      "table_header (''version='' @ [CHR 0x22] @ ''2.0.0'' @ [CHR 0x22]) = None"
      "version_line (''version='' @ [CHR 0x22] @ ''2.0.0'' @ [CHR 0x22]) = Some (''version='' @ [CHR 0x22], ''2.0.0'', [CHR 0x22])"
    by (simp_all add: line_body_def line_end_def table_header_def version_line_def py_space_def Let_def code_def)
  show ?thesis
    unfolding replace_project_version_def lines using first second by (simp add: Let_def require_def)
qed

lemma sample_source_edit: "replace_default new sample_source = new"
  by (simp add: replace_default_def sample_source_def)

lemma sample_update:
  obtains t' where "update_files sample_readers sample_tree sample_event [] None = Inr t'"
    "runtime_source t' = default_text sample_event"
    "project_file t' = ''[project]'' @ [CHR 0x0A] @ ''version='' @ [CHR 0x22] @ ''2.0.1'' @ [CHR 0x22, CHR 0x0A]"
    "lock_file t' = Some (json_indented 0 (sorted_keys (JDict sample_lock)) @ [CHR 0x0A])"
proof -
  have manifest: "verify_manifest (sha256_of sample_readers) (json_loads sample_readers) sample_event [] = Inr ()"
  proof -
    have "verify_manifest (\<lambda>_. sample_hash) (\<lambda>_. Some (JDict sample_fields)) sample_event [] = Inr ()"
      using sample_made [of "[]"] by (rule made_verified)
    then show ?thesis by (simp add: sample_readers_def verify_manifest_def object_json_def)
  qed
  have release: "jget sample_event ''release_version'' = JStr ''1.1.0''" "jget sample_event ''prerelease'' = JBool False"
    by (simp_all add: sample_event_def sample_fields_def jget_def)
  have project_text: "unify_newlines (project_file sample_tree) = sample_project"
    using sample_plain(2) by (simp add: sample_tree_def unify_plain)
  have "json_bytes (JDict sample_lock) = Inr (json_indented 0 (sorted_keys (JDict sample_lock)) @ [CHR 0x0A])"
    using sample_lock_wf(2) by (simp add: json_bytes_def dumps_as_def del: json_indented.simps sorted_keys.simps json_finite.simps)
  then have "\<exists>t'. update_files sample_readers sample_tree sample_event [] None = Inr t' \<and>
      runtime_source t' = default_text sample_event \<and>
      project_file t' = ''[project]'' @ [CHR 0x0A] @ ''version='' @ [CHR 0x22] @ ''2.0.1'' @ [CHR 0x22, CHR 0x0A] \<and>
      lock_file t' = Some (json_indented 0 (sorted_keys (JDict sample_lock)) @ [CHR 0x0A])"
    unfolding update_files_def manifest rbind_Inr release sample_local sample_pin sample_pin_version key_of_json_def json.case
      sample_keys sample_package project_text prod.case Let_def sample_next sample_made_lock text_of.simps sample_edit
    using sample_source_edit by (simp add: demand_True sample_tree_def)
  then show thesis using that by blast
qed



end
