(* ===== verification/ReleaseHub.thy ===== *)
theory ReleaseHub
  imports ReleasePin
begin

text \<open>
  What the release chain reads from GitHub and the container registry: the network part of
  \<open>scripts/release_chain/contract.py\<close>.  The service is a pair of functions, its answers during one
  run: \<open>gh api\<close> by endpoint and accepted type, and an HTTP GET by address and headers.
\<close>

section \<open>Services and JSON access\<close>

record services =
  gh_bytes :: "string \<Rightarrow> string \<Rightarrow> string result"
  http_get :: "string \<Rightarrow> (string \<times> string) list \<Rightarrow> string result"

definition github_json :: string where "github_json = ''application/vnd.github+json''"
definition octet_stream :: string where "octet_stream = ''application/octet-stream''"
definition hub :: string where "hub = ''pineforge-4pass/pineforge-release''"

definition loaded :: "readers \<Rightarrow> string \<Rightarrow> json result" where
  "loaded R data = (case json_loads R data of None \<Rightarrow> raise JSONDecodeError [] | Some v \<Rightarrow> Inr v)"

text \<open>\<open>v["a"]["b"]\<close>, \<open>v.get(k, default)\<close>, iteration over a value, and \<open>int(v)\<close>.\<close>

fun dig :: "json \<Rightarrow> string list \<Rightarrow> json result" where
  "dig v [] = Inr v"
| "dig v (k # ks) = rbind (subscript v k) (\<lambda>w. dig w ks)"

fun got :: "json \<Rightarrow> string \<Rightarrow> json \<Rightarrow> json result" where
  "got (JDict d) k v = Inr (jget_default d k v)"
| "got _ k v = raise AttributeError ''object has no attribute get''"

fun items_of :: "json \<Rightarrow> json list result" where
  "items_of (JList xs) = Inr xs"
| "items_of (JDict d) = Inr (map JStr (dkeys d))"
| "items_of (JStr s) = Inr (map (\<lambda>c. JStr [c]) s)"
| "items_of _ = raise TypeError ''object is not iterable''"

fun int_value :: "json \<Rightarrow> int result" where
  "int_value (JInt n) = Inr n"
| "int_value (JBool b) = Inr (if b then 1 else 0)"
| "int_value (JFloat (Fin x)) = Inr (if x < 0 then - \<lfloor>- x\<rfloor> else \<lfloor>x\<rfloor>)"
| "int_value (JFloat NaN) = raise ValueError ''cannot convert float NaN to integer''"
| "int_value (JFloat _) = raise OverflowError ''cannot convert float infinity to integer''"
| "int_value (JStr s) = (case py_int s of None \<Rightarrow> raise ValueError ''invalid literal for int()'' | Some n \<Rightarrow> Inr n)"
| "int_value _ = raise TypeError ''int() argument must be a string or a number''"

text \<open>A comprehension with a condition that may raise.\<close>

fun rfilter :: "('a \<Rightarrow> bool result) \<Rightarrow> 'a list \<Rightarrow> 'a list result" where
  "rfilter P [] = Inr []"
| "rfilter P (x # xs) = rbind (P x) (\<lambda>b. rbind (rfilter P xs) (\<lambda>ys. Inr (if b then x # ys else ys)))"

text \<open>\<open>any(...)\<close> stops at the first hit; \<open>a and b\<close> does not look at \<open>b\<close> where \<open>a\<close> is false.\<close>

fun rany :: "('a \<Rightarrow> bool result) \<Rightarrow> 'a list \<Rightarrow> bool result" where
  "rany P [] = Inr False"
| "rany P (x # xs) = rbind (P x) (\<lambda>b. if b then Inr True else rany P xs)"

definition rand :: "bool result \<Rightarrow> bool result \<Rightarrow> bool result" where
  "rand a b = rbind a (\<lambda>x. if x then b else Inr False)"

definition field_is :: "string list \<Rightarrow> json \<Rightarrow> json \<Rightarrow> bool result" where
  "field_is ks w v = rbind (dig v ks) (\<lambda>x. Inr (json_eq x w))"

definition field_true :: "string list \<Rightarrow> json \<Rightarrow> bool result" where
  "field_true ks v = rbind (dig v ks) (\<lambda>x. Inr (truthy x))"

section \<open>Inventories\<close>

definition page_of :: "(string \<Rightarrow> json result) \<Rightarrow> string \<Rightarrow> string \<Rightarrow> nat \<Rightarrow> json list result" where
  "page_of call endpoint key page =
     rbind (call (endpoint @ (if CHR ''?'' \<in> set endpoint then ''&'' else ''?'') @ ''per_page=100&page='' @ nat_text page)) (\<lambda>data.
     rbind (if key = [] then Inr data else subscript data key) (\<lambda>its.
     case its of JList xs \<Rightarrow> Inr xs | _ \<Rightarrow> raise ValueError ''unexpected GitHub inventory response''))"

text \<open>The loop over the pages ends with the first page that is not full; \<open>None\<close>: it never ends.\<close>

partial_function (option) all_pages :: "(nat \<Rightarrow> json list result) \<Rightarrow> nat \<Rightarrow> json list \<Rightarrow> json list result option" where
  "all_pages fetch page acc =
     (case fetch page of
        Inl e \<Rightarrow> Some (Inl e)
      | Inr xs \<Rightarrow> if length xs < 100 then Some (Inr (acc @ xs)) else all_pages fetch (page + 1) (acc @ xs))"

definition gh_call :: "readers \<Rightarrow> services \<Rightarrow> string \<Rightarrow> json result" where
  "gh_call R S endpoint = rbind (gh_bytes S endpoint github_json) (loaded R)"

definition gh_list :: "readers \<Rightarrow> services \<Rightarrow> string \<Rightarrow> string \<Rightarrow> json list result option" where
  "gh_list R S endpoint key = all_pages (page_of (gh_call R S) endpoint key) 1 []"

text \<open>The page at which the loop ends.\<close>

definition stops :: "(nat \<Rightarrow> json list result) \<Rightarrow> nat \<Rightarrow> bool" where
  "stops fetch n = (case fetch n of Inl e \<Rightarrow> True | Inr xs \<Rightarrow> length xs < 100)"

lemma all_pages_stop:
  "stops fetch n \<Longrightarrow> p \<le> n \<Longrightarrow> \<forall>q \<in> {p..<n}. \<not> stops fetch q \<Longrightarrow>
     all_pages fetch p acc =
       Some (case fetch n of Inl e \<Rightarrow> Inl e | Inr xs \<Rightarrow> Inr (acc @ concat (map (\<lambda>q. projr (fetch q)) [p..<n]) @ xs))"
proof (induction "n - p" arbitrary: p acc)
  case 0
  then have "p = n" by simp
  then show ?case using 0 by (subst all_pages.simps) (auto simp: stops_def split: sum.splits)
next
  case (Suc k)
  then have p: "p < n" "\<not> stops fetch p" by auto
  then obtain xs where xs: "fetch p = Inr xs" "\<not> length xs < 100" by (auto simp: stops_def split: sum.splits)
  have "all_pages fetch p acc = all_pages fetch (p + 1) (acc @ xs)"
    using xs by (subst all_pages.simps) simp
  also have "\<dots> = Some (case fetch n of Inl e \<Rightarrow> Inl e
      | Inr ys \<Rightarrow> Inr ((acc @ xs) @ concat (map (\<lambda>q. projr (fetch q)) [p + 1..<n]) @ ys))"
    using Suc p(1) by (intro Suc.hyps(1)) auto
  finally show ?case unfolding upt_conv_Cons [OF p(1)] using xs(1) by (simp split: sum.split)
qed

lemma all_pages_ends:
  assumes "all_pages fetch p acc = Some r"
  shows "\<exists>n \<ge> p. stops fetch n"
proof (rule all_pages.raw_induct [OF _ assms, of "\<lambda>fetch p acc r. \<exists>n \<ge> p. stops fetch n"])
  fix call fetch p acc and r :: "json list result"
  assume IH: "\<And>fetch p acc r. call fetch p acc = Some r \<Longrightarrow> \<exists>n \<ge> p. stops fetch n"
    and run: "(case fetch p of Inl e \<Rightarrow> Some (Inl e)
      | Inr xs \<Rightarrow> if length xs < 100 then Some (Inr (acc @ xs)) else call fetch (p + 1) (acc @ xs)) = Some r"
  show "\<exists>n \<ge> p. stops fetch n"
  proof (cases "stops fetch p")
    case True
    then show ?thesis by (intro exI [of _ p]) simp
  next
    case False
    then obtain xs where xs: "fetch p = Inr xs" "\<not> length xs < 100" by (auto simp: stops_def split: sum.splits)
    have "call fetch (p + 1) (acc @ xs) = Some r" using run unfolding xs(1) sum.case if_not_P [OF xs(2)] .
    from IH [OF this] obtain n where "p + 1 \<le> n" "stops fetch n" by blast
    then show ?thesis by (intro exI [of _ n]) simp
  qed
qed

text \<open>
  C38. An inventory is complete: the loop returns exactly when some page is short or fails, and then
  it returns every item of the pages up to the first short one, in order.
\<close>

theorem inventory_complete:
  "(case gh_list R S endpoint key of
      None \<Rightarrow> \<forall>p \<ge> 1. \<exists>xs. page_of (gh_call R S) endpoint key p = Inr xs \<and> 100 \<le> length xs
    | Some (Inl e) \<Rightarrow> \<exists>n \<ge> 1. page_of (gh_call R S) endpoint key n = Inl e
    | Some (Inr items) \<Rightarrow> \<exists>n \<ge> 1. \<exists>pages. (\<forall>p \<in> {1..n}. page_of (gh_call R S) endpoint key p = Inr (pages p)) \<and>
        (\<forall>p \<in> {1..<n}. 100 \<le> length (pages p)) \<and> length (pages n) < 100 \<and> items = concat (map pages [1..<Suc n]))"
proof -
  let ?f = "page_of (gh_call R S) endpoint key"
  show ?thesis
  proof (cases "\<exists>n \<ge> 1. stops ?f n")
    case False
    then have "gh_list R S endpoint key = None"
      unfolding gh_list_def using all_pages_ends [of ?f 1 "[]"] by (cases "all_pages ?f 1 []") auto
    moreover have "\<exists>xs. ?f p = Inr xs \<and> 100 \<le> length xs" if "1 \<le> p" for p
    proof -
      have "\<not> stops ?f p" using False that by blast
      then show ?thesis by (cases "?f p") (auto simp: stops_def)
    qed
    ultimately show ?thesis by simp
  next
    case True
    define n where "n = (LEAST n. 1 \<le> n \<and> stops ?f n)"
    have "1 \<le> n \<and> stops ?f n" unfolding n_def by (rule LeastI_ex) (rule True)
    then have n: "1 \<le> n" "stops ?f n" by blast+
    have before: "\<forall>q \<in> {1..<n}. \<not> stops ?f q"
    proof
      fix q
      assume "q \<in> {1..<n}"
      then have "1 \<le> q" "q < n" by simp_all
      then show "\<not> stops ?f q"
        unfolding n_def using not_less_Least [of q "\<lambda>n. 1 \<le> n \<and> stops ?f n"] by blast
    qed
    note run = all_pages_stop [OF n(2,1) before, of "[]", folded gh_list_def]
    show ?thesis
    proof (cases "?f n")
      case (Inl e)
      then show ?thesis using run n(1) by auto
    next
      case (Inr xs)
      have full: "\<exists>ys. ?f q = Inr ys \<and> 100 \<le> length ys" if "q \<in> {1..<n}" for q
      proof -
        have "\<not> stops ?f q" using before that by blast
        then show ?thesis by (cases "?f q") (auto simp: stops_def)
      qed
      have short: "length xs < 100" using n(2) Inr by (simp add: stops_def)
      have full': "?f q = Inr (projr (?f q)) \<and> 100 \<le> length (projr (?f q))" if q: "q \<in> {1..<n}" for q
      proof -
        obtain ys where "?f q = Inr ys" "100 \<le> length ys" using full [OF q] by blast
        then show ?thesis by simp
      qed
      have "?f p = Inr (projr (?f p))" if "p \<in> {1..n}" for p
      proof (cases "p = n")
        case False
        then have "p \<in> {1..<n}" using that by simp
        then show ?thesis using full' by blast
      qed (simp add: Inr)
      moreover have "\<forall>p \<in> {1..<n}. 100 \<le> length (projr (?f p))" using full' by blast
      moreover have "concat (map (\<lambda>q. projr (?f q)) [1..<n]) @ xs = concat (map (\<lambda>p. projr (?f p)) [1..<Suc n])"
        using n(1) Inr by simp
      ultimately have "\<exists>pages. (\<forall>p \<in> {1..n}. ?f p = Inr (pages p)) \<and> (\<forall>p \<in> {1..<n}. 100 \<le> length (pages p)) \<and>
          length (pages n) < 100 \<and> concat (map (\<lambda>q. projr (?f q)) [1..<n]) @ xs = concat (map pages [1..<Suc n])"
        using short Inr by (intro exI [of _ "\<lambda>p. projr (?f p)"] conjI ballI) simp_all
      then show ?thesis using run n(1) unfolding Inr sum.case append_Nil by auto
    qed
  qed
qed

section \<open>The hub's releases\<close>

definition manifest_asset :: "json \<Rightarrow> bool result" where
  "manifest_asset a = field_is [''name''] (JStr ''release-manifest.json'') a"

definition hub_manifest :: "readers \<Rightarrow> services \<Rightarrow> string \<Rightarrow> string result" where
  "hub_manifest R S version =
     rbind (demand (fullmatch semver_rx version) ''invalid release tag'') (\<lambda>_.
     rbind (gh_bytes S (''repos/'' @ hub @ ''/releases/tags/v'' @ version) github_json) (\<lambda>data.
     rbind (object_json (json_loads R) data) (\<lambda>release.
     rbind (jitem release ''draft'') (\<lambda>draft.
     rbind (demand (\<not> truthy draft) ''hub release is a draft'') (\<lambda>_.
     rbind (jitem release ''prerelease'') (\<lambda>pre.
     rbind (demand (json_eq pre (JBool (CHR ''-'' \<in> set version))) ''hub release channel disagrees'') (\<lambda>_.
     rbind (rbind (jitem release ''assets'') items_of) (\<lambda>assets.
     rbind (rfilter manifest_asset assets) (\<lambda>found.
     rbind (demand (length found = 1) ''hub release has no unique ready manifest'') (\<lambda>_.
     rbind (rbind (subscript (hd found) ''id'') int_value) (\<lambda>n.
     gh_bytes S (''repos/'' @ hub @ ''/releases/assets/'' @ int_text n) octet_stream)))))))))))"

text \<open>\<open>release["tag_name"].startswith("v")\<close> and the version after it.\<close>

definition tag_version :: "json \<Rightarrow> string option result" where
  "tag_version rel =
     rbind (subscript rel ''tag_name'') (\<lambda>tag.
     case tag of
       JStr t \<Rightarrow> Inr (if take 1 t = ''v'' \<and> fullmatch semver_rx (drop 1 t) then Some (drop 1 t) else None)
     | _ \<Rightarrow> raise AttributeError ''object has no attribute startswith'')"

definition ready_release :: "json \<Rightarrow> bool result" where
  "ready_release rel =
     rand (rbind (field_true [''draft''] rel) (\<lambda>b. Inr (\<not> b)))
       (rand (rbind (field_true [''prerelease''] rel) (\<lambda>b. Inr (\<not> b)))
         (rand (rbind (tag_version rel) (\<lambda>v. Inr (v \<noteq> None)))
           (rbind (rbind (subscript rel ''assets'') items_of) (rany manifest_asset))))"

text \<open>\<open>max(candidates, key=...)\<close>: the first of the greatest; the tags of the candidates have versions.\<close>

fun release_text :: "json \<Rightarrow> string" where
  "release_text rel = (case tag_version rel of Inr (Some v) \<Rightarrow> v | _ \<Rightarrow> [])"

definition newest_of :: "string list \<Rightarrow> string" where
  "newest_of vs = foldl (\<lambda>best v. if core_of best < core_of v then v else best) (hd vs) (tl vs)"

definition pick_ready :: "readers \<Rightarrow> services \<Rightarrow> json list \<Rightarrow> ((string, json) dict \<times> string) option result" where
  "pick_ready R S releases =
     rbind (rfilter ready_release releases) (\<lambda>candidates.
     if candidates = [] then Inr None
     else
       let version = newest_of (map release_text candidates) in
       rbind (hub_manifest R S version) (\<lambda>data.
       rbind (event_from_manifest (sha256_of R) (json_loads R) data) (\<lambda>event.
       rbind (demand (jget event ''release_version'' = JStr version) ''manifest stored on the wrong hub release'') (\<lambda>_.
       Inr (Some (event, data))))))"

definition newest_ready :: "readers \<Rightarrow> services \<Rightarrow> ((string, json) dict \<times> string) option result option" where
  "newest_ready R S = map_option (\<lambda>r. rbind r (pick_ready R S)) (gh_list R S (''repos/'' @ hub @ ''/releases'') [])"

section \<open>The artifacts of a release\<close>

definition oci_types :: string where
  "oci_types = ''application/vnd.oci.image.index.v1+json, application/vnd.docker.distribution.manifest.list.v2+json, ''
     @ ''application/vnd.oci.image.manifest.v1+json, application/vnd.docker.distribution.manifest.v2+json''"

definition token_url :: string where
  "token_url = ''https://ghcr.io/token?service=ghcr.io&scope=repository%3Apineforge-4pass%2Fpineforge-release%3Apull''"

text \<open>An object of the registry by its digest: what is returned has that digest.\<close>

definition registry_object :: "readers \<Rightarrow> services \<Rightarrow> (string \<times> string) list \<Rightarrow> string \<Rightarrow> json \<Rightarrow> (string, json) dict result" where
  "registry_object R S headers kind digest =
     rbind (http_get S (''https://ghcr.io/v2/'' @ hub @ ''/'' @ kind @ ''/'' @ py_str digest) headers) (\<lambda>raw.
     rbind (demand (digest = JStr (''sha256:'' @ sha256_of R raw)) ''OCI content digest mismatch'') (\<lambda>_.
     object_json (json_loads R) raw))"

definition platform_is :: "string \<Rightarrow> json \<Rightarrow> bool result" where
  "platform_is arch entry =
     (let reads = (\<lambda>k w. rbind (got entry ''platform'' (JDict [])) (\<lambda>p. rbind (got p k JNull) (\<lambda>v. Inr (v = JStr w)))) in
      rand (reads ''architecture'' arch) (reads ''os'' ''linux''))"

definition expected_labels :: "(string, json) dict \<Rightarrow> (string \<times> json) list result" where
  "expected_labels event =
     rbind (jitem event ''hub_commit'') (\<lambda>commit.
     rbind (dig (JDict event) [''versions'', ''engine'', ''version'']) (\<lambda>engine.
     rbind (dig (JDict event) [''versions'', ''codegen'', ''version'']) (\<lambda>codegen.
     rbind (dig (JDict event) [''versions'', ''hpo'']) (\<lambda>hpo.
     rbind (if hpo = JNull then Inr []
            else rbind (subscript hpo ''package_version'') (\<lambda>v. Inr [(''io.pineforge.hpo.version'', v)])) (\<lambda>extra.
     Inr ([(''org.opencontainers.image.version'', JStr (CHR ''v'' # py_str (jget event ''release_version''))),
           (''org.opencontainers.image.revision'', commit), (''io.pineforge.engine.version'', engine),
           (''io.pineforge.codegen.version'', codegen)] @ extra))))))"

fun labels_agree :: "json \<Rightarrow> (string \<times> json) list \<Rightarrow> bool result" where
  "labels_agree labels [] = Inr True"
| "labels_agree labels ((k, w) # kws) =
     rbind (got labels k JNull) (\<lambda>v. if json_eq v w then labels_agree labels kws else Inr False)"

definition verify_arch ::
  "readers \<Rightarrow> services \<Rightarrow> (string \<times> string) list \<Rightarrow> (string, json) dict \<Rightarrow> (string, json) dict \<Rightarrow> string \<Rightarrow> unit result" where
  "verify_arch R S headers event index arch =
     rbind (dig (JDict event) [''image'', arch @ ''_digest'']) (\<lambda>digest.
     rbind (rbind (jitem index ''manifests'') items_of) (\<lambda>entries.
     rbind (rfilter (platform_is arch) entries) (\<lambda>children.
     rbind (if length children = 1 then field_is [''digest''] digest (hd children) else Inr False) (\<lambda>same.
     rbind (demand same ''OCI index disagrees'') (\<lambda>_.
     rbind (registry_object R S headers ''manifests'' digest) (\<lambda>child.
     rbind (dig (JDict child) [''config'', ''digest'']) (\<lambda>config_digest.
     rbind (registry_object R S headers ''blobs'' config_digest) (\<lambda>config.
     rbind (rand (field_is [''os''] (JStr ''linux'') (JDict config)) (field_is [''architecture''] (JStr arch) (JDict config))) (\<lambda>ok.
     rbind (demand ok ''OCI configuration platform disagrees'') (\<lambda>_.
     rbind (got (jget_default config ''config'' (JDict [])) ''Labels'' (JDict [])) (\<lambda>labels.
     rbind (expected_labels event) (\<lambda>expected.
     rbind (labels_agree labels expected) (\<lambda>ok.
     demand ok ''image provenance disagrees with manifest'')))))))))))))"

definition verify_artifacts :: "readers \<Rightarrow> services \<Rightarrow> (string, json) dict \<Rightarrow> unit result" where
  "verify_artifacts R S event =
     rbind (jitem event ''release_version'') (\<lambda>version.
     rbind (gh_bytes S (''repos/'' @ hub @ ''/commits/v'' @ py_str version) github_json) (\<lambda>data.
     rbind (rbind (object_json (json_loads R) data) (\<lambda>d. jitem d ''sha'')) (\<lambda>commit.
     rbind (jitem event ''hub_commit'') (\<lambda>hub_commit.
     rbind (demand (json_eq commit hub_commit) ''hub tag source disagrees'') (\<lambda>_.
     rbind (dig (JDict event) [''facts'', ''commit'']) (\<lambda>facts_commit.
     rbind (http_get S (''https://raw.githubusercontent.com/'' @ hub @ ''/'' @ py_str facts_commit @ ''/facts/facts.json'') []) (\<lambda>facts.
     rbind (dig (JDict event) [''facts'', ''sha256'']) (\<lambda>facts_sha.
     rbind (demand (facts_sha = JStr (sha256_of R facts)) ''facts digest mismatch'') (\<lambda>_.
     rbind (object_json (json_loads R) facts) (\<lambda>facts_json.
     rbind (dig (JDict event) [''facts'', ''release_key'']) (\<lambda>key.
     rbind (got (jget_default facts_json ''releases'' (JDict [])) (py_str key) JNull) (\<lambda>release_facts.
     rbind (demand (fields_of release_facts \<noteq> []) ''immutable facts have no target-release evidence'') (\<lambda>_.
     rbind (http_get S token_url []) (\<lambda>token_data.
     rbind (rbind (object_json (json_loads R) token_data) (\<lambda>d. jitem d ''token'')) (\<lambda>token.
     let headers = [(''Authorization'', ''Bearer '' @ py_str token), (''Accept'', oci_types)] in
     rbind (dig (JDict event) [''image'', ''digest'']) (\<lambda>digest.
     rbind (registry_object R S headers ''manifests'' digest) (\<lambda>index.
     rbind (rmap (verify_arch R S headers event index) [''amd64'', ''arm64'']) (\<lambda>_.
     Inr ()))))))))))))))))))"

section \<open>The newest release\<close>

lemma rfilter_returns:
  "rfilter P xs = Inr ys \<Longrightarrow> ys = filter (\<lambda>x. P x = Inr True) xs \<and> (\<forall>x \<in> set xs. \<exists>b. P x = Inr b)"
  by (induction xs arbitrary: ys) (auto simp: rbind_returns split: if_splits)

lemma newest_fold:
  "foldl (\<lambda>best v. if core_of best < core_of v then v else best) b vs \<in> insert b (set vs) \<and>
   (\<forall>v \<in> insert b (set vs). core_of v \<le> core_of (foldl (\<lambda>best v. if core_of best < core_of v then v else best) b vs))"
proof (induction vs arbitrary: b)
  case (Cons v vs)
  let ?b = "if core_of b < core_of v then v else b"
  have "core_of b \<le> core_of ?b" "core_of v \<le> core_of ?b" by (auto simp: not_less)
  then show ?case using Cons.IH [of ?b] by (auto intro: order_trans)
qed simp

lemma newest_of_max:
  assumes "vs \<noteq> []"
  shows "newest_of vs \<in> set vs" and "v \<in> set vs \<Longrightarrow> core_of v \<le> core_of (newest_of vs)"
proof -
  obtain b ws where vs: "vs = b # ws" using assms by (cases vs) auto
  show "newest_of vs \<in> set vs" "v \<in> set vs \<Longrightarrow> core_of v \<le> core_of (newest_of vs)"
    using newest_fold [of b ws] unfolding newest_of_def vs list.sel set_simps by blast+
qed


definition sample_release :: json where
  "sample_release = JDict
     [(''draft'', JBool False), (''prerelease'', JBool False), (''tag_name'', JStr ''v1.1.0''),
      (''assets'', JList [JDict [(''name'', JStr ''release-manifest.json''), (''id'', JInt 1)]])]"

definition sample_hub :: readers where
  "sample_hub = sample_readers\<lparr>json_loads := \<lambda>s. Some (if s = [] then JDict sample_fields else
     if s = ''l'' then JList [sample_release] else sample_release)\<rparr>"

definition sample_services :: services where
  "sample_services =
     \<lparr>gh_bytes = \<lambda>e a. Inr (if a = octet_stream then [] else if CHR ''?'' \<in> set e then ''l'' else ''r''),
      http_get = \<lambda>u h. Inr []\<rparr>"

lemma sample_releases_page: "page_of (gh_call sample_hub sample_services) (''repos/'' @ hub @ ''/releases'') [] 1 = Inr [sample_release]"
  by (simp add: page_of_def gh_call_def loaded_def sample_services_def sample_hub_def hub_def github_json_def octet_stream_def)

lemma sample_releases_listed: "gh_list sample_hub sample_services (''repos/'' @ hub @ ''/releases'') [] = Some (Inr [sample_release])"
  unfolding gh_list_def by (subst all_pages.simps) (simp only: sample_releases_page sum.case append_Nil, simp)

lemma inventory_complete_witness:
  "\<exists>n pages. page_of (gh_call sample_hub sample_services) (''repos/'' @ hub @ ''/releases'') [] n = Inr (pages n) \<and>
     length (pages n) < 100 \<and> [sample_release] = concat (map pages [1..<Suc n])"
proof -
  note complete = inventory_complete [of sample_hub sample_services "''repos/'' @ hub @ ''/releases''" "[]",
      unfolded sample_releases_listed option.case sum.case]
  then obtain n pages where "1 \<le> n" "\<forall>p \<in> {1..n}. page_of (gh_call sample_hub sample_services) (''repos/'' @ hub @ ''/releases'') [] p = Inr (pages p)"
      "length (pages n) < 100" "[sample_release] = concat (map pages [1..<Suc n])" by blast
  then show ?thesis by (intro exI [of _ n] exI [of _ pages]) simp
qed



end
