(* ===== verification/Evidence.thy ===== *)
theory Evidence
  imports ReleaseHub
begin

text \<open>
  The CI evidence of a release, \<open>scripts/release_chain/evidence.py\<close>: the inventory of the required
  jobs, the record a CI run leaves behind, and the gate that accepts it for one head, base and
  pull request.  XML and ZIP archives are read by parameters; files are their bytes.
\<close>

section \<open>The required inventory\<close>

definition ci_jobs :: "string list" where
  "ci_jobs = [''Python 3.11'', ''Python 3.12'', ''Python 3.13'', ''Release contract'', ''Docker runtime'', ''Database E2E'',
     ''Distribution'']"

definition ci_needs :: "string list" where
  "ci_needs = [''test'', ''contract'', ''docker'', ''database-e2e'', ''distribution'']"

definition e2e_tests :: "(string \<times> string list) list" where
  "e2e_tests =
     [(''docker'',
        [''test_local_runtime_uses_published_release_image'', ''test_report_structures_match_the_release_header'',
         ''test_in_process_runner_matches_the_release_harness'',
         ''test_server_handles_concurrent_requests_and_reuses_compile_cache'']),
      (''database'',
        [''test_bundled_corpus_sample_has_pinned_provenance'',
         ''test_public_database_provider_api_normalizes_corpus_across_backends''])]"

definition reviewed_workflows :: "(string \<times> string) list" where
  "reviewed_workflows =
     [(''ci.yml'', ''e2b41563fbb8ab32c3c16675fc3d411b9dade719593ab0157fd47d641062ea2a''),
      (''ci-post.yml'', ''4551f97c4d3f2590dc62cb7ce5652991d7ea17f3ba92f6af880af8269efe58ad'')]"

section \<open>Test reports and distributions\<close>

text \<open>The test cases of a report: the name, if it has one, and the number of child elements.\<close>

type_synonym test_case = "string option \<times> nat"

definition check_junit :: "(string \<Rightarrow> test_case list result) \<Rightarrow> string \<Rightarrow> string \<Rightarrow> unit result" where
  "check_junit xml data suite =
     rbind (xml data) (\<lambda>cases.
     rbind (rmap (\<lambda>(name, n). case name of None \<Rightarrow> raise KeyError ''name'' | Some s \<Rightarrow> Inr s) cases) (\<lambda>names.
     rbind (case map_of e2e_tests suite of None \<Rightarrow> raise KeyError suite | Some ts \<Rightarrow> Inr ts) (\<lambda>tests.
     rbind (demand (length names = length tests \<and> set names = set tests) ''missing or unexpected E2E test inventory'') (\<lambda>_.
     demand (list_all (\<lambda>(name, n). n = 0) cases) ''a required E2E failed, errored or was skipped''))))"

text \<open>\<open>Path.suffix == ".whl"\<close> needs a name before the suffix.\<close>

definition is_wheel :: "string \<Rightarrow> bool" where "is_wheel name = (suffix ''.whl'' name \<and> name \<noteq> ''.whl'')"
definition is_sdist :: "string \<Rightarrow> bool" where "is_sdist name = suffix ''.tar.gz'' name"

definition distribution_hashes :: "(string \<Rightarrow> string) \<Rightarrow> (string \<times> string) list \<Rightarrow> (string \<times> string) list result" where
  "distribution_hashes sha files =
     rbind (demand (length files = 2 \<and> length (filter (is_wheel \<circ> fst) files) = 1 \<and>
              length (filter (is_sdist \<circ> fst) files) = 1) ''expected exactly one wheel and one sdist'') (\<lambda>_.
     Inr (map (\<lambda>(name, data). (name, sha data)) (sort_key fst files)))"

section \<open>Jobs\<close>

definition gh_object :: "readers \<Rightarrow> services \<Rightarrow> string \<Rightarrow> (string, json) dict result" where
  "gh_object R S endpoint = rbind (gh_bytes S endpoint github_json) (object_json (json_loads R))"

definition attempt_jobs :: "readers \<Rightarrow> services \<Rightarrow> string \<Rightarrow> string \<Rightarrow> string \<Rightarrow> json list result" where
  "attempt_jobs R S repo run_id attempt =
     rbind (gh_object R S (''repos/'' @ repo @ ''/actions/runs/'' @ run_id @ ''/attempts/'' @ attempt @ ''/jobs?per_page=100'')) (\<lambda>d.
     rbind (jitem d ''jobs'') items_of)"

definition jobs_named :: "string \<Rightarrow> json list \<Rightarrow> json list result" where
  "jobs_named name jobs = rfilter (field_is [''name''] (JStr name)) jobs"

definition validate_inventory :: "json list \<Rightarrow> unit result" where
  "validate_inventory jobs =
     rbind (rmap (\<lambda>name. rbind (jobs_named name jobs) (\<lambda>ms.
       demand (length ms = 1) ''required job missing or duplicated in the attempt's job list'')) ci_jobs) (\<lambda>_. Inr ())"

definition job_succeeded :: "json \<Rightarrow> bool result" where
  "job_succeeded job =
     rand (field_is [''status''] (JStr ''completed'') job) (field_is [''conclusion''] (JStr ''success'') job)"

definition validate_jobs :: "json list \<Rightarrow> bool \<Rightarrow> unit result" where
  "validate_jobs jobs aggregate =
     rbind (rmap (\<lambda>name. rbind (jobs_named name jobs) (\<lambda>ms.
       rbind (case ms of [m] \<Rightarrow> job_succeeded m | _ \<Rightarrow> Inr False) (\<lambda>ok.
       demand ok ''required job missing, failed, cancelled or skipped'')))
       (if aggregate then ci_jobs @ [''release/ready''] else ci_jobs)) (\<lambda>_. Inr ())"

text \<open>
  The reviewed workflow files: \<open>files\<close> gives the bytes of a file, \<open>None\<close> where it cannot be read,
  and \<open>utf8\<close> its UTF-8 text.
\<close>

definition require_no_continue_on_error ::
  "(string \<Rightarrow> string) \<Rightarrow> (string \<Rightarrow> string option) \<Rightarrow> (string \<Rightarrow> string option) \<Rightarrow> unit result" where
  "require_no_continue_on_error sha utf8 files =
     rbind (rmap (\<lambda>(name, reviewed).
       case files name of
         None \<Rightarrow> raise ValueError ''cannot read workflow''
       | Some raw \<Rightarrow>
           (case utf8 raw of
              None \<Rightarrow> raise ValueError ''cannot read workflow''
            | Some t \<Rightarrow> demand (sha raw = reviewed \<and> \<not> sublist ''continue-on-error'' t)
                ''workflow changed or uses continue-on-error'')) reviewed_workflows) (\<lambda>_. Inr ())"

section \<open>The evidence\<close>

text \<open>
  The environment of the aggregating job: \<open>os.environ\<close>, the trigger file, the two answers of git,
  the workflow files and the distribution directory.
\<close>

record ci_state =
  environ :: "(string, string) dict"
  trigger_file :: "string \<Rightarrow> string result"
  git_head :: "string result"
  git_tree :: "string result"
  workflow_file :: "string \<Rightarrow> string option"
  dist_files :: "(string \<times> string) list"

definition env_item :: "ci_state \<Rightarrow> string \<Rightarrow> string result" where
  "env_item c k = (case map_of (environ c) k of None \<Rightarrow> raise KeyError k | Some v \<Rightarrow> Inr v)"

definition env_int :: "ci_state \<Rightarrow> string \<Rightarrow> int result" where
  "env_int c k = rbind (env_item c k) (\<lambda>s. int_value (JStr s))"

text \<open>\<open>sorted(tests)\<close>, and \<open>dict.fromkeys(JOBS, "success")\<close>.\<close>

definition e2e_record :: json where
  "e2e_record = JDict (map (\<lambda>(suite, tests). (suite, JList (map JStr (sort_key (\<lambda>t. t) tests)))) e2e_tests)"

definition all_success :: "string list \<Rightarrow> json" where
  "all_success names = JDict (map (\<lambda>name. (name, JStr ''success'')) names)"

definition skip_note :: string where
  "skip_note = ''opt-in Docker/database cases in the unit matrix only; both dedicated E2E jobs require zero skips''"

text \<open>The fields that depend on the pull request: number, base and head.\<close>

definition pr_fields :: "json \<Rightarrow> string \<Rightarrow> (json \<times> json \<times> json) result" where
  "pr_fields pr tested =
     (if truthy pr
      then rbind (subscript pr ''number'') (\<lambda>n. rbind (dig pr [''base'', ''sha'']) (\<lambda>b.
           rbind (dig pr [''head'', ''sha'']) (\<lambda>h. Inr (n, b, h))))
      else Inr (JNull, JNull, JStr tested))"

definition create_evidence ::
  "readers \<Rightarrow> services \<Rightarrow> (string \<Rightarrow> string option) \<Rightarrow> ci_state \<Rightarrow> (string, json) dict \<Rightarrow> (string, json) dict result" where
  "create_evidence R S utf8 c needs =
     rbind (demand (set (dkeys needs) = set ci_needs) ''required CI job inventory changed'') (\<lambda>_.
     rbind (rany (\<lambda>(k, v). rbind (got v ''result'' JNull) (\<lambda>r. Inr (r \<noteq> JStr ''success''))) needs) (\<lambda>bad.
     rbind (demand (\<not> bad) ''a required CI job failed, was cancelled, missing or skipped'') (\<lambda>_.
     rbind (require_no_continue_on_error (sha256_of R) utf8 (workflow_file c)) (\<lambda>_.
     rbind (rbind (rbind (env_item c ''GITHUB_EVENT_PATH'') (trigger_file c)) (object_json (json_loads R))) (\<lambda>trigger.
     let pr = jget trigger ''pull_request'' in
     rbind (git_head c) (\<lambda>tested.
     rbind (git_tree c) (\<lambda>tree.
     rbind (env_item c ''GITHUB_REPOSITORY'') (\<lambda>repo.
     rbind (env_int c ''GITHUB_RUN_ID'') (\<lambda>run_id.
     rbind (env_int c ''GITHUB_RUN_ATTEMPT'') (\<lambda>attempt.
     rbind (attempt_jobs R S repo (int_text run_id) (int_text attempt)) (\<lambda>jobs.
     rbind (validate_inventory jobs) (\<lambda>_.
     rbind (env_item c ''GITHUB_EVENT_NAME'') (\<lambda>event_name.
     rbind (pr_fields pr (py_strip tested)) (\<lambda>(number, base_sha, head).
     rbind (distribution_hashes (sha256_of R) (dist_files c)) (\<lambda>dist.
     Inr [(''run_id'', JInt run_id), (''attempt'', JInt attempt), (''event'', JStr event_name), (''pr'', number),
          (''base'', base_sha), (''head'', head), (''tested_sha'', JStr (py_strip tested)), (''tree'', JStr (py_strip tree)),
          (''jobs'', all_success ci_jobs), (''e2e'', e2e_record), (''approved_skips'', JList [JStr skip_note]),
          (''distributions'', JDict (map (\<lambda>(n, h). (n, JStr h)) dist))])))))))))))))))"

section \<open>The gate\<close>

definition opt_json :: "('a \<Rightarrow> json) \<Rightarrow> 'a option \<Rightarrow> json" where
  "opt_json f x = (case x of None \<Rightarrow> JNull | Some y \<Rightarrow> f y)"

text \<open>\<open>if pr\<close>: a pull request with a number other than zero.\<close>

definition for_pr :: "int option \<Rightarrow> bool" where
  "for_pr pr = (case pr of None \<Rightarrow> False | Some n \<Rightarrow> n \<noteq> 0)"

definition same_field :: "string \<Rightarrow> (string, json) dict \<Rightarrow> string \<Rightarrow> (string, json) dict \<Rightarrow> bool result" where
  "same_field k d k' e = rbind (jitem d k) (\<lambda>v. rbind (jitem e k') (\<lambda>w. Inr (json_eq v w)))"

definition validate_gate ::
  "(string, json) dict \<Rightarrow> (string, json) dict \<Rightarrow> json list \<Rightarrow> string \<Rightarrow> string option \<Rightarrow> int option \<Rightarrow> unit result" where
  "validate_gate ev run jobs head base_sha pr =
     (let is = (\<lambda>d k v. field_is [k] v (JDict d));
          event = (if for_pr pr then ''pull_request'' else ''push'') in
      rbind (rand (is run ''status'' (JStr ''completed'')) (is run ''conclusion'' (JStr ''success''))) (\<lambda>ok.
      rbind (demand ok ''CI has not completed successfully'') (\<lambda>_.
      rbind (is run ''path'' (JStr (''.github/workflows/'' @ (if for_pr pr then ''ci.yml'' else ''ci-post.yml'')))) (\<lambda>ok.
      rbind (demand ok ''unexpected CI workflow'') (\<lambda>_.
      rbind (rand (is run ''head_sha'' (JStr head)) (is ev ''head'' (JStr head))) (\<lambda>ok.
      rbind (demand ok ''stale CI head'') (\<lambda>_.
      rbind (rand (is ev ''base'' (opt_json JStr base_sha)) (is ev ''pr'' (opt_json JInt pr))) (\<lambda>ok.
      rbind (demand ok ''stale CI base or PR'') (\<lambda>_.
      rbind (rand (same_field ''run_id'' ev ''id'' run) (same_field ''attempt'' ev ''run_attempt'' run)) (\<lambda>ok.
      rbind (demand ok ''stale CI attempt'') (\<lambda>_.
      rbind (rand (same_field ''event'' run ''event'' ev) (is ev ''event'' (JStr event))) (\<lambda>ok.
      rbind (demand ok ''wrong CI trigger'') (\<lambda>_.
      rbind (is ev ''jobs'' (all_success ci_jobs)) (\<lambda>ok.
      rbind (demand ok ''incomplete CI evidence'') (\<lambda>_.
      rbind (is ev ''e2e'' e2e_record) (\<lambda>ok.
      rbind (demand ok ''incomplete E2E evidence'') (\<lambda>_.
      validate_jobs jobs True)))))))))))))))))"

text \<open>The archive of an artifact: the names of its members, in order, with their bytes.\<close>

definition artifact_json ::
  "readers \<Rightarrow> services \<Rightarrow> (string \<Rightarrow> (string \<times> string) list result) \<Rightarrow> string \<Rightarrow> string \<Rightarrow> string \<Rightarrow> string \<Rightarrow>
   (string, json) dict result" where
  "artifact_json R S unzip repo run_id name filename =
     rbind (gh_object R S (''repos/'' @ repo @ ''/actions/runs/'' @ run_id @ ''/artifacts?per_page=100'')) (\<lambda>d.
     rbind (rbind (jitem d ''artifacts'') items_of) (\<lambda>artifacts.
     rbind (rfilter (\<lambda>a. rand (field_is [''name''] (JStr name) a)
              (rbind (field_true [''expired''] a) (\<lambda>b. Inr (\<not> b)))) artifacts) (\<lambda>found.
     rbind (demand (length found = 1) ''missing unique artifact'') (\<lambda>_.
     rbind (subscript (hd found) ''id'') (\<lambda>n.
     rbind (gh_bytes S (''repos/'' @ repo @ ''/actions/artifacts/'' @ py_str n @ ''/zip'') github_json) (\<lambda>archive.
     rbind (unzip archive) (\<lambda>members.
     rbind (demand (map fst members = [filename]) ''unexpected artifact contents'') (\<lambda>_.
     object_json (json_loads R) (snd (hd members))))))))))"

text \<open>\<open>GateRejected\<close>: what the exception records of the run.\<close>

fun first_named :: "string \<Rightarrow> json list \<Rightarrow> json option result" where
  "first_named name [] = Inr None"
| "first_named name (j # js) =
     rbind (field_is [''name''] (JStr name) j) (\<lambda>b. if b then Inr (Some j) else first_named name js)"

definition job_state :: "json list \<Rightarrow> string \<Rightarrow> (string \<times> json) result" where
  "job_state jobs name =
     rbind (first_named name jobs) (\<lambda>m.
     case m of
       None \<Rightarrow> Inr (name, JStr ''missing'')
     | Some m \<Rightarrow>
         rbind (subscript m ''conclusion'') (\<lambda>x. if truthy x then Inr (name, x)
           else rbind (subscript m ''status'') (\<lambda>y. Inr (name, y))))"

definition rejection_record :: "(string, json) dict \<Rightarrow> json list \<Rightarrow> json result" where
  "rejection_record run jobs =
     rbind (jitem run ''id'') (\<lambda>i. rbind (jitem run ''run_attempt'') (\<lambda>a. rbind (jitem run ''head_sha'') (\<lambda>h.
     rbind (rmap (job_state jobs) (ci_jobs @ [''release/ready''])) (\<lambda>states.
     Inr (JDict [(''run_id'', i), (''attempt'', a), (''head'', h), (''jobs'', JDict states)])))))"

definition gate_rejected :: "(string, json) dict \<Rightarrow> json list \<Rightarrow> exn \<Rightarrow> 'a result" where
  "gate_rejected run jobs e =
     (if caught e [ValueError]
      then rbind (rejection_record run jobs) (\<lambda>_. raise GateRejected (exn_text e)) else Inl e)"

definition gate_for_run ::
  "readers \<Rightarrow> services \<Rightarrow> (string \<Rightarrow> (string \<times> string) list result) \<Rightarrow> string \<Rightarrow> json \<Rightarrow> string \<Rightarrow> string option \<Rightarrow> int option \<Rightarrow>
   (string, json) dict result" where
  "gate_for_run R S unzip repo run_id head base_sha pr =
     rbind (gh_object R S (''repos/'' @ repo @ ''/actions/runs/'' @ py_str run_id)) (\<lambda>run.
     rbind (jitem run ''run_attempt'') (\<lambda>attempt.
     rbind (attempt_jobs R S repo (py_str run_id) (py_str attempt)) (\<lambda>jobs.
     case rbind (validate_jobs jobs True) (\<lambda>_.
          rbind (artifact_json R S unzip repo (py_str run_id) (''release-evidence-'' @ py_str attempt) ''evidence.json'') (\<lambda>ev.
          rbind (validate_gate ev run jobs head base_sha pr) (\<lambda>_. Inr ev))) of
       Inr ev \<Rightarrow> Inr ev
     | Inl e \<Rightarrow> gate_rejected run jobs e)))"

section \<open>What the gate accepts\<close>

lemma rand_true [simp]: "(rand a b = Inr True) = (a = Inr True \<and> b = Inr True)"
  by (auto simp: rand_def rbind_returns split: if_splits)

lemma field_is_text [simp]: "(field_is [k] (JStr s) (JDict d) = Inr True) = (jget d k = JStr s)"
  by (auto simp: field_is_def jitem_def jget_def rbind_def split: option.splits)

lemma json_eq_null [simp]: "json_eq v JNull = (v = JNull)"
  by (subst json_eq.simps) (cases v, auto)

lemma demanded: "(rbind m (\<lambda>ok. rbind (demand ok text) f) = Inr u) = (m = Inr True \<and> f () = Inr u)"
  by (auto simp: rbind_returns demand_True)

text \<open>Exactly one job of a list has the name, and it has succeeded.\<close>

definition one_success :: "json list \<Rightarrow> string \<Rightarrow> bool" where
  "one_success jobs name =
     (\<exists>d. filter (\<lambda>j. field_is [''name''] (JStr name) j = Inr True) jobs = [JDict d] \<and>
        jget d ''status'' = JStr ''completed'' \<and> jget d ''conclusion'' = JStr ''success'')"

lemma job_succeeded_dict: "job_succeeded m = Inr True \<Longrightarrow>
    \<exists>d. m = JDict d \<and> jget d ''status'' = JStr ''completed'' \<and> jget d ''conclusion'' = JStr ''success''"
  by (cases m) (auto simp: job_succeeded_def, auto simp: field_is_def)

lemma validate_jobs_sound:
  assumes "validate_jobs jobs aggregate = Inr u" and "name \<in> set ci_jobs \<or> aggregate \<and> name = ''release/ready''"
  shows "one_success jobs name"
proof -
  let ?check = "\<lambda>name. rbind (jobs_named name jobs) (\<lambda>ms.
       rbind (case ms of [m] \<Rightarrow> job_succeeded m | _ \<Rightarrow> Inr False) (\<lambda>ok.
       demand ok ''required job missing, failed, cancelled or skipped''))"
  let ?names = "if aggregate then ci_jobs @ [''release/ready''] else ci_jobs"
  obtain us where "rmap ?check ?names = Inr us" using assms(1) unfolding validate_jobs_def rbind_returns by blast
  moreover have "name \<in> set ?names" using assms(2) by auto
  ultimately have "\<exists>y. ?check name = Inr y" using rmap_returns_iff [of ?check ?names] by blast
  then obtain ms ok where ms: "jobs_named name jobs = Inr ms" "(case ms of [m] \<Rightarrow> job_succeeded m | _ \<Rightarrow> Inr False) = Inr ok" "ok"
    by (auto simp: rbind_returns)
  then obtain m where m: "ms = [m]" "job_succeeded m = Inr True" by (auto split: list.splits)
  obtain d where d: "m = JDict d" "jget d ''status'' = JStr ''completed''" "jget d ''conclusion'' = JStr ''success''"
    using job_succeeded_dict [OF m(2)] by blast
  have "ms = filter (\<lambda>j. field_is [''name''] (JStr name) j = Inr True) jobs"
    using rfilter_returns [OF ms(1) [unfolded jobs_named_def]] by blast
  then have "filter (\<lambda>j. field_is [''name''] (JStr name) j = Inr True) jobs = [JDict d]" using m(1) d(1) by simp
  then show ?thesis unfolding one_success_def using d(2,3) by blast
qed

lemma validate_gate_sound:
  assumes "validate_gate ev run jobs head base_sha pr = Inr u"
  shows "jget run ''status'' = JStr ''completed''" "jget run ''conclusion'' = JStr ''success''"
    "jget run ''head_sha'' = JStr head" "jget ev ''head'' = JStr head"
    "jget ev ''base'' = opt_json JStr base_sha" "field_is [''pr''] (opt_json JInt pr) (JDict ev) = Inr True"
    "same_field ''run_id'' ev ''id'' run = Inr True" "same_field ''attempt'' ev ''run_attempt'' run = Inr True"
    "jget ev ''event'' = JStr (if for_pr pr then ''pull_request'' else ''push'')"
    "validate_jobs jobs True = Inr ()"
proof -
  have base_eq: "(field_is [''base''] (opt_json JStr base_sha) (JDict ev) = Inr True) \<Longrightarrow> jget ev ''base'' = opt_json JStr base_sha"
    by (cases base_sha) (auto simp: opt_json_def, auto simp: field_is_def jitem_def jget_def rbind_def split: option.splits)
  note facts = assms [unfolded validate_gate_def Let_def demanded rand_true field_is_text]
  show "jget run ''status'' = JStr ''completed''" "jget run ''conclusion'' = JStr ''success''"
    "jget run ''head_sha'' = JStr head" "jget ev ''head'' = JStr head"
    "jget ev ''base'' = opt_json JStr base_sha" "field_is [''pr''] (opt_json JInt pr) (JDict ev) = Inr True"
    "same_field ''run_id'' ev ''id'' run = Inr True" "same_field ''attempt'' ev ''run_attempt'' run = Inr True"
    "jget ev ''event'' = JStr (if for_pr pr then ''pull_request'' else ''push'')"
    "validate_jobs jobs True = Inr ()"
    using facts base_eq by simp_all
qed



section \<open>Created evidence is accepted\<close>

lemma success_refl: "json_eq (all_success ci_jobs) (all_success ci_jobs)"
  by (rule json_eq_refl) (simp_all add: all_success_def ci_jobs_def)

lemma e2e_refl: "json_eq e2e_record e2e_record"
proof (rule json_eq_refl)
  show "unique_keys e2e_record" by (simp add: e2e_record_def e2e_tests_def list_all_iff)
  show "json_finite e2e_record" by (simp add: e2e_record_def e2e_tests_def list_all_iff)
qed

lemma field_is_item: "jitem d k = Inr v \<Longrightarrow> json_eq v w \<Longrightarrow> field_is [k] w (JDict d) = Inr True"
  by (simp add: field_is_def)

lemma json_eq_int [simp]: "json_eq (JInt m) (JInt n) = (m = n)"
  by (subst json_eq.simps) simp

text \<open>
  C39. The gate accepts the evidence a CI run created, for the head, base and pull request recorded
  in it: once that run is reported as completed with success and all its jobs have succeeded,
  nothing in the record itself can make the gate refuse it.
\<close>

theorem evidence_accepted:
  assumes created: "create_evidence R S utf8 c needs = Inr ev"
    and run: "jget run ''status'' = JStr ''completed''" "jget run ''conclusion'' = JStr ''success''"
      "jget run ''path'' = JStr (''.github/workflows/'' @ (if for_pr pr then ''ci.yml'' else ''ci-post.yml''))"
      "jget run ''head_sha'' = JStr head" "jget run ''id'' = jget ev ''run_id''" "jget run ''run_attempt'' = jget ev ''attempt''"
      "jget run ''event'' = jget ev ''event''"
    and asked: "jget ev ''head'' = JStr head" "jget ev ''base'' = opt_json JStr base_sha" "jget ev ''pr'' = opt_json JInt pr"
      "jget ev ''event'' = JStr (if for_pr pr then ''pull_request'' else ''push'')"
    and jobs: "validate_jobs jobs True = Inr ()"
  shows "validate_gate ev run jobs head base_sha pr = Inr ()"
proof -
  obtain run_id attempt name number b h tested tree dist where ev:
    "ev = [(''run_id'', JInt run_id), (''attempt'', JInt attempt), (''event'', JStr name), (''pr'', number),
          (''base'', b), (''head'', h), (''tested_sha'', tested), (''tree'', tree),
          (''jobs'', all_success ci_jobs), (''e2e'', e2e_record), (''approved_skips'', JList [JStr skip_note]),
          (''distributions'', dist)]"
    using created by (auto simp: create_evidence_def rbind_returns Let_def split: prod.splits)
  have items: "jitem ev ''run_id'' = Inr (JInt run_id)" "jitem ev ''attempt'' = Inr (JInt attempt)" "jitem ev ''base'' = Inr b"
      "jitem ev ''pr'' = Inr number" "jitem ev ''jobs'' = Inr (all_success ci_jobs)" "jitem ev ''e2e'' = Inr e2e_record"
    by (simp_all add: ev jitem_def)
  have values_of: "b = opt_json JStr base_sha" "number = opt_json JInt pr" "jget ev ''run_id'' = JInt run_id" "jget ev ''attempt'' = JInt attempt"
    using asked(2,3) by (simp_all add: ev jget_def)
  have run_items: "jitem run ''id'' = Inr (JInt run_id)" "jitem run ''run_attempt'' = Inr (JInt attempt)"
    using run(5,6) values_of(3,4) by (auto simp: jget_def jitem_def split: option.splits)
  have "json_eq (opt_json JStr base_sha) (opt_json JStr base_sha)" "json_eq (opt_json JInt pr) (opt_json JInt pr)"
    by (cases base_sha; cases pr; simp add: opt_json_def)+
  then have fields: "field_is [''base''] (opt_json JStr base_sha) (JDict ev) = Inr True"
      "field_is [''pr''] (opt_json JInt pr) (JDict ev) = Inr True"
      "field_is [''jobs''] (all_success ci_jobs) (JDict ev) = Inr True" "field_is [''e2e''] e2e_record (JDict ev) = Inr True"
    using items(3-6) success_refl e2e_refl unfolding values_of(1,2) by (auto intro: field_is_item)
  have same: "same_field ''run_id'' ev ''id'' run = Inr True" "same_field ''attempt'' ev ''run_attempt'' run = Inr True"
    using items(1,2) run_items by (simp_all add: same_field_def)
  have event: "same_field ''event'' run ''event'' ev = Inr True"
    using run(7) asked(4) by (auto simp: same_field_def jitem_def jget_def split: option.splits)
  show ?thesis
    unfolding validate_gate_def Let_def demanded rand_true field_is_text
    using run(1-4) asked(1,4) fields same event jobs by simp
qed

text \<open>A run of the main branch, its jobs and its evidence.\<close>

definition sample_run :: "(string, json) dict" where
  "sample_run =
     [(''status'', JStr ''completed''), (''conclusion'', JStr ''success''), (''path'', JStr ''.github/workflows/ci-post.yml''),
      (''head_sha'', JStr ''h''), (''id'', JInt 1), (''run_attempt'', JInt 1), (''event'', JStr ''push'')]"

definition sample_jobs :: "json list" where
  "sample_jobs = map (\<lambda>name. JDict [(''name'', JStr name), (''status'', JStr ''completed''), (''conclusion'', JStr ''success'')])
     (ci_jobs @ [''release/ready''])"

definition sample_ci :: ci_state where
  "sample_ci =
     \<lparr>environ = [(''GITHUB_EVENT_PATH'', ''p''), (''GITHUB_REPOSITORY'', ''r''), (''GITHUB_RUN_ID'', ''1''),
        (''GITHUB_RUN_ATTEMPT'', ''1''), (''GITHUB_EVENT_NAME'', ''push'')],
      trigger_file = \<lambda>_. Inr ''t'', git_head = Inr ''h'', git_tree = Inr ''k'', workflow_file = \<lambda>name. map_of reviewed_workflows name,
      dist_files = [(''p.whl'', ''w''), (''p.tar.gz'', ''s'')]\<rparr>"

definition sample_needs :: "(string, json) dict" where
  "sample_needs = map (\<lambda>name. (name, JDict [(''result'', JStr ''success'')])) ci_needs"

definition sample_evidence :: "(string, json) dict" where
  "sample_evidence =
     [(''run_id'', JInt 1), (''attempt'', JInt 1), (''event'', JStr ''push''), (''pr'', JNull), (''base'', JNull),
      (''head'', JStr ''h''), (''tested_sha'', JStr ''h''), (''tree'', JStr ''k''), (''jobs'', all_success ci_jobs),
      (''e2e'', e2e_record), (''approved_skips'', JList [JStr skip_note]),
      (''distributions'', JDict [(''p.tar.gz'', JStr ''s''), (''p.whl'', JStr ''w'')])]"

definition sample_ci_readers :: readers where
  "sample_ci_readers = sample_readers\<lparr>sha256_of := \<lambda>s. s, json_loads := \<lambda>s. Some (
     if s = ''t'' then JDict [] else if s = ''a'' then JDict sample_run
     else if s = ''b'' then JDict [(''jobs'', JList sample_jobs)]
     else if s = ''c'' then JDict [(''artifacts'', JList [JDict [(''name'', JStr ''release-evidence-1''), (''expired'', JBool False), (''id'', JInt 5)]])]
     else JDict sample_evidence)\<rparr>"

definition sample_ci_services :: services where
  "sample_ci_services =
     \<lparr>gh_bytes = \<lambda>e a. Inr (if e = ''repos/r/actions/runs/1'' then ''a''
        else if e = ''repos/r/actions/runs/1/attempts/1/jobs?per_page=100'' then ''b''
        else if e = ''repos/r/actions/runs/1/artifacts?per_page=100'' then ''c'' else ''z''),
      http_get = \<lambda>u h. Inr []\<rparr>"

lemma json_eq_texts: "json_eq (JStr s) (JStr t) = (s = t)"
  by auto

lemma sample_jobs_valid: "validate_jobs sample_jobs True = Inr ()"
  by (simp add: validate_jobs_def sample_jobs_def ci_jobs_def jobs_named_def field_is_def jitem_def job_succeeded_def rand_def
      demand_True)


lemma sample_attempt: "attempt_jobs sample_ci_readers sample_ci_services ''r'' ''1'' ''1'' = Inr sample_jobs"
  by (simp add: attempt_jobs_def gh_object_def sample_ci_services_def sample_ci_readers_def object_json_def require_def
      sample_jobs_def list_all_iff ci_jobs_def jitem_def)

lemma sample_inventory: "validate_inventory sample_jobs = Inr ()"
  by (simp add: validate_inventory_def sample_jobs_def ci_jobs_def jobs_named_def field_is_def jitem_def demand_True)

lemma one_text: "int_text 1 = ''1''" "py_str (JInt 1) = ''1''" "int_value (JStr ''1'') = Inr 1"
  by code_simp+

lemma sample_reviewed: "require_no_continue_on_error (\<lambda>s. s) Some (\<lambda>name. map_of reviewed_workflows name) = Inr ()"
proof -
  have "\<not> sublist ''continue-on-error'' h" if "CHR ''-'' \<notin> set h" for h
    using that set_mono_sublist [of "''continue-on-error''" h] by auto
  then show ?thesis by (simp add: require_no_continue_on_error_def reviewed_workflows_def demand_True)
qed

lemma sample_created:
  "create_evidence sample_ci_readers sample_ci_services Some sample_ci sample_needs = Inr sample_evidence"
proof -
  have needs: "set (dkeys sample_needs) = set ci_needs"
      "rany (\<lambda>(k, v). rbind (got v ''result'' JNull) (\<lambda>r. Inr (r \<noteq> JStr ''success''))) sample_needs = Inr False"
    by (simp_all add: sample_needs_def ci_needs_def jget_default_def)
  have reviewed: "require_no_continue_on_error (sha256_of sample_ci_readers) Some (workflow_file sample_ci) = Inr ()"
    using sample_reviewed by (simp add: sample_ci_readers_def sample_ci_def)
  have trigger: "rbind (rbind (env_item sample_ci ''GITHUB_EVENT_PATH'') (trigger_file sample_ci)) (object_json (json_loads sample_ci_readers)) = Inr []"
    by (simp add: env_item_def sample_ci_def sample_ci_readers_def object_json_def require_def)
  have env: "env_item sample_ci ''GITHUB_REPOSITORY'' = Inr ''r''" "env_int sample_ci ''GITHUB_RUN_ID'' = Inr 1"
      "env_int sample_ci ''GITHUB_RUN_ATTEMPT'' = Inr 1" "env_item sample_ci ''GITHUB_EVENT_NAME'' = Inr ''push''"
      "git_head sample_ci = Inr ''h''" "git_tree sample_ci = Inr ''k''"
    using one_text(3) by (simp_all add: env_item_def env_int_def sample_ci_def del: int_value.simps)
  have strip: "py_strip ''h'' = ''h''" "py_strip ''k'' = ''k''" by code_simp+
  have dist: "distribution_hashes (sha256_of sample_ci_readers) (dist_files sample_ci) = Inr [(''p.tar.gz'', ''s''), (''p.whl'', ''w'')]"
    by (simp add: distribution_hashes_def sample_ci_def sample_ci_readers_def is_wheel_def is_sdist_def suffix_def demand_True)
  show ?thesis
    unfolding create_evidence_def needs reviewed trigger env rbind_Inr Let_def one_text(1) sample_attempt sample_inventory strip dist
    by (simp add: demand_True pr_fields_def jget_def sample_evidence_def)
qed

lemma evidence_accepted_witness: "validate_gate sample_evidence sample_run sample_jobs ''h'' None None = Inr ()"
  by (rule evidence_accepted [OF sample_created _ _ _ _ _ _ _ _ _ _ _ sample_jobs_valid])
    (simp_all add: sample_run_def sample_evidence_def jget_def opt_json_def for_pr_def)



end
