(* ===== verification/Receipts.thy ===== *)
theory Receipts
  imports Evidence
begin

text \<open>
  The consumer receipt, \<open>scripts/release_chain/receipts.py\<close>, and the texts of
  \<open>scripts/release_chain/automation.py\<close> that carry identities: the receipt file, the marker in
  the body of a pull request and the identity of a pull request.  A working report is a JSON object that the
  stages fill in.
\<close>

section \<open>Receipts\<close>

definition receipt_fields :: "string list" where
  "receipt_fields =
     [''schema'', ''consumer'', ''event_id'', ''release_version'', ''attempt'', ''sequence'', ''state'', ''timestamp'', ''pr'', ''ci'',
      ''e2e'', ''deploy'', ''preview'', ''deployed'', ''previous'']"

definition canonical :: "json \<Rightarrow> string result" where
  "canonical v = rbind (dumps_as (\<lambda>v. json_plain (sorted_keys v)) v) (\<lambda>t. Inr (t @ [CHR 0x0A]))"

text \<open>\<open>os.environ.get(k, default)\<close> as an integer, and the environment's clock text.\<close>

definition env_number :: "(string, string) dict \<Rightarrow> string \<Rightarrow> int result" where
  "env_number env k = int_value (JStr (case map_of env k of None \<Rightarrow> ''1'' | Some s \<Rightarrow> s))"

definition receipt :: "(string, string) dict \<Rightarrow> string \<Rightarrow> (string, json) dict option \<Rightarrow> (string, json) dict result" where
  "receipt env now event =
     (let field = (\<lambda>k. case event of None \<Rightarrow> Inr JNull | Some [] \<Rightarrow> Inr JNull | Some e \<Rightarrow> jitem e k) in
      rbind (field ''event_id'') (\<lambda>i.
      rbind (field ''release_version'') (\<lambda>v.
      rbind (env_number env ''GITHUB_RUN_ID'') (\<lambda>attempt.
      rbind (env_number env ''GITHUB_RUN_ATTEMPT'') (\<lambda>sequence.
      Inr [(''schema'', JStr ''pineforge/consumer-receipt/v1''), (''consumer'', JStr ''data''), (''event_id'', i),
           (''release_version'', v), (''attempt'', JInt attempt), (''sequence'', JInt sequence), (''state'', JStr ''pending''),
           (''timestamp'', JStr now), (''pr'', JNull), (''ci'', JNull), (''e2e'', JNull), (''deploy'', JNull), (''preview'', JNull),
           (''deployed'', JNull), (''previous'', JNull)])))))"

definition receipt_jobs :: "string list" where "receipt_jobs = ci_jobs @ [''release/ready'']"

definition gate_checks :: "(string, json) dict \<Rightarrow> json result" where
  "gate_checks gate =
     rbind (jitem gate ''run_id'') (\<lambda>i. rbind (jitem gate ''attempt'') (\<lambda>a. rbind (jitem gate ''head'') (\<lambda>h.
     Inr (JDict [(''run_id'', i), (''run_attempt'', a), (''sha'', h), (''expected'', JList (map JStr receipt_jobs)),
       (''approved_skips'', JList []), (''results'', all_success receipt_jobs)]))))"

definition deployment_id :: "readers \<Rightarrow> json \<Rightarrow> json \<Rightarrow> string result" where
  "deployment_id R version distributions =
     rbind (canonical (JDict [(''package'', JStr ''pineforge-data''), (''version'', version), (''distributions'', distributions)]))
       (\<lambda>t. Inr (sha256_of R t))"

definition served_identity :: "readers \<Rightarrow> (string, json) dict \<Rightarrow> json \<Rightarrow> json \<Rightarrow> json \<Rightarrow> json result" where
  "served_identity R event source version distributions =
     rbind (dig (JDict event) [''image'', ''digest'']) (\<lambda>digest.
     rbind (dig (JDict event) [''facts'', ''commit'']) (\<lambda>commit.
     rbind (dig (JDict event) [''facts'', ''sha256'']) (\<lambda>facts.
     rbind (deployment_id R version distributions) (\<lambda>i.
     Inr (JDict [(''source'', source), (''image_digest'', digest), (''facts_commit'', commit), (''facts_sha256'', facts),
       (''deployment_id_sha256'', JStr i)])))))"

text \<open>\<open>report[k] = v\<close>; \<open>candidate\<close> fills three fields, those before a failure included.\<close>

abbreviation put :: "string \<Rightarrow> json \<Rightarrow> (string, json) dict \<Rightarrow> (string, json) dict" where
  "put k v d \<equiv> AList.update k v d"

definition candidate ::
  "readers \<Rightarrow> (string, json) dict \<Rightarrow> (string, json) dict \<Rightarrow> json \<Rightarrow> (string, json) dict \<Rightarrow> unit result \<times> (string, json) dict" where
  "candidate R event gate version report =
     (case gate_checks gate of
        Inl e \<Rightarrow> (Inl e, report)
      | Inr c \<Rightarrow>
          (let report = put ''e2e'' c (put ''ci'' c report) in
           case rbind (dig (JDict report) [''pr'', ''head'']) (\<lambda>h. rbind (jitem gate ''distributions'') (\<lambda>d. served_identity R event h version d)) of
             Inl e \<Rightarrow> (Inl e, report)
           | Inr s \<Rightarrow> (Inr (), put ''preview'' s report)))"

definition signal :: "(string, json) dict \<Rightarrow> json \<Rightarrow> json result" where
  "signal report run_id =
     rbind (demand (case run_id of JInt n \<Rightarrow> 0 < n \<and> n \<le> 9007199254740991 | _ \<Rightarrow> False) ''invalid reporting run ID'') (\<lambda>_.
     rbind (rand (field_is [''consumer''] (JStr ''data'') (JDict report)) (field_true [''event_id''] (JDict report))) (\<lambda>ok.
     rbind (demand ok ''signal needs a data target'') (\<lambda>_.
     rbind (jitem report ''release_version'') (\<lambda>v.
     Inr (JDict [(''schema'', JStr ''pineforge/consumer-signal/v1''), (''consumer'', JStr ''data''), (''release_version'', v),
       (''run_id'', run_id)])))))"

text \<open>\<open>finish\<close>: the bytes of the receipt file, \<open>None\<close> where no file is written.\<close>

definition finish_receipt :: "(string, json) dict \<Rightarrow> string option result" where
  "finish_receipt report =
     rbind (demand (set (dkeys report) = set receipt_fields) ''receipt fields differ from the hub contract'') (\<lambda>_.
     if jget report ''event_id'' = JNull then Inr None
     else rbind (canonical (JDict report)) (\<lambda>t. Inr (Some t)))"

section \<open>Pull requests\<close>

definition marker_start :: string where "marker_start = ''<!-- pineforge-data-release {''"
definition marker_end :: string where "marker_end = ''} -->''"

definition cut_last :: "string \<Rightarrow> string \<Rightarrow> (string \<times> string) option" where
  "cut_last p s = map_option (\<lambda>(b, a). (rev a, rev b)) (cut_at (rev p) (rev s))"

text \<open>
  \<open>MARKER.findall\<close>: the pattern stays within a line and takes as much of it as it can, so a line
  has at most one match.
\<close>

definition marker_in_line :: "string \<Rightarrow> string option" where
  "marker_in_line l =
     (case cut_at marker_start l of
        None \<Rightarrow> None
      | Some (_, r) \<Rightarrow>
          (case cut_last marker_end r of
             None \<Rightarrow> None
           | Some (m, _) \<Rightarrow> if m = [] then None else Some (CHR ''{'' # m @ ''}'')))"

definition find_markers :: "string \<Rightarrow> string list" where
  "find_markers s = List.map_filter marker_in_line (split_char CHR 0x0A s)"

definition marker :: "readers \<Rightarrow> json \<Rightarrow> (string, json) dict option result" where
  "marker R pr =
     rbind (got pr ''body'' JNull) (\<lambda>b.
     rbind (if \<not> truthy b then Inr [] else case b of JStr s \<Rightarrow> Inr (find_markers s) | _ \<Rightarrow> raise TypeError ''expected string'') (\<lambda>ms.
     rbind (demand (length ms \<le> 1) ''ambiguous release PR marker'') (\<lambda>_.
     case ms of [] \<Rightarrow> Inr None | m # _ \<Rightarrow> rbind (object_json (json_loads R) m) (\<lambda>d. Inr (Some d)))))"

definition pr_notes :: string where
  "pr_notes = ''Required: Python 3.11/3.12/3.13, manifest/source/OCI verification, real Docker ''
     @ ''harness and ABI checks, concurrent server/cache checks, disposable database E2E, ''
     @ ''and installation/backtesting of both distributions. `release/ready` must pass ''
     @ ''for the current head and base. Publication reuses the landed commit's CI artifacts.''"

definition pr_body :: "(string, json) dict \<Rightarrow> string result" where
  "pr_body metadata =
     rbind (jitem metadata ''version'') (\<lambda>v.
     Inr (''Publish pineforge-data '' @ py_str v @ '' after its own CI and runtime E2E.'' @ [CHR 0x0A, CHR 0x0A] @
       pr_notes @ [CHR 0x0A, CHR 0x0A] @
       ''<!-- pineforge-data-release '' @ json_spaced (sorted_keys (JDict metadata)) @ '' -->'' @ [CHR 0x0A]))"

definition pr_identity :: "json \<Rightarrow> json \<Rightarrow> json result" where
  "pr_identity pr base_sha =
     rbind (subscript pr ''number'') (\<lambda>n.
     rbind (dig pr [''base'', ''ref'']) (\<lambda>b.
     rbind (if truthy base_sha then Inr base_sha else dig pr [''base'', ''sha'']) (\<lambda>s.
     rbind (dig pr [''head'', ''sha'']) (\<lambda>h.
     rbind (got pr ''merged'' JNull) (\<lambda>m.
     rbind (if truthy m then got pr ''merge_commit_sha'' JNull else Inr JNull) (\<lambda>c.
     Inr (JDict [(''number'', n), (''base'', b), (''base_sha'', s), (''head'', h), (''merge'', c)])))))))"

section \<open>The marker survives the body of a pull request\<close>

lemma digit_not_break: "ascii_digit c \<Longrightarrow> c \<noteq> CHR 0x0A"
  by (auto simp: ascii_digit_def code_def)

lemma nat_text_line: "CHR 0x0A \<notin> set (nat_text n)"
  using nat_text_digits digit_not_break by blast

lemma int_text_line: "CHR 0x0A \<notin> set (int_text n)"
  using nat_text_line by (simp add: int_text_def)

lemma float_text_pos_line: "CHR 0x0A \<notin> set (float_text_pos x)"
proof -
  obtain m e where me: "shortest_from 17 1 x = (m, e)" by fastforce
  have "set (strip_zeros (nat_text m)) \<subseteq> set (nat_text m)"
    unfolding strip_zeros_def by (auto dest: set_dropWhileD)
  then have ds: "CHR 0x0A \<notin> set (strip_zeros (nat_text m))" using nat_text_line by blast
  then have "CHR 0x0A \<notin> set (take k (strip_zeros (nat_text m)))" "CHR 0x0A \<notin> set (drop k (strip_zeros (nat_text m)))" for k
    by (auto dest: in_set_takeD in_set_dropD)
  moreover have "CHR 0x0A \<notin> set (case strip_zeros (nat_text m) of [d] \<Rightarrow> [d] | d # r \<Rightarrow> d # CHR ''.'' # r | [] \<Rightarrow> [])"
  proof (cases "strip_zeros (nat_text m)")
    case (Cons d r)
    then show ?thesis using ds by (cases r) auto
  qed simp
  ultimately show ?thesis
    unfolding float_text_pos_def me Let_def prod.case using ds nat_text_line by simp
qed

lemma comma_joined_line: "\<forall>t \<in> set ts. CHR 0x0A \<notin> set t \<Longrightarrow> CHR 0x0A \<notin> set (comma_joined ts)"
  by (induction ts rule: comma_joined.induct) auto

lemma json_spaced_line: "CHR 0x0A \<notin> set (json_spaced v)"
proof (induction v rule: json_spaced.induct, goal_cases)
  case (1 xs)
  then have "\<forall>t \<in> set (map json_spaced xs). CHR 0x0A \<notin> set t" by simp
  then show ?case using comma_joined_line by simp
next
  case (2 d)
  let ?items = "map (\<lambda>(k, v). json_string k @ '': '' @ json_spaced v) d"
  have quoted: "CHR 0x0A \<notin> set (json_string s)" for s
    using json_string_ascii [of "CHR 0x0A" s] by (auto simp: code_def)
  have "\<forall>t \<in> set ?items. CHR 0x0A \<notin> set t" using 2 quoted by fastforce
  then show ?case using comma_joined_line by simp
next
  case (6 f)
  then show ?case using float_text_pos_line by (cases f) auto
next
  case (7 s)
  then show ?case using json_string_ascii [of "CHR 0x0A" s] by (auto simp: code_def)
qed (simp_all add: int_text_line)

lemma split_paragraphs:
  "CHR 0x0A \<notin> set a \<Longrightarrow> CHR 0x0A \<notin> set b \<Longrightarrow> CHR 0x0A \<notin> set c \<Longrightarrow>
     split_char CHR 0x0A (a @ [CHR 0x0A, CHR 0x0A] @ b @ [CHR 0x0A, CHR 0x0A] @ c @ [CHR 0x0A]) = [a, [], b, [], c, []]"
  by (simp add: split_char_step)

lemma cut_at_here: "cut_at p (p @ s) = Some ([], s)"
proof (cases "p @ s")
  case (Cons c t)
  have "prefix p (p @ s)" by simp
  moreover have "drop (length p) (p @ s) = s" by simp
  ultimately show ?thesis unfolding Cons by simp
qed simp

lemma cut_at_absent: "c \<in> set p \<Longrightarrow> c \<notin> set s \<Longrightarrow> cut_at p s = None"
proof (induction s)
  case (Cons d s)
  then have "\<not> prefix p (d # s)" using set_mono_prefix [of p "d # s"] by auto
  then show ?case using Cons by simp
qed auto

lemma no_marker: "CHR ''<'' \<notin> set l \<Longrightarrow> marker_in_line l = None"
  using cut_at_absent [of "CHR ''<''" marker_start l] by (simp add: marker_in_line_def marker_start_def)

lemma marker_found:
  assumes "x \<noteq> []"
  shows "marker_in_line (marker_start @ x @ marker_end) = Some (CHR ''{'' # x @ ''}'')"
proof -
  have "cut_last marker_end (x @ marker_end) = Some (x, [])"
    unfolding cut_last_def using cut_at_here [of "rev marker_end" "rev x"] by simp
  then show ?thesis using assms by (simp add: marker_in_line_def cut_at_here)
qed

lemma spaced_fields: "d \<noteq> [] \<Longrightarrow> \<exists>x. x \<noteq> [] \<and> json_spaced (JDict d) = CHR ''{'' # x @ ''}''"
proof -
  assume "d \<noteq> []"
  then obtain k v e where d: "d = (k, v) # e" by (cases d) auto
  have "comma_joined (map (\<lambda>(k, v). json_string k @ '': '' @ json_spaced v) d) \<noteq> []"
    by (cases e) (auto simp: d)
  then show ?thesis by auto
qed

text \<open>
  C40. The identity the release bot writes into a pull request is read back from it: the body it
  makes from the metadata has one marker, whose text is the metadata as JSON, so the parser returns
  exactly those fields.
\<close>

theorem marker_roundtrip:
  assumes "pr_body metadata = Inr text_body" and "set (py_str (jget metadata ''version'')) \<inter> {CHR 0x0A, CHR ''<''} = {}"
    and "json_loads R (json_spaced (sorted_keys (JDict metadata))) = Some (sorted_keys (JDict metadata))"
    and "unique_keys (JDict metadata)"
  shows "marker R (JDict [(''body'', JStr text_body)]) = Inr (Some (sorted_fields metadata))"
proof -
  obtain v where v: "map_of metadata ''version'' = Some v"
      "text_body = ''Publish pineforge-data '' @ py_str v @ '' after its own CI and runtime E2E.'' @ [CHR 0x0A, CHR 0x0A] @
       pr_notes @ [CHR 0x0A, CHR 0x0A] @
       ''<!-- pineforge-data-release '' @ json_spaced (sorted_keys (JDict metadata)) @ '' -->'' @ [CHR 0x0A]"
    using assms(1) by (auto simp: pr_body_def rbind_returns jitem_def split: option.splits)
  have plain: "CHR 0x0A \<notin> set (py_str v)" "CHR ''<'' \<notin> set (py_str v)"
    using assms(2) v(1) by (auto simp: jget_def)
  have "sorted_fields metadata \<noteq> []"
    using v(1) keys_sorted(2) [of metadata] by (metis length_0_conv map_of.simps(1) option.distinct(1))
  then obtain x where x: "x \<noteq> []" "json_spaced (sorted_keys (JDict metadata)) = CHR ''{'' # x @ ''}''"
    using spaced_fields unfolding sorted_dict by blast
  let ?first = "''Publish pineforge-data '' @ py_str v @ '' after its own CI and runtime E2E.''"
  let ?line = "''<!-- pineforge-data-release '' @ json_spaced (sorted_keys (JDict metadata)) @ '' -->''"
  have line: "?line = marker_start @ x @ marker_end" unfolding x(2) by (simp add: marker_start_def marker_end_def)
  have breaks: "CHR 0x0A \<notin> set ?first" "CHR 0x0A \<notin> set pr_notes" "CHR 0x0A \<notin> set ?line"
    using plain(1) json_spaced_line by (simp_all add: pr_notes_def del: json_spaced.simps sorted_keys.simps)
  have "text_body = ?first @ [CHR 0x0A, CHR 0x0A] @ pr_notes @ [CHR 0x0A, CHR 0x0A] @ ?line @ [CHR 0x0A]"
    unfolding v(2) by (simp only: append_assoc)
  then have "split_char CHR 0x0A text_body = [?first, [], pr_notes, [], ?line, []]"
    using split_paragraphs [OF breaks] by simp
  moreover have "marker_in_line ?first = None" "marker_in_line pr_notes = None" "marker_in_line [] = None"
    by (rule no_marker, use plain(2) in \<open>simp add: pr_notes_def\<close>)+
  ultimately have "find_markers text_body = [CHR ''{'' # x @ ''}'']"
    unfolding find_markers_def line by (simp add: List.map_filter_simps marker_found [OF x(1)])
  moreover have "text_body \<noteq> []" unfolding v(2) by simp
  moreover have "json_loads R (CHR ''{'' # x @ ''}'') = Some (JDict (sorted_fields metadata))"
    using assms(3) unfolding x(2) unfolding sorted_dict .
  ultimately show ?thesis
    using unique_sorted [OF assms(4)] unfolding sorted_dict
    by (simp add: marker_def jget_default_def object_json_def demand_True require_def del: unique_keys.simps)
qed

lemma marker_roundtrip_witness:
  "\<exists>t. pr_body [(''version'', JStr ''2.0.1'')] = Inr t \<and>
     marker (sample_readers\<lparr>json_loads := \<lambda>_. Some (JDict [(''version'', JStr ''2.0.1'')])\<rparr>) (JDict [(''body'', JStr t)]) =
       Inr (Some [(''version'', JStr ''2.0.1'')])"
proof -
  let ?m = "[(''version'', JStr ''2.0.1'')]"
  obtain t where t: "pr_body ?m = Inr t" by (simp add: pr_body_def jitem_def)
  have "marker (sample_readers\<lparr>json_loads := \<lambda>_. Some (JDict ?m)\<rparr>) (JDict [(''body'', JStr t)]) = Inr (Some (sorted_fields ?m))"
    by (rule marker_roundtrip [OF t]) (simp_all add: jget_def py_str_def)
  moreover have "sorted_fields ?m = ?m" by (simp add: sorted_fields_def)
  ultimately show ?thesis using t by simp
qed


end
