(* ===== verification/ReleaseActions.thy ===== *)
theory ReleaseActions
  imports Receipts
begin

text \<open>
  The steps of the release automation that touch the outside, after
  \<open>scripts/release_chain/automation.py\<close>: git, the GitHub API and the checkout.  The outside has a
  state of its own, which others may change between two calls; a command may change it as well.
  A run keeps its report beside it.  A read that takes several requests sees one state.  An
  inventory that never ends is taken as an error at that point: nothing happens after it.
\<close>

section \<open>Actions\<close>

record 'w platform =
  services_in :: "'w \<Rightarrow> services"
  advance :: "'w \<Rightarrow> 'w"
  api_write :: "string \<Rightarrow> string \<Rightarrow> json \<Rightarrow> 'w \<Rightarrow> string result \<times> 'w"
  run_command :: "string list \<Rightarrow> 'w \<Rightarrow> string result \<times> 'w"
  file_at :: "string \<Rightarrow> string \<Rightarrow> 'w \<Rightarrow> string option"
  write_files :: "(string \<times> string) list \<Rightarrow> 'w \<Rightarrow> 'w"

record chain_env =
  readers_of :: readers
  unzip :: "string \<Rightarrow> (string \<times> string) list result"
  env_vars :: "(string, string) dict"
  clock_text :: string

record 'w progress =
  the_report :: "(string, json) dict"
  outside :: 'w

type_synonym ('w, 'a) act = "'w progress \<Rightarrow> 'a result \<times> 'w progress"

definition observe :: "'w platform \<Rightarrow> (services \<Rightarrow> 'a result) \<Rightarrow> ('w, 'a) act" where
  "observe P f s = (f (services_in P (outside s)), s\<lparr>outside := advance P (outside s)\<rparr>)"

definition on_report :: "((string, json) dict \<Rightarrow> 'a result \<times> (string, json) dict) \<Rightarrow> ('w, 'a) act" where
  "on_report f s = (case f (the_report s) of (r, d) \<Rightarrow> (r, s\<lparr>the_report := d\<rparr>))"

definition set_report :: "string \<Rightarrow> json \<Rightarrow> ('w, unit) act" where
  "set_report k v = on_report (\<lambda>d. (Inr (), put k v d))"

definition merge_report :: "(string, json) dict \<Rightarrow> ('w, unit) act" where
  "merge_report e = on_report (\<lambda>d. (Inr (), dict_merge d e))"

definition report_item :: "string \<Rightarrow> ('w, json) act" where
  "report_item k = on_report (\<lambda>d. (jitem d k, d))"

definition check :: "bool \<Rightarrow> string \<Rightarrow> ('w, unit) act" where
  "check b message = slift (demand b message)"

text \<open>A conditional step, and a loop over a list.\<close>

definition when_act :: "bool \<Rightarrow> ('w, unit) act \<Rightarrow> ('w, unit) act" where
  "when_act b m = (if b then m else slift (Inr ()))"

fun each :: "('a \<Rightarrow> ('w, unit) act) \<Rightarrow> 'a list \<Rightarrow> ('w, unit) act" where
  "each f [] = slift (Inr ())"
| "each f (x # xs) = sbind (f x) (\<lambda>_. each f xs)"

section \<open>The GitHub API and git\<close>

definition api_target :: "string \<Rightarrow> string \<Rightarrow> string" where
  "api_target repo endpoint = ''repos/'' @ repo @ (if endpoint = [] then [] else CHR ''/'' # endpoint)"

definition api_answer :: "chain_env \<Rightarrow> string \<Rightarrow> json result" where
  "api_answer E out = (if out = [] then Inr JNull else loaded (readers_of E) out)"

definition api_read :: "chain_env \<Rightarrow> services \<Rightarrow> string \<Rightarrow> string \<Rightarrow> json result" where
  "api_read E S repo endpoint = rbind (gh_bytes S (api_target repo endpoint) []) (api_answer E)"

definition api_get :: "chain_env \<Rightarrow> 'w platform \<Rightarrow> string \<Rightarrow> string \<Rightarrow> ('w, json) act" where
  "api_get E P repo endpoint = observe P (\<lambda>S. api_read E S repo endpoint)"

definition api_send :: "chain_env \<Rightarrow> 'w platform \<Rightarrow> string \<Rightarrow> string \<Rightarrow> string \<Rightarrow> json \<Rightarrow> ('w, json) act" where
  "api_send E P repo endpoint verb data s =
     (case json_bytes data of
        Inl e \<Rightarrow> (Inl e, s)
      | Inr _ \<Rightarrow> (case api_write P verb (api_target repo endpoint) data (outside s) of
          (r, w) \<Rightarrow> (rbind r (api_answer E), s\<lparr>outside := w\<rparr>)))"

definition command :: "'w platform \<Rightarrow> string list \<Rightarrow> ('w, string) act" where
  "command P args s = (case run_command P args (outside s) of (r, w) \<Rightarrow> (r, s\<lparr>outside := w\<rparr>))"

definition git :: "'w platform \<Rightarrow> string list \<Rightarrow> ('w, string) act" where
  "git P args = sbind (command P (''git'' # args)) (\<lambda>out. slift (Inr (py_strip out)))"

definition settled :: "'a result option \<Rightarrow> 'a result" where
  "settled r = (case r of None \<Rightarrow> raise RuntimeError ''never returns'' | Some x \<Rightarrow> x)"

definition list_all_pages :: "chain_env \<Rightarrow> services \<Rightarrow> string \<Rightarrow> string \<Rightarrow> string \<Rightarrow> json list result" where
  "list_all_pages E S repo endpoint key = settled (all_pages (page_of (api_read E S repo) endpoint key) 1 [])"

definition inventory :: "chain_env \<Rightarrow> 'w platform \<Rightarrow> string \<Rightarrow> string \<Rightarrow> string \<Rightarrow> ('w, json list) act" where
  "inventory E P repo endpoint key = observe P (\<lambda>S. list_all_pages E S repo endpoint key)"

definition pr_marker :: "chain_env \<Rightarrow> json \<Rightarrow> (string, json) dict option result" where
  "pr_marker E pr = marker (readers_of E) pr"

text \<open>\<open>marker(pr)["k"]\<close>: without a marker the subscription raises.\<close>

definition marker_item :: "chain_env \<Rightarrow> json \<Rightarrow> string \<Rightarrow> json result" where
  "marker_item E pr k =
     rbind (pr_marker E pr) (\<lambda>m. case m of None \<Rightarrow> raise TypeError ''object is not subscriptable'' | Some d \<Rightarrow> jitem d k)"

section \<open>The checkout\<close>

definition runtime_path :: string where "runtime_path = ''src/pineforge_data/release_contract.py''"
definition dockerfile_path :: string where "dockerfile_path = ''docker/server.Dockerfile''"
definition project_path :: string where "project_path = ''pyproject.toml''"
definition lock_path :: string where "lock_path = ''src/pineforge_data/release_lock.json''"
definition manifest_path :: string where "manifest_path = ''src/pineforge_data/release_manifest.json''"

definition update_paths :: "string list" where
  "update_paths = [lock_path, manifest_path, runtime_path, dockerfile_path, project_path]"

text \<open>\<open>snapshot\<close>: the five files of a revision; only the lock and the manifest may be missing.\<close>

definition snapshot_tree :: "(string \<Rightarrow> string option) \<Rightarrow> release_tree result" where
  "snapshot_tree file =
     (let needed = (\<lambda>name. case file name of None \<Rightarrow> raise ValueError ''missing source'' | Some b \<Rightarrow> Inr b) in
      rbind (needed runtime_path) (\<lambda>runtime.
      rbind (needed dockerfile_path) (\<lambda>docker.
      rbind (needed project_path) (\<lambda>proj.
      Inr \<lparr>runtime_source = runtime, server_dockerfile = docker, project_file = proj,
           lock_file = file lock_path, manifest_file = file manifest_path\<rparr>))))"

definition take_snapshot :: "'w platform \<Rightarrow> string \<Rightarrow> ('w, release_tree) act" where
  "take_snapshot P revision s = (snapshot_tree (\<lambda>name. file_at P revision name (outside s)), s)"

text \<open>A patch lists the new contents of files by name.\<close>

type_synonym patch = "(string \<times> string) list"

definition update_patch :: "release_tree \<Rightarrow> patch" where
  "update_patch t =
     [(runtime_path, runtime_source t), (dockerfile_path, server_dockerfile t), (project_path, project_file t),
      (lock_path, case lock_file t of None \<Rightarrow> [] | Some b \<Rightarrow> b), (manifest_path, case manifest_file t of None \<Rightarrow> [] | Some b \<Rightarrow> b)]"

definition patch_file :: "patch \<Rightarrow> string \<Rightarrow> string result" where
  "patch_file p name = (case map_of p name of None \<Rightarrow> raise KeyError name | Some b \<Rightarrow> Inr b)"

definition part_of :: "json \<Rightarrow> bump_part" where
  "part_of v = (if v = JStr ''patch'' then PATCH else if v = JStr ''minor'' then MINOR else MAJOR)"

definition text_result :: "json \<Rightarrow> string result" where
  "text_result v = (case v of JStr s \<Rightarrow> Inr s | _ \<Rightarrow> raise TypeError ''expected string or bytes-like object'')"

text \<open>The patch of a package bump: the version in the project file and, if there is one, in the lock.\<close>

definition manual_patch :: "readers \<Rightarrow> release_tree \<Rightarrow> json \<Rightarrow> patch result" where
  "manual_patch R t part =
     rbind (verify_local R t) (\<lambda>_.
     rbind (rbind (package_version R t) text_result) (\<lambda>current.
     rbind (bumped_version current (part_of part)) (\<lambda>version.
     rbind (replace_project_version (unify_newlines (project_file t)) current version) (\<lambda>proj.
     rbind (load_lock R t) (\<lambda>lock.
     case lock of
       None \<Rightarrow> Inr [(project_path, proj)]
     | Some d \<Rightarrow>
         if d = [] then Inr [(project_path, proj)] else
         rbind (runtime_pin R t) (\<lambda>pin.
         rbind (dig (JDict d) [''event'', ''event_id'']) (\<lambda>i.
         rbind (json_bytes (JDict (put ''package_version'' (JStr version)
             (put ''previous'' (JDict [(''package_version'', JStr current), (''image'', JStr pin), (''event_id'', i)]) d)))) (\<lambda>b.
         Inr [(project_path, proj), (lock_path, b)]))))))))"

text \<open>\<open>text.splitlines()\<close>\<close>

definition plain_lines :: "string \<Rightarrow> string list" where
  "plain_lines t = map (takeWhile (\<lambda>c. \<not> line_break c)) (split_lines t)"

text \<open>The branch differs from its base in exactly the files of the patch, with exactly their contents.\<close>

definition check_content :: "'w platform \<Rightarrow> string \<Rightarrow> string \<times> string \<Rightarrow> ('w, unit) act" where
  "check_content P head item s =
     (case file_at P head (fst item) (outside s) of
        None \<Rightarrow> (raise CalledProcessError [], s)
      | Some b \<Rightarrow> (demand (b = snd item) ''bot branch has unexpected content'', s))"

definition assert_patch :: "'w platform \<Rightarrow> string \<Rightarrow> string \<Rightarrow> patch \<Rightarrow> ('w, unit) act" where
  "assert_patch P start_sha head p =
     sbind (git P [''diff'', ''--name-only'', start_sha, head]) (\<lambda>out.
     sbind (check (set (plain_lines out) = set (map fst p)) ''bot branch contains edits outside the deterministic update'') (\<lambda>_.
     each (check_content P head) p))"

section \<open>Pull requests of the bot\<close>

definition starts_with :: "string \<Rightarrow> json \<Rightarrow> bool result" where
  "starts_with p v = (case v of JStr s \<Rightarrow> Inr (prefix p s) | _ \<Rightarrow> raise AttributeError ''object has no attribute startswith'')"

definition bot_pr :: "chain_env \<Rightarrow> json \<Rightarrow> bool result" where
  "bot_pr E pr =
     rand (rbind (dig pr [''head'', ''ref'']) (starts_with ''bot/pineforge-''))
       (rbind (pr_marker E pr) (\<lambda>m. Inr (m \<noteq> None \<and> m \<noteq> Some [])))"

definition open_bot_prs :: "chain_env \<Rightarrow> 'w platform \<Rightarrow> string \<Rightarrow> ('w, json list) act" where
  "open_bot_prs E P repo =
     sbind (inventory E P repo ''pulls?state=open&base=main'' []) (\<lambda>prs. slift (rfilter (bot_pr E) prs))"

text \<open>A branch pushed by an earlier run without its pull request is used as it is, if it is the bot's.\<close>

definition recovered_branch :: "'w platform \<Rightarrow> string \<Rightarrow> patch \<Rightarrow> string \<Rightarrow> string \<Rightarrow> ('w, string) act" where
  "recovered_branch P start_sha p branch email =
     sbind (git P [''fetch'', ''origin'', ''refs/heads/'' @ branch]) (\<lambda>_.
     sbind (git P [''rev-parse'', ''FETCH_HEAD'']) (\<lambda>head.
     sbind (assert_patch P start_sha head p) (\<lambda>_.
     sbind (git P [''log'', ''--format=%ae'', start_sha @ ''..'' @ head]) (\<lambda>log_text.
     sbind (check (set (plain_lines log_text) = {email}) ''orphan bot branch contains human commits'') (\<lambda>_.
     slift (Inr head))))))"

definition write_patch :: "'w platform \<Rightarrow> patch \<Rightarrow> ('w, unit) act" where
  "write_patch P p s = (Inr (), s\<lparr>outside := write_files P p (outside s)\<rparr>)"

definition pushed_branch ::
  "'w platform \<Rightarrow> string \<Rightarrow> patch \<Rightarrow> string \<Rightarrow> (string, json) dict \<Rightarrow> string \<Rightarrow> string \<Rightarrow> ('w, string) act" where
  "pushed_branch P start_sha p branch metadata bot_login email =
     sbind (git P [''switch'', ''--create'', branch, start_sha]) (\<lambda>_.
     sbind (write_patch P p) (\<lambda>_.
     sbind (git P [''config'', ''user.name'', bot_login]) (\<lambda>_.
     sbind (git P [''config'', ''user.email'', email]) (\<lambda>_.
     sbind (git P ([''add'', ''--''] @ sort_key (\<lambda>n. n) (map fst p))) (\<lambda>_.
     sbind (slift (jitem metadata ''version'')) (\<lambda>version.
     sbind (git P [''commit'', ''-m'', ''Update PineForge data release to '' @ py_str version]) (\<lambda>_.
     sbind (git P [''rev-parse'', ''HEAD'']) (\<lambda>head.
     sbind (git P [''push'', ''origin'', ''HEAD:refs/heads/'' @ branch]) (\<lambda>_.
     slift (Inr head))))))))))"

definition create_pr ::
  "chain_env \<Rightarrow> 'w platform \<Rightarrow> string \<Rightarrow> string \<Rightarrow> patch \<Rightarrow> string \<Rightarrow> (string, json) dict \<Rightarrow> string \<Rightarrow> ('w, json) act" where
  "create_pr E P repo start_sha p branch metadata bot_login =
     sbind (check (set (map fst p) \<subseteq> set update_paths) ''generated change exceeds release allowlist'') (\<lambda>_.
     sbind (git P [''ls-remote'', ''--heads'', ''origin'', ''refs/heads/'' @ branch]) (\<lambda>refs.
     sbind (observe P (\<lambda>S. gh_object (readers_of E) S (''users/'' @ bot_login))) (\<lambda>user_data.
     sbind (slift (jitem user_data ''id'')) (\<lambda>i.
     let email = py_str i @ ''+'' @ bot_login @ ''@users.noreply.github.com'' in
     sbind (if refs \<noteq> [] then recovered_branch P start_sha p branch email
            else pushed_branch P start_sha p branch metadata bot_login email) (\<lambda>head.
     let metadata = put ''base'' (JStr start_sha) (put ''generated_head'' (JStr head) metadata) in
     sbind (slift (jitem metadata ''version'')) (\<lambda>version.
     sbind (slift (pr_body metadata)) (\<lambda>text_body.
     api_send E P repo ''pulls'' ''POST''
       (JDict [(''base'', JStr ''main''), (''head'', JStr branch),
          (''title'', JStr (''Release pineforge-data '' @ py_str version)), (''body'', JStr text_body)]))))))))"

end
