(* ===== verification/Published.thy ===== *)
theory Published
  imports ReleaseActions
begin

text \<open>
  What has been published: the reading half of \<open>scripts/release_chain/publishing.py\<close> and the
  rollback of \<open>automation.py\<close>.  An \<open>HTTPError\<close> carries its status code as its text.  The version of
  a checkout is taken as text.
\<close>

section \<open>PyPI\<close>

definition pypi_url :: "string \<Rightarrow> string" where
  "pypi_url version = ''https://pypi.org/pypi/pineforge-data/'' @ version @ ''/json''"

definition url_hashes :: "(string, json) dict \<Rightarrow> (string, json) dict result" where
  "url_hashes d =
     rbind (rbind (jitem d ''urls'') items_of) (\<lambda>urls.
     rfold (\<lambda>acc u. rbind (rbind (subscript u ''filename'') text_result) (\<lambda>n.
       rbind (dig u [''digests'', ''sha256'']) (\<lambda>h. Inr (put n h acc)))) [] urls)"

definition pypi_files :: "readers \<Rightarrow> services \<Rightarrow> string \<Rightarrow> (string, json) dict option result" where
  "pypi_files R S version =
     (case rbind (http_get S (pypi_url version) []) (object_json (json_loads R)) of
        Inl e \<Rightarrow> if caught e [HTTPError] \<and> exn_text e = ''404'' then Inr None else Inl e
      | Inr d \<Rightarrow> rbind (url_hashes d) (\<lambda>f. Inr (Some f)))"

section \<open>The CI run of a pull request\<close>

text \<open>\<open>v.get(k) or {}\<close>\<close>

definition got_or_empty :: "json \<Rightarrow> string \<Rightarrow> json result" where
  "got_or_empty v k = rbind (got v k JNull) (\<lambda>w. Inr (if truthy w then w else JDict []))"

fun aware_time :: "json \<Rightarrow> int option" where
  "aware_time (JStr s) = (case from_iso s of Some (Aware t) \<Rightarrow> Some t | _ \<Rightarrow> None)"
| "aware_time _ = None"

definition numbered :: "json \<Rightarrow> json \<Rightarrow> bool" where
  "numbered number item = (case item of JDict d \<Rightarrow> json_eq (jget d ''number'') number | _ \<Rightarrow> False)"

text \<open>
  The exact CI run of a pull request.  GitHub empties the association after a merge; then the
  branch, the repository and the times have to agree.
\<close>

definition merged_run :: "json \<Rightarrow> json \<Rightarrow> json \<Rightarrow> bool result" where
  "merged_run run pr head =
     rbind (got head ''ref'' JNull) (\<lambda>ref.
     rbind (got run ''head_branch'' JNull) (\<lambda>branch.
     if \<not> truthy ref \<or> \<not> json_eq branch ref then Inr False else
     rbind (rbind (got_or_empty run ''head_repository'') (\<lambda>r. got r ''full_name'' JNull)) (\<lambda>name.
     rbind (case name of
              JStr s \<Rightarrow> if s = [] then Inr False else
                rbind (rbind (got_or_empty head ''repo'') (\<lambda>r. got r ''full_name'' JNull)) (\<lambda>other. Inr (other = JStr s))
            | _ \<Rightarrow> Inr False) (\<lambda>ok.
     if \<not> ok then Inr False else
     rbind (got run ''created_at'' JNull) (\<lambda>created.
     rbind (got pr ''merged_at'' JNull) (\<lambda>merged.
     Inr (case (aware_time created, aware_time merged) of (Some s, Some t) \<Rightarrow> s < t | _ \<Rightarrow> False)))))))"

definition run_belongs_to_pr :: "json \<Rightarrow> json \<Rightarrow> bool result" where
  "run_belongs_to_pr run pr =
     rbind (got_or_empty pr ''head'') (\<lambda>head.
     rbind (got pr ''number'' JNull) (\<lambda>number.
     rbind (got head ''sha'' JNull) (\<lambda>sha.
     rbind (got run ''head_sha'' JNull) (\<lambda>run_sha.
     rbind (got run ''event'' JNull) (\<lambda>event.
     if \<not> truthy sha \<or> \<not> json_eq run_sha sha \<or> event \<noteq> JStr ''pull_request'' \<or> number = JNull then Inr False else
     rbind (got run ''pull_requests'' JNull) (\<lambda>prs.
     case prs of
       JList [] \<Rightarrow> merged_run run pr head
     | JList xs \<Rightarrow> Inr (list_ex (numbered number) xs)
     | _ \<Rightarrow> Inr False))))))"

text \<open>\<open>max(rows, key=lambda row: row["id"])\<close> on a list that is not empty: the first of the greatest.\<close>

definition int_id :: "json \<Rightarrow> int result" where
  "int_id row = rbind (subscript row ''id'') (\<lambda>v. case v of JInt n \<Rightarrow> Inr n | _ \<Rightarrow> raise TypeError ''not comparable'')"

definition latest_row :: "json list \<Rightarrow> json result" where
  "latest_row rows =
     rbind (rmap int_id rows) (\<lambda>ids.
     Inr (snd (foldl (\<lambda>b r. if fst b < fst r then r else b) (hd (zip ids rows)) (tl (zip ids rows)))))"

definition text_le :: "json \<Rightarrow> json \<Rightarrow> bool result" where
  "text_le v w = (case (v, w) of (JStr s, JStr t) \<Rightarrow> Inr (s \<le> t) | _ \<Rightarrow> raise TypeError ''not comparable'')"

definition finished_before :: "json \<Rightarrow> json \<Rightarrow> bool result" where
  "finished_before merged job =
     rbind (subscript job ''completed_at'') (\<lambda>c. if truthy c then text_le c merged else Inr False)"

definition opt_text :: "json \<Rightarrow> string option result" where
  "opt_text v = (case v of JNull \<Rightarrow> Inr None | JStr s \<Rightarrow> Inr (Some s) | _ \<Rightarrow> raise TypeError ''expected string'')"

definition opt_int :: "json \<Rightarrow> int option result" where
  "opt_int v = (case v of JNull \<Rightarrow> Inr None | JInt n \<Rightarrow> Inr (Some n) | _ \<Rightarrow> raise TypeError ''expected integer'')"

definition gate_now :: "chain_env \<Rightarrow> 'w platform \<Rightarrow> string \<Rightarrow> json \<Rightarrow> string \<Rightarrow> string option \<Rightarrow> int option \<Rightarrow> ('w, (string, json) dict) act" where
  "gate_now E P repo run_id head base_sha pr =
     observe P (\<lambda>S. gate_for_run (readers_of E) S (unzip E) repo run_id head base_sha pr)"

text \<open>The evidence of the pull request's own run; all of its jobs had finished before the merge.\<close>

definition candidate_gate :: "chain_env \<Rightarrow> 'w platform \<Rightarrow> string \<Rightarrow> json \<Rightarrow> ('w, (string, json) dict) act" where
  "candidate_gate E P repo pr =
     sbind (slift (pr_marker E pr)) (\<lambda>meta.
     sbind (slift (rbind (got_or_empty pr ''head'') (\<lambda>h. got h ''sha'' JNull))) (\<lambda>head.
     sbind (check (truthy head) ''pre-merge CI evidence missing'') (\<lambda>_.
     sbind (slift (text_result head)) (\<lambda>sha.
     sbind (inventory E P repo (''actions/workflows/ci.yml/runs?event=pull_request&head_sha='' @ sha) ''workflow_runs'') (\<lambda>all_runs.
     sbind (slift (rfilter (\<lambda>run. run_belongs_to_pr run pr) all_runs)) (\<lambda>runs.
     sbind (check (runs \<noteq> []) ''pre-merge CI evidence missing'') (\<lambda>_.
     sbind (slift (latest_row runs)) (\<lambda>run.
     sbind (slift (subscript run ''id'')) (\<lambda>run_id.
     sbind (slift (rbind (marker_item E pr ''base'') opt_text)) (\<lambda>base_sha.
     sbind (slift (rbind (subscript pr ''number'') opt_int)) (\<lambda>number.
     sbind (gate_now E P repo run_id sha base_sha number) (\<lambda>evidence.
     sbind (slift (subscript run ''run_attempt'')) (\<lambda>attempt.
     sbind (inventory E P repo (''actions/runs/'' @ py_str run_id @ ''/attempts/'' @ py_str attempt @ ''/jobs'') ''jobs'') (\<lambda>jobs.
     sbind (slift (got pr ''merged_at'' JNull)) (\<lambda>merged.
     sbind (if truthy merged then slift (rbind (rany (\<lambda>j. rbind (finished_before merged j) (\<lambda>b. Inr (\<not> b))) jobs) (\<lambda>late.
              demand (\<not> late) ''candidate CI/E2E did not finish before merge'')) else slift (Inr ())) (\<lambda>_.
     slift (Inr evidence)))))))))))))))))"

section \<open>A verified publication\<close>

definition bootstrap_repo :: string where "bootstrap_repo = ''pineforge-4pass/pineforge-data''"
definition bootstrap_source :: string where "bootstrap_source = ''fb5cec39b6c6d70af103df0df182d47bb5812191''"
definition bootstrap_digest :: string where
  "bootstrap_digest = ''sha256:b271873d0e91a9eeeb4595daaded9bdfbdbcd3925d3ec1300a833395e2004c86''"

definition bootstrap_files :: "(string, json) dict" where
  "bootstrap_files =
     [(''pineforge_data-0.3.0-py3-none-any.whl'', JStr ''609b3e9976ae55fc290c725731cf1dd0266c9b3eb6f3353122c8bcdc05e497bc''),
      (''pineforge_data-0.3.0.tar.gz'', JStr ''f29a2bd50f70ff46ebdf31f987260dec3123600ab5bf493741bbbd4e21aaacdc'')]"

text \<open>The one release before the manifests, accepted as the predecessor of the first adopter only.\<close>

definition bootstrap_case :: "string \<Rightarrow> string \<Rightarrow> (string, json) dict option \<Rightarrow> (string, json) dict option \<Rightarrow> bool" where
  "bootstrap_case repo version saved adopter =
     (repo = bootstrap_repo \<and> version = ''0.3.0'' \<and> saved = None \<and>
      (case adopter of
         None \<Rightarrow> False
       | Some lock \<Rightarrow> ''rollback'' \<notin> set (dkeys lock) \<and> jget lock ''package_version'' = JStr ''0.3.1'' \<and>
           json_eq (jget lock ''previous'') (JDict [(''package_version'', JStr version), (''event_id'', JNull),
             (''image'', JStr (image_old @ '':1.0.0@'' @ bootstrap_digest))])))"

definition bootstrap_identity :: "readers \<Rightarrow> string \<Rightarrow> nat \<Rightarrow> (string, json) dict \<Rightarrow> string \<Rightarrow> json result" where
  "bootstrap_identity R version urls files source =
     rbind (demand (urls = 2 \<and> json_eq (JDict files) (JDict bootstrap_files))
              ''bootstrap PyPI inventory differs from the recorded distributions'') (\<lambda>_.
     rbind (demand (source = bootstrap_source) ''bootstrap tag differs from the recorded commit'') (\<lambda>_.
     rbind (deployment_id R (JStr version) (JDict files)) (\<lambda>i.
     Inr (JDict [(''provenance'', JStr ''pre-manifest-bootstrap''), (''package'', JStr ''pineforge-data''), (''version'', JStr version),
       (''distributions'', JDict files), (''source'', JStr source), (''image_digest'', JStr bootstrap_digest),
       (''deployment_id_sha256'', JStr i)]))))"

definition two_distributions :: "string list \<Rightarrow> bool" where
  "two_distributions names =
     (length names = 2 \<and> length (filter (suffix ''.whl'') names) = 1 \<and> length (filter (suffix ''.tar.gz'') names) = 1)"

text \<open>The downloads, in the order of the index; each has the digest the index gives for its name.\<close>

fun downloads_of :: "readers \<Rightarrow> services \<Rightarrow> (string, json) dict \<Rightarrow> json list \<Rightarrow> (string, string) dict \<Rightarrow> (string, string) dict result" where
  "downloads_of R S files [] acc = Inr acc"
| "downloads_of R S files (u # us) acc =
     rbind (rbind (subscript u ''url'') (starts_with ''https://files.pythonhosted.org/'')) (\<lambda>ok.
     rbind (demand ok ''unexpected PyPI source'') (\<lambda>_.
     rbind (rbind (subscript u ''url'') text_result) (\<lambda>url.
     rbind (http_get S url []) (\<lambda>data.
     rbind (rbind (subscript u ''filename'') text_result) (\<lambda>name.
     rbind (jitem files name) (\<lambda>h.
     rbind (demand (h = JStr (sha256_of R data)) ''PyPI bytes differ'') (\<lambda>_.
     downloads_of R S files us (AList.update name data acc))))))))"

definition check_asset :: "readers \<Rightarrow> services \<Rightarrow> string \<Rightarrow> json \<Rightarrow> string \<times> json \<Rightarrow> unit result" where
  "check_asset R S repo release file =
     rbind (rbind (subscript release ''assets'') items_of) (\<lambda>assets.
     rbind (rfilter (field_is [''name''] (JStr (fst file))) assets) (\<lambda>found.
     rbind (demand (length found = 1) ''distribution has no unique immutable release asset'') (\<lambda>_.
     rbind (subscript (hd found) ''id'') (\<lambda>i.
     rbind (gh_bytes S (''repos/'' @ repo @ ''/releases/assets/'' @ py_str i) octet_stream) (\<lambda>data.
     demand (snd file = JStr (sha256_of R data)) ''release asset differs from PyPI'')))))"

definition remove_src :: "string \<Rightarrow> string" where
  "remove_src s = (if prefix ''src/'' s then drop 4 s else s)"

definition check_member :: "(string \<times> string) list \<Rightarrow> string \<times> string option \<Rightarrow> unit result" where
  "check_member members file =
     (let name = remove_src (fst file); found = filter (\<lambda>m. fst m = name) members in
      case found of
        [m] \<Rightarrow> (case snd file of
                 None \<Rightarrow> raise FileNotFoundError []
               | Some b \<Rightarrow> demand (snd m = b) ''served wheel source/manifest/facts differs from the tagged source'')
      | _ \<Rightarrow> raise ValueError ''served wheel source/manifest/facts differs from the tagged source'')"

definition verified_package ::
  "chain_env \<Rightarrow> 'w platform \<Rightarrow> string \<Rightarrow> string \<Rightarrow> (string, json) dict option \<Rightarrow> (string, json) dict option \<Rightarrow> ('w, json) act" where
  "verified_package E P repo version saved adopter =
     (let R = readers_of E in
      sbind (observe P (\<lambda>S. pypi_files R S version)) (\<lambda>maybe_files.
      sbind (check (case maybe_files of None \<Rightarrow> False | Some fs \<Rightarrow> two_distributions (dkeys fs))
               ''previous publication needs a wheel and sdist'') (\<lambda>_.
      let files = (case maybe_files of None \<Rightarrow> [] | Some fs \<Rightarrow> fs) in
      sbind (observe P (\<lambda>S. rbind (http_get S (pypi_url version) []) (object_json (json_loads R)))) (\<lambda>metadata.
      sbind (slift (url_hashes metadata)) (\<lambda>again.
      sbind (check (json_eq (JDict again) (JDict files)) ''PyPI inventory moved during verification'') (\<lambda>_.
      sbind (slift (rbind (jitem metadata ''urls'') items_of)) (\<lambda>urls.
      sbind (observe P (\<lambda>S. downloads_of R S files urls [])) (\<lambda>downloads.
      sbind (api_get E P repo (''releases/tags/v'' @ version)) (\<lambda>release.
      sbind (each (\<lambda>f. observe P (\<lambda>S. check_asset R S repo release f)) files) (\<lambda>_.
      sbind (git P [''fetch'', ''origin'', ''refs/tags/v'' @ version]) (\<lambda>_.
      sbind (git P [''rev-parse'', CHR ''v'' # version @ ''^{commit}'']) (\<lambda>source.
      if bootstrap_case repo version saved adopter
      then slift (bootstrap_identity R version (length urls) files source)
      else
        sbind (take_snapshot P source) (\<lambda>t.
        sbind (slift (verify_local R t)) (\<lambda>lock.
        sbind (slift (if lock = None then Inr JNull else package_version R t)) (\<lambda>v.
        sbind (check (lock \<noteq> None \<and> v = JStr version) ''previous distribution lacks manifest/facts provenance'') (\<lambda>_.
        let event = fields_of (jget (the lock) ''event''); wheel = snd (hd (filter (\<lambda>d. suffix ''.whl'' (fst d)) downloads)) in
        sbind (slift (unzip E wheel)) (\<lambda>members.
        sbind (each (\<lambda>f. slift (check_member members f))
                 [(lock_path, lock_file t), (manifest_path, manifest_file t), (runtime_path, Some (runtime_source t))]) (\<lambda>_.
        sbind (observe P (\<lambda>S. verify_artifacts R S event)) (\<lambda>_.
        sbind (slift (served_identity R event (JStr source) (JStr version) (JDict files))) (\<lambda>actual.
        sbind (case saved of
                 None \<Rightarrow> slift (Inr ())
               | Some [] \<Rightarrow> slift (Inr ())
               | Some d \<Rightarrow> slift (rbind (rand (field_is [''state''] (JStr ''verified'') (JDict d))
                   (rand (field_is [''pr'', ''merge''] (JStr source) (JDict d)) (field_is [''deployed''] actual (JDict d)))) (\<lambda>ok.
                   demand ok ''stored publication no longer verifies''))) (\<lambda>_.
        slift (Inr actual))))))))))))))))))))))"

section \<open>Stored receipts\<close>

definition asset_bytes :: "services \<Rightarrow> string \<Rightarrow> json \<Rightarrow> string result" where
  "asset_bytes S repo asset =
     rbind (subscript asset ''id'') (\<lambda>i. gh_bytes S (''repos/'' @ repo @ ''/releases/assets/'' @ py_str i) octet_stream)"

definition stored_in :: "chain_env \<Rightarrow> services \<Rightarrow> string \<Rightarrow> string \<Rightarrow> (string, json) dict option result" where
  "stored_in E S repo version =
     rbind (list_all_pages E S repo ''releases'' []) (\<lambda>releases.
     rbind (rfilter (field_is [''tag_name''] (JStr (CHR ''v'' # version))) releases) (\<lambda>found.
     case found of
       [] \<Rightarrow> Inr None
     | rel # _ \<Rightarrow>
         rbind (rbind (subscript rel ''assets'') items_of) (\<lambda>assets.
         rbind (rfilter (field_is [''name''] (JStr ''release-receipt.json'')) assets) (\<lambda>receipts.
         rbind (demand (length receipts \<le> 1) ''ambiguous stored completion receipt'') (\<lambda>_.
         case receipts of
           [] \<Rightarrow> Inr None
         | a # _ \<Rightarrow> rbind (rbind (asset_bytes S repo a) (object_json (json_loads (readers_of E)))) (\<lambda>d. Inr (Some d)))))))"

definition stored_receipt :: "chain_env \<Rightarrow> 'w platform \<Rightarrow> string \<Rightarrow> string \<Rightarrow> ('w, (string, json) dict option) act" where
  "stored_receipt E P repo version = observe P (\<lambda>S. stored_in E S repo version)"

end
