(* ===== verification/Recovery.thy ===== *)
theory Recovery
  imports Published
begin

text \<open>
  The decisions of the release chain that rest on what has been published: whether a release is
  still wanted, what a rollback installs, and how a merged release is finished
  (\<open>current_intent\<close>, \<open>verify_rollback\<close> and \<open>recover_applied\<close> of
  \<open>scripts/release_chain/publishing.py\<close>, \<open>rollback_patch\<close> of \<open>automation.py\<close>).
\<close>

section \<open>Conditions\<close>

definition ror :: "bool result \<Rightarrow> bool result \<Rightarrow> bool result" where
  "ror a b = rbind a (\<lambda>x. if x then Inr True else b)"

definition check_that :: "bool result \<Rightarrow> string \<Rightarrow> ('w, unit) act" where
  "check_that r message = slift (rbind r (\<lambda>ok. demand ok message))"

text \<open>\<open>x == y\<close> for two values that may raise, and membership in a list.\<close>

definition same :: "json result \<Rightarrow> json result \<Rightarrow> bool result" where
  "same a b = rbind a (\<lambda>v. rbind b (\<lambda>w. Inr (json_eq v w)))"

fun json_in :: "json \<Rightarrow> json \<Rightarrow> bool result" where
  "json_in v (JList xs) = Inr (list_ex (\<lambda>x. json_eq x v) xs)"
| "json_in v _ = raise TypeError ''argument is not iterable''"

text \<open>A lock or an event that is there: neither \<open>None\<close> nor empty.\<close>

definition present :: "(string, json) dict option \<Rightarrow> bool" where
  "present d = (d \<noteq> None \<and> d \<noteq> Some [])"

definition lock_same :: "(string, json) dict option \<Rightarrow> (string, json) dict option \<Rightarrow> bool" where
  "lock_same a b =
     (case (a, b) of (None, None) \<Rightarrow> True | (Some d, Some e) \<Rightarrow> json_eq (JDict d) (JDict e) | _ \<Rightarrow> False)"

definition lock_event :: "(string, json) dict \<Rightarrow> (string, json) dict" where
  "lock_event lock = fields_of (jget lock ''event'')"

text \<open>\<open>verified\<close> receipts.\<close>

definition verified_receipt :: "(string, json) dict option \<Rightarrow> bool result" where
  "verified_receipt saved =
     (case saved of None \<Rightarrow> Inr False | Some d \<Rightarrow> field_is [''state''] (JStr ''verified'') (JDict d))"

definition hub_latest :: "chain_env \<Rightarrow> 'w platform \<Rightarrow> ('w, ((string, json) dict \<times> string) option) act" where
  "hub_latest E P = observe P (\<lambda>S. settled (newest_ready (readers_of E) S))"

definition authenticate :: "chain_env \<Rightarrow> 'w platform \<Rightarrow> (string, json) dict \<Rightarrow> ('w, unit) act" where
  "authenticate E P event = observe P (\<lambda>S. verify_artifacts (readers_of E) S event)"

section \<open>Rollbacks\<close>

definition rollback_identity :: "(string, json) dict \<Rightarrow> (string, json) dict \<Rightarrow> json \<Rightarrow> json \<Rightarrow> bool result" where
  "rollback_identity lock saved actual rollback =
     rand (same (jitem saved ''event_id'') (dig (JDict lock) [''event'', ''event_id'']))
       (rand (same (subscript actual ''source'') (subscript rollback ''source''))
         (rbind (subscript rollback ''rejected_event_id'') (\<lambda>i.
          rbind (jitem lock ''rejected_event_ids'') (json_in i))))"

definition verify_rollback :: "chain_env \<Rightarrow> 'w platform \<Rightarrow> string \<Rightarrow> (string, json) dict \<Rightarrow> ('w, unit) act" where
  "verify_rollback E P repo lock =
     sbind (slift (jitem lock ''rollback'')) (\<lambda>rollback.
     sbind (slift (rbind (subscript rollback ''package_version'') text_result)) (\<lambda>version.
     sbind (stored_receipt E P repo version) (\<lambda>saved.
     sbind (check_that (verified_receipt saved) ''rollback has no known-good receipt'') (\<lambda>_.
     sbind (verified_package E P repo version saved None) (\<lambda>actual.
     check_that (rollback_identity lock (the saved) actual rollback) ''rollback provenance differs from the known-good receipt'')))))"

definition rollback_files :: "readers \<Rightarrow> release_tree \<Rightarrow> release_tree \<Rightarrow> (string, json) dict \<Rightarrow> string \<Rightarrow> string \<Rightarrow> (string, json) dict \<Rightarrow> patch result" where
  "rollback_files R tree target installed version revision event =
     rbind (case manifest_file target of None \<Rightarrow> raise FileNotFoundError [] | Some m \<Rightarrow> Inr m) (\<lambda>manifest.
     rbind (dig (JDict installed) [''event'', ''event_id'']) (\<lambda>i.
     rbind (update_files R tree event manifest
              (Some [(''package_version'', JStr version), (''source'', JStr revision), (''rejected_event_id'', i)])) (\<lambda>t.
     Inr (update_patch t))))"

definition rollback_patch :: "chain_env \<Rightarrow> 'w platform \<Rightarrow> string \<Rightarrow> release_tree \<Rightarrow> string \<Rightarrow> ('w, patch) act" where
  "rollback_patch E P repo tree version =
     (let R = readers_of E in
      sbind (slift (version_key version)) (\<lambda>_.
      sbind (stored_receipt E P repo version) (\<lambda>saved.
      sbind (check_that (verified_receipt saved) ''rollback target is not verified'') (\<lambda>_.
      sbind (verified_package E P repo version saved None) (\<lambda>actual.
      sbind (slift (rbind (subscript actual ''source'') text_result)) (\<lambda>revision.
      sbind (slift (verify_local R tree)) (\<lambda>installed.
      sbind (check (installed \<noteq> None) ''rollback needs a recorded current manifest'') (\<lambda>_.
      sbind (take_snapshot P revision) (\<lambda>target.
      sbind (slift (verify_local R target)) (\<lambda>lock.
      sbind (check_that (case lock of None \<Rightarrow> Inr False
               | Some d \<Rightarrow> same (dig (JDict d) [''event'', ''event_id'']) (jitem (the saved) ''event_id''))
               ''known-good package has no matching release manifest'') (\<lambda>_.
      sbind (authenticate E P (lock_event (the lock))) (\<lambda>_.
      slift (rollback_files R tree target (the installed) version revision (lock_event (the lock)))))))))))))))"

section \<open>Whether a release is still wanted\<close>

definition still_wanted :: "((string, json) dict \<times> string) option \<Rightarrow> json result \<Rightarrow> bool result \<Rightarrow> json result \<Rightarrow> bool result" where
  "still_wanted latest wanted rolled_back rejected =
     (case latest of
        None \<Rightarrow> Inr False
      | Some (event, _) \<Rightarrow>
          ror (same (jitem event ''event_id'') wanted)
            (rand rolled_back (rbind (jitem event ''event_id'') (\<lambda>i. rbind rejected (json_in i)))))"

definition target_current :: "chain_env \<Rightarrow> 'w platform \<Rightarrow> string \<Rightarrow> (string, json) dict \<Rightarrow> ('w, unit) act" where
  "target_current E P repo lock =
     sbind (when_act (truthy (jget lock ''rollback'')) (verify_rollback E P repo lock)) (\<lambda>_.
     sbind (hub_latest E P) (\<lambda>latest.
     sbind (check_that (still_wanted latest (dig (JDict lock) [''event'', ''event_id'']) (Inr (truthy (jget lock ''rollback'')))
              (Inr (jget_default lock ''rejected_event_ids'' (JList [])))) ''a newer hub release superseded publication'') (\<lambda>_.
     authenticate E P (lock_event lock))))"

definition current_intent :: "chain_env \<Rightarrow> 'w platform \<Rightarrow> string \<Rightarrow> release_tree \<Rightarrow> ('w, unit) act" where
  "current_intent E P repo tree =
     (let R = readers_of E in
      sbind (git P [''fetch'', ''origin'', ''main'']) (\<lambda>_.
      sbind (take_snapshot P ''origin/main'') (\<lambda>now.
      sbind (check_that (same (package_version R now) (package_version R tree)) ''package version superseded'') (\<lambda>_.
      sbind (check_that (rbind (runtime_pin R now) (\<lambda>p. rbind (runtime_pin R tree) (\<lambda>q. Inr (p = q)))) ''runtime default superseded'') (\<lambda>_.
      sbind (slift (verify_local R tree)) (\<lambda>lock.
      sbind (slift (verify_local R now)) (\<lambda>now_lock.
      sbind (check (lock_same now_lock lock) ''release identity superseded on main'') (\<lambda>_.
      sbind (when_act (present lock) (target_current E P repo (the lock))) (\<lambda>_.
      sbind (api_get E P repo []) (\<lambda>r.
      check_that (field_is [''default_branch''] (JStr ''main'') r) ''unexpected default branch''))))))))))"

section \<open>Finishing a merged release\<close>

definition set_pr_field :: "string \<Rightarrow> json \<Rightarrow> ('w, unit) act" where
  "set_pr_field k v =
     on_report (\<lambda>d. case jget d ''pr'' of
        JDict p \<Rightarrow> (Inr (), put ''pr'' (JDict (put k v p)) d)
      | _ \<Rightarrow> (raise TypeError ''object does not support item assignment'', d))"

definition set_identity :: "json \<Rightarrow> json \<Rightarrow> ('w, unit) act" where
  "set_identity pr base_sha = sbind (slift (pr_identity pr base_sha)) (set_report ''pr'')"

definition new_report :: "chain_env \<Rightarrow> (string, json) dict option \<Rightarrow> ('w, unit) act" where
  "new_report E event = sbind (slift (receipt (env_vars E) (clock_text E) event)) merge_report"

definition record_candidate :: "chain_env \<Rightarrow> (string, json) dict \<Rightarrow> (string, json) dict \<Rightarrow> json \<Rightarrow> ('w, unit) act" where
  "record_candidate E event gate version = on_report (candidate (readers_of E) event gate version)"

definition replay_receipt ::
  "chain_env \<Rightarrow> 'w platform \<Rightarrow> string \<Rightarrow> release_tree \<Rightarrow> string \<Rightarrow> (string, json) dict \<Rightarrow> ('w, unit) act" where
  "replay_receipt E P repo source version saved =
     sbind (on_report (\<lambda>d. (rbind (rand (field_is [''state''] (JStr ''verified'') (JDict saved)) (same_field ''event_id'' saved ''event_id'' d))
              (\<lambda>ok. demand ok ''stored publication identity differs''), d))) (\<lambda>_.
     sbind (verified_package E P repo version (Some saved) None) (\<lambda>actual.
     sbind (check_that (same (subscript actual ''image_digest'')
              (rbind (verify_local (readers_of E) source) (\<lambda>lock. case lock of
                 None \<Rightarrow> raise TypeError ''object is not subscriptable''
               | Some d \<Rightarrow> dig (JDict d) [''event'', ''image'', ''digest''])))
              ''stored publication does not match installed defaults'') (\<lambda>_.
     merge_report saved)))"

definition merged_update :: "chain_env \<Rightarrow> string \<Rightarrow> json \<Rightarrow> bool result" where
  "merged_update E version pr =
     rand (rbind (got pr ''merged_at'' JNull) (\<lambda>m. Inr (truthy m)))
       (rand (rbind (pr_marker E pr) (\<lambda>m. Inr (present m)))
         (rbind (marker_item E pr ''version'') (\<lambda>v. Inr (json_eq v (JStr version)))))"

text \<open>\<open>[x for x in xs if f(x)]\<close> where the condition asks the services.\<close>

fun act_filter :: "('a \<Rightarrow> ('w, bool) act) \<Rightarrow> 'a list \<Rightarrow> ('w, 'a list) act" where
  "act_filter f [] = slift (Inr [])"
| "act_filter f (x # xs) =
     sbind (f x) (\<lambda>b. sbind (act_filter f xs) (\<lambda>ys. slift (Inr (if b then x # ys else ys))))"

definition workflow_runs :: "chain_env \<Rightarrow> 'w platform \<Rightarrow> string \<Rightarrow> string \<Rightarrow> ('w, json list) act" where
  "workflow_runs E P repo endpoint =
     sbind (api_get E P repo endpoint) (\<lambda>d. slift (rbind (subscript d ''workflow_runs'') items_of))"

definition stage_artifact :: "string \<Rightarrow> json \<Rightarrow> bool result" where
  "stage_artifact name a =
     rand (field_is [''name''] (JStr name) a) (rbind (field_true [''expired''] a) (\<lambda>b. Inr (\<not> b)))"

definition completed_stage :: "chain_env \<Rightarrow> 'w platform \<Rightarrow> string \<Rightarrow> json \<Rightarrow> ('w, bool) act" where
  "completed_stage E P repo row =
     sbind (slift (field_is [''conclusion''] (JStr ''success'') row)) (\<lambda>ok.
     if \<not> ok then slift (Inr False) else
     sbind (slift (subscript row ''id'')) (\<lambda>i.
     sbind (inventory E P repo (''actions/runs/'' @ py_str i @ ''/artifacts'') ''artifacts'') (\<lambda>artifacts.
     slift (rany (\<lambda>a. rbind (subscript a ''name'') (\<lambda>_. rbind (subscript row ''run_attempt'') (\<lambda>n.
       stage_artifact (''release-stage-'' @ py_str n @ ''-50-verify'') a))) artifacts))))"

definition dispatch :: "chain_env \<Rightarrow> 'w platform \<Rightarrow> string \<Rightarrow> string \<Rightarrow> string \<Rightarrow> (string, json) dict \<Rightarrow> ('w, json) act" where
  "dispatch E P repo workflow ref inputs =
     api_send E P repo (''actions/workflows/'' @ workflow @ ''/dispatches'') ''POST''
       (JDict [(''ref'', JStr ref), (''inputs'', JDict inputs)])"

definition resume_publication :: "chain_env \<Rightarrow> 'w platform \<Rightarrow> string \<Rightarrow> string \<Rightarrow> json \<Rightarrow> json \<Rightarrow> ('w, unit) act" where
  "resume_publication E P repo version run merge_sha =
     sbind (workflow_runs E P repo ''actions/workflows/release.yml/runs?per_page=100'') (\<lambda>rows.
     sbind (slift (rfilter (field_is [''head_sha''] merge_sha) rows)) (\<lambda>matching.
     sbind (slift (rany (\<lambda>r. rbind (field_is [''status''] (JStr ''completed'') r) (\<lambda>b. Inr (\<not> b))) matching)) (\<lambda>busy.
     if busy then set_report ''state'' (JStr ''deploying'') else
     sbind (act_filter (completed_stage E P repo) matching) (\<lambda>done_rows.
     if done_rows \<noteq> [] then
       sbind (slift (rbind (latest_row done_rows) (\<lambda>r. subscript r ''id''))) (\<lambda>i.
       sbind (dispatch E P repo ''pineforge-release.yml'' (CHR ''v'' # version) [(''publication_run'', JStr (py_str i))]) (\<lambda>_.
       new_report E None))
     else
       sbind (slift (subscript run ''id'')) (\<lambda>i.
       sbind (dispatch E P repo ''release.yml'' ''main'' [(''ci_run'', JStr (py_str i)), (''bump'', JStr ''patch'')]) (\<lambda>_.
       set_report ''state'' (JStr ''deploying'')))))))"

definition repair_publication :: "chain_env \<Rightarrow> 'w platform \<Rightarrow> string \<Rightarrow> release_tree \<Rightarrow> string \<Rightarrow> ('w, unit) act" where
  "repair_publication E P repo source version =
     sbind (inventory E P repo ''pulls?state=closed&base=main&sort=updated&direction=desc'' []) (\<lambda>prs.
     sbind (slift (rfilter (merged_update E version) prs)) (\<lambda>candidates.
     sbind (check (length candidates = 1) ''applied release has no unique merged update PR'') (\<lambda>_.
     let pr = hd candidates in
     sbind (set_identity (JDict (put ''merged'' (JBool True) (fields_of pr))) JNull) (\<lambda>_.
     sbind (slift (marker_item E pr ''base'')) (\<lambda>b.
     sbind (set_pr_field ''base_sha'' b) (\<lambda>_.
     sbind (slift (rbind (subscript pr ''merge_commit_sha'') text_result)) (\<lambda>merge_sha.
     sbind (workflow_runs E P repo (''actions/workflows/ci-post.yml/runs?event=push&per_page=100&head_sha='' @ merge_sha)) (\<lambda>all_runs.
     sbind (slift (rfilter (field_is [''head_sha''] (JStr merge_sha)) all_runs)) (\<lambda>runs.
     sbind (if runs = [] then slift (Inr JNull) else slift (latest_row runs)) (\<lambda>run.
     sbind (slift (if runs = [] then Inr False else field_is [''status''] (JStr ''completed'') run)) (\<lambda>finished.
     if \<not> finished then set_report ''state'' (JStr ''testing'') else
     sbind (slift (subscript run ''id'')) (\<lambda>run_id.
     sbind (gate_now E P repo run_id merge_sha None None) (\<lambda>_.
     sbind (slift (verify_local (readers_of E) source)) (\<lambda>lock.
     sbind (when_act (present lock)
        (sbind (candidate_gate E P repo pr) (\<lambda>evidence. record_candidate E (lock_event (the lock)) evidence (JStr version)))) (\<lambda>_.
     resume_publication E P repo version run (JStr merge_sha))))))))))))))))"

definition recover_applied :: "chain_env \<Rightarrow> 'w platform \<Rightarrow> string \<Rightarrow> release_tree \<Rightarrow> ('w, unit) act" where
  "recover_applied E P repo source =
     sbind (slift (rbind (package_version (readers_of E) source) text_result)) (\<lambda>version.
     sbind (stored_receipt E P repo version) (\<lambda>saved.
     if present saved then replay_receipt E P repo source version (the saved)
     else repair_publication E P repo source version))"

end
