(* ===== verification/Automation.thy ===== *)
theory Automation
  imports Recovery
begin

text \<open>
  The release automation, the rest of \<open>scripts/release_chain/automation.py\<close> and
  \<open>scripts/release_adapter.py\<close>: merging a pull request of the bot and reconciling the
  repository with the newest release.
\<close>

section \<open>Merging\<close>

definition pull :: "json \<Rightarrow> string" where
  "pull number = ''pulls/'' @ py_str number"

definition commit_text :: "json \<Rightarrow> string list \<Rightarrow> string result" where
  "commit_text v ks = rbind (dig v ks) text_result"

text \<open>The patch the pull request must consist of, with the event and the report's new start for a rollback.\<close>

definition lock_of_patch :: "readers \<Rightarrow> patch \<Rightarrow> (string, json) dict result" where
  "lock_of_patch R p = rbind (patch_file p lock_path) (object_json (json_loads R))"

definition intended_patch ::
  "chain_env \<Rightarrow> 'w platform \<Rightarrow> string \<Rightarrow> (string, json) dict \<Rightarrow> release_tree \<Rightarrow> (string, json) dict option \<Rightarrow> string option \<Rightarrow>
   json \<Rightarrow> json \<Rightarrow> ('w, patch \<times> (string, json) dict option) act" where
  "intended_patch E P repo meta source event manifest pr base_sha =
     (let R = readers_of E in
      sbind (slift (field_is [''kind''] (JStr ''rollback'') (JDict meta))) (\<lambda>rolls_back.
      if rolls_back then
        sbind (slift (rbind (jitem meta ''rollback_package'') text_result)) (\<lambda>version.
        sbind (rollback_patch E P repo source version) (\<lambda>p.
        sbind (slift (rbind (lock_of_patch R p) (\<lambda>d. jitem d ''event''))) (\<lambda>ev.
        sbind (new_report E (Some (fields_of ev))) (\<lambda>_.
        sbind (set_identity pr base_sha) (\<lambda>_.
        slift (Inr (p, Some (fields_of ev))))))))
      else if present event then
        sbind (slift (case manifest of None \<Rightarrow> raise TypeError ''object supporting the buffer API required'' | Some m \<Rightarrow> Inr m)) (\<lambda>m.
        sbind (slift (update_files R source (the event) m None)) (\<lambda>t. slift (Inr (update_patch t, event))))
      else
        sbind (slift (jitem meta ''bump'')) (\<lambda>part.
        sbind (slift (manual_patch R source part)) (\<lambda>p. slift (Inr (p, event))))))"

text \<open>After a base update, up to 15 reads wait for the new head.\<close>

fun new_head :: "chain_env \<Rightarrow> 'w platform \<Rightarrow> string \<Rightarrow> json \<Rightarrow> string \<Rightarrow> nat \<Rightarrow> ('w, json) act" where
  "new_head E P repo number head 0 =
     slift (raise ValueError ''base update did not produce a new head; no stale evidence accepted'')"
| "new_head E P repo number head (Suc n) =
     sbind (api_get E P repo (pull number)) (\<lambda>pr.
     sbind (slift (dig pr [''head'', ''sha''])) (\<lambda>h.
     if json_eq h (JStr head) then new_head E P repo number head n else slift (Inr pr)))"

definition update_base ::
  "chain_env \<Rightarrow> 'w platform \<Rightarrow> string \<Rightarrow> json \<Rightarrow> string \<Rightarrow> string \<Rightarrow> (string, json) dict \<Rightarrow> ('w, unit) act" where
  "update_base E P repo number head base_sha meta =
     sbind (api_send E P repo (pull number @ ''/update-branch'') ''PUT'' (JDict [(''expected_head_sha'', JStr head)])) (\<lambda>result.
     sbind (check (result \<noteq> JNull) ''base update failed'') (\<lambda>_.
     sbind (new_head E P repo number head 15) (\<lambda>updated.
     sbind (slift (dig updated [''head'', ''sha''])) (\<lambda>h.
     sbind (slift (pr_body (put ''base'' (JStr base_sha) (put ''generated_head'' h meta)))) (\<lambda>text_body.
     sbind (api_send E P repo (pull number) ''PATCH'' (JDict [(''body'', JStr text_body)])) (\<lambda>_.
     sbind (set_identity updated (JStr base_sha)) (\<lambda>_.
     set_report ''state'' (JStr ''testing''))))))))"

text \<open>The merge itself: the inputs are read once more, and GitHub merges the tested head only.\<close>

definition final_merge :: "chain_env \<Rightarrow> 'w platform \<Rightarrow> string \<Rightarrow> json \<Rightarrow> string \<Rightarrow> string \<Rightarrow> ('w, unit) act" where
  "final_merge E P repo number head base_sha =
     sbind (api_get E P repo (pull number)) (\<lambda>fresh.
     sbind (check_that (rand (field_is [''head'', ''sha''] (JStr head) fresh) (field_is [''base'', ''sha''] (JStr base_sha) fresh))
              ''PR inputs moved immediately before merge'') (\<lambda>_.
     sbind (api_get E P repo ''git/ref/heads/main'') (\<lambda>main_ref.
     sbind (check_that (field_is [''object'', ''sha''] (JStr base_sha) main_ref) ''main moved immediately before merge'') (\<lambda>_.
     sbind (check_that (field_is [''mergeable_state''] (JStr ''clean'') fresh) ''branch protections or reviews block merge'') (\<lambda>_.
     sbind (set_report ''state'' (JStr ''ready'')) (\<lambda>_.
     sbind (slift (subscript fresh ''title'')) (\<lambda>title.
     sbind (api_send E P repo (pull number @ ''/merge'') ''PUT''
              (JDict [(''sha'', JStr head), (''merge_method'', JStr ''squash''), (''commit_title'', title)])) (\<lambda>result.
     sbind (check_that (field_true [''merged''] result) ''GitHub refused protected merge'') (\<lambda>_.
     sbind (set_report ''state'' (JStr ''merged'')) (\<lambda>_.
     sbind (slift (subscript result ''sha'')) (\<lambda>c.
     sbind (set_pr_field ''merge'' c) (\<lambda>_.
     set_report ''timestamp'' (JStr (clock_text E))))))))))))))"

definition tested_candidate :: "'w platform \<Rightarrow> json \<Rightarrow> (string, json) dict \<Rightarrow> ('w, unit) act" where
  "tested_candidate P number evidence =
     sbind (git P [''fetch'', ''origin'', ''refs/pull/'' @ py_str number @ ''/merge'']) (\<lambda>_.
     sbind (git P [''rev-parse'', ''FETCH_HEAD'']) (\<lambda>c.
     sbind (slift (rbind (jitem evidence ''tested_sha'') (\<lambda>v. Inr (json_eq v (JStr c))))) (\<lambda>same_commit.
     sbind (check same_commit ''tested merge candidate has changed'') (\<lambda>_.
     sbind (git P [''rev-parse'', ''FETCH_HEAD^{tree}'']) (\<lambda>t.
     check_that (rbind (jitem evidence ''tree'') (\<lambda>v. Inr (json_eq v (JStr t)))) ''tested merge candidate has changed'')))))"

definition merge_tested ::
  "chain_env \<Rightarrow> 'w platform \<Rightarrow> string \<Rightarrow> json \<Rightarrow> string \<Rightarrow> string \<Rightarrow> (string, json) dict \<Rightarrow> (string, json) dict option \<Rightarrow> patch \<Rightarrow>
   json \<Rightarrow> ('w, unit) act" where
  "merge_tested E P repo number head base_sha meta event p run =
     sbind (slift (subscript run ''id'')) (\<lambda>run_id.
     sbind (slift (opt_int number)) (\<lambda>n.
     sbind (gate_now E P repo run_id head (Some base_sha) n) (\<lambda>evidence.
     sbind (when_act (present event)
        (sbind (slift (jitem meta ''version'')) (record_candidate E (the event) evidence))) (\<lambda>_.
     sbind (tested_candidate P number evidence) (\<lambda>_.
     sbind (when_act (present event)
        (sbind (hub_latest E P) (\<lambda>latest.
         check_that (still_wanted latest (jitem (the event) ''event_id'') (field_is [''kind''] (JStr ''rollback'') (JDict meta))
             (rbind (lock_of_patch (readers_of E) p) (\<lambda>d. jitem d ''rejected_event_ids'')))
           ''release superseded immediately before merge''))) (\<lambda>_.
     final_merge E P repo number head base_sha))))))"

definition run_of_pr :: "json \<Rightarrow> string \<Rightarrow> json \<Rightarrow> bool result" where
  "run_of_pr number head run =
     rand (field_is [''head_sha''] (JStr head) run)
       (rbind (rbind (subscript run ''pull_requests'') items_of) (rany (\<lambda>item. field_is [''number''] number item)))"

definition merge_when_tested ::
  "chain_env \<Rightarrow> 'w platform \<Rightarrow> string \<Rightarrow> json \<Rightarrow> json \<Rightarrow> string \<Rightarrow> string \<Rightarrow> (string, json) dict \<Rightarrow> (string, json) dict option \<Rightarrow>
   patch \<Rightarrow> ('w, unit) act" where
  "merge_when_tested E P repo pr number head base_sha meta event p =
     sbind (set_identity pr (JStr base_sha)) (\<lambda>_.
     sbind (workflow_runs E P repo (''actions/workflows/ci.yml/runs?event=pull_request&head_sha='' @ head @ ''&per_page=100'')) (\<lambda>all_runs.
     sbind (slift (rfilter (run_of_pr number head) all_runs)) (\<lambda>runs.
     if runs = [] then set_report ''state'' (JStr ''pr_open'') else
     sbind (slift (latest_row runs)) (\<lambda>run.
     sbind (slift (field_is [''status''] (JStr ''completed'') run)) (\<lambda>finished.
     if finished then merge_tested E P repo number head base_sha meta event p run
     else set_report ''state'' (JStr ''testing''))))))"

definition own_pr :: "string \<Rightarrow> string \<Rightarrow> json \<Rightarrow> bool result" where
  "own_pr repo bot_login pr =
     rand (field_is [''user'', ''login''] (JStr bot_login) pr) (field_is [''head'', ''repo'', ''full_name''] (JStr repo) pr)"

definition eligible_pr ::
  "chain_env \<Rightarrow> 'w platform \<Rightarrow> string \<Rightarrow> string \<Rightarrow> json \<Rightarrow> ('w, json \<times> (string, json) dict) act" where
  "eligible_pr E P repo bot_login number =
     sbind (api_get E P repo (pull number)) (\<lambda>pr.
     sbind (slift (pr_marker E pr)) (\<lambda>m.
     sbind (slift (case m of None \<Rightarrow> raise AssertionError [] | Some meta \<Rightarrow> Inr meta)) (\<lambda>meta.
     sbind (set_identity pr JNull) (\<lambda>_.
     sbind (check_that (own_pr repo bot_login pr) ''PR is not owned by the scoped release App'') (\<lambda>_.
     sbind (check_that (same (dig pr [''head'', ''sha'']) (jitem meta ''generated_head''))
              ''bot branch has human/unrecorded commits; retaining its history'') (\<lambda>_.
     sbind (check_that (rand (field_is [''base'', ''ref''] (JStr ''main'') pr) (field_is [''state''] (JStr ''open'') pr))
              ''PR is no longer eligible'') (\<lambda>_.
     slift (Inr (pr, meta)))))))))"

definition maybe_merge ::
  "chain_env \<Rightarrow> 'w platform \<Rightarrow> string \<Rightarrow> string \<Rightarrow> json \<Rightarrow> (string, json) dict option \<Rightarrow> string option \<Rightarrow> ('w, unit) act" where
  "maybe_merge E P repo bot_login pr0 event manifest =
     sbind (slift (subscript pr0 ''number'')) (\<lambda>number.
     sbind (eligible_pr E P repo bot_login number) (\<lambda>(pr, meta).
     sbind (slift (dig pr [''head'', ''ref''])) (\<lambda>branch.
     sbind (git P [''fetch'', ''origin'', ''main'', ''refs/heads/'' @ py_str branch]) (\<lambda>_.
     sbind (git P [''rev-parse'', ''origin/main'']) (\<lambda>base_sha.
     sbind (slift (commit_text pr [''head'', ''sha''])) (\<lambda>head.
     sbind (git P [''merge-base'', base_sha, head]) (\<lambda>common.
     sbind (slift (if common \<noteq> base_sha then rbind (jitem meta ''base'') text_result else Inr base_sha)) (\<lambda>start_sha.
     sbind (take_snapshot P start_sha) (\<lambda>source.
     sbind (intended_patch E P repo meta source event manifest pr (JStr start_sha)) (\<lambda>(p, event).
     sbind (assert_patch P start_sha head p) (\<lambda>_.
     if common \<noteq> base_sha then update_base E P repo number head base_sha meta
     else merge_when_tested E P repo pr number head base_sha meta event p)))))))))))"

section \<open>Reconciling\<close>

text \<open>What reconciling does after its decision: nothing more, or a pull request with this patch.\<close>

datatype plan =
    Finished
  | Propose patch "(string, json) dict" string "(string, json) dict option" "string option"

definition kind_of :: "chain_env \<Rightarrow> string \<Rightarrow> json \<Rightarrow> bool result" where
  "kind_of E kind pr = rbind (marker_item E pr ''kind'') (\<lambda>v. Inr (json_eq v (JStr kind)))"

fun first_kind :: "chain_env \<Rightarrow> string \<Rightarrow> json list \<Rightarrow> json option result" where
  "first_kind E kind [] = Inr None"
| "first_kind E kind (pr # prs) = rbind (kind_of E kind pr) (\<lambda>b. if b then Inr (Some pr) else first_kind E kind prs)"

definition merge_package :: "chain_env \<Rightarrow> 'w platform \<Rightarrow> string \<Rightarrow> string \<Rightarrow> json \<Rightarrow> ('w, unit) act" where
  "merge_package E P repo bot_login pr =
     sbind (slift (kind_of E ''package'' pr)) (\<lambda>b. when_act b (maybe_merge E P repo bot_login pr None None))"

text \<open>The first package pull request is merged; without one, \<open>otherwise\<close> happens.\<close>

definition package_or ::
  "chain_env \<Rightarrow> 'w platform \<Rightarrow> string \<Rightarrow> string \<Rightarrow> json list \<Rightarrow> ('w, unit) act \<Rightarrow> ('w, plan) act" where
  "package_or E P repo bot_login prs otherwise =
     sbind (slift (first_kind E ''package'' prs)) (\<lambda>found.
     sbind (case found of Some pr \<Rightarrow> maybe_merge E P repo bot_login pr None None | None \<Rightarrow> otherwise) (\<lambda>_.
     slift (Inr Finished)))"

definition finished_as :: "string \<Rightarrow> ('w, plan) act" where
  "finished_as state = sbind (set_report ''state'' (JStr state)) (\<lambda>_. slift (Inr Finished))"

definition manifest_short :: "(string, json) dict \<Rightarrow> string result" where
  "manifest_short event = rbind (commit_text (JDict event) [''manifest'', ''sha256'']) (\<lambda>s. Inr (take 12 s))"

definition rejected_by :: "(string, json) dict option \<Rightarrow> json result \<Rightarrow> bool result" where
  "rejected_by installed wanted =
     (if present installed
      then rbind wanted (\<lambda>i. json_in i (jget_default (the installed) ''rejected_event_ids'' (JList []))) else Inr False)"

definition installed_is :: "(string, json) dict option \<Rightarrow> (string, json) dict \<Rightarrow> bool result" where
  "installed_is installed event =
     (if present installed
      then same (dig (JDict (the installed)) [''event'', ''event_id'']) (jitem event ''event_id'') else Inr False)"

definition installed_version :: "readers \<Rightarrow> release_tree \<Rightarrow> string result" where
  "installed_version R source = rbind (runtime_pin R source) pin_version"

definition version_le :: "json result \<Rightarrow> string \<Rightarrow> bool result" where
  "version_le v w = rbind (rbind v key_of_json) (\<lambda>k. rbind (version_key w) (\<lambda>l. Inr (k \<le> l)))"

definition rollback_plan :: "chain_env \<Rightarrow> 'w platform \<Rightarrow> string \<Rightarrow> release_tree \<Rightarrow> string \<Rightarrow> ('w, plan) act" where
  "rollback_plan E P repo source package =
     sbind (rollback_patch E P repo source package) (\<lambda>p.
     sbind (slift (lock_of_patch (readers_of E) p)) (\<lambda>lock.
     sbind (slift (jitem lock ''event'')) (\<lambda>ev.
     let event = fields_of ev in
     sbind (slift (patch_file p manifest_path)) (\<lambda>manifest.
     sbind (new_report E (Some event)) (\<lambda>_.
     sbind (slift (jitem lock ''package_version'')) (\<lambda>version.
     sbind (slift (jitem event ''event_id'')) (\<lambda>i.
     sbind (slift (manifest_short event)) (\<lambda>short.
     slift (Inr (Propose p
       [(''kind'', JStr ''rollback''), (''rollback_package'', JStr package), (''event_id'', i), (''version'', version)]
       (''bot/pineforge-release/main/rollback/'' @ py_str version @ ''-'' @ short) (Some event) (Some manifest)))))))))))"

definition bump_plan ::
  "chain_env \<Rightarrow> release_tree \<Rightarrow> (string, json) dict option \<Rightarrow> string \<Rightarrow> json list \<Rightarrow>
   ((string, json) dict \<times> string) option \<Rightarrow> string \<Rightarrow> plan result" where
  "bump_plan E source installed base_sha prs latest part =
     (let R = readers_of E in
      rbind (installed_version R source) (\<lambda>pinned.
      rbind (case latest of
               None \<Rightarrow> Inr True
             | Some (event, _) \<Rightarrow> ror (rejected_by installed (jitem event ''event_id'')) (version_le (jitem event ''release_version'') pinned)) (\<lambda>free.
      rbind (demand free ''a hub update is pending; reconcile that PR before a separate package bump'') (\<lambda>_.
      rbind (rany (kind_of E ''release'') prs) (\<lambda>pending.
      rbind (demand (\<not> pending) ''a release PR is pending; do not race its independent package bump'') (\<lambda>_.
      rbind (manual_patch R source (JStr part)) (\<lambda>p.
      rbind (rbind (package_version R source) text_result) (\<lambda>current.
      rbind (bumped_version current (part_of (JStr part))) (\<lambda>version.
      Inr (Propose p
        [(''kind'', JStr ''package''), (''bump'', JStr part), (''version'', JStr version), (''event_id'', JNull)]
        (''bot/pineforge-package/main/'' @ version @ ''-'' @ take 12 base_sha) None None))))))))))"

definition newer_pr :: "chain_env \<Rightarrow> (string, json) dict \<Rightarrow> json \<Rightarrow> bool result" where
  "newer_pr E event pr =
     rbind (pr_marker E pr) (\<lambda>m.
     let v = jget (case m of None \<Rightarrow> [] | Some d \<Rightarrow> d) ''release_version'' in
     if \<not> truthy v then Inr False
     else rbind (key_of_json v) (\<lambda>k. rbind (rbind (jitem event ''release_version'') key_of_json) (\<lambda>l. Inr (l < k))))"

definition update_plan ::
  "chain_env \<Rightarrow> 'w platform \<Rightarrow> release_tree \<Rightarrow> (string, json) dict \<Rightarrow> string option \<Rightarrow> ('w, plan) act" where
  "update_plan E P source event manifest =
     sbind (slift (case manifest of None \<Rightarrow> raise AssertionError [] | Some m \<Rightarrow> Inr m)) (\<lambda>m.
     sbind (authenticate E P event) (\<lambda>_.
     sbind (slift (update_files (readers_of E) source event m None)) (\<lambda>t.
     let p = update_patch t in
     sbind (slift (rbind (lock_of_patch (readers_of E) p) (\<lambda>d. jitem d ''package_version''))) (\<lambda>version.
     sbind (slift (jitem event ''event_id'')) (\<lambda>i.
     sbind (slift (jitem event ''release_version'')) (\<lambda>release_version.
     sbind (slift (manifest_short event)) (\<lambda>short.
     slift (Inr (Propose p
       [(''kind'', JStr ''release''), (''event_id'', i), (''release_version'', release_version), (''version'', version)]
       (''bot/pineforge-release/main/stable/'' @ py_str release_version @ ''-'' @ short) (Some event) manifest)))))))))"

definition release_plan ::
  "chain_env \<Rightarrow> 'w platform \<Rightarrow> string \<Rightarrow> string \<Rightarrow> release_tree \<Rightarrow> (string, json) dict option \<Rightarrow> json list \<Rightarrow> bool \<Rightarrow>
   (string, json) dict \<Rightarrow> string option \<Rightarrow> ('w, plan) act" where
  "release_plan E P repo bot_login source installed prs triggered event manifest =
     sbind (new_report E (Some event)) (\<lambda>_.
     sbind (slift (rfilter (kind_of E ''rollback'') prs)) (\<lambda>rollbacks.
     sbind (slift (installed_is installed event)) (\<lambda>applied.
     if rollbacks \<noteq> [] \<and> applied then
       sbind (check (length rollbacks = 1) ''ambiguous pending rollback PR'') (\<lambda>_.
       sbind (maybe_merge E P repo bot_login (hd rollbacks) None None) (\<lambda>_. slift (Inr Finished)))
     else
       sbind (slift (rejected_by installed (jitem event ''event_id''))) (\<lambda>rejected.
       if rejected then
         (if triggered then finished_as ''superseded''
          else package_or E P repo bot_login prs
            (sbind (slift (jitem (the installed) ''event'')) (\<lambda>ev.
             sbind (new_report E (Some (fields_of ev))) (\<lambda>_. recover_applied E P repo source))))
       else if applied then
         package_or E P repo bot_login prs
           (sbind (set_report ''state'' (JStr ''merged'')) (\<lambda>_. recover_applied E P repo source))
       else
         sbind (slift (installed_version (readers_of E) source)) (\<lambda>pinned.
         sbind (slift (version_le (jitem event ''release_version'') pinned)) (\<lambda>older.
         if older then
           sbind (slift (jitem event ''release_version'')) (\<lambda>v.
           sbind (check (\<not> json_eq v (JStr pinned)) ''same release version has an unrecognized identity'') (\<lambda>_.
           finished_as ''superseded''))
         else
           sbind (slift (rfilter (newer_pr E event) prs)) (\<lambda>newer.
           if newer \<noteq> [] then finished_as ''superseded'' else update_plan E P source event manifest)))))))"

section \<open>Pull requests for a plan\<close>

definition same_request :: "chain_env \<Rightarrow> string \<Rightarrow> bool \<Rightarrow> json \<Rightarrow> json \<Rightarrow> bool result" where
  "same_request E branch by_event i pr =
     ror (rbind (dig pr [''head'', ''ref'']) (\<lambda>v. Inr (json_eq v (JStr branch))))
       (if by_event then rbind (marker_item E pr ''event_id'') (\<lambda>v. Inr (json_eq v i)) else Inr False)"

definition close_superseded ::
  "chain_env \<Rightarrow> 'w platform \<Rightarrow> string \<Rightarrow> string \<Rightarrow> bool \<Rightarrow> json \<Rightarrow> json \<Rightarrow> ('w, unit) act" where
  "close_superseded E P repo bot_login bumps number old =
     sbind (slift (pr_marker E old)) (\<lambda>_.
     sbind (slift (subscript old ''number'')) (\<lambda>n.
     when_act (\<not> json_eq n number \<and> \<not> bumps)
       (sbind (check_that (same (dig old [''head'', ''sha'']) (marker_item E old ''generated_head''))
                 ''obsolete branch has human commits; not closing it automatically'') (\<lambda>_.
        sbind (check_that (field_is [''user'', ''login''] (JStr bot_login) old) ''obsolete PR has unexpected owner'') (\<lambda>_.
        sbind (api_send E P repo (''issues/'' @ py_str n @ ''/comments'') ''POST''
                 (JDict [(''body'', JStr (''Superseded by #'' @ py_str number @ ''; promotion eligibility revoked. '' @
                    ''Branch history is retained.''))])) (\<lambda>_.
        sbind (api_send E P repo (pull n) ''PATCH'' (JDict [(''state'', JStr ''closed'')])) (\<lambda>_.
        slift (Inr ()))))))))"

definition propose ::
  "chain_env \<Rightarrow> 'w platform \<Rightarrow> string \<Rightarrow> string \<Rightarrow> string \<Rightarrow> json list \<Rightarrow> bool \<Rightarrow> bool \<Rightarrow> plan \<Rightarrow> ('w, unit) act" where
  "propose E P repo bot_login base_sha prs bumps rolls_back pl =
     (case pl of
        Finished \<Rightarrow> slift (Inr ())
      | Propose p meta branch event manifest \<Rightarrow>
          sbind (slift (rfilter (same_request E branch (\<not> bumps \<and> \<not> rolls_back) (jget meta ''event_id'')) prs)) (\<lambda>same_prs.
          sbind (check (length same_prs \<le> 1) ''duplicate bot PR identities'') (\<lambda>_.
          sbind (case same_prs of pr # _ \<Rightarrow> slift (Inr pr) | [] \<Rightarrow> create_pr E P repo base_sha p branch meta bot_login) (\<lambda>pr.
          sbind (set_report ''state'' (JStr ''pr_open'')) (\<lambda>_.
          sbind (set_identity pr JNull) (\<lambda>_.
          sbind (slift (subscript pr ''number'')) (\<lambda>number.
          sbind (each (close_superseded E P repo bot_login bumps number) prs) (\<lambda>_.
          maybe_merge E P repo bot_login pr (if bumps then None else event) manifest))))))))"

section \<open>The whole step\<close>

definition incoming_event :: "chain_env \<Rightarrow> 'w platform \<Rightarrow> json \<Rightarrow> ('w, (string, json) dict \<times> string) act" where
  "incoming_event E P incoming =
     (let R = readers_of E in
      sbind (slift (as_event incoming)) (\<lambda>event.
      sbind (slift (validate_event event)) (\<lambda>_.
      sbind (slift (commit_text (JDict event) [''release_version''])) (\<lambda>version.
      sbind (observe P (\<lambda>S. hub_manifest R S version)) (\<lambda>manifest.
      sbind (slift (verify_manifest (sha256_of R) (json_loads R) event manifest)) (\<lambda>_.
      sbind (new_report E (Some event)) (\<lambda>_.
      slift (Inr (event, manifest)))))))))"

text \<open>
  The newest release against the incoming event: a later one supersedes it (\<open>None\<close>), and the same
  version must have the same identity.
\<close>

definition chosen_event ::
  "((string, json) dict \<times> string) option \<Rightarrow> ((string, json) dict \<times> string) option \<Rightarrow>
   ((string, json) dict \<times> string) option option result" where
  "chosen_event latest wanted =
     (case (latest, wanted) of
        (None, _) \<Rightarrow> Inr (Some wanted)
      | (Some l, None) \<Rightarrow> Inr (Some (Some l))
      | (Some (newest, _), Some (event, manifest)) \<Rightarrow>
          rbind (same (jitem newest ''release_version'') (jitem event ''release_version'')) (\<lambda>same_version.
          rbind (if same_version
                 then rbind (same (jitem newest ''event_id'') (jitem event ''event_id'')) (\<lambda>ok. demand ok ''fixed release identity changed'')
                 else Inr ()) (\<lambda>_.
          rbind (rbind (jitem newest ''release_version'') key_of_json) (\<lambda>k.
          rbind (rbind (jitem event ''release_version'') key_of_json) (\<lambda>l.
          Inr (if l < k then None else Some (Some (event, manifest))))))))"

definition decide ::
  "chain_env \<Rightarrow> 'w platform \<Rightarrow> string \<Rightarrow> string \<Rightarrow> string \<Rightarrow> json list \<Rightarrow> bool \<Rightarrow> ((string, json) dict \<times> string) option \<Rightarrow>
   string option \<Rightarrow> string option \<Rightarrow> ((string, json) dict \<times> string) option \<Rightarrow> ('w, plan) act" where
  "decide E P repo bot_login base_sha prs triggered latest bump rollback_package wanted =
     sbind (take_snapshot P base_sha) (\<lambda>source.
     sbind (slift (verify_local (readers_of E) source)) (\<lambda>installed.
     case (rollback_package, bump, wanted) of
       (Some (c # cs), _, _) \<Rightarrow> rollback_plan E P repo source (c # cs)
     | (_, Some (c # cs), _) \<Rightarrow> slift (bump_plan E source installed base_sha prs latest (c # cs))
     | (_, _, Some (event, manifest)) \<Rightarrow>
         release_plan E P repo bot_login source installed prs triggered event (Some manifest)
     | _ \<Rightarrow> sbind (each (merge_package E P repo bot_login) prs) (\<lambda>_. slift (Inr Finished))))"

definition asked :: "string option \<Rightarrow> bool" where
  "asked s = (s \<noteq> None \<and> s \<noteq> Some [])"

definition reconcile_with ::
  "chain_env \<Rightarrow> 'w platform \<Rightarrow> string \<Rightarrow> string \<Rightarrow> string \<Rightarrow> json list \<Rightarrow> bool \<Rightarrow> string option \<Rightarrow> string option \<Rightarrow>
   ((string, json) dict \<times> string) option \<Rightarrow> ('w, unit) act" where
  "reconcile_with E P repo bot_login base_sha prs triggered bump rollback_package wanted =
     sbind (hub_latest E P) (\<lambda>latest.
     sbind (slift (chosen_event latest wanted)) (\<lambda>chosen.
     case chosen of
       None \<Rightarrow> set_report ''state'' (JStr ''superseded'')
     | Some w \<Rightarrow>
         sbind (decide E P repo bot_login base_sha prs triggered latest bump rollback_package w) (\<lambda>pl.
         propose E P repo bot_login base_sha prs (asked bump) (asked rollback_package) pl)))"

definition reconcile ::
  "chain_env \<Rightarrow> 'w platform \<Rightarrow> string \<Rightarrow> (string, json) dict \<Rightarrow> string \<Rightarrow> string option \<Rightarrow> string option \<Rightarrow> ('w, unit) act" where
  "reconcile E P repo trigger bot_login bump rollback_package =
     sbind (git P [''fetch'', ''origin'', ''main'']) (\<lambda>_.
     sbind (git P [''rev-parse'', ''origin/main'']) (\<lambda>base_sha.
     sbind (open_bot_prs E P repo) (\<lambda>prs.
     let incoming = jget trigger ''client_payload'' in
     if incoming = JNull then reconcile_with E P repo bot_login base_sha prs False bump rollback_package None
     else
       sbind (incoming_event E P incoming) (\<lambda>wanted.
       if truthy (jget (fst wanted) ''prerelease'') then set_report ''state'' (JStr ''skipped_by_policy'')
       else reconcile_with E P repo bot_login base_sha prs True bump rollback_package (Some wanted)))))"

section \<open>The entry point\<close>

text \<open>
  \<open>scripts/release_adapter.py\<close>: the local check, and a reconciling run whose report is written
  whatever happens.  The result is the outcome with the bytes of the receipt file, if one is written.
\<close>

definition env_text :: "chain_env \<Rightarrow> string \<Rightarrow> string result" where
  "env_text E k = (case map_of (env_vars E) k of None \<Rightarrow> raise KeyError k | Some v \<Rightarrow> Inr v)"

definition adapter_local :: "chain_env \<Rightarrow> 'w platform \<Rightarrow> release_tree \<Rightarrow> ('w, unit) act" where
  "adapter_local E P tree =
     (let R = readers_of E in
      sbind (slift (verify_local R tree)) (\<lambda>lock.
      when_act (present lock)
        (let event = lock_event (the lock) in
         sbind (slift (commit_text (JDict event) [''release_version''])) (\<lambda>version.
         sbind (observe P (\<lambda>S. hub_manifest R S version)) (\<lambda>manifest.
         sbind (slift (verify_manifest (sha256_of R) (json_loads R) event manifest)) (\<lambda>_.
         sbind (authenticate E P event) (\<lambda>_.
         when_act (truthy (jget (the lock) ''rollback''))
           (sbind (slift (env_text E ''GITHUB_REPOSITORY'')) (\<lambda>repo. verify_rollback E P repo (the lock))))))))))"

definition adapter_reconcile :: "chain_env \<Rightarrow> 'w platform \<Rightarrow> string result \<Rightarrow> string option \<Rightarrow> string option \<Rightarrow> ('w, unit) act" where
  "adapter_reconcile E P trigger_bytes bump package =
     sbind (slift (rbind trigger_bytes (object_json (json_loads (readers_of E))))) (\<lambda>trigger.
     sbind (slift (env_text E ''GITHUB_REPOSITORY'')) (\<lambda>repo.
     sbind (slift (env_text E ''RELEASE_BOT_LOGIN'')) (\<lambda>bot_login.
     reconcile E P repo trigger bot_login bump package)))"

text \<open>\<open>try: ... except: state = "failed"; raise finally: finish(...)\<close>\<close>

definition reported :: "('w, unit) act \<Rightarrow> 'w progress \<Rightarrow> (unit result \<times> string option) \<times> 'w" where
  "reported m s =
     (case m s of
        (r, s') \<Rightarrow>
          (let report = (case r of Inl e \<Rightarrow> put ''state'' (JStr ''failed'') (the_report s') | Inr _ \<Rightarrow> the_report s') in
           case finish_receipt report of
             Inl e \<Rightarrow> ((Inl e, None), outside s')
           | Inr file \<Rightarrow> ((r, file), outside s')))"

definition adapter_run ::
  "chain_env \<Rightarrow> 'w platform \<Rightarrow> string result \<Rightarrow> string option \<Rightarrow> string option \<Rightarrow> 'w \<Rightarrow> (unit result \<times> string option) \<times> 'w" where
  "adapter_run E P trigger_bytes bump package w =
     (case receipt (env_vars E) (clock_text E) None of
        Inl e \<Rightarrow> ((Inl e, None), w)
      | Inr d \<Rightarrow> reported (adapter_reconcile E P trigger_bytes bump package) \<lparr>the_report = d, outside = w\<rparr>)"

end
