(* ===== verification/Publishing.thy ===== *)
theory Publishing
  imports Automation
begin

text \<open>
  The publication of a merged release, the stages of \<open>scripts/release_chain/publishing.py\<close>: \<open>prepare\<close>
  checks what landed on main and downloads its distributions, \<open>github-release\<close> fills the GitHub
  release, \<open>verify\<close> reads the published files back.  A stage gets the files of its directory as
  arguments; the directory the download fills is read from the outside.
\<close>

section \<open>Preparing\<close>

definition hash_fields :: "(string \<times> string) list \<Rightarrow> json" where
  "hash_fields hs = JDict (map (\<lambda>(n, h). (n, JStr h)) hs)"

definition landed_pr :: "chain_env \<Rightarrow> string \<Rightarrow> json \<Rightarrow> bool result" where
  "landed_pr E source pr =
     rand (rbind (got pr ''merged_at'' JNull) (\<lambda>m. Inr (truthy m)))
       (rand (field_is [''base'', ''ref''] (JStr ''main'') pr)
         (rand (field_is [''merge_commit_sha''] (JStr source) pr)
           (rbind (pr_marker E pr) (\<lambda>m. Inr (present m)))))"

text \<open>The landed source, its pull request and the lock it installs.\<close>

definition landed_request :: "chain_env \<Rightarrow> 'w platform \<Rightarrow> string \<Rightarrow> string \<Rightarrow> ('w, json list) act" where
  "landed_request E P repo source =
     sbind (api_get E P repo (''commits/'' @ source @ ''/pulls?per_page=100'')) (\<lambda>d.
     slift (rbind (items_of d) (rfilter (landed_pr E source))))"

definition own_request :: "chain_env \<Rightarrow> 'w platform \<Rightarrow> string \<Rightarrow> json \<Rightarrow> ('w, json) act" where
  "own_request E P repo number =
     sbind (api_get E P repo (pull number)) (\<lambda>pr.
     sbind (slift (pr_marker E pr)) (\<lambda>_.
     sbind (slift (env_text E ''RELEASE_BOT_LOGIN'')) (\<lambda>bot_login.
     sbind (check_that (field_is [''user'', ''login''] (JStr bot_login) pr) ''unexpected release PR owner'') (\<lambda>_.
     sbind (check_that (same (dig pr [''head'', ''sha'']) (marker_item E pr ''generated_head'')) ''release PR head changed'') (\<lambda>_.
     slift (Inr pr))))))"

text \<open>The CI evidence of the landed commit, and of the candidate it was merged from.\<close>

definition landed_evidence :: "chain_env \<Rightarrow> 'w platform \<Rightarrow> string \<Rightarrow> json \<Rightarrow> string \<Rightarrow> ('w, (string, json) dict) act" where
  "landed_evidence E P repo run_id source =
     sbind (gate_now E P repo run_id source None None) (\<lambda>evidence.
     sbind (git P [''rev-parse'', source @ ''^{tree}'']) (\<lambda>t.
     sbind (check_that (rand (rbind (jitem evidence ''tree'') (\<lambda>v. Inr (json_eq v (JStr t))))
              (rbind (jitem evidence ''tested_sha'') (\<lambda>v. Inr (json_eq v (JStr source))))) ''CI source tree disagrees'') (\<lambda>_.
     slift (Inr evidence))))"

definition record_previous :: "chain_env \<Rightarrow> 'w platform \<Rightarrow> string \<Rightarrow> json \<Rightarrow> (string, json) dict \<Rightarrow> ('w, unit) act" where
  "record_previous E P repo pr lock =
     sbind (candidate_gate E P repo pr) (\<lambda>gate.
     sbind (slift (marker_item E pr ''version'')) (\<lambda>version.
     sbind (record_candidate E (lock_event lock) gate version) (\<lambda>_.
     sbind (slift (commit_text (JDict lock) [''previous'', ''package_version''])) (\<lambda>previous.
     sbind (verified_package E P repo previous None (Some lock)) (\<lambda>v.
     set_report ''previous'' v)))))"

definition intended_identity :: "chain_env \<Rightarrow> json \<Rightarrow> (string, json) dict option \<Rightarrow> bool result" where
  "intended_identity E pr event =
     rbind (marker_item E pr ''kind'') (\<lambda>k.
     if k \<notin> {JStr ''release'', JStr ''rollback''} then Inr True
     else (case event of
             None \<Rightarrow> Inr False
           | Some e \<Rightarrow> same (jitem e ''event_id'') (marker_item E pr ''event_id'')))"

definition download_command :: "string \<Rightarrow> json \<Rightarrow> json \<Rightarrow> string \<Rightarrow> string list" where
  "download_command repo run_id attempt folder =
     [''gh'', ''run'', ''download'', py_str run_id, ''--repo'', repo, ''--name'', ''python-package-distributions-'' @ py_str attempt,
      ''--dir'', folder]"

definition release_outputs :: "bool \<Rightarrow> string \<Rightarrow> string \<Rightarrow> json \<Rightarrow> bool \<Rightarrow> (string \<times> string) list" where
  "release_outputs published source version run_id has_target =
     (let lower = (\<lambda>b. if b then ''true'' else ''false'') in
      [(''eligible'', ''true''), (''published'', lower published), (''sha'', source), (''tag'', CHR ''v'' # version),
       (''version'', version), (''ci_run'', py_str run_id), (''has_target'', lower has_target)])"

text \<open>The distributions are those the evidence names, and so is what PyPI may already hold.\<close>

definition tested_distributions ::
  "chain_env \<Rightarrow> 'w platform \<Rightarrow> ('w \<Rightarrow> (string \<times> string) list) \<Rightarrow> string list \<Rightarrow> (string, json) dict \<Rightarrow> ('w, unit) act" where
  "tested_distributions E P dist_in download evidence =
     sbind (command P download) (\<lambda>_ s.
     sbind (check_that (rbind (distribution_hashes (sha256_of (readers_of E)) (dist_in (outside s))) (\<lambda>hs.
              rbind (jitem evidence ''distributions'') (\<lambda>v. Inr (json_eq (hash_fields hs) v)))) ''CI distribution bytes changed'')
       (\<lambda>_. slift (Inr ())) s)"

definition published_state :: "chain_env \<Rightarrow> 'w platform \<Rightarrow> string \<Rightarrow> (string, json) dict \<Rightarrow> ('w, bool) act" where
  "published_state E P version evidence =
     sbind (observe P (\<lambda>S. pypi_files (readers_of E) S version)) (\<lambda>files.
     sbind (check_that (case files of
              None \<Rightarrow> Inr True
            | Some fs \<Rightarrow> rbind (jitem evidence ''distributions'') (\<lambda>v. Inr (json_eq (JDict fs) v)))
            ''PyPI version exists with different bytes'') (\<lambda>_.
     sbind (set_report ''state'' (JStr (if files = None then ''deploying'' else ''merged''))) (\<lambda>_.
     slift (Inr (files \<noteq> None)))))"

definition prepare_landed ::
  "chain_env \<Rightarrow> 'w platform \<Rightarrow> ('w \<Rightarrow> (string \<times> string) list) \<Rightarrow> string \<Rightarrow> string \<Rightarrow> json \<Rightarrow> json \<Rightarrow> string \<Rightarrow> json \<Rightarrow>
   ('w, (string \<times> string) list \<times> string option) act" where
  "prepare_landed E P dist_in folder repo run_id run source pr =
     (let R = readers_of E in
      sbind (git P [''fetch'', ''origin'', source]) (\<lambda>_.
      sbind (take_snapshot P source) (\<lambda>tree.
      sbind (slift (verify_local R tree)) (\<lambda>lock.
      let event = (if present lock then Some (lock_event (the lock)) else None) in
      sbind (new_report E event) (\<lambda>_.
      sbind (set_identity pr JNull) (\<lambda>_.
      sbind (slift (marker_item E pr ''base'')) (\<lambda>b.
      sbind (set_pr_field ''base_sha'' b) (\<lambda>_.
      sbind (landed_evidence E P repo run_id source) (\<lambda>evidence.
      sbind (when_act (present event) (record_previous E P repo pr (the lock))) (\<lambda>_.
      sbind (git P [''rev-parse'', source @ ''^1'']) (\<lambda>parent.
      sbind (check (json_eq b (JStr parent)) ''landed first parent differs from the tested base'') (\<lambda>_.
      sbind (current_intent E P repo tree) (\<lambda>_.
      sbind (slift (rbind (package_version R tree) text_result)) (\<lambda>version.
      sbind (check_that (rbind (marker_item E pr ''version'') (\<lambda>v. Inr (json_eq v (JStr version))))
               ''package version differs from release PR'') (\<lambda>_.
      sbind (check_that (intended_identity E pr event) ''release event differs from merged PR'') (\<lambda>_.
      sbind (slift (subscript run ''run_attempt'')) (\<lambda>attempt.
      sbind (tested_distributions E P dist_in (download_command repo run_id attempt folder) evidence) (\<lambda>_.
      sbind (slift (json_bytes (JDict evidence))) (\<lambda>file.
      sbind (published_state E P version evidence) (\<lambda>published.
      slift (Inr (release_outputs published source version run_id (event \<noteq> None), Some file))))))))))))))))))))))"

definition prepare_release ::
  "chain_env \<Rightarrow> 'w platform \<Rightarrow> ('w \<Rightarrow> (string \<times> string) list) \<Rightarrow> string \<Rightarrow> string \<Rightarrow> json \<Rightarrow>
   ('w, (string \<times> string) list \<times> string option) act" where
  "prepare_release E P dist_in folder repo run_id =
     sbind (api_get E P repo (''actions/runs/'' @ py_str run_id)) (\<lambda>run.
     sbind (check_that (rand (field_is [''event''] (JStr ''push'') run) (field_is [''head_branch''] (JStr ''main'') run))
              ''not landed main CI'') (\<lambda>_.
     sbind (slift (commit_text run [''head_sha''])) (\<lambda>source.
     sbind (landed_request E P repo source) (\<lambda>matches.
     if matches = [] then slift (Inr ([(''eligible'', ''false'')], None)) else
     sbind (check (length matches = 1) ''ambiguous merged release PR'') (\<lambda>_.
     sbind (slift (subscript (hd matches) ''number'')) (\<lambda>number.
     sbind (own_request E P repo number) (\<lambda>pr.
     prepare_landed E P dist_in folder repo run_id run source pr)))))))"

section \<open>The GitHub release\<close>

definition create_command :: "string \<Rightarrow> string \<Rightarrow> string \<Rightarrow> string list" where
  "create_command repo tag source =
     [''gh'', ''release'', ''create'', tag, ''--repo'', repo, ''--target'', source, ''--title'', ''pineforge-data '' @ tag,
      ''--generate-notes'', ''--latest=false'']"

definition upload_command :: "string \<Rightarrow> string \<Rightarrow> string \<Rightarrow> string list" where
  "upload_command repo tag path = [''gh'', ''release'', ''upload'', tag, path, ''--repo'', repo]"

definition latest_command :: "string \<Rightarrow> string \<Rightarrow> string list" where
  "latest_command repo version = [''gh'', ''release'', ''edit'', CHR ''v'' # version, ''--repo'', repo, ''--latest'']"

text \<open>An asset that is there must have the bytes of the file; one that is absent is uploaded.\<close>

definition fill_asset ::
  "chain_env \<Rightarrow> 'w platform \<Rightarrow> string \<Rightarrow> string \<Rightarrow> string \<Rightarrow> (string, json) dict \<Rightarrow> string \<times> string \<Rightarrow> ('w, unit) act" where
  "fill_asset E P repo tag folder assets file =
     (case map_of assets (fst file) of
        None \<Rightarrow> sbind (command P (upload_command repo tag (folder @ ''/'' @ fst file))) (\<lambda>_. slift (Inr ()))
      | Some a \<Rightarrow>
          sbind (observe P (\<lambda>S. asset_bytes S repo a)) (\<lambda>data.
          check (sha256_of (readers_of E) data = sha256_of (readers_of E) (snd file)) ''existing release asset differs''))"

definition assets_by_name :: "json \<Rightarrow> (string, json) dict result" where
  "assets_by_name release =
     rbind (rbind (subscript release ''assets'') items_of)
       (rfold (\<lambda>acc a. rbind (rbind (subscript a ''name'') text_result) (\<lambda>n. Inr (put n a acc))) [])"

definition check_tag :: "'w platform \<Rightarrow> string \<Rightarrow> string \<Rightarrow> ('w, unit) act" where
  "check_tag P tag source =
     sbind (git P [''ls-remote'', ''--tags'', ''origin'', ''refs/tags/'' @ tag, ''refs/tags/'' @ tag @ ''^{}'']) (\<lambda>tags.
     when_act (tags \<noteq> [])
       (sbind (git P [''fetch'', ''origin'', ''refs/tags/'' @ tag]) (\<lambda>_.
        sbind (git P [''rev-parse'', tag @ ''^{commit}'']) (\<lambda>c.
        check (c = source) ''existing tag source disagrees''))))"

definition recorded_merge :: "string \<Rightarrow> ('w, unit) act" where
  "recorded_merge source =
     on_report (\<lambda>d. (rbind (jitem d ''pr'') (\<lambda>pr.
        if pr = JNull then Inr ()
        else rbind (field_is [''merge''] (JStr source) pr) (\<lambda>ok. demand ok ''distribution source differs from recorded merge'')), d))"

definition github_release ::
  "chain_env \<Rightarrow> 'w platform \<Rightarrow> string \<Rightarrow> release_tree \<Rightarrow> string \<Rightarrow> (string \<times> string) list \<Rightarrow> string \<Rightarrow> ('w, unit) act" where
  "github_release E P repo tree folder files evidence_file =
     (let R = readers_of E in
      sbind (slift (rbind (package_version R tree) text_result)) (\<lambda>version.
      sbind (slift (rbind (rbind (object_json (json_loads R) evidence_file) (\<lambda>d. jitem d ''head'')) text_result)) (\<lambda>source.
      sbind (recorded_merge source) (\<lambda>_.
      let tag = CHR ''v'' # version in
      sbind (current_intent E P repo tree) (\<lambda>_.
      sbind (check_tag P tag source) (\<lambda>_.
      sbind (inventory E P repo ''releases'' []) (\<lambda>releases.
      sbind (slift (rfilter (field_is [''tag_name''] (JStr tag)) releases)) (\<lambda>existing.
      sbind (when_act (existing = []) (sbind (command P (create_command repo tag source)) (\<lambda>_. slift (Inr ())))) (\<lambda>_.
      sbind (api_get E P repo (''releases/tags/'' @ tag)) (\<lambda>release.
      sbind (slift (assets_by_name release)) (\<lambda>assets.
      each (fill_asset E P repo tag folder assets) (sort_key fst files))))))))))))"

section \<open>Verification\<close>

text \<open>At most twelve reads of the index.\<close>

fun published_files :: "chain_env \<Rightarrow> 'w platform \<Rightarrow> string \<Rightarrow> json \<Rightarrow> nat \<Rightarrow> ('w, unit) act" where
  "published_files E P version expected 0 =
     slift (raise ValueError ''PyPI publication has no verifiable distribution inventory'')"
| "published_files E P version expected (Suc n) =
     sbind (observe P (\<lambda>S. pypi_files (readers_of E) S version)) (\<lambda>actual.
     case actual of
       None \<Rightarrow> published_files E P version expected n
     | Some fs \<Rightarrow> check (json_eq (JDict fs) expected) ''published PyPI distribution digests disagree'')"

fun downloads_agree :: "readers \<Rightarrow> services \<Rightarrow> (string, json) dict \<Rightarrow> json list \<Rightarrow> unit result" where
  "downloads_agree R S expected [] = Inr ()"
| "downloads_agree R S expected (u # us) =
     rbind (rbind (subscript u ''url'') (starts_with ''https://files.pythonhosted.org/'')) (\<lambda>ok.
     rbind (demand ok ''unexpected PyPI download source'') (\<lambda>_.
     rbind (rbind (subscript u ''url'') text_result) (\<lambda>url.
     rbind (http_get S url []) (\<lambda>data.
     rbind (rbind (subscript u ''filename'') text_result) (\<lambda>name.
     rbind (jitem expected name) (\<lambda>h.
     rbind (demand (h = JStr (sha256_of R data)) ''PyPI download bytes disagree with tested distribution'') (\<lambda>_.
     downloads_agree R S expected us)))))))"

definition index_agrees :: "readers \<Rightarrow> services \<Rightarrow> string \<Rightarrow> (string, json) dict \<Rightarrow> unit result" where
  "index_agrees R S version expected =
     rbind (rbind (http_get S (pypi_url version) []) (object_json (json_loads R))) (\<lambda>metadata.
     rbind (rbind (jitem metadata ''urls'') items_of) (downloads_agree R S expected))"

definition record_deployed :: "chain_env \<Rightarrow> (string, json) dict \<Rightarrow> string \<Rightarrow> json \<Rightarrow> ('w, unit) act" where
  "record_deployed E lock version expected =
     on_report (\<lambda>d.
       case rbind (dig (JDict d) [''pr'', ''merge'']) (\<lambda>c. served_identity (readers_of E) (lock_event lock) c (JStr version) expected) of
         Inl e \<Rightarrow> (Inl e, d)
       | Inr v \<Rightarrow>
           (let d = put ''deployed'' v d in
            (rbind (jitem d ''previous'') (\<lambda>p. demand (p \<noteq> JNull) ''previous distribution identity missing''), d)))"

definition verify_publication ::
  "chain_env \<Rightarrow> 'w platform \<Rightarrow> string \<Rightarrow> release_tree \<Rightarrow> (string \<times> string) list \<Rightarrow> string \<Rightarrow> ('w, unit) act" where
  "verify_publication E P repo tree files evidence_file =
     (let R = readers_of E in
      sbind (slift (rbind (package_version R tree) text_result)) (\<lambda>version.
      sbind (slift (distribution_hashes (sha256_of R) files)) (\<lambda>hs.
      sbind (slift (object_json (json_loads R) evidence_file)) (\<lambda>gate.
      let expected = hash_fields hs in
      sbind (check_that (rbind (jitem gate ''distributions'') (\<lambda>v. Inr (json_eq expected v))) ''distribution drift'') (\<lambda>_.
      sbind (published_files E P version expected 12) (\<lambda>_.
      sbind (observe P (\<lambda>S. index_agrees R S version (fields_of expected))) (\<lambda>_.
      sbind (slift (verify_local R tree)) (\<lambda>lock.
      sbind (when_act (present lock) (record_deployed E (the lock) version expected)) (\<lambda>_.
      sbind (set_report ''state'' (JStr ''deploying'')) (\<lambda>_.
      sbind (set_report ''timestamp'' (JStr (clock_text E))) (\<lambda>_.
      sbind (current_intent E P repo tree) (\<lambda>_.
      sbind (command P (latest_command repo version)) (\<lambda>_.
      slift (Inr ()))))))))))))))"

section \<open>The entry point\<close>

datatype stage =
    Prepare json
  | Github_release release_tree "(string \<times> string) list" string
  | Preflight release_tree "(string \<times> string) list" string
  | Verify release_tree "(string \<times> string) list" string

definition preflight ::
  "chain_env \<Rightarrow> 'w platform \<Rightarrow> string \<Rightarrow> release_tree \<Rightarrow> (string \<times> string) list \<Rightarrow> string \<Rightarrow> ('w, unit) act" where
  "preflight E P repo tree files evidence_file =
     sbind (current_intent E P repo tree) (\<lambda>_.
     sbind (slift (distribution_hashes (sha256_of (readers_of E)) files)) (\<lambda>hs.
     check_that (rbind (rbind (object_json (json_loads (readers_of E)) evidence_file) (\<lambda>d. jitem d ''distributions'')) (\<lambda>v.
       Inr (json_eq (hash_fields hs) v))) ''untested upload bytes''))"

definition output_lines :: "(string \<times> string) list \<Rightarrow> string" where
  "output_lines outputs = concat (map (\<lambda>(k, v). k @ ''='' @ v @ [CHR 0x0A]) outputs)"

text \<open>The lines a stage appends to \<open>GITHUB_OUTPUT\<close>.\<close>

definition run_stage ::
  "chain_env \<Rightarrow> 'w platform \<Rightarrow> ('w \<Rightarrow> (string \<times> string) list) \<Rightarrow> string \<Rightarrow> string \<Rightarrow> stage \<Rightarrow> ('w, string) act" where
  "run_stage E P dist_in folder repo st =
     (let quiet = (\<lambda>m. sbind m (\<lambda>_. slift (Inr []))) in
      case st of
        Prepare run_id \<Rightarrow>
          sbind (prepare_release E P dist_in folder repo run_id) (\<lambda>r.
          sbind (slift (env_text E ''GITHUB_OUTPUT'')) (\<lambda>_. slift (Inr (output_lines (fst r)))))
      | Github_release tree files evidence_file \<Rightarrow> quiet (github_release E P repo tree folder files evidence_file)
      | Preflight tree files evidence_file \<Rightarrow> quiet (preflight E P repo tree files evidence_file)
      | Verify tree files evidence_file \<Rightarrow> quiet (verify_publication E P repo tree files evidence_file))"

text \<open>The report is the one of the earlier stage, if there is one, and is written whatever happens.\<close>

definition publish_run ::
  "chain_env \<Rightarrow> 'w platform \<Rightarrow> ('w \<Rightarrow> (string \<times> string) list) \<Rightarrow> string \<Rightarrow> string option \<Rightarrow> stage \<Rightarrow> 'w \<Rightarrow>
   (unit result \<times> string option) \<times> 'w" where
  "publish_run E P dist_in folder receipt_file st w =
     (case rbind (env_text E ''GITHUB_REPOSITORY'') (\<lambda>repo.
           rbind (case receipt_file of
                    None \<Rightarrow> receipt (env_vars E) (clock_text E) None
                  | Some b \<Rightarrow> object_json (json_loads (readers_of E)) b) (\<lambda>d. Inr (repo, d))) of
        Inl e \<Rightarrow> ((Inl e, None), w)
      | Inr (repo, d) \<Rightarrow>
          reported (sbind (run_stage E P dist_in folder repo st) (\<lambda>_. slift (Inr ()))) \<lparr>the_report = d, outside = w\<rparr>)"

end
