(* ===== verification/Trail.thy ===== *)
theory Trail
  imports Publishing
begin

text \<open>
  Watching what the release chain does to the outside.  A watched platform keeps a trail: the states that
  were read, the API writes and the commands, in order.  \<open>guarded H m A\<close> says that \<open>m\<close>, started when the
  events in \<open>H\<close> have happened, only adds events that \<open>A\<close> allows after what happened before them.
\<close>

section \<open>The trail\<close>

datatype 'w deed = Saw 'w | Wrote string string json | Ran "string list" | Copied patch

type_synonym 'w trail = "'w deed list"

definition under_watch :: "'w platform \<Rightarrow> ('w \<times> 'w trail) platform" where
  "under_watch P =
     \<lparr>services_in = \<lambda>(w, l). services_in P w,
      advance = \<lambda>(w, l). (advance P w, l @ [Saw w]),
      api_write = \<lambda>verb target data (w, l). (case api_write P verb target data w of (r, w') \<Rightarrow> (r, (w', l @ [Wrote verb target data]))),
      run_command = \<lambda>args (w, l). (case run_command P args w of (r, w') \<Rightarrow> (r, (w', l @ [Ran args]))),
      file_at = \<lambda>revision name (w, l). file_at P revision name w,
      write_files = \<lambda>p (w, l). (write_files P p w, l @ [Copied p])\<rparr>"

definition trail_of :: "('w \<times> 'w trail) progress \<Rightarrow> 'w trail" where
  "trail_of s = snd (outside s)"

fun lawful :: "('w deed set \<Rightarrow> 'w deed \<Rightarrow> bool) \<Rightarrow> 'w trail \<Rightarrow> 'w trail \<Rightarrow> bool" where
  "lawful A past [] = True"
| "lawful A past (e # es) = (A (set past) e \<and> lawful A (past @ [e]) es)"

definition guarded ::
  "'w deed set \<Rightarrow> ('w \<times> 'w trail, 'a) act \<Rightarrow> ('w deed set \<Rightarrow> 'w deed \<Rightarrow> bool) \<Rightarrow> bool" where
  "guarded H m A =
     (\<forall>s. H \<subseteq> set (trail_of s) \<longrightarrow>
        (\<exists>es. trail_of (snd (m s)) = trail_of s @ es \<and> lawful A (trail_of s) es))"

named_theorems guards

lemma lawful_append: "lawful A past (es @ fs) = (lawful A past es \<and> lawful A (past @ es) fs)"
  by (induction es arbitrary: past) auto

lemma guarded_weaken: "guarded H m A \<Longrightarrow> H \<subseteq> K \<Longrightarrow> guarded K m A"
  unfolding guarded_def by blast

lemma guarded_slift [guards]: "guarded H (slift r) A"
  by (auto simp: guarded_def intro!: exI [of _ "[]"])

lemma guarded_bind [guards]:
  assumes "guarded H m A" and "\<And>x. guarded H (f x) A"
  shows "guarded H (sbind m f) A"
  unfolding guarded_def
proof (intro allI impI)
  fix s :: "('a \<times> 'a trail) progress"
  assume H: "H \<subseteq> set (trail_of s)"
  obtain es where es: "trail_of (snd (m s)) = trail_of s @ es" "lawful A (trail_of s) es"
    using assms(1) H unfolding guarded_def by blast
  show "\<exists>es. trail_of (snd (sbind m f s)) = trail_of s @ es \<and> lawful A (trail_of s) es"
  proof (cases "fst (m s)")
    case (Inl e)
    then have "snd (sbind m f s) = snd (m s)" by (cases "m s") (simp add: sbind_def)
    then show ?thesis using es by metis
  next
    case (Inr x)
    then have run: "sbind m f s = f x (snd (m s))" by (cases "m s") (simp add: sbind_def)
    have "H \<subseteq> set (trail_of (snd (m s)))" using H es(1) by auto
    then obtain fs where "trail_of (snd (f x (snd (m s)))) = trail_of (snd (m s)) @ fs" "lawful A (trail_of (snd (m s))) fs"
      using assms(2) unfolding guarded_def by blast
    then show ?thesis unfolding run using es by (intro exI [of _ "es @ fs"]) (simp add: lawful_append)
  qed
qed

text \<open>A read leaves behind the state it saw.\<close>

lemma guarded_observe:
  assumes "\<And>w x. f (services_in P w) = Inr x \<Longrightarrow> guarded (insert (Saw w) H) (g x) A" and "\<And>K w. A K (Saw w)"
  shows "guarded H (sbind (observe (under_watch P) f) g) A"
  unfolding guarded_def
proof (intro allI impI)
  fix s :: "('a \<times> 'a trail) progress"
  assume H: "H \<subseteq> set (trail_of s)"
  obtain w l where s: "outside s = (w, l)" by (cases "outside s")
  let ?s = "s\<lparr>outside := (advance P w, l @ [Saw w])\<rparr>"
  have ob: "observe (under_watch P) f s = (f (services_in P w), ?s)"
    by (simp add: observe_def under_watch_def s)
  have tr: "trail_of ?s = trail_of s @ [Saw w]" by (simp add: trail_of_def s)
  show "\<exists>es. trail_of (snd (sbind (observe (under_watch P) f) g s)) = trail_of s @ es \<and> lawful A (trail_of s) es"
  proof (cases "f (services_in P w)")
    case (Inl e)
    then show ?thesis using tr assms(2) by (intro exI [of _ "[Saw w]"]) (simp add: sbind_def ob)
  next
    case (Inr x)
    have "insert (Saw w) H \<subseteq> set (trail_of ?s)" using H tr by auto
    then obtain fs where "trail_of (snd (g x ?s)) = trail_of ?s @ fs" "lawful A (trail_of ?s) fs"
      using assms(1) [OF Inr] unfolding guarded_def by blast
    then show ?thesis using tr assms(2) Inr
      by (intro exI [of _ "Saw w # fs"]) (simp add: sbind_def ob)
  qed
qed

lemma guarded_read [guards]:
  assumes "\<And>K w. A K (Saw w)"
  shows "guarded H (observe (under_watch P) f) A"
  unfolding guarded_def
proof (intro allI impI)
  fix s :: "('a \<times> 'a trail) progress"
  obtain w l where s: "outside s = (w, l)" by (cases "outside s")
  show "\<exists>es. trail_of (snd (observe (under_watch P) f s)) = trail_of s @ es \<and> lawful A (trail_of s) es"
    using assms by (intro exI [of _ "[Saw w]"]) (simp add: observe_def under_watch_def trail_of_def s)
qed

lemma guarded_report [guards]: "guarded H (on_report f) A"
  by (auto simp: guarded_def on_report_def trail_of_def split: prod.splits)

lemma guarded_command [guards]:
  assumes "\<And>K. H \<subseteq> K \<Longrightarrow> A K (Ran args)"
  shows "guarded H (command (under_watch P) args) A"
  unfolding guarded_def
proof (intro allI impI)
  fix s :: "('a \<times> 'a trail) progress"
  assume H: "H \<subseteq> set (trail_of s)"
  obtain w l where s: "outside s = (w, l)" by (cases "outside s")
  obtain r w' where c: "run_command P args w = (r, w')" by fastforce
  show "\<exists>es. trail_of (snd (command (under_watch P) args s)) = trail_of s @ es \<and> lawful A (trail_of s) es"
    using assms [OF H] by (intro exI [of _ "[Ran args]"]) (simp add: command_def under_watch_def trail_of_def s c)
qed

lemma guarded_send [guards]:
  assumes "\<And>K. H \<subseteq> K \<Longrightarrow> A K (Wrote verb (api_target repo endpoint) data)"
  shows "guarded H (api_send E (under_watch P) repo endpoint verb data) A"
  unfolding guarded_def
proof (intro allI impI)
  fix s :: "('a \<times> 'a trail) progress"
  assume H: "H \<subseteq> set (trail_of s)"
  obtain w l where s: "outside s = (w, l)" by (cases "outside s")
  obtain r w' where c: "api_write P verb (api_target repo endpoint) data w = (r, w')" by fastforce
  show "\<exists>es. trail_of (snd (api_send E (under_watch P) repo endpoint verb data s)) = trail_of s @ es \<and> lawful A (trail_of s) es"
  proof (cases "json_bytes data")
    case (Inl e)
    then show ?thesis by (intro exI [of _ "[]"]) (simp add: api_send_def)
  next
    case (Inr b)
    then show ?thesis using assms [OF H]
      by (intro exI [of _ "[Wrote verb (api_target repo endpoint) data]"]) (simp add: api_send_def under_watch_def trail_of_def s c)
  qed
qed

lemma guarded_copy [guards]:
  assumes "\<And>K. H \<subseteq> K \<Longrightarrow> A K (Copied p)"
  shows "guarded H (write_patch (under_watch P) p) A"
  unfolding guarded_def
proof (intro allI impI)
  fix s :: "('a \<times> 'a trail) progress"
  assume H: "H \<subseteq> set (trail_of s)"
  obtain w l where s: "outside s = (w, l)" by (cases "outside s")
  show "\<exists>es. trail_of (snd (write_patch (under_watch P) p s)) = trail_of s @ es \<and> lawful A (trail_of s) es"
    using assms [OF H] by (intro exI [of _ "[Copied p]"]) (simp add: write_patch_def under_watch_def trail_of_def s)
qed

lemma guarded_snapshot [guards]: "guarded H (take_snapshot P revision) A"
  by (auto simp: guarded_def take_snapshot_def)

lemma guarded_content [guards]: "guarded H (check_content P head item) A"
  by (auto simp: guarded_def check_content_def split: option.split)

lemma guarded_when [guards]: "(b \<Longrightarrow> guarded H m A) \<Longrightarrow> guarded H (when_act b m) A"
  by (simp add: when_act_def guarded_slift)

lemma guarded_each [guards]: "(\<And>x. guarded H (f x) A) \<Longrightarrow> guarded H (each f xs) A"
  by (induction xs) (auto intro: guards)

lemma guarded_filter [guards]: "(\<And>x. guarded H (f x) A) \<Longrightarrow> guarded H (act_filter f xs) A"
  by (induction xs) (auto intro!: guards)

lemma guarded_if [guards]: "(b \<Longrightarrow> guarded H m A) \<Longrightarrow> (\<not> b \<Longrightarrow> guarded H n A) \<Longrightarrow> guarded H (if b then m else n) A"
  by simp

lemma guarded_let [guards]: "guarded H (f x) A \<Longrightarrow> guarded H (Let x f) A"
  by simp

text \<open>The same steps with what they returned.\<close>

lemma guarded_bind_slift:
  "(\<And>x. r = Inr x \<Longrightarrow> guarded H (g x) A) \<Longrightarrow> guarded H (sbind (slift r) g) A"
  by (cases r) (auto simp: guarded_def intro!: exI [of _ "[]"])

lemma guarded_bind_check:
  "(b \<Longrightarrow> guarded H (g ()) A) \<Longrightarrow> guarded H (sbind (check b message) g) A"
  unfolding check_def by (rule guarded_bind_slift) (simp add: demand_returns)

lemma guarded_bind_that:
  "(r = Inr True \<Longrightarrow> guarded H (g ()) A) \<Longrightarrow> guarded H (sbind (check_that r message) g) A"
  unfolding check_that_def by (rule guarded_bind_slift) (auto simp: rbind_returns)

lemma sbind_assoc: "sbind (sbind m f) g = sbind m (\<lambda>x. sbind (f x) g)"
  by (auto simp: sbind_def split: prod.splits sum.splits)

lemma guarded_option [guards]:
  "(x = None \<Longrightarrow> guarded H m A) \<Longrightarrow> (\<And>y. x = Some y \<Longrightarrow> guarded H (f y) A) \<Longrightarrow> guarded H (case x of None \<Rightarrow> m | Some y \<Rightarrow> f y) A"
  by (cases x) auto

lemma guarded_list [guards]:
  "guarded H m A \<Longrightarrow> (\<And>y ys. guarded H (f y ys) A) \<Longrightarrow> guarded H (case x of [] \<Rightarrow> m | y # ys \<Rightarrow> f y ys) A"
  by (cases x) auto

lemma guarded_prod [guards]:
  "(\<And>a b. x = (a, b) \<Longrightarrow> guarded H (f a b) A) \<Longrightarrow> guarded H (case x of (a, b) \<Rightarrow> f a b) A"
  by (cases x) auto

lemma lawful_weaken: "lawful A past es \<Longrightarrow> (\<And>K e. A K e \<Longrightarrow> B K e) \<Longrightarrow> lawful B past es"
  by (induction es arbitrary: past) auto

section \<open>Reads\<close>

text \<open>Git commands that push nothing.\<close>

definition harmless :: "string set" where
  "harmless = {''fetch'', ''rev-parse'', ''merge-base'', ''diff'', ''log'', ''ls-remote'', ''switch'', ''config'', ''add'', ''commit''}"

lemma harmless_verbs [simp]:
  "''fetch'' \<in> harmless" "''rev-parse'' \<in> harmless" "''merge-base'' \<in> harmless" "''diff'' \<in> harmless" "''log'' \<in> harmless"
  "''ls-remote'' \<in> harmless" "''switch'' \<in> harmless" "''config'' \<in> harmless" "''add'' \<in> harmless" "''commit'' \<in> harmless"
  by (simp_all add: harmless_def)

lemma guarded_checks [guards]:
  "guarded H (check c message) A" "guarded H (check_that r message) A" "guarded H (set_report k v) A" "guarded H (merge_report e) A"
  "guarded H (set_pr_field k v) A" "guarded H (set_identity pr base_sha) A" "guarded H (new_report E event) A" "guarded H (record_candidate E ev gate version) A"
  unfolding check_def check_that_def set_report_def merge_report_def set_pr_field_def set_identity_def new_report_def record_candidate_def
  by (intro guards)+

text \<open>A policy that lets a run read and use the harmless git commands admits every operation made of these.\<close>

locale reading_policy =
  fixes A :: "'w deed set \<Rightarrow> 'w deed \<Rightarrow> bool"
  assumes saw [simp]: "A K (Saw w)"
    and plain [simp]: "verb \<in> harmless \<Longrightarrow> A K (Ran (''git'' # verb # rest))"
begin

lemma guarded_git [guards]: "verb \<in> harmless \<Longrightarrow> guarded H (git (under_watch P) (verb # rest)) A"
  unfolding git_def by (intro guards) auto

lemma guarded_api_get [guards]: "guarded H (api_get E (under_watch P) repo' endpoint) A"
  unfolding api_get_def by (intro guards; simp)

lemma guarded_inventory [guards]: "guarded H (inventory E (under_watch P) repo' endpoint key) A"
  unfolding inventory_def by (intro guards; simp)

lemma guarded_hub_latest [guards]: "guarded H (hub_latest E (under_watch P) ) A"
  unfolding hub_latest_def by (intro guards; simp)

lemma guarded_authenticate [guards]: "guarded H (authenticate E (under_watch P) event) A"
  unfolding authenticate_def by (intro guards; simp)

lemma guarded_stored_receipt [guards]: "guarded H (stored_receipt E (under_watch P) repo' version) A"
  unfolding stored_receipt_def by (intro guards; simp)

lemma guarded_verified_package [guards]: "guarded H (verified_package E (under_watch P) repo' version saved adopter) A"
  unfolding verified_package_def by (intro guards; simp)

lemma guarded_gate_now [guards]: "guarded H (gate_now E (under_watch P) repo' run_id head base_sha n) A"
  unfolding gate_now_def by (intro guards; simp)

lemma guarded_candidate_gate [guards]: "guarded H (candidate_gate E (under_watch P) repo' pr) A"
  unfolding candidate_gate_def by (intro guards; simp)

lemma guarded_verify_rollback [guards]: "guarded H (verify_rollback E (under_watch P) repo' lock) A"
  unfolding verify_rollback_def by (intro guards; simp)

lemma guarded_rollback_patch [guards]: "guarded H (rollback_patch E (under_watch P) repo' tree version) A"
  unfolding rollback_patch_def by (intro guards; simp)

lemma guarded_workflow_runs [guards]: "guarded H (workflow_runs E (under_watch P) repo' endpoint) A"
  unfolding workflow_runs_def by (intro guards; simp)

lemma guarded_completed_stage [guards]: "guarded H (completed_stage E (under_watch P) repo' row) A"
  unfolding completed_stage_def by (intro guards; simp)

lemma guarded_replay_receipt [guards]: "guarded H (replay_receipt E (under_watch P) repo' source version saved) A"
  unfolding replay_receipt_def by (intro guards; simp)


lemma guarded_assert_patch [guards]:
  "guarded H (assert_patch (under_watch P) start_sha head p) A"
  unfolding assert_patch_def by (intro guards; simp)

lemma guarded_open_bot_prs [guards]: "guarded H (open_bot_prs E (under_watch P) repo') A"
  unfolding open_bot_prs_def by (intro guards; simp)

lemma guarded_recovered_branch [guards]:
  "guarded H (recovered_branch (under_watch P) start_sha p branch email) A"
  unfolding recovered_branch_def by (intro guards; simp)

lemma guarded_intended_patch [guards]:
  "guarded H (intended_patch E (under_watch P) repo' meta source event manifest pr base_sha) A"
  unfolding intended_patch_def by (intro guards; simp)

lemma guarded_new_head [guards]: "guarded H (new_head E (under_watch P) repo' number head n) A"
  by (induction n) (auto intro!: guards)

lemma guarded_tested_candidate [guards]:
  "guarded H (tested_candidate (under_watch P) number evidence) A"
  unfolding tested_candidate_def by (intro guards; simp)

lemma guarded_target_current [guards]: "guarded H (target_current E (under_watch P) repo' lock) A"
  unfolding target_current_def by (intro guards; simp)

lemma guarded_current_intent [guards]: "guarded H (current_intent E (under_watch P) repo' tree) A"
  unfolding current_intent_def by (intro guards; simp)

lemma api_get_seen:
  assumes "\<And>w x. api_read E (services_in P w) repo endpoint = Inr x \<Longrightarrow> guarded (insert (Saw w) H) (g x) A"
  shows "guarded H (sbind (api_get E (under_watch P) repo endpoint) g) A"
  unfolding api_get_def by (rule guarded_observe [OF assms]) simp_all

lemma gate_seen:
  assumes "\<And>w x. gate_for_run (readers_of E) (services_in P w) (unzip E) repo run_id head base_sha n = Inr x \<Longrightarrow>
     guarded (insert (Saw w) H) (g x) A"
  shows "guarded H (sbind (gate_now E (under_watch P) repo run_id head base_sha n) g) A"
  unfolding gate_now_def by (rule guarded_observe [OF assms]) simp_all

end

end
