(* ===== verification/ReleaseSafety.thy ===== *)
theory ReleaseSafety
  imports Trail
begin

text \<open>
  What the release automation does to the outside: a merge is gated, and everything else is confined.
\<close>

section \<open>What is permitted\<close>

definition bot_branch :: "string \<Rightarrow> bool" where
  "bot_branch b = prefix ''bot/pineforge-'' b"

text \<open>Git commands: nothing is pushed but a branch of the bot, and never with force.\<close>

definition safe_command :: "string list \<Rightarrow> bool" where
  "safe_command args =
     ((\<exists>verb rest. args = ''git'' # verb # rest \<and> verb \<in> harmless) \<or>
      (\<exists>b. args = [''git'', ''push'', ''origin'', ''HEAD:refs/heads/'' @ b] \<and> bot_branch b))"

definition safe_write :: "string \<Rightarrow> string \<Rightarrow> string \<Rightarrow> json \<Rightarrow> bool" where
  "safe_write repo verb target data =
     ((verb = ''POST'' \<and> (target = api_target repo ''pulls'' \<or>
         (\<exists>n. target = api_target repo (''issues/'' @ py_str n @ ''/comments'')) \<or>
         (\<exists>file \<in> {''release.yml'', ''pineforge-release.yml''}.
            target = api_target repo (''actions/workflows/'' @ file @ ''/dispatches'')))) \<or>
      (verb = ''PATCH'' \<and> (\<exists>n. target = api_target repo (pull n)) \<and>
         (data = JDict [(''state'', JStr ''closed'')] \<or> (\<exists>t. data = JDict [(''body'', JStr t)]))) \<or>
      (verb = ''PUT'' \<and> (\<exists>n. target = api_target repo (pull n @ ''/update-branch'') \<or> target = api_target repo (pull n @ ''/merge''))))"

fun confined :: "string \<Rightarrow> 'w deed set \<Rightarrow> 'w deed \<Rightarrow> bool" where
  "confined repo K (Saw w) = True"
| "confined repo K (Ran args) = safe_command args"
| "confined repo K (Wrote verb target data) = safe_write repo verb target data"
| "confined repo K (Copied p) = (set (map fst p) \<subseteq> set update_paths)"

text \<open>
  A merge: the pull request was the bot's with the head the bot generated; the gate accepted the CI
  evidence for this head and base; then the pull request still had this head and base and was
  clean, and main was at the base.
\<close>

definition owned_head :: "chain_env \<Rightarrow> services \<Rightarrow> string \<Rightarrow> string \<Rightarrow> json \<Rightarrow> string \<Rightarrow> bool" where
  "owned_head E S repo bot_login number head =
     (\<exists>pr m. api_read E S repo (pull number) = Inr pr \<and> own_pr repo bot_login pr = Inr True \<and>
        dig pr [''head'', ''sha''] = Inr (JStr head) \<and> pr_marker E pr = Inr (Some m) \<and>
        same (dig pr [''head'', ''sha'']) (jitem m ''generated_head'') = Inr True)"

definition gate_passed :: "chain_env \<Rightarrow> services \<Rightarrow> string \<Rightarrow> json \<Rightarrow> string \<Rightarrow> string \<Rightarrow> bool" where
  "gate_passed E S repo number head base_sha =
     (\<exists>run_id n evidence. opt_int number = Inr n \<and>
        gate_for_run (readers_of E) S (unzip E) repo run_id head (Some base_sha) n = Inr evidence)"

definition unmoved :: "chain_env \<Rightarrow> services \<Rightarrow> string \<Rightarrow> json \<Rightarrow> string \<Rightarrow> string \<Rightarrow> bool" where
  "unmoved E S repo number head base_sha =
     (\<exists>pr. api_read E S repo (pull number) = Inr pr \<and> field_is [''head'', ''sha''] (JStr head) pr = Inr True \<and>
        field_is [''base'', ''sha''] (JStr base_sha) pr = Inr True \<and> field_is [''mergeable_state''] (JStr ''clean'') pr = Inr True)"

definition main_at :: "chain_env \<Rightarrow> services \<Rightarrow> string \<Rightarrow> string \<Rightarrow> bool" where
  "main_at E S repo base_sha =
     (\<exists>r. api_read E S repo ''git/ref/heads/main'' = Inr r \<and> field_is [''object'', ''sha''] (JStr base_sha) r = Inr True)"

definition seen :: "'w platform \<Rightarrow> 'w deed set \<Rightarrow> (services \<Rightarrow> bool) \<Rightarrow> bool" where
  "seen P K Q = (\<exists>w. Saw w \<in> K \<and> Q (services_in P w))"

fun merge_gated :: "chain_env \<Rightarrow> 'w platform \<Rightarrow> string \<Rightarrow> string \<Rightarrow> 'w deed set \<Rightarrow> 'w deed \<Rightarrow> bool" where
  "merge_gated E P repo bot_login K (Wrote verb target data) =
     (verb = ''PUT'' \<and> suffix ''/merge'' target \<longrightarrow>
        (\<exists>number head base_sha title. target = api_target repo (pull number @ ''/merge'') \<and>
           data = JDict [(''sha'', JStr head), (''merge_method'', JStr ''squash''), (''commit_title'', title)] \<and>
           seen P K (\<lambda>S. owned_head E S repo bot_login number head) \<and>
           seen P K (\<lambda>S. gate_passed E S repo number head base_sha) \<and>
           seen P K (\<lambda>S. unmoved E S repo number head base_sha) \<and>
           seen P K (\<lambda>S. main_at E S repo base_sha)))"
| "merge_gated E P repo bot_login K _ = True"

definition permitted :: "chain_env \<Rightarrow> 'w platform \<Rightarrow> string \<Rightarrow> string \<Rightarrow> 'w deed set \<Rightarrow> 'w deed \<Rightarrow> bool" where
  "permitted E P repo bot_login K e = (merge_gated E P repo bot_login K e \<and> confined repo K e)"

lemma permitted_saw [simp]: "permitted E P repo b K (Saw w)"
  by (simp add: permitted_def)

lemma permitted_ran [simp]: "permitted E P repo b K (Ran args) = safe_command args"
  by (simp add: permitted_def)

lemma permitted_copied [simp]: "permitted E P repo b K (Copied p) = (set (map fst p) \<subseteq> set update_paths)"
  by (simp add: permitted_def)

lemma harmless_command [simp]: "verb \<in> harmless \<Longrightarrow> safe_command (''git'' # verb # rest)"
  by (simp add: safe_command_def)

lemma permitted_other:
  assumes "safe_write repo verb target data" and "verb \<noteq> ''PUT'' \<or> last target \<noteq> CHR ''e''"
  shows "permitted E P repo b K (Wrote verb target data)"
proof -
  have "last target = CHR ''e''" if "suffix ''/merge'' target"
    using that by (auto simp: suffix_def)
  then show ?thesis using assms by (auto simp: permitted_def)
qed

lemma last_target: "endpoint \<noteq> [] \<Longrightarrow> last (api_target repo endpoint) = last endpoint"
  by (simp add: api_target_def)

text \<open>The policy admits reads.\<close>

interpretation automation: reading_policy "permitted E P repo b" for E :: chain_env and P :: "'w platform" and repo b
  by unfold_locales simp_all

section \<open>The steps\<close>

lemma guarded_dispatch [guards]:
  "file \<in> {''release.yml'', ''pineforge-release.yml''} \<Longrightarrow>
     guarded H (dispatch E (under_watch P) repo file ref inputs) (permitted E P repo b)"
  unfolding dispatch_def by (rule guarded_send) (auto intro!: permitted_other simp: safe_write_def)

lemma guarded_resume_publication [guards]:
  "guarded H (resume_publication E (under_watch P) repo version run merge_sha) (permitted E P repo b)"
  unfolding resume_publication_def by (intro guards; simp)

lemma guarded_repair_publication [guards]:
  "guarded H (repair_publication E (under_watch P) repo source version) (permitted E P repo b)"
  unfolding repair_publication_def by (intro guards; simp)

lemma guarded_recover_applied [guards]:
  "guarded H (recover_applied E (under_watch P) repo source) (permitted E P repo b)"
  unfolding recover_applied_def by (intro guards; simp)

lemma guarded_pushed_branch [guards]:
  "set (map fst p) \<subseteq> set update_paths \<Longrightarrow> bot_branch branch \<Longrightarrow>
     guarded H (pushed_branch (under_watch P) start_sha p branch metadata bot_login email) (permitted E P repo b)"
  unfolding pushed_branch_def git_def by (intro guards; simp add: safe_command_def)

lemma guarded_create_pr [guards]:
  "bot_branch branch \<Longrightarrow>
     guarded H (create_pr E (under_watch P) repo start_sha p branch metadata bot_login) (permitted E P repo b)"
  unfolding create_pr_def
  by (rule guarded_bind_check, intro guards) (auto intro!: permitted_other simp: safe_write_def)

lemma guarded_update_base [guards]:
  "guarded H (update_base E (under_watch P) repo number head base_sha meta) (permitted E P repo b)"
  unfolding update_base_def
  by (intro guards) (auto intro!: permitted_other simp: safe_write_def last_target pull_def)

lemma guarded_close_superseded [guards]:
  "guarded H (close_superseded E (under_watch P) repo bot_login bumps number old) (permitted E P repo b)"
  unfolding close_superseded_def
  by (intro guards) (auto intro!: permitted_other simp: safe_write_def)

section \<open>A merge\<close>

lemma seen_mono: "seen P H Q \<Longrightarrow> H \<subseteq> K \<Longrightarrow> seen P K Q"
  by (auto simp: seen_def)

lemma guarded_final_merge:
  assumes "seen P H (\<lambda>S. owned_head E S repo b number head)" and "seen P H (\<lambda>S. gate_passed E S repo number head base_sha)"
  shows "guarded H (final_merge E (under_watch P) repo number head base_sha) (permitted E P repo b)"
  unfolding final_merge_def
proof (rule automation.api_get_seen, rule guarded_bind_that, rule automation.api_get_seen, rule guarded_bind_that, rule guarded_bind_that, goal_cases)
  case (1 w1 fresh w2 r)
  let ?H = "insert (Saw w2) (insert (Saw w1) H)"
  have "seen P ?H (\<lambda>S. unmoved E S repo number head base_sha)"
    using 1 unfolding seen_def unmoved_def by (intro exI [of _ w1]) auto
  moreover have "seen P ?H (\<lambda>S. main_at E S repo base_sha)"
    using 1 unfolding seen_def main_at_def by (intro exI [of _ w2]) auto
  moreover have "seen P ?H (\<lambda>S. owned_head E S repo b number head)" "seen P ?H (\<lambda>S. gate_passed E S repo number head base_sha)"
    by (rule seen_mono [OF assms(1)], fastforce, rule seen_mono [OF assms(2)], fastforce)
  ultimately have facts: "seen P K (\<lambda>S. owned_head E S repo b number head)" "seen P K (\<lambda>S. gate_passed E S repo number head base_sha)"
      "seen P K (\<lambda>S. unmoved E S repo number head base_sha)" "seen P K (\<lambda>S. main_at E S repo base_sha)" if "?H \<subseteq> K" for K
    using seen_mono [OF _ that] by simp_all
  have ok: "permitted E P repo b K (Wrote ''PUT'' (api_target repo (pull number @ ''/merge''))
      (JDict [(''sha'', JStr head), (''merge_method'', JStr ''squash''), (''commit_title'', title)]))" if "?H \<subseteq> K" for K title
    unfolding permitted_def merge_gated.simps confined.simps safe_write_def using facts [OF that] by auto
  show ?case by (intro guards ok)
qed


lemma gate_passed_here:
  "opt_int number = Inr n \<Longrightarrow> gate_for_run (readers_of E) (services_in P w) (unzip E) repo run_id head (Some base_sha) n = Inr evidence \<Longrightarrow>
     seen P (insert (Saw w) H) (\<lambda>S. gate_passed E S repo number head base_sha)"
  unfolding seen_def gate_passed_def by (intro exI [of _ w]) blast

lemma guarded_merge_tested:
  assumes "seen P H (\<lambda>S. owned_head E S repo b number head)"
  shows "guarded H (merge_tested E (under_watch P) repo number head base_sha meta event p run) (permitted E P repo b)"
  unfolding merge_tested_def
proof (rule guarded_bind_slift, rule guarded_bind_slift, rule automation.gate_seen, goal_cases)
  case (1 run_id n w evidence)
  have "guarded (insert (Saw w) H) (final_merge E (under_watch P) repo number head base_sha) (permitted E P repo b)"
    by (rule guarded_final_merge) (use seen_mono [OF assms] gate_passed_here [OF 1(2,3)] in blast)+
  then show ?case by (intro guards; simp)
qed

lemma guarded_merge_when_tested:
  assumes "seen P H (\<lambda>S. owned_head E S repo b number head)"
  shows "guarded H (merge_when_tested E (under_watch P) repo pr number head base_sha meta event p) (permitted E P repo b)"
  unfolding merge_when_tested_def using guarded_merge_tested [OF assms] by (intro guards)

lemma text_result_returns: "text_result v = Inr s \<Longrightarrow> v = JStr s"
  by (cases v) (auto simp: text_result_def)

text \<open>After the pull request was read and found eligible, its head is the bot's.\<close>

lemma guarded_eligible:
  assumes "\<And>w pr meta. api_read E (services_in P w) repo (pull number) = Inr pr \<Longrightarrow> own_pr repo b pr = Inr True \<Longrightarrow>
     pr_marker E pr = Inr (Some meta) \<Longrightarrow> same (dig pr [''head'', ''sha'']) (jitem meta ''generated_head'') = Inr True \<Longrightarrow>
     guarded (insert (Saw w) H) (g (pr, meta)) (permitted E P repo b)"
  shows "guarded H (sbind (eligible_pr E (under_watch P) repo b number) g) (permitted E P repo b)"
  unfolding eligible_pr_def sbind_assoc
proof (rule automation.api_get_seen, rule guarded_bind_slift, rule guarded_bind_slift, goal_cases)
  case (1 w pr m meta)
  then have m: "pr_marker E pr = Inr (Some meta)" by (auto split: option.splits)
  have "guarded (insert (Saw w) H) (g (pr, meta)) (permitted E P repo b)"
    if "own_pr repo b pr = Inr True" "same (dig pr [''head'', ''sha'']) (jitem meta ''generated_head'') = Inr True"
    using assms [OF 1(1) that(1) m that(2)] .
  then have rest: "guarded (insert (Saw w) H)
     (sbind (check_that (own_pr repo b pr) ''PR is not owned by the scoped release App'') (\<lambda>_.
      sbind (check_that (same (dig pr [''head'', ''sha'']) (jitem meta ''generated_head''))
              ''bot branch has human/unrecorded commits; retaining its history'') (\<lambda>_.
      sbind (check_that (rand (field_is [''base'', ''ref''] (JStr ''main'') pr) (field_is [''state''] (JStr ''open'') pr))
              ''PR is no longer eligible'') (\<lambda>_.
      sbind (slift (Inr (pr, meta))) g)))) (permitted E P repo b)"
    by (intro guarded_bind_that guarded_bind_slift) simp
  show ?case by (rule guarded_bind [OF _ rest]) (intro guards)
qed

lemma guarded_maybe_merge [guards]:
  "guarded H (maybe_merge E (under_watch P) repo b pr0 event manifest) (permitted E P repo b)"
  unfolding maybe_merge_def
proof (rule guarded_bind_slift, rule guarded_eligible, unfold prod.case, rule guarded_bind_slift, goal_cases)
  case (1 number w pr meta branch)
  have owned: "seen P (insert (Saw w) H) (\<lambda>S. owned_head E S repo b number head)" if "commit_text pr [''head'', ''sha''] = Inr head" for head
  proof -
    have "dig pr [''head'', ''sha''] = Inr (JStr head)"
      using that text_result_returns by (auto simp: commit_text_def rbind_returns)
    then show ?thesis using 1(2-5) unfolding seen_def owned_head_def by blast
  qed
  have merge: "guarded (insert (Saw w) H) (merge_when_tested E (under_watch P) repo pr number head base_sha meta event p) (permitted E P repo b)"
    if "commit_text pr [''head'', ''sha''] = Inr head" for head base_sha event p
    by (rule guarded_merge_when_tested [OF owned [OF that]])
  show ?case
    by (rule guarded_bind [OF automation.guarded_git], simp, rule guarded_bind [OF automation.guarded_git], simp, rule guarded_bind_slift)
      (intro guards merge; simp)
qed

section \<open>Plans\<close>

definition yields :: "('w, 'a) act \<Rightarrow> ('a \<Rightarrow> bool) \<Rightarrow> bool" where
  "yields m Q = (\<forall>s x s'. m s = (Inr x, s') \<longrightarrow> Q x)"

named_theorems yielding

lemma yields_bind [yielding]: "(\<And>x. yields (f x) Q) \<Longrightarrow> yields (sbind m f) Q"
  unfolding yields_def sbind_returns by blast

lemma yields_slift [yielding]: "(\<And>x. r = Inr x \<Longrightarrow> Q x) \<Longrightarrow> yields (slift r) Q"
  by (auto simp: yields_def slift_def)

lemma yields_if [yielding]: "(b \<Longrightarrow> yields m Q) \<Longrightarrow> (\<not> b \<Longrightarrow> yields n Q) \<Longrightarrow> yields (if b then m else n) Q"
  by simp

lemma yields_let [yielding]: "yields (f x) Q \<Longrightarrow> yields (Let x f) Q"
  by simp

lemma guarded_yields:
  "guarded H m A \<Longrightarrow> yields m Q \<Longrightarrow> (\<And>x. Q x \<Longrightarrow> guarded H (f x) A) \<Longrightarrow> guarded H (sbind m f) A"
proof -
  assume m: "guarded H m A" "yields m Q" and f: "\<And>x. Q x \<Longrightarrow> guarded H (f x) A"
  have "sbind m f = sbind m (\<lambda>x. if Q x then f x else slift (raise RuntimeError []))"
    using m(2) by (fastforce simp: sbind_def yields_def fun_eq_iff split: prod.splits sum.splits)
  then show "guarded H (sbind m f) A" using guarded_bind [OF m(1), of "\<lambda>x. if Q x then f x else slift (raise RuntimeError [])"] f
    by (simp add: guarded_slift)
qed

fun plan_on_bot_branch :: "plan \<Rightarrow> bool" where
  "plan_on_bot_branch Finished = True"
| "plan_on_bot_branch (Propose p meta branch event manifest) = bot_branch branch"

lemma rollback_plan_branch [yielding]: "yields (rollback_plan E P repo source package) plan_on_bot_branch"
  unfolding rollback_plan_def by (intro yielding) (auto simp: bot_branch_def)

lemma bump_plan_branch: "bump_plan E source installed base_sha prs latest part = Inr pl \<Longrightarrow> plan_on_bot_branch pl"
  by (auto simp: bump_plan_def rbind_returns bot_branch_def Let_def)

lemma update_plan_branch [yielding]: "yields (update_plan E P source event manifest) plan_on_bot_branch"
  unfolding update_plan_def by (intro yielding) (auto simp: bot_branch_def)

lemma release_plan_branch [yielding]:
  "yields (release_plan E P repo bot_login source installed prs triggered event manifest) plan_on_bot_branch"
  unfolding release_plan_def finished_as_def package_or_def by (intro yielding) auto

lemma decide_branch: "yields (decide E P repo bot_login base_sha prs triggered latest bump package wanted) plan_on_bot_branch"
  unfolding decide_def
  by (rule yields_bind, rule yields_bind)
    (auto split: option.split list.split intro!: yielding dest: bump_plan_branch)

lemma guarded_merge_package [guards]:
  "guarded H (merge_package E (under_watch P) repo b pr) (permitted E P repo b)"
  unfolding merge_package_def by (intro guards)

lemma guarded_package_or [guards]:
  "guarded H m (permitted E P repo b) \<Longrightarrow> guarded H (package_or E (under_watch P) repo b prs m) (permitted E P repo b)"
  unfolding package_or_def by (intro guards)

lemma guarded_finished_as [guards]: "guarded H (finished_as state) A"
  unfolding finished_as_def by (intro guards)

lemma guarded_update_plan [guards]: "guarded H (update_plan E (under_watch P) source event manifest) (permitted E P repo b)"
  unfolding update_plan_def by (intro guards)

lemma guarded_release_plan [guards]:
  "guarded H (release_plan E (under_watch P) repo b source installed prs triggered event manifest) (permitted E P repo b)"
  unfolding release_plan_def by (intro guards)

lemma guarded_rollback_plan [guards]:
  "guarded H (rollback_plan E (under_watch P) repo source package) (permitted E P repo b)"
  unfolding rollback_plan_def by (intro guards)

lemma guarded_decide [guards]:
  "guarded H (decide E (under_watch P) repo b base_sha prs triggered latest bump package wanted) (permitted E P repo b)"
  unfolding decide_def
  by (rule guarded_bind [OF guarded_snapshot], rule guarded_bind [OF guarded_slift])
    (auto split: option.split list.split intro!: guards)

lemma guarded_propose:
  "plan_on_bot_branch pl \<Longrightarrow> guarded H (propose E (under_watch P) repo b base_sha prs bumps rolls_back pl) (permitted E P repo b)"
  unfolding propose_def by (cases pl) (auto intro!: guards)

lemma guarded_reconcile_with [guards]:
  "guarded H (reconcile_with E (under_watch P) repo b base_sha prs triggered bump package wanted) (permitted E P repo b)"
proof -
  have "guarded H (sbind (decide E (under_watch P) repo b base_sha prs triggered latest bump package w) (\<lambda>pl.
      propose E (under_watch P) repo b base_sha prs (asked bump) (asked package) pl)) (permitted E P repo b)" for latest w
    by (rule guarded_yields [OF guarded_decide decide_branch]) (rule guarded_propose)
  then show ?thesis
    unfolding reconcile_with_def
    by (intro guarded_bind [OF automation.guarded_hub_latest] guarded_bind [OF guarded_slift] guarded_option guarded_checks)
qed

lemma guarded_incoming_event [guards]: "guarded H (incoming_event E (under_watch P) incoming) (permitted E P repo b)"
  unfolding incoming_event_def by (intro guards; simp)

lemma guarded_reconcile: "guarded H (reconcile E (under_watch P) repo trigger b bump package) (permitted E P repo b)"
  unfolding reconcile_def by (intro guards; simp)

section \<open>What reconciling does\<close>

lemma reconcile_trail:
  "lawful (permitted E P repo bot_login) [] (trail_of (snd (reconcile E (under_watch P) repo trigger bot_login bump package
     \<lparr>the_report = d, outside = (w, [])\<rparr>)))"
proof -
  let ?s = "\<lparr>the_report = d, outside = (w, [])\<rparr> :: ('a \<times> 'a trail) progress"
  have start: "trail_of ?s = []" by (simp add: trail_of_def)
  obtain es where "trail_of (snd (reconcile E (under_watch P) repo trigger bot_login bump package ?s)) = trail_of ?s @ es"
      "lawful (permitted E P repo bot_login) (trail_of ?s) es"
    using guarded_reconcile [of "{}" E P repo trigger bot_login bump package] unfolding guarded_def by blast
  then show ?thesis unfolding start by simp
qed



end
