(* ===== verification/PublishSafety.thy ===== *)
theory PublishSafety
  imports ReleaseSafety
begin

text \<open>
  What the publication stages do to the outside: nothing is published before the release was found
  to be still wanted, existing assets are never replaced, and a release becomes the latest one only
  after PyPI served the tested bytes.
\<close>

section \<open>What was seen\<close>

definition wanted_now :: "readers \<Rightarrow> services \<Rightarrow> (string, json) dict \<Rightarrow> bool" where
  "wanted_now R S lock =
     (\<exists>latest. settled (newest_ready R S) = Inr latest \<and>
        still_wanted latest (dig (JDict lock) [''event'', ''event_id'']) (Inr (truthy (jget lock ''rollback'')))
          (Inr (jget_default lock ''rejected_event_ids'' (JList []))) = Inr True)"

definition main_default :: "chain_env \<Rightarrow> services \<Rightarrow> string \<Rightarrow> bool" where
  "main_default E S repo = (\<exists>r. api_read E S repo [] = Inr r \<and> field_is [''default_branch''] (JStr ''main'') r = Inr True)"

text \<open>
  The source verifies; with a release installed, the hub still offers that release (or the one it
  rolled back) and its image and facts are authentic; and main is the default branch.
\<close>

definition intent_seen :: "chain_env \<Rightarrow> 'w platform \<Rightarrow> string \<Rightarrow> release_tree \<Rightarrow> 'w deed set \<Rightarrow> bool" where
  "intent_seen E P repo tree K =
     ((\<exists>lock. verify_local (readers_of E) tree = Inr lock \<and>
         (present lock \<longrightarrow> seen P K (\<lambda>S. wanted_now (readers_of E) S (the lock)) \<and>
            seen P K (\<lambda>S. verify_artifacts (readers_of E) S (lock_event (the lock)) = Inr ()))) \<and>
      seen P K (\<lambda>S. main_default E S repo))"

lemma seen_here: "Q (services_in P w) \<Longrightarrow> Saw w \<in> K \<Longrightarrow> seen P K Q"
  by (auto simp: seen_def)

lemma sbind_when: "sbind (when_act c m) f = (if c then sbind m f else f ())"
  by (auto simp: when_act_def fun_eq_iff sbind_def slift_def)

lemma intent_mono: "intent_seen E P repo tree H \<Longrightarrow> H \<subseteq> K \<Longrightarrow> intent_seen E P repo tree K"
  unfolding intent_seen_def using seen_mono by blast

context reading_policy
begin

lemma hub_latest_seen:
  assumes "\<And>w x. settled (newest_ready (readers_of E) (services_in P w)) = Inr x \<Longrightarrow> guarded (insert (Saw w) H) (g x) A"
  shows "guarded H (sbind (hub_latest E (under_watch P)) g) A"
  unfolding hub_latest_def by (rule guarded_observe [OF assms]) simp_all

lemma authentic_seen:
  assumes "\<And>w. verify_artifacts (readers_of E) (services_in P w) event = Inr () \<Longrightarrow> guarded (insert (Saw w) H) (g ()) A"
  shows "guarded H (sbind (authenticate E (under_watch P) event) g) A"
  unfolding authenticate_def by (rule guarded_observe) (use assms in auto)

lemma main_default_seen:
  assumes "\<And>K. H \<subseteq> K \<Longrightarrow> seen P K (\<lambda>S. main_default E S repo) \<Longrightarrow> guarded K (g ()) A"
  shows "guarded H (sbind (api_get E (under_watch P) repo []) (\<lambda>r.
      sbind (check_that (field_is [''default_branch''] (JStr ''main'') r) message) g)) A"
proof (rule api_get_seen, rule guarded_bind_that, goal_cases)
  case (1 w r)
  then have "main_default E (services_in P w) repo" unfolding main_default_def by blast
  then show ?case using assms [of "insert (Saw w) H"] seen_here [of "\<lambda>S. main_default E S repo" P w] by auto
qed

lemma target_current_seen:
  assumes "\<And>K. H \<subseteq> K \<Longrightarrow> seen P K (\<lambda>S. wanted_now (readers_of E) S lock) \<Longrightarrow>
     seen P K (\<lambda>S. verify_artifacts (readers_of E) S (lock_event lock) = Inr ()) \<Longrightarrow> guarded K (g ()) A"
  shows "guarded H (sbind (target_current E (under_watch P) repo lock) g) A"
  unfolding target_current_def sbind_assoc
proof (rule guarded_bind [OF guarded_when [OF guarded_verify_rollback]], rule hub_latest_seen, rule guarded_bind_that, rule authentic_seen, goal_cases)
  case (1 _ w latest w')
  let ?K = "insert (Saw w') (insert (Saw w) H)"
  have "wanted_now (readers_of E) (services_in P w) lock" using 1(1,2) unfolding wanted_now_def by blast
  then have "seen P ?K (\<lambda>S. wanted_now (readers_of E) S lock)" by (rule seen_here) simp
  moreover have "seen P ?K (\<lambda>S. verify_artifacts (readers_of E) S (lock_event lock) = Inr ())"
    using 1(3) by (rule seen_here) simp
  ultimately show ?case using assms [of ?K] by blast
qed

lemma current_intent_seen:
  assumes "\<And>K. H \<subseteq> K \<Longrightarrow> intent_seen E P repo tree K \<Longrightarrow> guarded K (g ()) A"
  shows "guarded H (sbind (current_intent E (under_watch P) repo tree) g) A"
  unfolding current_intent_def Let_def sbind_assoc
proof (rule guarded_bind [OF guarded_git], simp, rule guarded_bind [OF guarded_snapshot], rule guarded_bind_that, rule guarded_bind_that,
    rule guarded_bind_slift, rule guarded_bind_slift, rule guarded_bind_check, goal_cases)
  case (1 _ now lock now_lock)
  show ?case
  proof (cases "present lock")
    case True
    have "guarded K (sbind (api_get E (under_watch P) repo []) (\<lambda>r.
        sbind (check_that (field_is [''default_branch''] (JStr ''main'') r) ''unexpected default branch'') g)) A"
      if K: "H \<subseteq> K" "seen P K (\<lambda>S. wanted_now (readers_of E) S (the lock))"
        "seen P K (\<lambda>S. verify_artifacts (readers_of E) S (lock_event (the lock)) = Inr ())" for K
    proof (rule main_default_seen)
      fix L
      assume L: "K \<subseteq> L" "seen P L (\<lambda>S. main_default E S repo)"
      have "intent_seen E P repo tree L"
        using 1(3) seen_mono [OF K(2) L(1)] seen_mono [OF K(3) L(1)] L(2) unfolding intent_seen_def by blast
      then show "guarded L (g ()) A" using assms K(1) L(1) by blast
    qed
    then show ?thesis unfolding sbind_when using True by (simp add: target_current_seen)
  next
    case False
    have "guarded H (sbind (api_get E (under_watch P) repo []) (\<lambda>r.
        sbind (check_that (field_is [''default_branch''] (JStr ''main'') r) ''unexpected default branch'') g)) A"
      by (rule main_default_seen) (use 1(3) False assms in \<open>auto simp: intent_seen_def\<close>)
    then show ?thesis unfolding sbind_when using False by simp
  qed
qed

end

section \<open>The policy of the stages\<close>

text \<open>The commands beside git that a stage may give, after what was seen.\<close>

fun stage_command :: "chain_env \<Rightarrow> 'w platform \<Rightarrow> string \<Rightarrow> string \<Rightarrow> stage \<Rightarrow> 'w deed set \<Rightarrow> string list \<Rightarrow> bool" where
  "stage_command E P folder repo (Prepare run_id) K args =
     ((\<exists>attempt. args = download_command repo run_id attempt folder) \<and> (\<exists>tree. intent_seen E P repo tree K) \<and>
      (\<exists>source evidence. seen P K (\<lambda>S. gate_for_run (readers_of E) S (unzip E) repo run_id source None None = Inr evidence)))"
| "stage_command E P folder repo (Github_release tree files evidence_file) K args =
     (intent_seen E P repo tree K \<and>
      (\<exists>version. package_version (readers_of E) tree = Inr (JStr version) \<and>
         ((\<exists>source. args = create_command repo (CHR ''v'' # version) source \<and>
             rbind (rbind (object_json (json_loads (readers_of E)) evidence_file) (\<lambda>d. jitem d ''head'')) text_result = Inr source \<and>
             seen P K (\<lambda>S. \<exists>rs. list_all_pages E S repo ''releases'' [] = Inr rs \<and>
               rfilter (field_is [''tag_name''] (JStr (CHR ''v'' # version))) rs = Inr [])) \<or>
          (\<exists>name. args = upload_command repo (CHR ''v'' # version) (folder @ ''/'' @ name) \<and>
             seen P K (\<lambda>S. \<exists>rel assets. api_read E S repo (''releases/tags/'' @ CHR ''v'' # version) = Inr rel \<and>
               assets_by_name rel = Inr assets \<and> map_of assets name = None)))))"
| "stage_command E P folder repo (Preflight tree files evidence_file) K args = False"
| "stage_command E P folder repo (Verify tree files evidence_file) K args =
     (intent_seen E P repo tree K \<and>
      (\<exists>version hs. package_version (readers_of E) tree = Inr (JStr version) \<and>
         distribution_hashes (sha256_of (readers_of E)) files = Inr hs \<and> args = latest_command repo version \<and>
         seen P K (\<lambda>S. index_agrees (readers_of E) S version (fields_of (hash_fields hs)) = Inr ())))"

fun publish_allowed :: "chain_env \<Rightarrow> 'w platform \<Rightarrow> string \<Rightarrow> string \<Rightarrow> stage \<Rightarrow> 'w deed set \<Rightarrow> 'w deed \<Rightarrow> bool" where
  "publish_allowed E P folder repo st K (Saw w) = True"
| "publish_allowed E P folder repo st K (Ran args) =
     ((\<exists>verb rest. args = ''git'' # verb # rest \<and> verb \<in> harmless) \<or> stage_command E P folder repo st K args)"
| "publish_allowed E P folder repo st K _ = False"

interpretation publishing: reading_policy "publish_allowed E P folder repo st"
  for E :: chain_env and P :: "'w platform" and folder repo :: string and st :: stage
  by unfold_locales simp_all

lemma guarded_state: "(\<And>x. guarded H (f x) A) \<Longrightarrow> guarded H (\<lambda>s. f s s) A"
  unfolding guarded_def by blast

lemma text_version: "rbind (package_version R tree) text_result = Inr version \<Longrightarrow> package_version R tree = Inr (JStr version)"
  using text_result_returns by (auto simp: rbind_returns)

section \<open>Filling the release\<close>

lemma guarded_fill_asset:
  assumes "intent_seen E P repo tree H" and "package_version (readers_of E) tree = Inr (JStr version)"
    and "seen P H (\<lambda>S. \<exists>rel. api_read E S repo (''releases/tags/'' @ CHR ''v'' # version) = Inr rel \<and> assets_by_name rel = Inr assets)"
  shows "guarded H (fill_asset E (under_watch P) repo (CHR ''v'' # version) folder assets file)
     (publish_allowed E P folder repo (Github_release tree files evidence_file))"
proof (cases "map_of assets (fst file)")
  case None
  have "publish_allowed E P folder repo (Github_release tree files evidence_file) K
      (Ran (upload_command repo (CHR ''v'' # version) (folder @ ''/'' @ fst file)))" if K: "H \<subseteq> K" for K
  proof -
    have "seen P K (\<lambda>S. \<exists>rel assets. api_read E S repo (''releases/tags/'' @ CHR ''v'' # version) = Inr rel \<and>
        assets_by_name rel = Inr assets \<and> map_of assets (fst file) = None)"
      using seen_mono [OF assms(3) K] None unfolding seen_def by blast
    then show ?thesis using intent_mono [OF assms(1) K] assms(2) by auto
  qed
  then show ?thesis unfolding fill_asset_def None option.case by (intro guards)
next
  case (Some a)
  show ?thesis unfolding fill_asset_def Some option.case by (intro guards) simp
qed

lemma guarded_check_tag:
  "guarded H (check_tag (under_watch P) tag source) (publish_allowed E P folder repo st)"
  unfolding check_tag_def by (intro guards; simp)

lemma inventory_seen:
  assumes "\<And>w x. list_all_pages E (services_in P w) repo endpoint key = Inr x \<Longrightarrow>
     guarded (insert (Saw w) H) (g x) (publish_allowed E P folder repo' st)"
  shows "guarded H (sbind (inventory E (under_watch P) repo endpoint key) g) (publish_allowed E P folder repo' st)"
  unfolding inventory_def by (rule guarded_observe [OF assms]) simp_all

lemma guarded_create:
  assumes "intent_seen E P repo tree H" and "package_version (readers_of E) tree = Inr (JStr version)"
    and "seen P H (\<lambda>S. list_all_pages E S repo ''releases'' [] = Inr rs)"
    and "rfilter (field_is [''tag_name''] (JStr (CHR ''v'' # version))) rs = Inr []"
    and "rbind (rbind (object_json (json_loads (readers_of E)) evidence_file) (\<lambda>d. jitem d ''head'')) text_result = Inr source"
  shows "guarded H (command (under_watch P) (create_command repo (CHR ''v'' # version) source))
     (publish_allowed E P folder repo (Github_release tree files evidence_file))"
proof (rule guarded_command)
  fix K
  assume K: "H \<subseteq> K"
  have "seen P K (\<lambda>S. \<exists>rs. list_all_pages E S repo ''releases'' [] = Inr rs \<and>
      rfilter (field_is [''tag_name''] (JStr (CHR ''v'' # version))) rs = Inr [])"
    using seen_mono [OF assms(3) K] assms(4) unfolding seen_def by blast
  then show "publish_allowed E P folder repo (Github_release tree files evidence_file) K
      (Ran (create_command repo (CHR ''v'' # version) source))"
    using intent_mono [OF assms(1) K] assms(2,5) by auto
qed

lemma guarded_github_release:
  "guarded H (github_release E (under_watch P) repo tree folder files evidence_file)
     (publish_allowed E P folder repo (Github_release tree files evidence_file))"
  unfolding github_release_def Let_def
proof (rule guarded_bind_slift, rule guarded_bind_slift, rule guarded_bind, unfold recorded_merge_def, rule guarded_report,
    rule publishing.current_intent_seen, rule guarded_bind [OF guarded_check_tag], rule inventory_seen, rule guarded_bind_slift, goal_cases)
  case (1 version source _ K _ w releases existing)
  let ?A = "publish_allowed E P folder repo (Github_release tree files evidence_file)"
  let ?K = "insert (Saw w) K"
  note version = text_version [OF 1(1)]
  have intent: "intent_seen E P repo tree L" if "?K \<subseteq> L" for L
    using intent_mono [OF 1(4)] that by blast
  have create: "guarded ?K (command (under_watch P) (create_command repo (CHR ''v'' # version) source)) ?A" if "existing = []"
  proof (rule guarded_create [OF intent version])
    show "seen P ?K (\<lambda>S. list_all_pages E S repo ''releases'' [] = Inr releases)" using 1(5) by (rule seen_here) simp
  qed (use 1(2,6) that in auto)
  have fill: "guarded ?K (sbind (api_get E (under_watch P) repo (''releases/tags/'' @ CHR ''v'' # version)) (\<lambda>release.
      sbind (slift (assets_by_name release)) (\<lambda>assets.
      each (fill_asset E (under_watch P) repo (CHR ''v'' # version) folder assets) (sort_key fst files)))) ?A"
  proof (rule publishing.api_get_seen, rule guarded_bind_slift, rule guarded_each, rule guarded_fill_asset [OF intent version], goal_cases)
    case (2 v rel assets item)
    then show ?case by (intro seen_here [of _ P v]) auto
  qed auto
  show ?case by (rule guarded_bind [OF guarded_when]) (use create fill in \<open>auto intro!: guards\<close>)
qed

section \<open>Verification and preparation\<close>

lemma guarded_published_files:
  "guarded H (published_files E (under_watch P) version expected n) (publish_allowed E P folder repo st)"
  by (induction n) (auto intro!: guards)

lemma guarded_verify_publication:
  "guarded H (verify_publication E (under_watch P) repo tree files evidence_file)
     (publish_allowed E P folder repo (Verify tree files evidence_file))"
  unfolding verify_publication_def Let_def
proof (rule guarded_bind_slift, rule guarded_bind_slift, rule guarded_bind_slift, rule guarded_bind_that,
    rule guarded_bind [OF guarded_published_files], rule guarded_observe, goal_cases)
  case (1 version hs gate _ w u)
  let ?A = "publish_allowed E P folder repo (Verify tree files evidence_file)"
  let ?K = "insert (Saw w) H"
  have index: "seen P ?K (\<lambda>S. index_agrees (readers_of E) S version (fields_of (hash_fields hs)) = Inr ())"
    using 1(5) by (intro seen_here) auto
  have latest: "guarded ?K (sbind (current_intent E (under_watch P) repo tree) (\<lambda>_.
      sbind (command (under_watch P) (latest_command repo version)) (\<lambda>_. slift (Inr ())))) ?A"
  proof (rule publishing.current_intent_seen, goal_cases)
    case (1 K)
    have "?A L (Ran (latest_command repo version))" if "K \<subseteq> L" for L
    proof -
      have "seen P L (\<lambda>S. index_agrees (readers_of E) S version (fields_of (hash_fields hs)) = Inr ())"
        using seen_mono [OF index] 1(1) that by blast
      then show ?thesis
        using intent_mono [OF 1(2) that] text_version [OF \<open>rbind (package_version (readers_of E) tree) text_result = Inr version\<close>]
          \<open>distribution_hashes (sha256_of (readers_of E)) files = Inr hs\<close> by auto
    qed
    then show ?case by (intro guards)
  qed
  have "guarded ?K (record_deployed E lock version expected) ?A" for lock expected
    unfolding record_deployed_def by (rule guarded_report)
  then show ?case by (intro guarded_bind [OF _ latest] guarded_bind [OF guarded_slift] guarded_bind [OF guarded_when] guards)
qed simp

lemma guarded_preflight:
  "guarded H (preflight E (under_watch P) repo tree files evidence_file)
     (publish_allowed E P folder repo (Preflight tree files evidence_file))"
  unfolding preflight_def by (intro guards)

lemma guarded_download:
  assumes "intent_seen E P repo tree H"
    and "seen P H (\<lambda>S. gate_for_run (readers_of E) S (unzip E) repo run_id source None None = Inr evidence)"
  shows "guarded H (tested_distributions E (under_watch P) dist_in (download_command repo run_id attempt folder) ev)
     (publish_allowed E P folder repo (Prepare run_id))"
  unfolding tested_distributions_def
proof (rule guarded_bind [OF guarded_command])
  fix K
  assume K: "H \<subseteq> K"
  have "seen P K (\<lambda>S. gate_for_run (readers_of E) S (unzip E) repo run_id source None None = Inr evidence)"
    using seen_mono [OF assms(2) K] .
  then show "publish_allowed E P folder repo (Prepare run_id) K (Ran (download_command repo run_id attempt folder))"
    using intent_mono [OF assms(1) K] by auto
next
  fix x
  show "guarded H (\<lambda>s. sbind (check_that (rbind (distribution_hashes (sha256_of (readers_of E)) (dist_in (outside s))) (\<lambda>hs.
      rbind (jitem ev ''distributions'') (\<lambda>v. Inr (json_eq (hash_fields hs) v)))) ''CI distribution bytes changed'')
       (\<lambda>_. slift (Inr ())) s) (publish_allowed E P folder repo (Prepare run_id))"
    by (rule guarded_state) (intro guards)
qed

lemma landed_evidence_seen:
  assumes "\<And>K evidence. H \<subseteq> K \<Longrightarrow>
     seen P K (\<lambda>S. gate_for_run (readers_of E) S (unzip E) repo run_id source None None = Inr evidence) \<Longrightarrow>
     guarded K (g evidence) (publish_allowed E P folder repo' st)"
  shows "guarded H (sbind (landed_evidence E (under_watch P) repo run_id source) g) (publish_allowed E P folder repo' st)"
  unfolding landed_evidence_def sbind_assoc
proof (rule publishing.gate_seen, rule guarded_bind [OF publishing.guarded_git], simp, rule guarded_bind_that, rule guarded_bind_slift, goal_cases)
  case (1 w evidence t e)
  have "seen P (insert (Saw w) H) (\<lambda>S. gate_for_run (readers_of E) S (unzip E) repo run_id source None None = Inr evidence)"
    using 1(1) by (rule seen_here) simp
  then show ?case using assms [of "insert (Saw w) H" evidence] 1(3) by auto
qed

lemma guarded_published_state:
  "guarded H (published_state E (under_watch P) version evidence) (publish_allowed E P folder repo st)"
  unfolding published_state_def by (intro guards; simp)

lemma guarded_prepare_landed:
  "guarded H (prepare_landed E (under_watch P) dist_in folder repo run_id run source pr)
     (publish_allowed E P folder repo (Prepare run_id))"
  unfolding prepare_landed_def Let_def
proof (rule guarded_bind [OF publishing.guarded_git], simp, rule guarded_bind [OF guarded_snapshot], rule guarded_bind_slift,
    rule guarded_bind [OF guarded_checks(7)], rule guarded_bind [OF guarded_checks(6)], rule guarded_bind_slift,
    rule guarded_bind [OF guarded_checks(5)], rule landed_evidence_seen, goal_cases)
  case (1 _ tree lock _ _ b _ K evidence)
  let ?A = "publish_allowed E P folder repo (Prepare run_id)"
  have previous: "guarded K (record_previous E (under_watch P) repo pr d) ?A" for d
    unfolding record_previous_def by (intro guards)
  have rest: "guarded K (sbind (current_intent E (under_watch P) repo tree) (\<lambda>_. g)) ?A"
    if "\<And>L. intent_seen E P repo tree L \<Longrightarrow>
      seen P L (\<lambda>S. gate_for_run (readers_of E) S (unzip E) repo run_id source None None = Inr evidence) \<Longrightarrow> guarded L g ?A" for g
    by (rule publishing.current_intent_seen) (use that seen_mono [OF 1(4)] in blast)
  show ?case
    by (rule guarded_bind [OF guarded_when [OF previous]], rule guarded_bind [OF publishing.guarded_git], simp, rule guarded_bind_check, rule rest)
      (intro guards guarded_download guarded_published_state; assumption)
qed

lemma guarded_own_request: "guarded H (own_request E (under_watch P) repo number) (publish_allowed E P folder repo' st)"
  unfolding own_request_def by (intro guards)

lemma guarded_landed_request: "guarded H (landed_request E (under_watch P) repo source) (publish_allowed E P folder repo' st)"
  unfolding landed_request_def by (intro guards)

lemma guarded_prepare:
  "guarded H (prepare_release E (under_watch P) dist_in folder repo run_id) (publish_allowed E P folder repo (Prepare run_id))"
  unfolding prepare_release_def by (intro guards guarded_landed_request guarded_own_request guarded_prepare_landed)

lemma guarded_stage:
  "guarded H (run_stage E (under_watch P) dist_in folder repo st) (publish_allowed E P folder repo st)"
proof (cases st)
  case (Prepare run_id)
  show ?thesis unfolding run_stage_def Let_def Prepare stage.case by (rule guarded_bind [OF guarded_prepare]) (intro guards)
next
  case (Github_release tree files evidence_file)
  show ?thesis unfolding run_stage_def Let_def Github_release stage.case
    by (rule guarded_bind [OF guarded_github_release]) (intro guards)
next
  case (Preflight tree files evidence_file)
  show ?thesis unfolding run_stage_def Let_def Preflight stage.case by (rule guarded_bind [OF guarded_preflight]) (intro guards)
next
  case (Verify tree files evidence_file)
  show ?thesis unfolding run_stage_def Let_def Verify stage.case
    by (rule guarded_bind [OF guarded_verify_publication]) (intro guards)
qed


end
