(* ===== verification/Reporting.thy ===== *)
theory Reporting
  imports Publishing
begin

text \<open>
  The reporting side of the release chain, \<open>scripts/release_chain/reporting.py\<close>: collecting the
  receipt of the stages, the incident issue, the completion of a publication from observed evidence
  and the wakeup of the hub.  The bundle a run downloads is read from the outside.
\<close>

section \<open>Collecting\<close>

definition contract_fields :: "(string, json) dict \<Rightarrow> bool" where
  "contract_fields report = (set (dkeys report) = set receipt_fields)"

text \<open>Under a new attempt of the reporting run.\<close>

definition renumbered :: "chain_env \<Rightarrow> (string, json) dict \<Rightarrow> (string, json) dict result" where
  "renumbered E report =
     rbind (env_number (env_vars E) ''GITHUB_RUN_ID'') (\<lambda>attempt.
     rbind (env_number (env_vars E) ''GITHUB_RUN_ATTEMPT'') (\<lambda>sequence.
     Inr (put ''sequence'' (JInt sequence) (put ''attempt'' (JInt attempt) report))))"

text \<open>\<open>files\<close>: the receipts below the stage directories, by directory name.\<close>

definition collect :: "chain_env \<Rightarrow> (string \<times> string) list \<Rightarrow> bool \<Rightarrow> (string, json) dict result" where
  "collect E files failed =
     rbind (if files = [] then receipt (env_vars E) (clock_text E) None
            else object_json (json_loads (readers_of E)) (snd (last (sort_key fst files)))) (\<lambda>report.
     rbind (demand (contract_fields report) ''receipt fields differ from the hub contract'') (\<lambda>_.
     if failed
     then rbind (renumbered E report) (\<lambda>d. Inr (put ''timestamp'' (JStr (clock_text E)) (put ''state'' (JStr ''failed'') d)))
     else Inr report))"

definition public_receipt :: "(string, json) dict \<Rightarrow> (string, json) dict result" where
  "public_receipt report =
     rbind (demand (contract_fields report) ''receipt fields differ from the hub contract'') (\<lambda>_. Inr report)"

section \<open>Incidents\<close>

definition owner_rx :: rx where
  "owner_rx =
     RCat (RClass [(65, 90), (97, 122), (48, 57)]) (rx_upto 38 (RClass [(65, 90), (97, 122), (48, 57), (45, 45)]))"

definition line_feed :: string where "line_feed = [CHR 0x0A]"

record incident_text =
  incident_marker :: string
  state_marker :: string
  incident_title :: string
  incident_body :: string

definition incident_texts ::
  "chain_env \<Rightarrow> string \<Rightarrow> (string, json) dict \<Rightarrow> string \<Rightarrow> string \<Rightarrow> incident_text result" where
  "incident_texts E repo report owner stage_name =
     rbind (jitem report ''state'') (\<lambda>state.
     rbind (demand (fullmatch owner_rx owner) ''RELEASE_ALERT_OWNER must identify the incident owner'') (\<lambda>_.
     rbind (jitem report ''event_id'') (\<lambda>i.
     rbind (if truthy i then Inr (py_str i) else rbind (env_text E ''GITHUB_RUN_ID'') (\<lambda>n. Inr (''run-'' @ n))) (\<lambda>identity.
     rbind (jitem report ''ci'') (\<lambda>ci.
     rbind (json_bytes (JDict [(''state'', state), (''stage'', JStr stage_name), (''ci'', ci)])) (\<lambda>b.
     rbind (env_text E ''GITHUB_RUN_ID'') (\<lambda>run_id.
     let pr = jget report ''pr'' in
     rbind (if truthy pr
            then rbind (subscript pr ''number'') (\<lambda>n. Inr (line_feed @ ''PR: https://github.com/'' @ repo @ ''/pull/'' @ py_str n @ line_feed))
            else Inr []) (\<lambda>pr_link.
     let found_by = ''<!-- release-chain-data:'' @ identity @ '' -->'';
         told_by = ''<!-- release-chain-state:'' @ sha256_of (readers_of E) b @ '' -->'' in
     Inr \<lparr>incident_marker = found_by, state_marker = told_by,
          incident_title = ''Data release '' @ py_str state @ '': '' @ identity,
          incident_body =
            ''@'' @ owner @ '' Data release state: **'' @ py_str state @ ''**.'' @ line_feed @ line_feed @
            ''Stage: `'' @ stage_name @ ''`. [Actionable workflow run and private diagnostics](https://github.com/'' @ repo @
            ''/actions/runs/'' @ run_id @ '').'' @ line_feed @ pr_link @ line_feed @
            ''Full errors and check inventories remain in the consumer run.'' @ line_feed @ line_feed @
            found_by @ line_feed @ told_by @ line_feed\<rparr>))))))))"

definition body_mentions :: "string \<Rightarrow> json \<Rightarrow> bool result" where
  "body_mentions t issue =
     rbind (got issue ''body'' JNull) (\<lambda>b. contains_text t (if truthy b then b else JStr []))"

definition update_issue :: "chain_env \<Rightarrow> 'w platform \<Rightarrow> string \<Rightarrow> json \<Rightarrow> incident_text \<Rightarrow> json \<Rightarrow> ('w, unit) act" where
  "update_issue E P repo state t issue =
     sbind (slift (body_mentions (state_marker t) issue)) (\<lambda>told.
     sbind (slift (subscript issue ''number'')) (\<lambda>n.
     sbind (when_act (\<not> told)
       (sbind (api_send E P repo (''issues/'' @ py_str n @ ''/comments'') ''POST'' (JDict [(''body'', JStr (incident_body t))]))
         (\<lambda>_. slift (Inr ())))) (\<lambda>_.
     sbind (api_send E P repo (''issues/'' @ py_str n) ''PATCH''
       (JDict [(''body'', JStr (incident_body t)), (''state'', JStr (if json_eq state (JStr ''failed'') then ''open'' else ''closed'')),
          (''title'', JStr (incident_title t))])) (\<lambda>_. slift (Inr ())))))"

definition incident ::
  "chain_env \<Rightarrow> 'w platform \<Rightarrow> string \<Rightarrow> (string, json) dict \<Rightarrow> string \<Rightarrow> string \<Rightarrow> ('w, unit) act" where
  "incident E P repo report owner stage_name =
     sbind (slift (jitem report ''state'')) (\<lambda>state.
     if state \<notin> {JStr ''failed'', JStr ''verified'', JStr ''superseded''} then slift (Inr ())
     else
       sbind (slift (incident_texts E repo report owner stage_name)) (\<lambda>t.
       sbind (inventory E P repo ''issues?state=all&sort=updated&direction=desc'' []) (\<lambda>issues.
       sbind (slift (rfilter (body_mentions (incident_marker t)) issues)) (\<lambda>matches.
       sbind (check (length matches \<le> 1) ''ambiguous release incident'') (\<lambda>_.
       if json_eq state (JStr ''superseded'') \<and> matches = [] then slift (Inr ())
       else
         sbind (case matches of
                  issue # _ \<Rightarrow> slift (Inr issue)
                | [] \<Rightarrow> api_send E P repo ''issues'' ''POST''
                    (JDict [(''title'', JStr (incident_title t)), (''body'', JStr (incident_body t)), (''assignees'', JList [JStr owner])]))
           (update_issue E P repo state t))))))"

section \<open>The hub\<close>

definition receipt_verifies :: "chain_env \<Rightarrow> services \<Rightarrow> string \<Rightarrow> json \<Rightarrow> json \<Rightarrow> bool result" where
  "receipt_verifies E S repo i asset =
     rbind (field_is [''name''] (JStr ''release-receipt.json'') asset) (\<lambda>ok.
     if \<not> ok then Inr False
     else
       rbind (rbind (asset_bytes S repo asset) (object_json (json_loads (readers_of E)))) (\<lambda>saved.
       rbind (demand (contract_fields saved) ''stored receipt fields differ'') (\<lambda>_.
       rand (rbind (jitem saved ''event_id'') (\<lambda>v. Inr (json_eq v i))) (field_is [''state''] (JStr ''verified'') (JDict saved)))))"

definition already_verified :: "chain_env \<Rightarrow> 'w platform \<Rightarrow> string \<Rightarrow> json \<Rightarrow> ('w, bool) act" where
  "already_verified E P repo i =
     observe P (\<lambda>S.
       rbind (list_all_pages E S repo ''releases'' []) (rany (\<lambda>release.
         rbind (rbind (subscript release ''assets'') items_of) (rany (receipt_verifies E S repo i)))))"

definition own_run :: "chain_env \<Rightarrow> json result" where
  "own_run E = rbind (env_text E ''GITHUB_RUN_ID'') (\<lambda>t. rbind (int_value (JStr t)) (\<lambda>n. Inr (JInt n)))"

definition callback :: "chain_env \<Rightarrow> 'w platform \<Rightarrow> (string, json) dict \<Rightarrow> ('w, unit) act" where
  "callback E P report =
     sbind (slift (rbind (own_run E) (signal report))) (\<lambda>payload.
     sbind (api_send E P hub ''dispatches'' ''POST''
       (JDict [(''event_type'', JStr ''pineforge-release-status''), (''client_payload'', payload)])) (\<lambda>_. slift (Inr ())))"

section \<open>Completing a publication\<close>

text \<open>The stages that left an artifact in the publishing run, in order.\<close>

definition stage_name_of :: "string \<Rightarrow> json \<Rightarrow> string option result" where
  "stage_name_of pre row =
     rbind (field_true [''expired''] row) (\<lambda>expired.
     if expired then Inr None
     else
       rbind (rbind (subscript row ''name'') text_result) (\<lambda>n.
       Inr (if prefix pre n \<and> take 2 (drop (length pre) n) \<in> {''10'', ''20'', ''30'', ''40'', ''50''} then Some n else None)))"

definition stage_names :: "string \<Rightarrow> json list \<Rightarrow> string list result" where
  "stage_names pre rows = rbind (rmap (stage_name_of pre) rows) (\<lambda>ns. Inr (sort_key (\<lambda>n. n) (List.map_filter (\<lambda>n. n) ns)))"

definition trusted_run :: "string list \<Rightarrow> string \<Rightarrow> json \<Rightarrow> bool result" where
  "trusted_run events workflow run =
     rand (field_is [''path''] (JStr (''.github/workflows/'' @ workflow)) run)
       (rbind (subscript run ''event'') (\<lambda>v. Inr (v \<in> set (map JStr events))))"

definition published_pr :: "chain_env \<Rightarrow> string \<Rightarrow> json \<Rightarrow> bool result" where
  "published_pr E repo pr =
     rand (field_true [''merged''] pr)
       (rand (field_is [''head'', ''repo'', ''full_name''] (JStr repo) pr)
         (rand (field_is [''base'', ''ref''] (JStr ''main'') pr)
           (same (dig pr [''head'', ''sha'']) (marker_item E pr ''generated_head''))))"

definition report_is :: "string \<Rightarrow> json result \<Rightarrow> string \<Rightarrow> ('w, unit) act" where
  "report_is k v message =
     on_report (\<lambda>d. (rbind (rbind (jitem d k) (\<lambda>x. rbind v (\<lambda>y. Inr (json_eq x y)))) (\<lambda>ok. demand ok message), d))"

definition first_parent :: "json \<Rightarrow> json result" where
  "first_parent commit =
     rbind (rbind (subscript commit ''parents'') items_of) (\<lambda>ps.
     case ps of [] \<Rightarrow> raise ValueError ''merge inputs differ from tested base'' | p # _ \<Rightarrow> subscript p ''sha'')"

text \<open>The bundle of the landed commit: its evidence passes the gate again, and it installs the event.\<close>

definition bundle_evidence ::
  "chain_env \<Rightarrow> 'w platform \<Rightarrow> string \<Rightarrow> string \<Rightarrow> (string, json) dict \<Rightarrow> ('w, unit) act" where
  "bundle_evidence E P repo source main_gate =
     sbind (slift (jitem main_gate ''run_id'')) (\<lambda>run_id.
     sbind (gate_now E P repo run_id source None None) (\<lambda>evidence.
     check (json_eq (JDict evidence) (JDict main_gate)) ''landed CI distributions/evidence moved''))"

definition served_identities ::
  "chain_env \<Rightarrow> 'w platform \<Rightarrow> string \<Rightarrow> json \<Rightarrow> (string, json) dict \<Rightarrow> (string, json) dict \<Rightarrow> ('w, string) act" where
  "served_identities E P repo pr event lock =
     sbind (slift (rbind (jitem lock ''package_version'') text_result)) (\<lambda>version.
     sbind (check_that (rbind (marker_item E pr ''version'') (\<lambda>v. Inr (json_eq (JStr version) v))) ''served package differs from PR'') (\<lambda>_.
     sbind (candidate_gate E P repo pr) (\<lambda>gate.
     sbind (record_candidate E event gate (JStr version)) (\<lambda>_.
     sbind (authenticate E P event) (\<lambda>_.
     sbind (verified_package E P repo version None None) (\<lambda>now.
     sbind (report_is ''deployed'' (Inr now) ''served identity moved'') (\<lambda>_.
     sbind (slift (commit_text (JDict lock) [''previous'', ''package_version''])) (\<lambda>old_version.
     sbind (verified_package E P repo old_version None (Some lock)) (\<lambda>old.
     sbind (report_is ''previous'' (Inr old) ''previous/rollback distribution identity moved'') (\<lambda>_.
     slift (Inr version)))))))))))"

definition bundle_checked ::
  "chain_env \<Rightarrow> 'w platform \<Rightarrow> ('w \<Rightarrow> string \<times> release_tree) \<Rightarrow> string list \<Rightarrow> string \<Rightarrow> json \<Rightarrow> string \<Rightarrow> (string, json) dict \<Rightarrow>
   ('w, string \<times> json) act" where
  "bundle_checked E P bundle_in download repo pr source event =
     (let R = readers_of E in
      sbind (command P download) (\<lambda>_ s.
      (let bundle = bundle_in (outside s) in
       sbind (slift (object_json (json_loads R) (fst bundle))) (\<lambda>main_gate.
       sbind (bundle_evidence E P repo source main_gate) (\<lambda>_.
       sbind (slift (verify_local R (snd bundle))) (\<lambda>lock.
       sbind (check (case lock of None \<Rightarrow> False | Some d \<Rightarrow> json_eq (jget d ''event'') (JDict event)) ''served bundle target differs'') (\<lambda>_.
       sbind (served_identities E P repo pr event (the lock)) (\<lambda>version.
       sbind (slift (jitem main_gate ''run_id'')) (\<lambda>run_id. slift (Inr (version, run_id)))))))) ) s))"

definition deploy_jobs :: "string list" where
  "deploy_jobs = [''prepare'', ''build'', ''github-release'', ''publish'', ''verify'']"

definition deploy_skips :: "string list" where "deploy_skips = [''publish'']"

definition deploy_result :: "json list \<Rightarrow> string \<Rightarrow> (string \<times> json) result" where
  "deploy_result jobs name =
     rbind (jobs_named name jobs) (\<lambda>found.
     rbind (case found of [job] \<Rightarrow> field_is [''status''] (JStr ''completed'') job | _ \<Rightarrow> Inr False) (\<lambda>finished.
     rbind (demand finished ''deploy job missing/incomplete'') (\<lambda>_.
     rbind (subscript (hd found) ''conclusion'') (\<lambda>r.
     rbind (demand (json_eq r (JStr ''success'') \<or> (json_eq r (JStr ''skipped'') \<and> name \<in> set deploy_skips))
              ''deploy job failed/cancelled/skipped'') (\<lambda>_.
     Inr (name, r))))))"

definition deploy_record :: "json \<Rightarrow> json \<Rightarrow> string \<Rightarrow> (string \<times> json) list \<Rightarrow> json" where
  "deploy_record run_id attempt source results =
     JDict [(''run_id'', run_id), (''run_attempt'', attempt), (''sha'', JStr source), (''expected'', JList (map JStr deploy_jobs)),
       (''approved_skips'', JList (map JStr deploy_skips)), (''results'', JDict results)]"

definition record_deploy :: "chain_env \<Rightarrow> 'w platform \<Rightarrow> string \<Rightarrow> json \<Rightarrow> json \<Rightarrow> string \<Rightarrow> ('w, unit) act" where
  "record_deploy E P repo run_id run source =
     sbind (slift (subscript run ''run_attempt'')) (\<lambda>attempt.
     sbind (inventory E P repo (''actions/runs/'' @ py_str run_id @ ''/attempts/'' @ py_str attempt @ ''/jobs'') ''jobs'') (\<lambda>jobs.
     sbind (slift (rmap (deploy_result jobs) deploy_jobs)) (\<lambda>results.
     sbind (set_report ''deploy'' (deploy_record run_id attempt source results)) (\<lambda>_.
     sbind (set_report ''state'' (JStr ''verified'')) (\<lambda>_.
     set_report ''timestamp'' (JStr (clock_text E)))))))"

text \<open>A run on another commit than the landed one hands over to a run at the release's tag.\<close>

definition hand_over ::
  "chain_env \<Rightarrow> 'w platform \<Rightarrow> string \<Rightarrow> string \<Rightarrow> string \<Rightarrow> (string, json) dict \<Rightarrow> ('w, unit) act" where
  "hand_over E P repo workflow version inputs =
     sbind (dispatch E P repo workflow (CHR ''v'' # version) inputs) (\<lambda>_. new_report E None)"

definition finish_publication ::
  "chain_env \<Rightarrow> 'w platform \<Rightarrow> string \<Rightarrow> json \<Rightarrow> json \<Rightarrow> string \<Rightarrow> string \<times> json \<Rightarrow> ('w, unit) act" where
  "finish_publication E P repo run_id run source bundle =
     (let version = fst bundle in
      sbind (slift (field_is [''head_sha''] (JStr source) run)) (\<lambda>here.
      if \<not> here then
        hand_over E P repo ''release.yml'' version [(''ci_run'', JStr (py_str (snd bundle))), (''bump'', JStr ''patch'')]
      else
        sbind (slift (env_text E ''GITHUB_RUN_ID'')) (\<lambda>own.
        sbind (api_get E P repo (''actions/runs/'' @ own)) (\<lambda>reporting.
        sbind (check_that (trusted_run [''workflow_run'', ''workflow_dispatch''] ''pineforge-release.yml'' reporting) ''untrusted reporter'') (\<lambda>_.
        sbind (slift (field_is [''head_sha''] (JStr source) reporting)) (\<lambda>pinned.
        if \<not> pinned then hand_over E P repo ''pineforge-release.yml'' version [(''publication_run'', JStr (py_str run_id))]
        else record_deploy E P repo run_id run source))))))"

definition completed_publication ::
  "chain_env \<Rightarrow> 'w platform \<Rightarrow> ('w \<Rightarrow> string \<times> release_tree) \<Rightarrow> string \<Rightarrow> string \<Rightarrow> json \<Rightarrow> json \<Rightarrow> json \<Rightarrow> (string, json) dict \<Rightarrow>
   ('w, unit) act" where
  "completed_publication E P bundle_in folder repo run_id run attempt event =
     sbind (report_item ''pr'') (\<lambda>reported_pr.
     sbind (slift (subscript reported_pr ''number'')) (\<lambda>number.
     sbind (api_get E P repo (pull number)) (\<lambda>pr.
     sbind (slift (pr_marker E pr)) (\<lambda>_.
     sbind (check_that (published_pr E repo pr) ''publication PR identity moved'') (\<lambda>_.
     sbind (slift (commit_text pr [''merge_commit_sha''])) (\<lambda>source.
     sbind (slift (marker_item E pr ''base'')) (\<lambda>b.
     sbind (report_is ''pr'' (pr_identity pr b) ''publication PR evidence differs'') (\<lambda>_.
     sbind (api_get E P repo (''commits/'' @ source)) (\<lambda>commit.
     sbind (check_that (same (first_parent commit) (Inr b)) ''merge inputs differ from tested base'') (\<lambda>_.
     sbind (bundle_checked E P bundle_in
       [''gh'', ''run'', ''download'', py_str run_id, ''--repo'', repo, ''--name'', ''validated-release-bundle-'' @ py_str attempt,
        ''--dir'', folder] repo pr source event)
       (finish_publication E P repo run_id run source)))))))))))"

text \<open>The receipt of the last stage becomes the report, under the numbers of this run.\<close>

definition load_stage :: "chain_env \<Rightarrow> 'w platform \<Rightarrow> string \<Rightarrow> json \<Rightarrow> string \<Rightarrow> ('w, (string, json) dict) act" where
  "load_stage E P repo run_id stage_name =
     (let R = readers_of E in
      sbind (observe P (\<lambda>S. artifact_json R S (unzip E) repo (py_str run_id) stage_name ''release-receipt.json'')) (\<lambda>loaded.
      sbind (check (contract_fields loaded) ''publisher receipt fields differ'') (\<lambda>_.
      sbind (merge_report loaded) (\<lambda>_.
      sbind (slift (own_run E)) (\<lambda>attempt.
      sbind (slift (rbind (env_text E ''GITHUB_RUN_ATTEMPT'') (\<lambda>t. int_value (JStr t)))) (\<lambda>sequence.
      sbind (merge_report [(''attempt'', attempt), (''sequence'', JInt sequence), (''timestamp'', JStr (clock_text E))]) (\<lambda>_.
      sbind (report_item ''release_version'') (\<lambda>v.
      sbind (slift (text_result v)) (\<lambda>version.
      sbind (observe P (\<lambda>S. rbind (hub_manifest R S version) (event_from_manifest (sha256_of R) (json_loads R)))) (\<lambda>event.
      sbind (report_is ''event_id'' (jitem event ''event_id'') ''publication target differs from hub manifest'') (\<lambda>_.
      slift (Inr event))))))))))))"

definition publication ::
  "chain_env \<Rightarrow> 'w platform \<Rightarrow> ('w \<Rightarrow> string \<times> release_tree) \<Rightarrow> string \<Rightarrow> string \<Rightarrow> json \<Rightarrow> ('w, unit) act" where
  "publication E P bundle_in folder repo run_id =
     sbind (check (positive_int run_id) ''invalid publication run ID'') (\<lambda>_.
     sbind (api_get E P repo (''actions/runs/'' @ py_str run_id)) (\<lambda>run.
     sbind (check_that (rand (trusted_run [''workflow_run'', ''workflow_dispatch''] ''release.yml'' run)
              (field_is [''status''] (JStr ''completed'') run)) ''untrusted or incomplete publisher'') (\<lambda>_.
     sbind (slift (subscript run ''run_attempt'')) (\<lambda>attempt.
     let pre = ''release-stage-'' @ py_str attempt @ ''-'' in
     sbind (inventory E P repo (''actions/runs/'' @ py_str run_id @ ''/artifacts'') ''artifacts'') (\<lambda>artifacts.
     sbind (slift (stage_names pre artifacts)) (\<lambda>stages.
     if stages = [] then slift (Inr ())
     else
       sbind (load_stage E P repo run_id (last stages)) (\<lambda>event.
       sbind (slift (field_is [''conclusion''] (JStr ''success'') run)) (\<lambda>succeeded.
       if \<not> succeeded then set_report ''state'' (JStr ''failed'')
       else if last stages = pre @ ''10-manual'' then slift (Inr ())
       else
         sbind (report_item ''deployed'') (\<lambda>deployed.
         sbind (check (last stages = pre @ ''50-verify'' \<and> deployed \<noteq> JNull) ''publisher did not verify served distributions'') (\<lambda>_.
         completed_publication E P bundle_in folder repo run_id run attempt event))))))))))"

section \<open>Keeping the receipt\<close>

definition same_completion :: "(string, json) dict \<Rightarrow> (string, json) dict \<Rightarrow> bool result" where
  "same_completion saved report =
     rand (field_is [''state''] (JStr ''verified'') (JDict saved))
       (rand (same_field ''event_id'' saved ''event_id'' report)
         (rand (same_field ''pr'' saved ''pr'' report)
           (rand (same_field ''deployed'' saved ''deployed'' report) (same_field ''previous'' saved ''previous'' report))))"

text \<open>\<open>retain\<close> uploads the file \<open>path\<close>, whose bytes are those of \<open>finish\<close>.\<close>

definition retain ::
  "chain_env \<Rightarrow> 'w platform \<Rightarrow> string \<Rightarrow> string \<Rightarrow> (string, json) dict \<Rightarrow> ('w, string option) act" where
  "retain E P path repo report =
     sbind (slift (field_is [''state''] (JStr ''verified'') (JDict report))) (\<lambda>verified.
     if \<not> verified then slift (Inr None)
     else
       sbind (slift (dig (JDict report) [''pr'', ''number''])) (\<lambda>number.
       sbind (api_get E P repo (pull number)) (\<lambda>pr.
       sbind (slift (rbind (marker_item E pr ''version'') text_result)) (\<lambda>version.
       sbind (stored_receipt E P repo version) (\<lambda>saved.
       if present saved then
         sbind (check_that (same_completion (the saved) report) ''immutable completion receipt differs'') (\<lambda>_. slift (Inr None))
       else
         sbind (slift (finish_receipt report)) (\<lambda>file.
         sbind (command P (upload_command repo (CHR ''v'' # version) path)) (\<lambda>_. slift (Inr file))))))))"

section \<open>The entry point\<close>

datatype reporting_job =
    Collect_receipts "(string \<times> string) list"
  | Finish_publication json
  | Retain_receipt "(string, json) dict"
  | Call_hub "(string, json) dict"

definition report_files :: "chain_env \<Rightarrow> 'w platform \<Rightarrow> string \<Rightarrow> (string \<times> string) list \<Rightarrow> ('w, string option) act" where
  "report_files E P repo files =
     sbind (slift (env_text E ''FAILED'')) (\<lambda>failed.
     sbind (slift (env_text E ''STAGE'')) (\<lambda>stage_name.
     sbind (slift (collect E files (failed = ''true''))) (\<lambda>report.
     sbind (slift (if truthy (jget report ''event_id'') then rbind (own_run E) (\<lambda>n. Inr (json_eq (jget report ''attempt'') n)) else Inr False)) (\<lambda>current.
     sbind (if current \<and> jget report ''state'' \<noteq> JStr ''verified''
            then already_verified E P repo (jget report ''event_id'') else slift (Inr False)) (\<lambda>regress.
     let has_event = (current \<and> \<not> regress) in
     sbind (slift (if has_event then finish_receipt report else Inr None)) (\<lambda>file.
     sbind (slift (env_text E ''RELEASE_ALERT_OWNER'')) (\<lambda>owner.
     sbind (incident E P repo report owner stage_name) (\<lambda>_. slift (Inr file)))))))))"

text \<open>A job and the receipt file it leaves behind.\<close>

definition reporting_job ::
  "chain_env \<Rightarrow> 'w platform \<Rightarrow> ('w \<Rightarrow> string \<times> release_tree) \<Rightarrow> string \<Rightarrow> string \<Rightarrow> string \<Rightarrow> reporting_job \<Rightarrow> ('w, string option) act" where
  "reporting_job E P bundle_in folder path repo job =
     (case job of
        Collect_receipts files \<Rightarrow> report_files E P repo files
      | Finish_publication run_id \<Rightarrow>
          sbind (slift (receipt (env_vars E) (clock_text E) None)) (\<lambda>fresh.
          sbind (on_report (\<lambda>_. (Inr (), fresh))) (\<lambda>_ s.
            (case reported (publication E P bundle_in folder repo run_id) s of
               ((r, file), w) \<Rightarrow> (rbind r (\<lambda>_. Inr file), s\<lparr>outside := w\<rparr>))))
      | Retain_receipt report \<Rightarrow> retain E P path repo report
      | Call_hub report \<Rightarrow> sbind (callback E P report) (\<lambda>_. slift (Inr None)))"

end
