(* ===== verification/ReportSafety.thy ===== *)
theory ReportSafety
  imports PublishSafety Reporting
begin

text \<open>
  What the reporting jobs do to the outside: each job is confined to its own writes, and a completion
  receipt is stored only for a verified report whose release has none.
\<close>

section \<open>The policy of the jobs\<close>

fun job_write :: "string \<Rightarrow> reporting_job \<Rightarrow> string \<Rightarrow> string \<Rightarrow> json \<Rightarrow> bool" where
  "job_write repo (Collect_receipts files) verb target data =
     ((verb = ''POST'' \<and> (target = api_target repo ''issues'' \<or> (\<exists>n. target = api_target repo (''issues/'' @ py_str n @ ''/comments'')))) \<or>
      (verb = ''PATCH'' \<and> (\<exists>n. target = api_target repo (''issues/'' @ py_str n))))"
| "job_write repo (Finish_publication run_id) verb target data =
     (verb = ''POST'' \<and> (\<exists>file \<in> {''release.yml'', ''pineforge-release.yml''}.
        target = api_target repo (''actions/workflows/'' @ file @ ''/dispatches'')))"
| "job_write repo (Retain_receipt report) verb target data = False"
| "job_write repo (Call_hub report) verb target data =
     (verb = ''POST'' \<and> target = api_target hub ''dispatches'' \<and>
      (\<exists>run_id payload. signal report run_id = Inr payload \<and>
         data = JDict [(''event_type'', JStr ''pineforge-release-status''), (''client_payload'', payload)]))"

fun job_command :: "chain_env \<Rightarrow> 'w platform \<Rightarrow> string \<Rightarrow> string \<Rightarrow> string \<Rightarrow> reporting_job \<Rightarrow> 'w deed set \<Rightarrow> string list \<Rightarrow> bool" where
  "job_command E P folder path repo (Finish_publication run_id) K args =
     (\<exists>attempt. args = [''gh'', ''run'', ''download'', py_str run_id, ''--repo'', repo, ''--name'',
        ''validated-release-bundle-'' @ py_str attempt, ''--dir'', folder])"
| "job_command E P folder path repo (Retain_receipt report) K args =
     (jget report ''state'' = JStr ''verified'' \<and>
      (\<exists>version saved. args = upload_command repo (CHR ''v'' # version) path \<and> \<not> present saved \<and>
         seen P K (\<lambda>S. stored_in E S repo version = Inr saved)))"
| "job_command E P folder path repo _ K args = False"

fun report_allowed ::
  "chain_env \<Rightarrow> 'w platform \<Rightarrow> string \<Rightarrow> string \<Rightarrow> string \<Rightarrow> reporting_job \<Rightarrow> 'w deed set \<Rightarrow> 'w deed \<Rightarrow> bool" where
  "report_allowed E P folder path repo job K (Saw w) = True"
| "report_allowed E P folder path repo job K (Ran args) =
     ((\<exists>verb rest. args = ''git'' # verb # rest \<and> verb \<in> harmless) \<or> job_command E P folder path repo job K args)"
| "report_allowed E P folder path repo job K (Wrote verb target data) = job_write repo job verb target data"
| "report_allowed E P folder path repo job K (Copied p) = False"

interpretation reporting: reading_policy "report_allowed E P folder path repo job"
  for E :: chain_env and P :: "'w platform" and folder path repo :: string and job :: reporting_job
  by unfold_locales simp_all

section \<open>Incidents and the hub\<close>

lemma guarded_incident:
  "guarded H (incident E (under_watch P) repo report owner stage_name) (report_allowed E P folder path repo (Collect_receipts files))"
  unfolding incident_def update_issue_def by (intro guards) auto

lemma guarded_already_verified:
  "guarded H (already_verified E (under_watch P) repo i) (report_allowed E P folder path repo job)"
  unfolding already_verified_def by (intro guards) simp

lemma guarded_report_files:
  "guarded H (report_files E (under_watch P) repo files) (report_allowed E P folder path repo (Collect_receipts files))"
  unfolding report_files_def by (intro guards guarded_incident guarded_already_verified)

lemma guarded_callback:
  "guarded H (callback E (under_watch P) report) (report_allowed E P folder path repo (Call_hub report))"
  unfolding callback_def
proof (rule guarded_bind_slift, rule guarded_bind, rule guarded_send, goal_cases)
  case (1 payload K)
  then have "\<exists>run_id. signal report run_id = Inr payload" by (auto simp: rbind_returns)
  then show ?case by auto
qed (intro guards)

section \<open>Completion\<close>

lemma guarded_report_is [guards]: "guarded H (report_is k v message) A"
  unfolding report_is_def by (intro guards)

lemma guarded_report_item [guards]: "guarded H (report_item k) A"
  unfolding report_item_def by (intro guards)

lemma guarded_hand_over:
  "file \<in> {''release.yml'', ''pineforge-release.yml''} \<Longrightarrow>
     guarded H (hand_over E (under_watch P) repo file version inputs) (report_allowed E P folder path repo (Finish_publication run_id))"
  unfolding hand_over_def dispatch_def by (intro guards) auto

lemma guarded_bundle_checked:
  "guarded H (bundle_checked E (under_watch P) bundle_in [''gh'', ''run'', ''download'', py_str run_id, ''--repo'', repo, ''--name'',
        ''validated-release-bundle-'' @ py_str attempt, ''--dir'', folder] repo pr source event)
     (report_allowed E P folder path repo (Finish_publication run_id))"
  unfolding bundle_checked_def Let_def
proof (rule guarded_bind [OF guarded_command], goal_cases)
  case (1 K)
  show ?case unfolding report_allowed.simps job_command.simps by blast
next
  case (2 x)
  show ?case
    by (rule guarded_state) (unfold bundle_evidence_def served_identities_def, intro guards)
qed

lemma guarded_record_deploy:
  "guarded H (record_deploy E (under_watch P) repo run_id run source) (report_allowed E P folder path repo' job)"
  unfolding record_deploy_def by (intro guards)

lemma guarded_finish_publication:
  "guarded H (finish_publication E (under_watch P) repo run_id run source bundle)
     (report_allowed E P folder path repo (Finish_publication run_id))"
  unfolding finish_publication_def by (intro guards guarded_hand_over guarded_record_deploy; simp)

lemma guarded_load_stage:
  "guarded H (load_stage E (under_watch P) repo run_id stage_name) (report_allowed E P folder path repo' job)"
  unfolding load_stage_def by (intro guards; simp)

lemma guarded_publication:
  "guarded H (publication E (under_watch P) bundle_in folder repo run_id) (report_allowed E P folder path repo (Finish_publication run_id))"
  unfolding publication_def completed_publication_def
  by (intro guards guarded_load_stage guarded_bundle_checked guarded_finish_publication)

lemma guarded_reported:
  "guarded H m A \<Longrightarrow>
     guarded H (\<lambda>s. case reported m s of ((r, file), w) \<Rightarrow> (rbind r (\<lambda>_. Inr file), s\<lparr>outside := w\<rparr>)) A"
  unfolding guarded_def reported_def trail_of_def
  by (fastforce simp: Let_def split: prod.splits sum.splits)

section \<open>Storing a receipt\<close>

lemma stored_receipt_seen:
  assumes "\<And>w x. stored_in E (services_in P w) repo version = Inr x \<Longrightarrow>
     guarded (insert (Saw w) H) (g x) (report_allowed E P folder path repo' job)"
  shows "guarded H (sbind (stored_receipt E (under_watch P) repo version) g) (report_allowed E P folder path repo' job)"
  unfolding stored_receipt_def by (rule guarded_observe [OF assms]) simp_all

lemma guarded_retain:
  "guarded H (retain E (under_watch P) path repo report) (report_allowed E P folder path repo (Retain_receipt report))"
proof -
  let ?A = "report_allowed E P folder path repo (Retain_receipt report)"
  have stored: "guarded K (sbind (stored_receipt E (under_watch P) repo version) (\<lambda>saved.
       if present saved then
         sbind (check_that (same_completion (the saved) report) ''immutable completion receipt differs'') (\<lambda>_. slift (Inr None))
       else
         sbind (slift (finish_receipt report)) (\<lambda>file.
         sbind (command (under_watch P) (upload_command repo (CHR ''v'' # version) path)) (\<lambda>_. slift (Inr file))))) ?A"
    if state: "jget report ''state'' = JStr ''verified''" for K version
  proof (rule stored_receipt_seen, goal_cases)
    case (1 w saved)
    have "?A L (Ran (upload_command repo (CHR ''v'' # version) path))" if L: "insert (Saw w) K \<subseteq> L" "\<not> present saved" for L
    proof -
      have "seen P L (\<lambda>S. stored_in E S repo version = Inr saved)" using 1 by (rule seen_here) (use L(1) in auto)
      then show ?thesis unfolding report_allowed.simps job_command.simps using state L(2) by blast
    qed
    then show ?case by (intro guards)
  qed
  show ?thesis
    unfolding retain_def
  proof (rule guarded_bind_slift, goal_cases)
    case (1 verified)
    have verified: "verified \<Longrightarrow> jget report ''state'' = JStr ''verified''" using 1 by simp
    show ?case
      by (rule guarded_if, rule guarded_slift, rule guarded_bind [OF guarded_slift], rule guarded_bind [OF reporting.guarded_api_get],
          rule guarded_bind [OF guarded_slift], rule stored) (simp add: verified)
  qed
qed

lemma guarded_job:
  "guarded H (reporting_job E (under_watch P) bundle_in folder path repo job) (report_allowed E P folder path repo job)"
proof (cases job)
  case (Collect_receipts files)
  then show ?thesis by (simp add: reporting_job_def guarded_report_files)
next
  case (Finish_publication run_id)
  then show ?thesis
    by (simp add: reporting_job_def) (intro guards guarded_reported guarded_publication)
next
  case (Retain_receipt report)
  then show ?thesis by (simp add: reporting_job_def guarded_retain)
next
  case (Call_hub report)
  then show ?thesis by (simp add: reporting_job_def) (intro guards guarded_callback)
qed

text \<open>
  C11. Reporting is confined: a job that collects receipts writes issues only, one that completes a
  publication only downloads its bundle and dispatches the two release workflows, and the hub gets the
  four-key signal of the report only.  A completion receipt is stored only for a verified report,
  after the run saw that the release holds no receipt yet, so a stored one is never replaced.
\<close>

theorem reporting_confined:
  "lawful (report_allowed E P folder path repo job) [] (trail_of (snd (reporting_job E (under_watch P) bundle_in folder path repo job
     \<lparr>the_report = d, outside = (w, [])\<rparr>)))"
proof -
  let ?s = "\<lparr>the_report = d, outside = (w, [])\<rparr> :: ('a \<times> 'a trail) progress"
  have start: "trail_of ?s = []" by (simp add: trail_of_def)
  obtain es where "trail_of (snd (reporting_job E (under_watch P) bundle_in folder path repo job ?s)) = trail_of ?s @ es"
      "lawful (report_allowed E P folder path repo job) (trail_of ?s) es"
    using guarded_job [of "{}" E P bundle_in folder path repo job] unfolding guarded_def by blast
  then show ?thesis unfolding start by simp
qed

end
