(* ===== verification/Spec2Isabelle.thy ===== *)
theory Spec2Isabelle
  imports Engine FxMacro Server Harness ReportSafety
begin

text \<open>
  A verification library for the Python package pineforge-data and its release chain
  (\<open>src/src/pineforge_data\<close> and \<open>src/scripts\<close>).

  \<^bold>\<open>The program.\<close>  Providers (\<open>providers/*.py\<close>) turn tabular sources, CCXT exchanges and the FXMacroData
  service into validated records (\<open>models.py\<close>, \<open>requests.py\<close>).  A sink streams records into the
  native engine (\<open>engine.py\<close>), a runner backtests bars in process (\<open>backtest.py\<close>), a service compiles and
  runs strategies in the release container (\<open>server.py\<close>, \<open>compile_cache.py\<close>, \<open>release_contract.py\<close>) with a
  client (\<open>server_client.py\<close>), and the same is done on one machine by \<open>docker_runtime.py\<close>.  The command
  line harness (\<open>cli/backtest.py\<close>) joins a provider from the registry (\<open>providers/registry.py\<close>) to one of
  these runs.  The scripts release the package: they follow a hub's releases, propose pull requests, merge
  those whose CI evidence is complete, publish what was tested and report the outcome.

  \<^bold>\<open>Shared vocabulary.\<close>  \<open>Prelude\<close>: exceptions as values (\<open>exn\<close>, with Python's class hierarchy for
  \<open>except\<close>), results \<open>exn + 'a\<close> with \<open>rbind\<close>, computations on a state with \<open>sbind\<close>, ordered dictionaries,
  text as a list of characters of one byte.  \<open>PyFloat\<close>: binary64 as a rational with infinities and NaN, every
  rounding explicit.  \<open>PyText\<close>: regular expressions by derivatives with their languages, numerals and
  \<open>int\<close>.  \<open>PyTime\<close>, \<open>PyValue\<close>, \<open>CLayout\<close>, \<open>Json\<close>, \<open>JsonForms\<close>: ISO times, untyped values,
  \<open>ctypes\<close> layouts at their width, and \<open>json.dumps\<close>.

  \<^bold>\<open>The package.\<close>  Theories in the order of the calls:
  \<^item> \<open>Models\<close>, \<open>Requests\<close>: the records with their constructors' checks, and the contract every bar provider
    keeps as the locale \<open>historical_bars\<close>.
  \<^item> \<open>Tabular\<close>, \<open>TabularProvider\<close>, \<open>TabularSources\<close>: column inference, timestamp units, the provider
    against a reference definition, CSV, and SQL pushdown, which agrees with filtering in memory.
  \<^item> \<open>Ccxt\<close>: normalization, paged history (complete on an exchange that serves pages) and the polled trade
    stream.  \<open>FxMacro\<close>: paging, vintages as of a time, redaction, bounded requests.
  \<^item> \<open>Engine\<close>, \<open>Backtest\<close>: packing, the guarded sink, the run over C structures, with every strategy and
    report freed once on every path, and the copied report always JSON safe.
  \<^item> \<open>CompileCache\<close>, \<open>CompileLock\<close>, \<open>Admission\<close>, \<open>StrategyRun\<close> (over the locale \<open>state_machine\<close> of
    \<open>Machine\<close>): the artifact store, the per-key lock, the admission control and their interleavings as lists
    of events.  One compilation per key, no running artifact evicted, capacity never exceeded, requests finish.
  \<^item> \<open>ServerApi\<close>, \<open>Server\<close>, \<open>Client\<close>, \<open>Docker\<close>, \<open>ReleaseContract\<close>: request models, one request through the
    service, authorization, the client's checks, the confined container, and the files and variables of a run.
  \<^item> \<open>Registry\<close>, \<open>Harness\<close>: factories and the pipeline from arguments to report.

  \<^bold>\<open>The release chain.\<close>
  \<^item> \<open>Versions\<close> (\<open>bump_version.py\<close>, \<open>verify_release.py\<close>): the version order is semantic versioning, and the
    line editor changes one assignment.  \<open>ReleaseEvent\<close>, \<open>ReleasePin\<close>, \<open>ReleaseHub\<close> (\<open>contract.py\<close>): the
    validated event, the five files that pin a release and the update that keeps them consistent,
    inventories over pages, the newest release and the checks of its image and facts.
  \<^item> \<open>Evidence\<close>, \<open>Receipts\<close> (\<open>evidence.py\<close>, \<open>receipts.py\<close>): the CI gate and what it accepts, receipts, and
    the marker of a pull request, which is read back as it was written.
  \<^item> \<open>ReleaseActions\<close>, \<open>Automation\<close> (\<open>automation.py\<close>, \<open>release_adapter.py\<close>), \<open>Published\<close>, \<open>Recovery\<close>,
    \<open>Publishing\<close> (\<open>publishing.py\<close>), \<open>Reporting\<close> (\<open>reporting.py\<close>): the operations as steps on a report
    and an outside world (\<open>platform\<close>) that others may change between any two steps.
  \<^item> \<open>Trail\<close>, \<open>ReleaseSafety\<close>, \<open>PublishSafety\<close>, \<open>ReportSafety\<close>: the same operations on a watched platform, whose
    trail keeps what was seen, written and run.  \<open>guarded H m A\<close> composes along \<open>sbind\<close>; the locale
    \<open>reading_policy\<close> gives it for every operation that only reads, and is interpreted for the policies of
    the automation, the publication stages and the reporting jobs.  Merges are gated, everything else is
    confined, publication follows what was seen, and stored receipts are never replaced.  A policy is
    checked at each event against the events before it, so these theorems need no assumption on the answers.

  \<^bold>\<open>Bounds.\<close>  The only fuel is that of \<open>shortest_from\<close>, the search for the shortest decimal of a float: 17
  digits always suffice for binary64.  The loops of the code that have a bound (12 reads of the index, 15 reads
  of a head, the retries) are recursions over that number.  \<open>all_pages\<close> is a partial function; it is
  proved to return exactly when some page is short or fails, and a caller for which it never returns does
  nothing after it, which the model writes as an error at that point.

  \<^bold>\<open>Parameters.\<close>  Code outside the repository is an argument: the exchange client, SQL engines and
  reflection, the native library, Docker, HTTP and \<open>gh\<close>, git, \<open>json.loads\<close>, \<open>tomllib\<close>, \<open>ast\<close>, XML and ZIP
  readers, SHA-256, time zones, clocks and random numbers.  Where a property relies on one, it says so as a
  hypothesis, which its witness discharges for a concrete instance.

  \<^bold>\<open>Not modelled.\<close>  The parsing of arguments by \<open>argparse\<close>; pydantic's and FastAPI's own dispatch beyond the
  constraints they document; cancellation inside guarded file operations, file permissions and NUL bytes in C strings;
  the urllib transport of FXMacroData; text outside one byte per character, so that text and its bytes
  coincide; pauses between polls; the lines a job appends to the runner's output files; the re-exports of the
  packages and \<open>exercise_distribution.py\<close>, a smoke test.  A read that takes several requests (an inventory,
  the checks of an image) sees one state of the services; states may differ between two such reads.
\<close>

end
